(* ===== verification/Prelude.thy ===== *)
theory Prelude
  imports Main "HOL-Library.AList" "HOL-Library.Sublist" "HOL-Library.List_Lexorder" "HOL-Library.Char_ord"
begin

text \<open>
  What every component shares: the error values of Go, the few functions of Go's standard
  library that the sources use (\<open>fmt\<close> verbs, \<open>strings\<close>), string-keyed maps as association
  lists, and the collections of facts that the component theories fill.
\<close>

named_theorems names \<open>definitions of the derived object names\<close>
named_theorems classify \<open>equations of the classifiers of operation types, phases and impacts\<close>

section \<open>Errors\<close>

text \<open>
  An \<open>error\<close> of Go that is not nil. The first four are the API errors that the sources tell
  apart (\<open>apierrors.IsNotFound\<close>, \<open>IsAlreadyExists\<close>, the conflict that
  \<open>retry.RetryOnConflict\<close> retries, \<open>meta.IsNoMatchError\<close>); \<open>Errorf\<close> is a fresh error,
  \<open>Wrap\<close> is \<open>fmt.Errorf\<close> with \<open>%w\<close>, and \<open>Panic\<close> stands for a run-time panic.
  \<open>BadResponse\<close> is a response whose type is not the one that was asked for.
\<close>

datatype error =
    ErrNotFound
  | ErrAlreadyExists
  | ErrConflict
  | ErrNoMatch
  | ErrApi string
  | Errorf string
  | Wrap string error
  | Panic string
  | BadResponse

text \<open>The predicates look through \<open>%w\<close>, as \<open>errors.As\<close> does.\<close>

fun is_not_found :: "error \<Rightarrow> bool" where
  "is_not_found ErrNotFound = True"
| "is_not_found (Wrap m e) = is_not_found e"
| "is_not_found _ = False"

fun is_already_exists :: "error \<Rightarrow> bool" where
  "is_already_exists ErrAlreadyExists = True"
| "is_already_exists (Wrap m e) = is_already_exists e"
| "is_already_exists _ = False"

fun is_conflict :: "error \<Rightarrow> bool" where
  "is_conflict ErrConflict = True"
| "is_conflict (Wrap m e) = is_conflict e"
| "is_conflict _ = False"

fun is_no_match :: "error \<Rightarrow> bool" where
  "is_no_match ErrNoMatch = True"
| "is_no_match (Wrap m e) = is_no_match e"
| "is_no_match _ = False"

text \<open>Going on with the value of a call that may return an error.\<close>

fun and_then :: "error + 'a \<Rightarrow> ('a \<Rightarrow> error + 'b) \<Rightarrow> error + 'b" where
  "and_then (Inl e) f = Inl e"
| "and_then (Inr a) f = f a"

fun wrap_result :: "string \<Rightarrow> error + 'a \<Rightarrow> error + 'a" where
  "wrap_result m (Inl e) = Inl (Wrap m e)"
| "wrap_result m (Inr a) = Inr a"

lemma and_then_Inr [simp]: "and_then r f = Inr b \<longleftrightarrow> (\<exists>a. r = Inr a \<and> f a = Inr b)"
  by (cases r) auto

lemma wrap_result_Inr [simp]: "wrap_result m r = Inr b \<longleftrightarrow> r = Inr b"
  by (cases r) auto

section \<open>Strings and numbers\<close>

text \<open>\<open>fmt.Sprintf\<close> with \<open>%d\<close>.\<close>

fun show_nat :: "nat \<Rightarrow> string" where
  "show_nat n = (if n < 10 then [char_of (48 + n)] else show_nat (n div 10) @ [char_of (48 + n mod 10)])"

declare show_nat.simps [simp del]

definition show_int :: "int \<Rightarrow> string" where
  "show_int i = (if i < 0 then ''-'' @ show_nat (nat (- i)) else show_nat (nat i))"

lemma show_nat_digits: "c \<in> set (show_nat n) \<Longrightarrow> of_char c \<in> {48..57::nat}"
proof (induction n arbitrary: c rule: show_nat.induct)
  case (1 n)
  show ?case
  proof (cases "n < 10")
    case True
    with "1.prems" show ?thesis by (auto simp: show_nat.simps [of n])
  next
    case False
    have "48 + n mod 10 < 256" by (simp add: less_trans [of _ "58"])
    with False "1.IH" "1.prems" show ?thesis
      by (auto simp: show_nat.simps [of n] less_Suc_eq_le)
  qed
qed

lemma show_nat_nonempty [simp]: "show_nat n \<noteq> []"
  by (subst show_nat.simps) simp

fun digits_value :: "string \<Rightarrow> nat" where
  "digits_value s = foldl (\<lambda>v c. 10 * v + (of_char c - 48)) 0 s"

lemma digits_value_show_nat: "digits_value (show_nat n) = n"
proof (induction n rule: show_nat.induct)
  case (1 n)
  show ?case
  proof (cases "n < 10")
    case True
    then show ?thesis by (simp add: show_nat.simps [of n])
  next
    case False
    have "48 + n mod 10 < 256" by (simp add: less_trans [of _ "58"])
    with False 1 show ?thesis by (simp add: show_nat.simps [of n])
  qed
qed

lemma show_nat_inject [simp]: "show_nat m = show_nat n \<longleftrightarrow> m = n"
  by (metis digits_value_show_nat)

lemma show_nat_no_minus: "show_nat n \<noteq> CHR ''-'' # s"
proof
  assume "show_nat n = CHR ''-'' # s"
  then have "CHR ''-'' \<in> set (show_nat n)" by simp
  from show_nat_digits [OF this] show False by simp
qed

lemma show_int_inject [simp]: "show_int i = show_int j \<longleftrightarrow> i = j"
  by (auto simp: show_int_def show_nat_no_minus show_nat_no_minus [symmetric] eq_nat_nat_iff)

text \<open>\<open>%q\<close>, for the ASCII names that Kubernetes admits.\<close>

definition hex_digit :: "nat \<Rightarrow> char" where
  "hex_digit n = (if n < 10 then char_of (48 + n) else char_of (87 + n))"

definition quote_char :: "char \<Rightarrow> string" where
  "quote_char c =
     (let n = (of_char c :: nat) in
      if n = 34 \<or> n = 92 then [CHR 0x5C, c]
      else if n = 7 then [CHR 0x5C, CHR ''a'']
      else if n = 8 then [CHR 0x5C, CHR ''b'']
      else if n = 9 then [CHR 0x5C, CHR ''t'']
      else if n = 10 then [CHR 0x5C, CHR ''n'']
      else if n = 11 then [CHR 0x5C, CHR ''v'']
      else if n = 12 then [CHR 0x5C, CHR ''f'']
      else if n = 13 then [CHR 0x5C, CHR ''r'']
      else if n < 32 \<or> n = 127 then [CHR 0x5C, CHR ''x'', hex_digit (n div 16), hex_digit (n mod 16)]
      else [c])"

definition quote :: "string \<Rightarrow> string" where
  "quote s = [CHR 0x22] @ concat (map quote_char s) @ [CHR 0x22]"

text \<open>\<open>strings.Join\<close>, and \<open>%v\<close> of a string slice.\<close>

fun join :: "string \<Rightarrow> string list \<Rightarrow> string" where
  "join sep [] = []"
| "join sep [x] = x"
| "join sep (x # y # zs) = x @ sep @ join sep (y # zs)"

definition show_strings :: "string list \<Rightarrow> string" where
  "show_strings xs = ''['' @ join '' '' xs @ '']''"

text \<open>\<open>strings.TrimSpace\<close>, for ASCII white space.\<close>

definition is_space :: "char \<Rightarrow> bool" where
  "is_space c \<longleftrightarrow> (of_char c :: nat) \<in> {9, 10, 11, 12, 13, 32}"

definition trim_space :: "string \<Rightarrow> string" where
  "trim_space s = rev (dropWhile is_space (rev (dropWhile is_space s)))"

lemma append_suffix_neq [simp]: "s \<noteq> [] \<Longrightarrow> (xs @ s = xs) = False" "s \<noteq> [] \<Longrightarrow> (xs = xs @ s) = False"
  by simp_all

section \<open>String maps\<close>

text \<open>
  A Go \<open>map[string]string\<close> is an association list, read with \<open>map_of\<close>, written with
  \<open>AList.update\<close> and \<open>AList.delete\<close>; the nil map is the empty list. Where the sources range
  over a map the list gives the order, which Go leaves open.
\<close>

type_synonym strmap = "(string \<times> string) list"

text \<open>Indexing a map: the zero value when the key is absent.\<close>

definition map_get :: "strmap \<Rightarrow> string \<Rightarrow> string" where
  "map_get m k = (case map_of m k of None \<Rightarrow> '''' | Some v \<Rightarrow> v)"

definition map_set :: "string \<Rightarrow> string \<Rightarrow> strmap \<Rightarrow> strmap" where
  "map_set k v m = AList.update k v m"

definition map_delete :: "string \<Rightarrow> strmap \<Rightarrow> strmap" where
  "map_delete k m = AList.delete k m"

lemma map_of_map_set [simp]: "map_of (map_set k v m) = (map_of m)(k \<mapsto> v)"
  by (simp add: map_set_def update_conv')

lemma map_of_map_delete [simp]: "map_of (map_delete k m) = (map_of m)(k := None)"
  by (simp add: map_delete_def delete_conv')

lemma map_get_map_set [simp]: "map_get (map_set k v m) k' = (if k' = k then v else map_get m k')"
  by (simp add: map_get_def)

lemma map_of_fold_delete: "map_of (fold map_delete ks m) k = (if k \<in> set ks then None else map_of m k)"
  by (induction ks arbitrary: m) auto

lemma map_of_fold_set:
  "map_of (fold (\<lambda>(k, v). map_set k v) kvs m) = map_of m ++ map_of (rev kvs)"
  by (induction kvs arbitrary: m) (auto simp: map_add_def fun_eq_iff split: option.splits)

lemma map_of_rev_distinct: "distinct (map fst kvs) \<Longrightarrow> map_of (rev kvs) = map_of kvs"
  by (rule map_of_eqI) (auto simp: rev_map [symmetric] map_of_eq_Some_iff)

text \<open>Setting string literal keys apart is decided by the simplifier.\<close>

lemma find_Some_iff_ex: "(\<exists>x. find P xs = Some x) \<longleftrightarrow> (\<exists>x \<in> set xs. P x)"
  by (induction xs) auto

lemma find_SomeD: "find P xs = Some x \<Longrightarrow> x \<in> set xs \<and> P x"
  by (induction xs) (auto split: if_splits)

end
