(* ===== verification/ApiTypes.thy ===== *)
theory ApiTypes
  imports Prelude
begin

text \<open>
  The API types of \<open>api/v1alpha1\<close>: the enumerations, the spec and status of a
  \<open>NominatimInstance\<close> and of a \<open>NominatimOperation\<close>, and the parts of the Kubernetes
  metadata types they embed. A string type with declared constants is a datatype with one
  constructor per constant, one for the empty string where the code tests for it, and a
  catch-all for any other string. Pointers to scalars and structs are options; instants are
  integers (nanoseconds since the Unix epoch); \<open>int32\<close>/\<open>int64\<close> fields, which are only
  compared, copied and printed, are integers.
\<close>

type_synonym time = int

definition second :: int where "second = 1000000000"

text \<open>The zero \<open>time.Time\<close> of Go: January 1 of year 1, UTC.\<close>

definition zero_time :: time where "zero_time = - 62135596800 * second"

section \<open>Enumerations\<close>

datatype op_type =
    Bootstrap | AddRegions | Rebuild | Update | CatchUp | Refresh | Migrate | Freeze
  | OtherType string

fun string_of_op_type :: "op_type \<Rightarrow> string" where
  "string_of_op_type Bootstrap = ''Bootstrap''"
| "string_of_op_type AddRegions = ''AddRegions''"
| "string_of_op_type Rebuild = ''Rebuild''"
| "string_of_op_type Update = ''Update''"
| "string_of_op_type CatchUp = ''CatchUp''"
| "string_of_op_type Refresh = ''Refresh''"
| "string_of_op_type Migrate = ''Migrate''"
| "string_of_op_type Freeze = ''Freeze''"
| "string_of_op_type (OtherType s) = s"

datatype op_phase = PhaseUnset | Pending | Running | Succeeded | Failed | OtherPhase string

fun string_of_op_phase :: "op_phase \<Rightarrow> string" where
  "string_of_op_phase PhaseUnset = ''''"
| "string_of_op_phase Pending = ''Pending''"
| "string_of_op_phase Running = ''Running''"
| "string_of_op_phase Succeeded = ''Succeeded''"
| "string_of_op_phase Failed = ''Failed''"
| "string_of_op_phase (OtherPhase s) = s"

datatype impact = ImpactUnset | ImpactNever | ImpactBootstrapRebuild | ImpactWriteHeavy | ImpactAll
  | OtherImpact string

datatype region_change_policy = PolicyUnset | ChangeAddData | ChangeRebuild | OtherPolicy string

datatype rebuild_strategy = StrategyUnset | InPlace | BlueGreen | OtherStrategy string

datatype rebuild_phase =
    RPUnset | Provisioning | Importing | ReadyToCutover | Cutover | RollbackWindow | GarbageCollect
  | RPSucceeded | RPFailed | OtherRebuildPhase string

fun string_of_rebuild_phase :: "rebuild_phase \<Rightarrow> string" where
  "string_of_rebuild_phase RPUnset = ''''"
| "string_of_rebuild_phase Provisioning = ''Provisioning''"
| "string_of_rebuild_phase Importing = ''Importing''"
| "string_of_rebuild_phase ReadyToCutover = ''ReadyToCutover''"
| "string_of_rebuild_phase Cutover = ''Cutover''"
| "string_of_rebuild_phase RollbackWindow = ''RollbackWindow''"
| "string_of_rebuild_phase GarbageCollect = ''GarbageCollect''"
| "string_of_rebuild_phase RPSucceeded = ''Succeeded''"
| "string_of_rebuild_phase RPFailed = ''Failed''"
| "string_of_rebuild_phase (OtherRebuildPhase s) = s"

datatype db_mode = ModeUnset | ClusterManaged | ClusterAttached | ConnectionSecret | OtherMode string

section \<open>Kubernetes metadata\<close>

type_synonym key = "string \<times> string"   \<comment> \<open>\<open>types.NamespacedName\<close>: namespace, name\<close>

record owner_ref =
  ow_api_version :: string
  ow_kind :: string
  ow_name :: string
  ow_uid :: string
  ow_controller :: "bool option"

record object_meta =
  om_name :: string
  om_namespace :: string
  om_uid :: string
  om_version :: string          \<comment> \<open>\<open>resourceVersion\<close>\<close>
  om_generation :: int
  om_created :: time
  om_deletion :: "time option"
  om_finalizers :: "string list"
  om_owners :: "owner_ref list"
  om_labels :: strmap
  om_annotations :: strmap

definition new_meta :: "string \<Rightarrow> string \<Rightarrow> object_meta" where
  "new_meta name ns = \<lparr>om_name = name, om_namespace = ns, om_uid = '''', om_version = '''',
     om_generation = 0, om_created = zero_time, om_deletion = None, om_finalizers = [],
     om_owners = [], om_labels = [], om_annotations = []\<rparr>"

lemma new_meta_simps [simp]:
  "om_name (new_meta n ns) = n" "om_namespace (new_meta n ns) = ns" "om_owners (new_meta n ns) = []"
  "om_annotations (new_meta n ns) = []" "om_labels (new_meta n ns) = []" "om_version (new_meta n ns) = ''''"
  "om_deletion (new_meta n ns) = None" "om_finalizers (new_meta n ns) = []"
  by (simp_all add: new_meta_def)

record object_reference =
  or_api_version :: string
  or_kind :: string
  or_namespace :: string
  or_name :: string

record condition =
  c_type :: string
  c_status :: string
  c_reason :: string
  c_message :: string
  c_generation :: int
  c_transition :: time

text \<open>
  JSON values, for the fields the API keeps as raw JSON and for CNPG and Gateway objects, which
  the operator handles untyped. A \<open>RawExtension\<close> is the JSON its bytes parse to, with a
  separate value for bytes that are no JSON.
\<close>

datatype json =
    JNull
  | JBool bool
  | JInt int
  | JString string
  | JArray "json list"
  | JObject "(string \<times> json) list"

datatype raw_extension = RawEmpty | RawJson json | RawInvalid

section \<open>Instance spec\<close>

record volume_claim_spec =
  pc_access_modes :: "string list"
  pc_storage_class :: "string option"
  pc_requests :: strmap            \<comment> \<open>resource name to the canonical text of the quantity\<close>
  pc_rest :: json

record volume_claim_template =
  vct_name :: string
  vct_labels :: strmap
  vct_annotations :: strmap
  vct_spec :: volume_claim_spec

record volume_source =
  vs_claim_name :: string
  vs_template :: "volume_claim_template option"

record aux_data_spec =
  ad_wikimedia :: "bool option"
  ad_secondary :: "bool option"
  ad_us_postcodes :: "bool option"

record aux_data_status =
  as_wikimedia :: bool
  as_secondary :: bool
  as_us_postcodes :: bool

record staging_spec =
  sg_storage_class :: "string option"
  sg_size :: string

record cluster_ref =
  cr_name :: string
  cr_secret_ref :: "string option"

record cluster_create =
  cc_storage :: "volume_claim_template option"
  cc_instances :: "int option"
  cc_resources :: "json option"
  cc_affinity :: "raw_extension option"
  cc_topology :: "json list"

record postgres_profiles =
  pp_import :: strmap
  pp_runtime :: strmap

record database_spec =
  db_cluster :: "cluster_create option"
  db_cluster_ref :: "cluster_ref option"
  db_secret_ref :: "string option"
  db_profiles :: "postgres_profiles option"
  db_pause :: impact
  db_strategy :: rebuild_strategy

definition EffectiveRebuildStrategy :: "database_spec \<Rightarrow> rebuild_strategy" where
  "EffectiveRebuildStrategy s = (if db_strategy s = StrategyUnset then InPlace else db_strategy s)"

record updates_spec =
  up_enabled :: bool
  up_schedule :: string

record image_spec =
  im_repository :: string
  im_tag :: string
  im_pull_policy :: string

record parent_reference =
  pr_group :: "string option"
  pr_kind :: "string option"
  pr_namespace :: "string option"
  pr_name :: string
  pr_section :: "string option"

record route_spec =
  rt_parents :: "parent_reference list"
  rt_hostnames :: "string list"

record api_spec =
  ap_replicas :: "int option"
  ap_image :: "image_spec option"
  ap_gunicorn :: "int option"
  ap_pod_spec :: "raw_extension option"
  ap_route :: "route_spec option"
  ap_suspend :: impact

record api_config_spec =
  ac_pool_size :: "int option"
  ac_query_timeout :: "int option"
  ac_request_timeout :: "int option"
  ac_default_language :: string
  ac_cors :: "bool option"

record ui_spec =
  ui_enabled :: "bool option"
  ui_replicas :: "int option"
  ui_image :: "image_spec option"
  ui_pod_spec :: "raw_extension option"
  ui_route :: "route_spec option"

record worker_spec =
  wk_image :: "image_spec option"
  wk_pod_spec :: "raw_extension option"

record replication_spec =
  re_url :: string
  re_max_diff :: "int option"
  re_update_interval :: "int option"
  re_recheck_interval :: "int option"

record config_spec =
  cf_import_style :: string
  cf_tokenizer :: string
  cf_languages :: "string list"
  cf_replication :: "replication_spec option"
  cf_api :: "api_config_spec option"

record observed_config =
  ob_import_style :: string
  ob_tokenizer :: string

record instance_spec =
  sp_project :: volume_source
  sp_flatnode :: "volume_source option"
  sp_staging :: "staging_spec option"
  sp_aux_data :: "aux_data_spec option"
  sp_regions :: "string list"
  sp_policy :: region_change_policy
  sp_nominatim :: "config_spec option"
  sp_database :: database_spec
  sp_updates :: "updates_spec option"
  sp_api :: "api_spec option"
  sp_ui :: "ui_spec option"
  sp_worker :: "worker_spec option"

section \<open>Instance status\<close>

record region_status =
  rs_name :: string
  rs_sequence :: string
  rs_updated :: "time option"

record rebuild_status =
  rb_phase :: rebuild_phase
  rb_operation :: string
  rb_active_cluster :: string
  rb_pending_cluster :: string
  rb_active_secret :: string
  rb_pending_secret :: string
  rb_pending_project :: string
  rb_pending_flatnode :: string
  rb_rollback_until :: "time option"
  rb_message :: string

record database_status =
  ds_mode :: db_mode
  ds_secret :: string
  ds_cluster :: string
  ds_degraded :: bool

record instance_status =
  st_conditions :: "condition list"
  st_regions :: "region_status list"
  st_database :: database_status
  st_rebuild :: "rebuild_status option"
  st_observed_generation :: int
  st_active_refs :: "object_reference list"
  st_last_schedule :: "time option"
  st_observed_nominatim :: "observed_config option"
  st_aux_data :: "aux_data_status option"

record nominatim_instance =
  in_meta :: object_meta
  in_spec :: instance_spec
  in_status :: instance_status

section \<open>Operation\<close>

record operation_spec =
  os_type :: op_type
  os_instance :: string            \<comment> \<open>\<open>nominatimInstanceRef.name\<close>\<close>
  os_regions :: "string list"
  os_staging :: "staging_spec option"
  os_image :: "image_spec option"

record operation_status =
  ot_phase :: op_phase
  ot_job_ref :: "string option"
  ot_observed_generation :: int
  ot_message :: string
  ot_start :: "time option"
  ot_completion :: "time option"

record nominatim_operation =
  op_meta :: object_meta
  op_spec :: operation_spec
  op_status :: operation_status

abbreviation in_name :: "nominatim_instance \<Rightarrow> string" where "in_name n \<equiv> om_name (in_meta n)"
abbreviation in_namespace :: "nominatim_instance \<Rightarrow> string" where "in_namespace n \<equiv> om_namespace (in_meta n)"
abbreviation in_key :: "nominatim_instance \<Rightarrow> key" where "in_key n \<equiv> (in_namespace n, in_name n)"
abbreviation in_regions :: "nominatim_instance \<Rightarrow> region_status list" where
  "in_regions n \<equiv> st_regions (in_status n)"
abbreviation in_database :: "nominatim_instance \<Rightarrow> database_status" where
  "in_database n \<equiv> st_database (in_status n)"
abbreviation in_rebuild :: "nominatim_instance \<Rightarrow> rebuild_status option" where
  "in_rebuild n \<equiv> st_rebuild (in_status n)"

abbreviation op_name :: "nominatim_operation \<Rightarrow> string" where "op_name p \<equiv> om_name (op_meta p)"
abbreviation op_namespace :: "nominatim_operation \<Rightarrow> string" where "op_namespace p \<equiv> om_namespace (op_meta p)"
abbreviation op_key :: "nominatim_operation \<Rightarrow> key" where "op_key p \<equiv> (op_namespace p, op_name p)"
abbreviation op_type_of :: "nominatim_operation \<Rightarrow> op_type" where "op_type_of p \<equiv> os_type (op_spec p)"
abbreviation op_phase_of :: "nominatim_operation \<Rightarrow> op_phase" where "op_phase_of p \<equiv> ot_phase (op_status p)"
abbreviation op_instance :: "nominatim_operation \<Rightarrow> string" where "op_instance p \<equiv> os_instance (op_spec p)"

text \<open>Writing one field of the status, as the code's assignments through the pointer do.\<close>

abbreviation set_regions :: "region_status list \<Rightarrow> nominatim_instance \<Rightarrow> nominatim_instance" where
  "set_regions rs n \<equiv> n\<lparr>in_status := (in_status n)\<lparr>st_regions := rs\<rparr>\<rparr>"
abbreviation set_database :: "database_status \<Rightarrow> nominatim_instance \<Rightarrow> nominatim_instance" where
  "set_database d n \<equiv> n\<lparr>in_status := (in_status n)\<lparr>st_database := d\<rparr>\<rparr>"
abbreviation set_rebuild :: "rebuild_status option \<Rightarrow> nominatim_instance \<Rightarrow> nominatim_instance" where
  "set_rebuild r n \<equiv> n\<lparr>in_status := (in_status n)\<lparr>st_rebuild := r\<rparr>\<rparr>"
abbreviation set_active_refs :: "object_reference list \<Rightarrow> nominatim_instance \<Rightarrow> nominatim_instance" where
  "set_active_refs r n \<equiv> n\<lparr>in_status := (in_status n)\<lparr>st_active_refs := r\<rparr>\<rparr>"
abbreviation set_op_phase :: "op_phase \<Rightarrow> nominatim_operation \<Rightarrow> nominatim_operation" where
  "set_op_phase ph p \<equiv> p\<lparr>op_status := (op_status p)\<lparr>ot_phase := ph\<rparr>\<rparr>"

text \<open>A fresh Operation, as the composite literals of the Instance controller build it.\<close>

definition new_operation :: "string \<Rightarrow> string \<Rightarrow> op_type \<Rightarrow> string \<Rightarrow> string list \<Rightarrow> nominatim_operation" where
  "new_operation name ns t inst regions =
     \<lparr>op_meta = new_meta name ns,
      op_spec = \<lparr>os_type = t, os_instance = inst, os_regions = regions, os_staging = None, os_image = None\<rparr>,
      op_status = \<lparr>ot_phase = PhaseUnset, ot_job_ref = None, ot_observed_generation = 0,
        ot_message = '''', ot_start = None, ot_completion = None\<rparr>\<rparr>"

lemma new_operation_simps [simp]:
  "op_meta (new_operation n ns t i rs) = new_meta n ns"
  "os_type (op_spec (new_operation n ns t i rs)) = t"
  "os_instance (op_spec (new_operation n ns t i rs)) = i"
  "os_regions (op_spec (new_operation n ns t i rs)) = rs"
  "ot_phase (op_status (new_operation n ns t i rs)) = PhaseUnset"
  "ot_job_ref (op_status (new_operation n ns t i rs)) = None"
  by (simp_all add: new_operation_def)

section \<open>Condition types and finalizers\<close>

definition ConditionReady :: string where "ConditionReady = ''Ready''"
definition ConditionProgressing :: string where "ConditionProgressing = ''Progressing''"
definition ConditionRegionsDrift :: string where "ConditionRegionsDrift = ''RegionsDrift''"
definition ConditionRegionRemovalUnsupported :: string where
  "ConditionRegionRemovalUnsupported = ''RegionRemovalUnsupported''"
definition ConditionImportConfigDrift :: string where "ConditionImportConfigDrift = ''ImportConfigDrift''"
definition ConditionDeleting :: string where "ConditionDeleting = ''Deleting''"

definition NominatimInstanceFinalizer :: string where
  "NominatimInstanceFinalizer = ''nominatim.zebernst.dev/finalizer''"
definition NominatimOperationFinalizer :: string where
  "NominatimOperationFinalizer = ''nominatim.zebernst.dev/operation-finalizer''"

definition GroupVersion :: string where "GroupVersion = ''nominatim.zebernst.dev/v1alpha1''"

lemmas condition_types = ConditionReady_def ConditionProgressing_def ConditionRegionsDrift_def
  ConditionRegionRemovalUnsupported_def ConditionImportConfigDrift_def ConditionDeleting_def

end
