(* ===== verification/KubeTypes.thy ===== *)
theory KubeTypes
  imports ApiTypes
begin

text \<open>
  The objects of the Kubernetes API that the controllers read and write, with the fields they
  touch. Everything else of a type that passes through unread (resources, lifecycle hooks,
  scheduling knobs) is one JSON field, named \<open>_rest\<close>.
\<close>

datatype env_source = SecretKeyRef string string "bool option" | EnvSourceOther json

record env_var =
  ev_name :: string
  ev_value :: string
  ev_from :: "env_source option"

definition env_value :: "string \<Rightarrow> string \<Rightarrow> env_var" where
  "env_value n v = \<lparr>ev_name = n, ev_value = v, ev_from = None\<rparr>"

lemma env_value_simps [simp]:
  "ev_name (env_value n v) = n" "ev_value (env_value n v) = v" "ev_from (env_value n v) = None"
  by (simp_all add: env_value_def)

record volume_mount =
  vm_name :: string
  vm_path :: string
  vm_read_only :: bool
  vm_rest :: json

definition mount :: "string \<Rightarrow> string \<Rightarrow> volume_mount" where
  "mount n p = \<lparr>vm_name = n, vm_path = p, vm_read_only = False, vm_rest = JNull\<rparr>"

record volume =
  vo_name :: string
  vo_claim :: "(string \<times> bool) option"   \<comment> \<open>PVC claim name and its read-only flag\<close>
  vo_empty_dir :: bool
  vo_host_path :: "json option"
  vo_rest :: json

definition pvc_volume :: "string \<Rightarrow> string \<Rightarrow> volume" where
  "pvc_volume n c = \<lparr>vo_name = n, vo_claim = Some (c, False), vo_empty_dir = False,
     vo_host_path = None, vo_rest = JNull\<rparr>"

record capabilities =
  ca_add :: "string list"
  ca_drop :: "string list"

record security_context =
  sc_privileged :: "bool option"
  sc_escalation :: "bool option"      \<comment> \<open>\<open>allowPrivilegeEscalation\<close>\<close>
  sc_capabilities :: "capabilities option"
  sc_rest :: json

record container_port =
  cp_name :: string
  cp_port :: int

datatype probe = HttpProbe string string int int int | OtherProbe json
  \<comment> \<open>path, port, period, timeout and failure threshold of an HTTP GET probe\<close>

record container =
  ct_name :: string
  ct_image :: string
  ct_pull_policy :: string
  ct_command :: "string list"
  ct_args :: "string list"
  ct_ports :: "container_port list"
  ct_env :: "env_var list"
  ct_env_from :: "json list"
  ct_mounts :: "volume_mount list"
  ct_security :: "security_context option"
  ct_startup :: "probe option"
  ct_readiness :: "probe option"
  ct_liveness :: "probe option"
  ct_rest :: json

record pod_spec =
  ps_restart :: string
  ps_init :: "container list"
  ps_containers :: "container list"
  ps_volumes :: "volume list"
  ps_host_network :: bool
  ps_host_pid :: bool
  ps_host_ipc :: bool
  ps_share_process :: "bool option"
  ps_service_account :: string
  ps_deprecated_service_account :: string
  ps_automount :: "bool option"
  ps_security :: "json option"
  ps_rest :: json

definition empty_container :: container where
  "empty_container = \<lparr>ct_name = '''', ct_image = '''', ct_pull_policy = '''', ct_command = [],
     ct_args = [], ct_ports = [], ct_env = [], ct_env_from = [], ct_mounts = [], ct_security = None,
     ct_startup = None, ct_readiness = None, ct_liveness = None, ct_rest = JNull\<rparr>"

definition empty_pod :: pod_spec where
  "empty_pod = \<lparr>ps_restart = '''', ps_init = [], ps_containers = [], ps_volumes = [],
     ps_host_network = False, ps_host_pid = False, ps_host_ipc = False, ps_share_process = None,
     ps_service_account = '''', ps_deprecated_service_account = '''', ps_automount = None,
     ps_security = None, ps_rest = JNull\<rparr>"

lemma empty_container_simps [simp]:
  "ct_name empty_container = ''''" "ct_env empty_container = []" "ct_command empty_container = []"
  "ct_args empty_container = []" "ct_ports empty_container = []" "ct_security empty_container = None"
  "ct_mounts empty_container = []" "ct_image empty_container = ''''"
  by (simp_all add: empty_container_def)

lemma empty_pod_simps [simp]:
  "ps_init empty_pod = []" "ps_host_network empty_pod = False" "ps_host_pid empty_pod = False"
  "ps_host_ipc empty_pod = False" "ps_share_process empty_pod = None"
  "ps_service_account empty_pod = ''''" "ps_automount empty_pod = None" "ps_security empty_pod = None"
  "ps_containers empty_pod = []" "ps_volumes empty_pod = []" "ps_restart empty_pod = ''''"
  by (simp_all add: empty_pod_def)

record job =
  jo_meta :: object_meta
  jo_backoff :: "int option"
  jo_ttl :: "int option"
  jo_template_labels :: strmap
  jo_pod :: pod_spec
  jo_succeeded :: int
  jo_failed :: int
  jo_active :: int
  jo_start :: "time option"
  jo_completion :: "time option"

record claim =                      \<comment> \<open>a PersistentVolumeClaim\<close>
  pv_meta :: object_meta
  pv_spec :: volume_claim_spec

record deployment =
  de_meta :: object_meta
  de_replicas :: "int option"
  de_selector :: strmap
  de_template_labels :: strmap
  de_pod :: pod_spec
  de_status_replicas :: int
  de_ready_replicas :: int
  de_available_replicas :: int

record service_port =
  sv_name :: string
  sv_protocol :: string
  sv_port :: int
  sv_target :: int

record service =
  se_meta :: object_meta
  se_selector :: strmap
  se_ports :: "service_port list"

record config_map =
  cm_meta :: object_meta
  cm_data :: strmap

record policy_rule =
  ru_api_groups :: "string list"
  ru_resources :: "string list"
  ru_verbs :: "string list"

record role =
  ro_meta :: object_meta
  ro_rules :: "policy_rule list"

record role_binding =
  rb_meta :: object_meta
  rb_role_ref :: "string \<times> string \<times> string"        \<comment> \<open>API group, kind, name\<close>
  rb_subjects :: "(string \<times> string \<times> string) list"   \<comment> \<open>kind, name, namespace\<close>

text \<open>An \<open>unstructured.Unstructured\<close>: its metadata, and the rest of its object map.\<close>

record unstructured =
  un_meta :: object_meta
  un_object :: json

definition new_unstructured :: "string \<Rightarrow> string \<Rightarrow> unstructured" where
  "new_unstructured name ns = \<lparr>un_meta = new_meta name ns, un_object = JObject []\<rparr>"

text \<open>The kinds of objects the clients address, with the group of those handled untyped.\<close>

datatype kind =
    KInstance | KOperation | KSecret | KJob | KClaim | KDeployment | KService | KConfigMap
  | KServiceAccount | KRole | KRoleBinding
  | KCluster       \<comment> \<open>\<open>postgresql.cnpg.io/v1\<close> Cluster\<close>
  | KDatabase      \<comment> \<open>\<open>postgresql.cnpg.io/v1\<close> Database\<close>
  | KHTTPRoute     \<comment> \<open>\<open>gateway.networking.k8s.io/v1\<close> HTTPRoute\<close>

datatype obj =
    OInstance nominatim_instance
  | OOperation nominatim_operation
  | OSecret object_meta
  | OJob job
  | OClaim claim
  | ODeployment deployment
  | OService service
  | OConfigMap config_map
  | OServiceAccount object_meta
  | ORole role
  | ORoleBinding role_binding
  | OUnstructured kind unstructured

fun obj_meta :: "obj \<Rightarrow> object_meta" where
  "obj_meta (OInstance x) = in_meta x"
| "obj_meta (OOperation x) = op_meta x"
| "obj_meta (OSecret m) = m"
| "obj_meta (OJob x) = jo_meta x"
| "obj_meta (OClaim x) = pv_meta x"
| "obj_meta (ODeployment x) = de_meta x"
| "obj_meta (OService x) = se_meta x"
| "obj_meta (OConfigMap x) = cm_meta x"
| "obj_meta (OServiceAccount m) = m"
| "obj_meta (ORole x) = ro_meta x"
| "obj_meta (ORoleBinding x) = rb_meta x"
| "obj_meta (OUnstructured k x) = un_meta x"

fun obj_kind :: "obj \<Rightarrow> kind" where
  "obj_kind (OInstance x) = KInstance"
| "obj_kind (OOperation x) = KOperation"
| "obj_kind (OSecret m) = KSecret"
| "obj_kind (OJob x) = KJob"
| "obj_kind (OClaim x) = KClaim"
| "obj_kind (ODeployment x) = KDeployment"
| "obj_kind (OService x) = KService"
| "obj_kind (OConfigMap x) = KConfigMap"
| "obj_kind (OServiceAccount m) = KServiceAccount"
| "obj_kind (ORole x) = KRole"
| "obj_kind (ORoleBinding x) = KRoleBinding"
| "obj_kind (OUnstructured k x) = k"

definition obj_key :: "obj \<Rightarrow> key" where
  "obj_key x = (om_namespace (obj_meta x), om_name (obj_meta x))"

end
