(* ===== verification/Client.thy ===== *)
theory Client
  imports KubeTypes
begin

text \<open>
  Programs that talk to the Kubernetes API. The API server is not part of the repository, so a
  reconciler is a tree: at each node it issues a request and goes on with whatever response it
  gets. \<open>play\<close> runs a program against a script of responses and yields what it asked for and how
  it ended, so that every statement about all scripts holds for every behaviour of the server, of
  the cache in front of it and of the other writers. A script that ends early is a crash of the
  operator at that request. \<open>wp\<close> is the calculus the proofs use, with its adequacy for \<open>play\<close>.
\<close>

section \<open>Requests and responses\<close>

datatype request =
    Get kind key
  | ListOperations string                        \<comment> \<open>all Operations of a namespace\<close>
  | ListInstances string
  | Create obj
  | UpdateObj obj
  | UpdateStatus obj
  | PatchObj obj                                 \<comment> \<open>a merge patch with the object's new value\<close>
  | Delete kind key
  | CreateOrUpdate obj "obj \<Rightarrow> error + obj"      \<comment> \<open>\<open>controllerutil.CreateOrUpdate\<close> with its MutateFn\<close>
  | Now                                          \<comment> \<open>\<open>time.Now\<close>, \<open>metav1.Now\<close>\<close>

datatype response =
    RError error
  | ROk
  | RVersion string                              \<comment> \<open>a write was accepted; the new resourceVersion\<close>
  | RObject obj
  | ROperations "nominatim_operation list"
  | RInstances "nominatim_instance list"
  | RTime time

type_synonym event = "request \<times> response"
type_synonym trace = "event list"

section \<open>Programs\<close>

text \<open>
  \<open>Ret\<close> is a return with a nil error, \<open>Fail\<close> a return with an error (or a panic).
\<close>

datatype 'a prog = Ret 'a | Fail error | Call request "response \<Rightarrow> 'a prog"

primrec bind :: "'a prog \<Rightarrow> ('a \<Rightarrow> 'b prog) \<Rightarrow> 'b prog" where
  "bind (Ret a) f = f a"
| "bind (Fail e) f = Fail e"
| "bind (Call q k) f = Call q (\<lambda>x. bind (k x) f)"

text \<open>\<open>attempt p\<close> hands the error to the caller instead of returning it.\<close>

primrec attempt :: "'a prog \<Rightarrow> (error + 'a) prog" where
  "attempt (Ret a) = Ret (Inr a)"
| "attempt (Fail e) = Ret (Inl e)"
| "attempt (Call q k) = Call q (\<lambda>x. attempt (k x))"

definition lift :: "error + 'a \<Rightarrow> 'a prog" where
  "lift r = (case r of Inl e \<Rightarrow> Fail e | Inr a \<Rightarrow> Ret a)"

text \<open>\<open>fmt.Errorf("...: %w", err)\<close> around what a step returns.\<close>

definition wrap_error :: "string \<Rightarrow> 'a prog \<Rightarrow> 'a prog" where
  "wrap_error m p = bind (attempt p) (\<lambda>r. case r of Inl e \<Rightarrow> Fail (Wrap m e) | Inr a \<Rightarrow> Ret a)"

text \<open>\<open>client.IgnoreNotFound\<close>.\<close>

definition ignore_not_found :: "'a \<Rightarrow> 'a prog \<Rightarrow> 'a prog" where
  "ignore_not_found a p =
     bind (attempt p) (\<lambda>r. case r of Inl e \<Rightarrow> (if is_not_found e then Ret a else Fail e) | Inr b \<Rightarrow> Ret b)"

text \<open>
  \<open>retry.RetryOnConflict\<close>: the closure runs again while it returns a conflict, up to the number of
  further attempts the backoff allows.
\<close>

primrec retry_on_conflict :: "nat \<Rightarrow> 'a prog \<Rightarrow> 'a prog" where
  "retry_on_conflict 0 p = p"
| "retry_on_conflict (Suc n) p =
     bind (attempt p)
       (\<lambda>r. case r of
          Inl e \<Rightarrow> (if is_conflict e then retry_on_conflict n p else Fail e)
        | Inr a \<Rightarrow> Ret a)"

primrec for_each :: "('a \<Rightarrow> unit prog) \<Rightarrow> 'a list \<Rightarrow> unit prog" where
  "for_each f [] = Ret ()"
| "for_each f (x # xs) = bind (f x) (\<lambda>_. for_each f xs)"

text \<open>A loop that carries a state, in the order of the list.\<close>

primrec fold_prog :: "('a \<Rightarrow> 's \<Rightarrow> 's prog) \<Rightarrow> 'a list \<Rightarrow> 's \<Rightarrow> 's prog" where
  "fold_prog f [] s = Ret s"
| "fold_prog f (x # xs) s = bind (f x s) (fold_prog f xs)"

section \<open>Typed calls\<close>

text \<open>A response of the wrong type is an error of the call.\<close>

definition call :: "request \<Rightarrow> (response \<Rightarrow> error + 'a) \<Rightarrow> 'a prog" where
  "call q d = Call q (\<lambda>x. lift (case x of RError e \<Rightarrow> Inl e | y \<Rightarrow> d y))"

fun as_instance :: "response \<Rightarrow> error + nominatim_instance" where
  "as_instance (RObject (OInstance x)) = Inr x" | "as_instance _ = Inl BadResponse"
fun as_operation :: "response \<Rightarrow> error + nominatim_operation" where
  "as_operation (RObject (OOperation x)) = Inr x" | "as_operation _ = Inl BadResponse"
fun as_operations :: "response \<Rightarrow> error + nominatim_operation list" where
  "as_operations (ROperations x) = Inr x" | "as_operations _ = Inl BadResponse"
fun as_instances :: "response \<Rightarrow> error + nominatim_instance list" where
  "as_instances (RInstances x) = Inr x" | "as_instances _ = Inl BadResponse"
fun as_job :: "response \<Rightarrow> error + job" where
  "as_job (RObject (OJob x)) = Inr x" | "as_job _ = Inl BadResponse"
fun as_deployment :: "response \<Rightarrow> error + deployment" where
  "as_deployment (RObject (ODeployment x)) = Inr x" | "as_deployment _ = Inl BadResponse"
fun as_config_map :: "response \<Rightarrow> error + config_map" where
  "as_config_map (RObject (OConfigMap x)) = Inr x" | "as_config_map _ = Inl BadResponse"
fun as_role :: "response \<Rightarrow> error + role" where
  "as_role (RObject (ORole x)) = Inr x" | "as_role _ = Inl BadResponse"
fun as_role_binding :: "response \<Rightarrow> error + role_binding" where
  "as_role_binding (RObject (ORoleBinding x)) = Inr x" | "as_role_binding _ = Inl BadResponse"
fun as_unstructured :: "response \<Rightarrow> error + unstructured" where
  "as_unstructured (RObject (OUnstructured k x)) = Inr x" | "as_unstructured _ = Inl BadResponse"
fun as_object :: "response \<Rightarrow> error + unit" where
  "as_object (RObject x) = Inr ()" | "as_object _ = Inl BadResponse"
fun as_version :: "response \<Rightarrow> error + string" where
  "as_version (RVersion v) = Inr v" | "as_version _ = Inl BadResponse"
fun as_ok :: "response \<Rightarrow> error + unit" where
  "as_ok ROk = Inr ()" | "as_ok (RVersion v) = Inr ()" | "as_ok _ = Inl BadResponse"
fun as_time :: "response \<Rightarrow> error + time" where
  "as_time (RTime t) = Inr t" | "as_time _ = Inl BadResponse"

abbreviation get_instance :: "key \<Rightarrow> nominatim_instance prog" where
  "get_instance k \<equiv> call (Get KInstance k) as_instance"
abbreviation get_operation :: "key \<Rightarrow> nominatim_operation prog" where
  "get_operation k \<equiv> call (Get KOperation k) as_operation"
abbreviation get_job :: "key \<Rightarrow> job prog" where
  "get_job k \<equiv> call (Get KJob k) as_job"
abbreviation get_deployment :: "key \<Rightarrow> deployment prog" where
  "get_deployment k \<equiv> call (Get KDeployment k) as_deployment"
abbreviation get_unstructured :: "kind \<Rightarrow> key \<Rightarrow> unstructured prog" where
  "get_unstructured kd k \<equiv> call (Get kd k) as_unstructured"
text \<open>A \<open>Get\<close> whose object is only tested for presence.\<close>
abbreviation get_present :: "kind \<Rightarrow> key \<Rightarrow> unit prog" where
  "get_present kd k \<equiv> call (Get kd k) as_object"
abbreviation list_operations :: "string \<Rightarrow> nominatim_operation list prog" where
  "list_operations ns \<equiv> call (ListOperations ns) as_operations"
abbreviation create :: "obj \<Rightarrow> unit prog" where
  "create x \<equiv> call (Create x) as_ok"
abbreviation delete :: "kind \<Rightarrow> key \<Rightarrow> unit prog" where
  "delete kd k \<equiv> call (Delete kd k) as_ok"
abbreviation create_or_update :: "obj \<Rightarrow> (obj \<Rightarrow> error + obj) \<Rightarrow> unit prog" where
  "create_or_update x f \<equiv> call (CreateOrUpdate x f) as_ok"
abbreviation update_obj :: "obj \<Rightarrow> unit prog" where
  "update_obj x \<equiv> call (UpdateObj x) as_ok"
abbreviation now :: "time prog" where
  "now \<equiv> call Now as_time"

text \<open>
  An accepted \<open>Update\<close> or \<open>Status().Update\<close> is decoded into the object it was given: with optimistic
  locking that is the object sent, under its new resourceVersion.
\<close>

definition update_instance_status :: "nominatim_instance \<Rightarrow> nominatim_instance prog" where
  "update_instance_status n =
     bind (call (UpdateStatus (OInstance n)) as_version) (\<lambda>v. Ret (n\<lparr>in_meta := (in_meta n)\<lparr>om_version := v\<rparr>\<rparr>))"

definition update_instance :: "nominatim_instance \<Rightarrow> nominatim_instance prog" where
  "update_instance n =
     bind (call (UpdateObj (OInstance n)) as_version) (\<lambda>v. Ret (n\<lparr>in_meta := (in_meta n)\<lparr>om_version := v\<rparr>\<rparr>))"

definition update_operation_status :: "nominatim_operation \<Rightarrow> nominatim_operation prog" where
  "update_operation_status p =
     bind (call (UpdateStatus (OOperation p)) as_version) (\<lambda>v. Ret (p\<lparr>op_meta := (op_meta p)\<lparr>om_version := v\<rparr>\<rparr>))"

definition update_operation :: "nominatim_operation \<Rightarrow> nominatim_operation prog" where
  "update_operation p =
     bind (call (UpdateObj (OOperation p)) as_version) (\<lambda>v. Ret (p\<lparr>op_meta := (op_meta p)\<lparr>om_version := v\<rparr>\<rparr>))"

lemmas update_defs = update_instance_status_def update_instance_def update_operation_status_def update_operation_def

section \<open>Running a program against a script\<close>

datatype 'a outcome = Done "error + 'a" | Waiting request

primrec play :: "'a prog \<Rightarrow> response list \<Rightarrow> trace \<times> 'a outcome" where
  "play (Ret a) xs = ([], Done (Inr a))"
| "play (Fail e) xs = ([], Done (Inl e))"
| "play (Call q k) xs =
     (case xs of [] \<Rightarrow> ([], Waiting q)
      | x # ys \<Rightarrow> (let (t, out) = play (k x) ys in ((q, x) # t, out)))"

text \<open>The requests a run has issued: those answered, and the one it waits for.\<close>

definition issued :: "trace \<times> 'a outcome \<Rightarrow> request list" where
  "issued r = map fst (fst r) @ (case snd r of Done _ \<Rightarrow> [] | Waiting q \<Rightarrow> [q])"

section \<open>Weakest preconditions\<close>

text \<open>
  \<open>wp G Q h p\<close>: after the history \<open>h\<close>, whatever the responses, every request \<open>p\<close> issues satisfies \<open>G\<close>
  with the history before it, and if \<open>p\<close> ends, its history and its result satisfy \<open>Q\<close>.
\<close>

primrec wp :: "(trace \<Rightarrow> request \<Rightarrow> bool) \<Rightarrow> (trace \<Rightarrow> error + 'a \<Rightarrow> bool) \<Rightarrow> trace \<Rightarrow> 'a prog \<Rightarrow> bool" where
  "wp G Q h (Ret a) = Q h (Inr a)"
| "wp G Q h (Fail e) = Q h (Inl e)"
| "wp G Q h (Call q k) = (G h q \<and> (\<forall>x. wp G Q (h @ [(q, x)]) (k x)))"

lemma wp_bind:
  "wp G Q h (bind p f) =
     wp G (\<lambda>h' r. case r of Inl e \<Rightarrow> Q h' (Inl e) | Inr a \<Rightarrow> wp G Q h' (f a)) h p"
  by (induction p arbitrary: h) auto

lemma wp_attempt: "wp G Q h (attempt p) = wp G (\<lambda>h' r. Q h' (Inr r)) h p"
  by (induction p arbitrary: h) auto

lemma wp_lift: "wp G Q h (lift r) = Q h r"
  by (simp add: lift_def split: sum.splits)

lemma wp_mono:
  "wp G Q h p \<Longrightarrow> (\<And>h' q. G h' q \<Longrightarrow> G' h' q) \<Longrightarrow> (\<And>h' r. Q h' r \<Longrightarrow> Q' h' r) \<Longrightarrow> wp G' Q' h p"
  by (induction p arbitrary: h) auto

lemma wp_conj: "wp G Q h p \<Longrightarrow> wp G' Q' h p \<Longrightarrow> wp (\<lambda>h q. G h q \<and> G' h q) (\<lambda>h r. Q h r \<and> Q' h r) h p"
  by (induction p arbitrary: h) auto

lemma wp_call:
  "wp G Q h (call q d) =
     (G h q \<and> (\<forall>x. Q (h @ [(q, x)]) (case x of RError e \<Rightarrow> Inl e | y \<Rightarrow> d y)))"
  by (simp add: call_def wp_lift)

lemma wp_wrap_error:
  "wp G Q h (wrap_error m p) = wp G (\<lambda>h' r. Q h' (case r of Inl e \<Rightarrow> Inl (Wrap m e) | Inr a \<Rightarrow> Inr a)) h p"
  by (simp add: wrap_error_def wp_bind wp_attempt)
     (rule arg_cong [where f = "\<lambda>Q. wp G Q h p"], auto simp: fun_eq_iff split: sum.splits)

lemma wp_ignore_not_found:
  "wp G Q h (ignore_not_found a p) =
     wp G (\<lambda>h' r. Q h' (case r of Inl e \<Rightarrow> if is_not_found e then Inr a else Inl e | Inr b \<Rightarrow> Inr b)) h p"
  by (simp add: ignore_not_found_def wp_bind wp_attempt)
     (rule arg_cong [where f = "\<lambda>Q. wp G Q h p"], auto simp: fun_eq_iff split: sum.splits)

text \<open>An invariant of the history that one attempt keeps is kept by the retries.\<close>

lemma wp_retry:
  assumes "\<And>h. I h \<Longrightarrow> wp G (\<lambda>h' r. case r of Inl e \<Rightarrow> Q h' (Inl e) \<and> (is_conflict e \<longrightarrow> I h') | Inr a \<Rightarrow> Q h' (Inr a)) h p"
    and "I h"
  shows "wp G Q h (retry_on_conflict n p)"
  using assms(2)
proof (induction n arbitrary: h)
  case 0
  show ?case unfolding retry_on_conflict.simps
    by (rule wp_mono [OF assms(1) [OF 0]]) (auto split: sum.splits)
next
  case (Suc n)
  show ?case unfolding retry_on_conflict.simps wp_bind wp_attempt
    by (rule wp_mono [OF assms(1) [OF Suc.prems]]) (auto split: sum.splits intro: Suc.IH)
qed

lemma wp_triv: "(\<And>h q. G h q) \<Longrightarrow> (\<And>h r. Q h r) \<Longrightarrow> wp G Q h p"
  by (induction p arbitrary: h) auto

text \<open>The history only grows.\<close>

lemma wp_prefix_mono: "wp G Q h p \<Longrightarrow> prefix h0 h \<Longrightarrow>
    wp (\<lambda>h' q. prefix h0 h' \<and> G h' q) (\<lambda>h' r. prefix h0 h' \<and> Q h' r) h p"
  by (induction p arbitrary: h) (auto simp: prefix_order.trans)

lemma wp_prefix: "wp G Q h p \<Longrightarrow> wp (\<lambda>h' q. prefix h h' \<and> G h' q) (\<lambda>h' r. prefix h h' \<and> Q h' r) h p"
  by (rule wp_prefix_mono) simp_all

lemma event_prefix: "prefix (h0 @ [e]) h \<Longrightarrow> prefix h0 h \<and> e \<in> set h"
  by (auto simp: prefix_def)

text \<open>What one stage establishes, for the next.\<close>

lemma wp_seq:
  assumes "wp G (\<lambda>h' r. case r of Inl e \<Rightarrow> True | Inr a \<Rightarrow> S h' a) h p" and "\<And>h e. Q h (Inl e)"
    and "\<And>h' a. prefix h h' \<Longrightarrow> S h' a \<Longrightarrow> wp G Q h' (f a)"
  shows "wp G Q h (bind p f)"
  unfolding wp_bind using wp_prefix [OF assms(1)]
  by (rule wp_mono) (auto split: sum.splits intro: assms(2,3))

lemma wp_seq_any:
  assumes "wp G (\<lambda>_ _. True) h p" and "\<And>h e. Q h (Inl e)" and "\<And>h' a. prefix h h' \<Longrightarrow> wp G Q h' (f a)"
  shows "wp G Q h (bind p f)"
  unfolding wp_bind using wp_prefix [OF assms(1)]
  by (rule wp_mono) (auto split: sum.splits intro: assms(2,3))

lemma wp_retry_any:
  assumes "\<And>h. wp G (\<lambda>_ _. True) h p"
  shows "wp G (\<lambda>_ _. True) h (retry_on_conflict n p)"
  by (rule wp_retry [where I = "\<lambda>_. True"]) (auto split: sum.splits intro!: wp_mono [OF assms])

text \<open>When only the requests matter, the parts of a program are taken one by one.\<close>

lemma any_bind:
  "wp G (\<lambda>_ _. True) h p \<Longrightarrow> (\<And>h a. wp G (\<lambda>_ _. True) h (f a)) \<Longrightarrow> wp G (\<lambda>_ _. True) h (bind p f)"
  unfolding wp_bind by (erule wp_mono) (simp_all split: sum.splits)

lemma any_parts:
  "wp G (\<lambda>_ _. True) h p \<Longrightarrow> wp G (\<lambda>_ _. True) h (attempt p)"
  "wp G (\<lambda>_ _. True) h p' \<Longrightarrow> wp G (\<lambda>_ _. True) h (wrap_error m p')"
  "wp G (\<lambda>_ _. True) h p' \<Longrightarrow> wp G (\<lambda>_ _. True) h (ignore_not_found a p')"
  "G h q \<Longrightarrow> wp G (\<lambda>_ _. True) h (call q d)"
  "wp G (\<lambda>_ _. True) h (lift r)"
  "wp G (\<lambda>_ _. True) h (Ret b)" "wp G (\<lambda>_ _. True) h (Fail e)"
  by (simp_all add: wp_attempt wp_wrap_error wp_ignore_not_found wp_call wp_lift)

lemma any_lift:
  assumes "\<And>a. r = Inr a \<Longrightarrow> wp G (\<lambda>_ _. True) h (f a)"
  shows "wp G (\<lambda>_ _. True) h (bind (lift r) f)"
  using assms by (cases r) (simp_all add: lift_def)

lemma any_wrapped_lift:
  assumes "\<And>a. r = Inr a \<Longrightarrow> wp G (\<lambda>_ _. True) h (f a)"
  shows "wp G (\<lambda>_ _. True) h (bind (wrap_error m (lift r)) f)"
  using assms by (cases r) (simp_all add: lift_def wrap_error_def)

lemma any_for_each: "(\<And>x h. x \<in> set xs \<Longrightarrow> wp G (\<lambda>_ _. True) h (f x)) \<Longrightarrow> wp G (\<lambda>_ _. True) h (for_each f xs)"
  by (induction xs arbitrary: h) (auto intro!: any_bind)

lemma any_fold: "(\<And>x s h. wp G (\<lambda>_ _. True) h (f x s)) \<Longrightarrow> wp G (\<lambda>_ _. True) h (fold_prog f xs s)"
  by (induction xs arbitrary: h s) (auto intro!: any_bind)

lemma any_weaken: "wp G Q h p \<Longrightarrow> wp G (\<lambda>_ _. True) h p"
  by (erule wp_mono) simp_all

lemmas wp_any = any_bind any_parts wp_retry_any any_for_each

lemma wp_for_each:
  assumes "\<And>x h. x \<in> set xs \<Longrightarrow> I h \<Longrightarrow>
      wp G (\<lambda>h' r. case r of Inl e \<Rightarrow> Q h' (Inl e) | Inr _ \<Rightarrow> I h') h (f x)"
    and "\<And>h. I h \<Longrightarrow> Q h (Inr ())" and "I h"
  shows "wp G Q h (for_each f xs)"
  using assms(1,3)
proof (induction xs arbitrary: h)
  case Nil
  then show ?case by (simp add: assms(2))
next
  case (Cons x xs)
  show ?case unfolding for_each.simps wp_bind
    by (rule wp_mono [OF Cons.prems(1) [OF _ Cons.prems(2)]])
       (auto split: sum.splits intro!: Cons.IH Cons.prems(1))
qed

lemma wp_fold_prog:
  assumes "\<And>x s h. x \<in> set xs \<Longrightarrow> I h s \<Longrightarrow>
      wp G (\<lambda>h' r. case r of Inl e \<Rightarrow> Q h' (Inl e) | Inr s' \<Rightarrow> I h' s') h (f x s)"
    and "\<And>h s. I h s \<Longrightarrow> Q h (Inr s)" and "I h s"
  shows "wp G Q h (fold_prog f xs s)"
  using assms(1,3)
proof (induction xs arbitrary: h s)
  case Nil
  then show ?case by (simp add: assms(2))
next
  case (Cons x xs)
  show ?case unfolding fold_prog.simps wp_bind
    by (rule wp_mono [OF Cons.prems(1) [OF _ Cons.prems(2)]])
       (auto split: sum.splits intro!: Cons.IH Cons.prems(1))
qed

text \<open>A loop whose steps act on the abstraction of the state as a pure function does.\<close>

lemma wp_fold_abs:
  assumes "\<And>x s h. x \<in> set xs \<Longrightarrow>
      wp (\<lambda>_ _. True) (\<lambda>h' r. case r of Inl e \<Rightarrow> True | Inr s' \<Rightarrow> view s' = g x (view s)) h (f x s)"
  shows "wp (\<lambda>_ _. True) (\<lambda>h' r. case r of Inl e \<Rightarrow> True | Inr s' \<Rightarrow> view s' = fold g xs (view s)) h (fold_prog f xs s)"
  using assms
proof (induction xs arbitrary: h s)
  case (Cons x xs)
  show ?case unfolding fold_prog.simps wp_bind
    by (rule wp_mono [OF Cons.prems])
       (auto split: sum.splits intro!: wp_mono [OF Cons.IH] Cons.prems)
qed simp

lemma wp_update [simp]:
  "wp G Q h (update_instance_status n) = (G h (UpdateStatus (OInstance n)) \<and>
     (\<forall>x. Q (h @ [(UpdateStatus (OInstance n), x)])
        (case x of RError e \<Rightarrow> Inl e | RVersion v \<Rightarrow> Inr (n\<lparr>in_meta := (in_meta n)\<lparr>om_version := v\<rparr>\<rparr>) | _ \<Rightarrow> Inl BadResponse)))"
  "wp G Q' h (update_operation_status p) = (G h (UpdateStatus (OOperation p)) \<and>
     (\<forall>x. Q' (h @ [(UpdateStatus (OOperation p), x)])
        (case x of RError e \<Rightarrow> Inl e | RVersion v \<Rightarrow> Inr (p\<lparr>op_meta := (op_meta p)\<lparr>om_version := v\<rparr>\<rparr>) | _ \<Rightarrow> Inl BadResponse)))"
  "wp G Q h (update_instance n) = (G h (UpdateObj (OInstance n)) \<and>
     (\<forall>x. Q (h @ [(UpdateObj (OInstance n), x)])
        (case x of RError e \<Rightarrow> Inl e | RVersion v \<Rightarrow> Inr (n\<lparr>in_meta := (in_meta n)\<lparr>om_version := v\<rparr>\<rparr>) | _ \<Rightarrow> Inl BadResponse)))"
  "wp G Q' h (update_operation p) = (G h (UpdateObj (OOperation p)) \<and>
     (\<forall>x. Q' (h @ [(UpdateObj (OOperation p), x)])
        (case x of RError e \<Rightarrow> Inl e | RVersion v \<Rightarrow> Inr (p\<lparr>op_meta := (op_meta p)\<lparr>om_version := v\<rparr>\<rparr>) | _ \<Rightarrow> Inl BadResponse)))"
  by (auto simp: update_defs wp_bind wp_call split: response.splits sum.splits)

lemma any_update_status:
  "G h (UpdateStatus (OInstance n)) \<Longrightarrow> wp G (\<lambda>_ _. True) h (update_instance_status n)"
  "G h (UpdateStatus (OOperation p)) \<Longrightarrow> wp G (\<lambda>_ _. True) h (update_operation_status p)"
  "G h (UpdateObj (OOperation p)) \<Longrightarrow> wp G (\<lambda>_ _. True) h (update_operation p)"
  "G h (UpdateObj (OInstance n)) \<Longrightarrow> wp G (\<lambda>_ _. True) h (update_instance n)"
  by simp_all

text \<open>What a successful call has seen.\<close>

lemma response_Inr [simp]:
  "(case x of RError e \<Rightarrow> Inl e | y \<Rightarrow> d y) = Inr a \<longleftrightarrow> (\<forall>e. x \<noteq> RError e) \<and> d x = Inr a"
  by (cases x) auto

lemma as_object_Inr [simp]: "as_object x = Inr u \<longleftrightarrow> (\<exists>y. x = RObject y)"
  by (cases x rule: as_object.cases) auto

lemma as_instance_Inr [simp]: "as_instance x = Inr i \<longleftrightarrow> x = RObject (OInstance i)"
  by (cases x rule: as_instance.cases) auto

lemma as_operation_Inr [simp]: "as_operation x = Inr p \<longleftrightarrow> x = RObject (OOperation p)"
  by (cases x rule: as_operation.cases) auto

lemma as_operations_Inr [simp]: "as_operations x = Inr ps \<longleftrightarrow> x = ROperations ps"
  by (cases x rule: as_operations.cases) auto

lemma as_job_Inr [simp]: "as_job x = Inr j \<longleftrightarrow> x = RObject (OJob j)"
  by (cases x rule: as_job.cases) auto

lemma as_deployment_Inr [simp]: "as_deployment x = Inr de \<longleftrightarrow> x = RObject (ODeployment de)"
  by (cases x rule: as_deployment.cases) auto

lemma as_unstructured_Inr [simp]: "as_unstructured x = Inr un \<longleftrightarrow> (\<exists>k. x = RObject (OUnstructured k un))"
  by (cases x rule: as_unstructured.cases) auto

lemma as_time_Inr [simp]: "as_time x = Inr t \<longleftrightarrow> x = RTime t"
  by (cases x rule: as_time.cases) auto

lemma as_version_Inr [simp]: "as_version x = Inr v \<longleftrightarrow> x = RVersion v"
  by (cases x rule: as_version.cases) auto

lemma response_Inl [simp]:
  "(case x of RError e \<Rightarrow> Inl e | y \<Rightarrow> d y) = Inl e \<longleftrightarrow> x = RError e \<or> ((\<forall>e. x \<noteq> RError e) \<and> d x = Inl e)"
  by (cases x) auto

text \<open>An answer of the wrong type is none of the errors that the sources look for.\<close>

lemma as_object_Inl: "as_object x = Inl e \<Longrightarrow> e = BadResponse"
  by (cases x rule: as_object.cases) auto

lemma as_instance_Inl: "as_instance x = Inl e \<Longrightarrow> e = BadResponse"
  by (cases x rule: as_instance.cases) auto

lemma as_operation_Inl: "as_operation x = Inl e \<Longrightarrow> e = BadResponse"
  by (cases x rule: as_operation.cases) auto

lemma as_operations_Inl: "as_operations x = Inl e \<Longrightarrow> e = BadResponse"
  by (cases x rule: as_operations.cases) auto

lemma as_instances_Inl: "as_instances x = Inl e \<Longrightarrow> e = BadResponse"
  by (cases x rule: as_instances.cases) auto

lemma as_job_Inl: "as_job x = Inl e \<Longrightarrow> e = BadResponse"
  by (cases x rule: as_job.cases) auto

lemma as_deployment_Inl: "as_deployment x = Inl e \<Longrightarrow> e = BadResponse"
  by (cases x rule: as_deployment.cases) auto

lemma as_config_map_Inl: "as_config_map x = Inl e \<Longrightarrow> e = BadResponse"
  by (cases x rule: as_config_map.cases) auto

lemma as_role_Inl: "as_role x = Inl e \<Longrightarrow> e = BadResponse"
  by (cases x rule: as_role.cases) auto

lemma as_role_binding_Inl: "as_role_binding x = Inl e \<Longrightarrow> e = BadResponse"
  by (cases x rule: as_role_binding.cases) auto

lemma as_unstructured_Inl: "as_unstructured x = Inl e \<Longrightarrow> e = BadResponse"
  by (cases x rule: as_unstructured.cases) auto

lemma as_time_Inl: "as_time x = Inl e \<Longrightarrow> e = BadResponse"
  by (cases x rule: as_time.cases) auto

lemma as_version_Inl: "as_version x = Inl e \<Longrightarrow> e = BadResponse"
  by (cases x rule: as_version.cases) auto

lemma as_ok_Inl: "as_ok x = Inl e \<Longrightarrow> e = BadResponse"
  by (cases x rule: as_ok.cases) auto

lemmas bad_response = as_object_Inl as_instance_Inl as_operation_Inl as_operations_Inl as_instances_Inl as_job_Inl as_deployment_Inl
  as_config_map_Inl as_role_Inl as_role_binding_Inl as_unstructured_Inl as_time_Inl as_version_Inl as_ok_Inl

lemmas wp_simps = wp_bind wp_attempt wp_lift wp_call wp_wrap_error wp_ignore_not_found

lemma any_now:
  "G h Now \<Longrightarrow> (\<And>t. wp G (\<lambda>_ _. True) (h @ [(Now, RTime t)]) (f t)) \<Longrightarrow> wp G (\<lambda>_ _. True) h (bind now f)"
  by (auto simp: wp_bind wp_call split: sum.splits)

section \<open>Adequacy\<close>

text \<open>
  What \<open>wp\<close> establishes holds of every run: the guard for each answered request with the events
  before it, the guard for the request a crashed run waits for, the postcondition of a run that ends.
\<close>

lemma wp_play_aux:
  assumes "wp G Q h p" and "play p xs = (t, out)"
  shows "(\<forall>t1 q x t2. t = t1 @ (q, x) # t2 \<longrightarrow> G (h @ t1) q) \<and>
         (\<forall>r. out = Done r \<longrightarrow> Q (h @ t) r) \<and> (\<forall>q. out = Waiting q \<longrightarrow> G (h @ t) q)"
  using assms
proof (induction p arbitrary: h xs t out)
  case (Ret a)
  then show ?case by auto
next
  case (Fail e)
  then show ?case by auto
next
  case (Call q k)
  show ?case
  proof (cases xs)
    case Nil
    with Call.prems show ?thesis by auto
  next
    case (Cons x ys)
    obtain t' out' where p: "play (k x) ys = (t', out')" by fastforce
    with Cons Call.prems(2) have t: "t = (q, x) # t'" "out = out'" by auto
    from Call.prems(1) have "wp G Q (h @ [(q, x)]) (k x)" and g: "G h q" by auto
    from Call.IH [OF rangeI this(1) p] g t show ?thesis
      by (fastforce simp: Cons_eq_append_conv)
  qed
qed

lemma wp_play_result: "wp G Q [] p \<Longrightarrow> play p xs = (t, Done r) \<Longrightarrow> Q t r"
  using wp_play_aux [of G Q "[]" p xs t "Done r"] by simp

lemma wp_play_guard: "wp G Q [] p \<Longrightarrow> play p xs = (t1 @ (q, x) # t2, out) \<Longrightarrow> G t1 q"
  using wp_play_aux [of G Q "[]" p xs "t1 @ (q, x) # t2" out] by simp

lemma wp_play_waiting: "wp G Q [] p \<Longrightarrow> play p xs = (t, Waiting q) \<Longrightarrow> G t q"
  using wp_play_aux [of G Q "[]" p xs t "Waiting q"] by simp

text \<open>A guard that does not look at the history holds of every issued request.\<close>

lemma wp_issued:
  assumes "wp (\<lambda>_ q. G q) Q [] p" and "q \<in> set (issued (play p xs))"
  shows "G q"
proof -
  obtain t out where p: "play p xs = (t, out)" by fastforce
  note * = wp_play_aux [OF assms(1) p]
  from assms(2) p have "q \<in> fst ` set t \<or> out = Waiting q"
    by (auto simp: issued_def split: outcome.splits)
  then show ?thesis
  proof
    assume "q \<in> fst ` set t"
    then obtain x where "(q, x) \<in> set t" by force
    then obtain t1 t2 where "t = t1 @ (q, x) # t2" by (meson split_list)
    then show ?thesis using * by blast
  next
    assume "out = Waiting q"
    then show ?thesis using * by blast
  qed
qed

end
