(* ===== verification/Library.thy ===== *)
theory Library
  imports Client
begin

text \<open>
  The pure functions of third-party packages that the controllers call are the fields of one record
  that the definitions take as an argument. A locale states, for those that a property relies on,
  what their documentation promises; each is interpreted on an implementation that follows the
  documented algorithm, and the witnesses run on that implementation.
\<close>

record lib =
  \<comment> \<open>\<open>k8s.io/apimachinery/pkg/api/meta\<close>: conditions\<close>
  set_condition :: "condition \<Rightarrow> condition list \<Rightarrow> condition list"
  remove_condition :: "string \<Rightarrow> condition list \<Rightarrow> condition list"
  condition_is :: "condition list \<Rightarrow> string \<Rightarrow> string \<Rightarrow> bool"
  \<comment> \<open>\<open>controllerutil\<close>: finalizers and controller references (owner kind, owner, object)\<close>
  contains_finalizer :: "object_meta \<Rightarrow> string \<Rightarrow> bool"
  add_finalizer :: "object_meta \<Rightarrow> string \<Rightarrow> object_meta"
  remove_finalizer :: "object_meta \<Rightarrow> string \<Rightarrow> object_meta"
  set_controller_reference :: "string \<Rightarrow> object_meta \<Rightarrow> object_meta \<Rightarrow> error + object_meta"
  is_controlled_by :: "object_meta \<Rightarrow> object_meta \<Rightarrow> bool"
  \<comment> \<open>\<open>strategicpatch.StrategicMergePatch\<close> on the JSON of pod specs and of containers, base first\<close>
  merge_pod :: "pod_spec \<Rightarrow> pod_spec \<Rightarrow> error + json"
  merge_container :: "container \<Rightarrow> container \<Rightarrow> error + json"
  \<comment> \<open>the JSON decoding of a new \<open>corev1.PodSpec\<close>, and into an existing \<open>corev1.Container\<close> as far as
    it gets\<close>
  decode_pod :: "json \<Rightarrow> error + pod_spec"
  decode_container :: "container \<Rightarrow> json \<Rightarrow> container"
  \<comment> \<open>the parser of JSON texts that the typed decoders below start from\<close>
  parse_json :: "string \<Rightarrow> error + json"
  \<comment> \<open>\<open>robfig/cron\<close>: \<open>ParseStandard\<close>, giving the schedule's \<open>Next\<close>\<close>
  parse_schedule :: "string \<Rightarrow> error + (time \<Rightarrow> time)"
  \<comment> \<open>\<open>resource.ParseQuantity\<close>, giving the canonical text\<close>
  parse_quantity :: "string \<Rightarrow> string option"
  \<comment> \<open>\<open>unstructured\<close>: nested fields\<close>
  nested_slice :: "json \<Rightarrow> string list \<Rightarrow> error + json list option"
  nested_bool :: "json \<Rightarrow> string list \<Rightarrow> error + bool option"
  nested_string :: "json \<Rightarrow> string list \<Rightarrow> error + string option"
  nested_string_map :: "json \<Rightarrow> string list \<Rightarrow> error + strmap option"
  set_nested :: "json \<Rightarrow> string list \<Rightarrow> json \<Rightarrow> error + json"
  remove_nested :: "json \<Rightarrow> string list \<Rightarrow> json"
  \<comment> \<open>\<open>retry.DefaultBackoff\<close>: attempts after the first\<close>
  retries :: nat

section \<open>Status conditions\<close>

definition condition_of :: "condition list \<Rightarrow> string \<Rightarrow> condition option" where
  "condition_of cs t = find (\<lambda>c. c_type c = t) cs"

definition condition_status :: "condition list \<Rightarrow> string \<Rightarrow> string option" where
  "condition_status cs t = map_option c_status (condition_of cs t)"

text \<open>
  \<open>SetStatusCondition\<close> makes the condition of the given type carry the new status, reason, message
  and generation and leaves the other types alone; \<open>RemoveStatusCondition\<close> removes the type.
\<close>

locale condition_list =
  fixes set_cond :: "condition \<Rightarrow> condition list \<Rightarrow> condition list"
    and remove_cond :: "string \<Rightarrow> condition list \<Rightarrow> condition list"
    and cond_is :: "condition list \<Rightarrow> string \<Rightarrow> string \<Rightarrow> bool"
  assumes set_same: "condition_status (set_cond c cs) (c_type c) = Some (c_status c)"
    and set_other: "t \<noteq> c_type c \<Longrightarrow> condition_of (set_cond c cs) t = condition_of cs t"
    and remove_same: "condition_of (remove_cond t cs) t = None"
    and remove_other: "t' \<noteq> t \<Longrightarrow> condition_of (remove_cond t cs) t' = condition_of cs t'"
    and cond_is_iff: "cond_is cs t s \<longleftrightarrow> condition_status cs t = Some s"
begin

lemma status_set: "condition_status (set_cond c cs) t =
    (if t = c_type c then Some (c_status c) else condition_status cs t)"
  by (auto simp: set_same) (simp add: condition_status_def set_other)

lemma status_remove: "condition_status (remove_cond t cs) t' =
    (if t' = t then None else condition_status cs t')"
  by (simp add: condition_status_def remove_same remove_other)

lemma is_set: "cond_is (set_cond c cs) t s \<longleftrightarrow> (if t = c_type c then s = c_status c else cond_is cs t s)"
  by (auto simp: cond_is_iff status_set)

lemma is_remove: "cond_is (remove_cond t cs) t' s \<longleftrightarrow> t' \<noteq> t \<and> cond_is cs t' s"
  by (auto simp: cond_is_iff status_remove)

end

text \<open>The documented algorithms.\<close>

fun set_status_condition :: "condition \<Rightarrow> condition list \<Rightarrow> condition list" where
  "set_status_condition c [] = [c]"
| "set_status_condition c (d # ds) =
     (if c_type d = c_type c
      then (if c_status d = c_status c then c\<lparr>c_transition := c_transition d\<rparr> else c) # ds
      else d # set_status_condition c ds)"

definition remove_status_condition :: "string \<Rightarrow> condition list \<Rightarrow> condition list" where
  "remove_status_condition t cs = filter (\<lambda>c. c_type c \<noteq> t) cs"

definition condition_present_and_equal :: "condition list \<Rightarrow> string \<Rightarrow> string \<Rightarrow> bool" where
  "condition_present_and_equal cs t s = (condition_status cs t = Some s)"

interpretation conds: condition_list set_status_condition remove_status_condition condition_present_and_equal
proof
  fix c :: condition and cs t
  show "condition_status (set_status_condition c cs) (c_type c) = Some (c_status c)"
    by (induction cs) (auto simp: condition_status_def condition_of_def)
  show "t \<noteq> c_type c \<Longrightarrow> condition_of (set_status_condition c cs) t = condition_of cs t"
    by (induction cs) (auto simp: condition_of_def)
  show "condition_of (remove_status_condition t cs) t = None"
    by (induction cs) (auto simp: condition_of_def remove_status_condition_def)
  fix t' s
  show "t' \<noteq> t \<Longrightarrow> condition_of (remove_status_condition t cs) t' = condition_of cs t'"
    by (induction cs) (auto simp: condition_of_def remove_status_condition_def)
  show "condition_present_and_equal cs t s \<longleftrightarrow> condition_status cs t = Some s"
    by (simp add: condition_present_and_equal_def)
qed

section \<open>Finalizers\<close>

locale finalizer_set =
  fixes contains :: "object_meta \<Rightarrow> string \<Rightarrow> bool"
    and add :: "object_meta \<Rightarrow> string \<Rightarrow> object_meta"
    and remove :: "object_meta \<Rightarrow> string \<Rightarrow> object_meta"
  assumes contains_add: "contains (add m f) g \<longleftrightarrow> g = f \<or> contains m g"
    and contains_remove: "contains (remove m f) g \<longleftrightarrow> g \<noteq> f \<and> contains m g"
    and frame_add: "(add m f)\<lparr>om_finalizers := []\<rparr> = m\<lparr>om_finalizers := []\<rparr>"
    and frame_remove: "(remove m f)\<lparr>om_finalizers := []\<rparr> = m\<lparr>om_finalizers := []\<rparr>"
begin

lemma add_fields [simp]:
  "om_name (add m f) = om_name m" "om_namespace (add m f) = om_namespace m"
  "om_deletion (add m f) = om_deletion m" "om_annotations (add m f) = om_annotations m"
  using arg_cong [OF frame_add [of m f], of om_name] arg_cong [OF frame_add [of m f], of om_namespace]
    arg_cong [OF frame_add [of m f], of om_deletion] arg_cong [OF frame_add [of m f], of om_annotations]
  by simp_all

end

definition contains_fin :: "object_meta \<Rightarrow> string \<Rightarrow> bool" where
  "contains_fin m f = List.member (om_finalizers m) f"

definition add_fin :: "object_meta \<Rightarrow> string \<Rightarrow> object_meta" where
  "add_fin m f = (if contains_fin m f then m else m\<lparr>om_finalizers := om_finalizers m @ [f]\<rparr>)"

definition remove_fin :: "object_meta \<Rightarrow> string \<Rightarrow> object_meta" where
  "remove_fin m f = m\<lparr>om_finalizers := filter (\<lambda>g. g \<noteq> f) (om_finalizers m)\<rparr>"

interpretation fins: finalizer_set contains_fin add_fin remove_fin
  by unfold_locales (auto simp: contains_fin_def add_fin_def remove_fin_def)

section \<open>Nested fields of untyped objects\<close>

text \<open>\<open>NestedFieldNoCopy\<close>: absent is not an error, a step through a non-map is one.\<close>

fun nested_field :: "json \<Rightarrow> string list \<Rightarrow> error + json option" where
  "nested_field j [] = Inr (Some j)"
| "nested_field (JObject m) (f # fs) =
     (case map_of m f of None \<Rightarrow> Inr None | Some j \<Rightarrow> nested_field j fs)"
| "nested_field JNull (f # fs) = Inr None"
| "nested_field j (f # fs) = Inl (Errorf (''accessor error: '' @ f))"

definition nested_as :: "(json \<Rightarrow> 'a option) \<Rightarrow> json \<Rightarrow> string list \<Rightarrow> error + 'a option" where
  "nested_as d j fs =
     (case nested_field j fs of
        Inl e \<Rightarrow> Inl e
      | Inr None \<Rightarrow> Inr None
      | Inr (Some v) \<Rightarrow>
          (case d v of None \<Rightarrow> Inl (Errorf ''accessor error: wrong type'') | Some x \<Rightarrow> Inr (Some x)))"

fun json_array :: "json \<Rightarrow> json list option" where
  "json_array (JArray xs) = Some xs" | "json_array _ = None"
fun json_bool :: "json \<Rightarrow> bool option" where
  "json_bool (JBool b) = Some b" | "json_bool _ = None"
fun json_string :: "json \<Rightarrow> string option" where
  "json_string (JString s) = Some s" | "json_string _ = None"
fun json_strings :: "(string \<times> json) list \<Rightarrow> strmap option" where
  "json_strings [] = Some []"
| "json_strings ((k, JString s) # m) = map_option ((#) (k, s)) (json_strings m)"
| "json_strings _ = None"
fun json_string_map :: "json \<Rightarrow> strmap option" where
  "json_string_map (JObject m) = json_strings m" | "json_string_map _ = None"

text \<open>\<open>SetNestedField\<close>: maps are created on the way; a step through a non-map is an error.\<close>

fun set_nested_field :: "json \<Rightarrow> string list \<Rightarrow> json \<Rightarrow> error + json" where
  "set_nested_field j [] v = Inr v"
| "set_nested_field (JObject m) (f # fs) v =
     (case set_nested_field (case map_of m f of None \<Rightarrow> JObject [] | Some j \<Rightarrow> j) fs v of
        Inl e \<Rightarrow> Inl e
      | Inr j \<Rightarrow> Inr (JObject (AList.update f j m)))"
| "set_nested_field j (f # fs) v = Inl (Errorf (''value cannot be set: '' @ f))"

fun remove_nested_field :: "json \<Rightarrow> string list \<Rightarrow> json" where
  "remove_nested_field (JObject m) [f] = JObject (AList.delete f m)"
| "remove_nested_field (JObject m) (f # fs) =
     (case map_of m f of None \<Rightarrow> JObject m | Some j \<Rightarrow> JObject (AList.update f (remove_nested_field j fs) m))"
| "remove_nested_field j _ = j"

text \<open>
  What the sources rely on: a field set is read back, and fields off its path are not disturbed.
\<close>

definition diverge :: "string list \<Rightarrow> string list \<Rightarrow> bool" where
  "diverge p q = (\<not> prefix p q \<and> \<not> prefix q p)"

locale nested_fields =
  fixes slice :: "json \<Rightarrow> string list \<Rightarrow> error + json list option"
    and bool_of :: "json \<Rightarrow> string list \<Rightarrow> error + bool option"
    and str :: "json \<Rightarrow> string list \<Rightarrow> error + string option"
    and strs :: "json \<Rightarrow> string list \<Rightarrow> error + strmap option"
    and set_field :: "json \<Rightarrow> string list \<Rightarrow> json \<Rightarrow> error + json"
  assumes slice_set: "set_field j p (JArray xs) = Inr j' \<Longrightarrow> slice j' p = Inr (Some xs)"
    and slice_set_other: "set_field j p v = Inr j' \<Longrightarrow> diverge p q \<Longrightarrow> slice j' q = slice j q"
    and str_set: "set_field j p (JString s) = Inr j' \<Longrightarrow> str j' p = Inr (Some s)"
    and str_set_other: "set_field j p v = Inr j' \<Longrightarrow> diverge p q \<Longrightarrow> str j' q = str j q"
    and strs_set: "set_field j p (JObject (map (\<lambda>(k, v). (k, JString v)) m)) = Inr j' \<Longrightarrow> strs j' p = Inr (Some m)"
    and strs_set_other: "set_field j p v = Inr j' \<Longrightarrow> diverge p q \<Longrightarrow> strs j' q = strs j q"

lemma nested_field_set: "set_nested_field j p v = Inr j' \<Longrightarrow> nested_field j' p = Inr (Some v)"
  by (induction j p v arbitrary: j' rule: set_nested_field.induct)
     (auto split: sum.splits option.splits simp: update_conv')

lemma diverge_Cons [simp]: "diverge (a # p) (b # q) \<longleftrightarrow> a \<noteq> b \<or> diverge p q"
  by (auto simp: diverge_def)

lemma diverge_Nil [simp]: "\<not> diverge [] q" "\<not> diverge p []"
  by (auto simp: diverge_def)

lemma nested_field_empty_object: "q \<noteq> [] \<Longrightarrow> nested_field (JObject []) q = Inr None"
  by (cases q) auto

lemma nested_field_set_other:
  "set_nested_field j p v = Inr j' \<Longrightarrow> diverge p q \<Longrightarrow> nested_field j' q = nested_field j q"
proof (induction j p v arbitrary: j' q rule: set_nested_field.induct)
  case (1 j v)
  then show ?case by simp
next
  case (2 m f fs v)
  obtain g gs where q: "q = g # gs" using 2(3) by (cases q) auto
  obtain j1 where j1: "set_nested_field (case map_of m f of None \<Rightarrow> JObject [] | Some j \<Rightarrow> j) fs v = Inr j1"
    and j': "j' = JObject (AList.update f j1 m)"
    using 2(2) by (auto split: sum.splits)
  show ?case
  proof (cases "g = f")
    case True
    with 2(3) q have d: "diverge fs gs" by simp
    from 2(1) [OF j1 d] d have "nested_field j1 gs = (case map_of m f of None \<Rightarrow> Inr None | Some j \<Rightarrow> nested_field j gs)"
      by (cases gs) (auto split: option.splits)
    with True q j' show ?thesis by (simp add: update_conv')
  next
    case False
    with q j' show ?thesis by (simp add: update_conv')
  qed
qed auto

lemma json_strings_map: "json_strings (map (\<lambda>(k, v). (k, JString v)) m) = Some m"
  by (induction m) auto

interpretation fields: nested_fields "nested_as json_array" "nested_as json_bool" "nested_as json_string"
    "nested_as json_string_map" set_nested_field
  by unfold_locales
     (simp_all add: nested_as_def nested_field_set nested_field_set_other json_strings_map)

section \<open>Cron schedules\<close>

text \<open>
  \<open>Schedule.Next\<close> returns the next activation after the given instant, or the zero time when there is
  none (robfig/cron looks five years ahead).
\<close>

locale cron_schedule =
  fixes nxt :: "time \<Rightarrow> time"
  assumes later: "nxt t = zero_time \<or> t < nxt t"
    and none_between: "t \<le> u \<Longrightarrow> nxt t \<noteq> zero_time \<Longrightarrow> u < nxt t \<Longrightarrow> nxt u = nxt t"
begin

text \<open>A fire is an instant that \<open>Next\<close> returns.\<close>

lemma mono: "t \<le> u \<Longrightarrow> nxt u \<noteq> zero_time \<Longrightarrow> nxt t \<noteq> zero_time \<Longrightarrow> nxt t \<le> nxt u"
  using none_between later by (metis less_le_trans linorder_not_less order.strict_implies_order)

end

text \<open>A schedule that fires every \<open>p\<close> nanoseconds.\<close>

definition every :: "int \<Rightarrow> time \<Rightarrow> time" where
  "every p t = (t div p + 1) * p"

lemma every_later: "0 < p \<Longrightarrow> t < every p t"
proof -
  assume "0 < p"
  then have "t mod p < p" by simp
  moreover have "t = t div p * p + t mod p" by simp
  ultimately show ?thesis unfolding every_def distrib_right by linarith
qed

lemma every_none_between: "0 < p \<Longrightarrow> t \<le> u \<Longrightarrow> u < every p t \<Longrightarrow> every p u = every p t"
proof -
  assume p: "0 < p" and tu: "t \<le> u" and u: "u < every p t"
  have "t div p \<le> u div p" using tu p by (simp add: zdiv_mono1)
  moreover have "u div p < t div p + 1"
  proof (rule ccontr)
    assume "\<not> u div p < t div p + 1"
    then have "(t div p + 1) * p \<le> u div p * p" using p by (intro mult_right_mono) auto
    moreover have "u = u div p * p + u mod p" "0 \<le> u mod p" using p by simp_all
    ultimately show False using u unfolding every_def by linarith
  qed
  ultimately show ?thesis by (simp add: every_def)
qed

interpretation every_second: cron_schedule "every second"
  by unfold_locales (simp_all add: every_later every_none_between second_def)

section \<open>Controller references\<close>

definition controller_of :: "object_meta \<Rightarrow> owner_ref option" where
  "controller_of m = find (\<lambda>r. ow_controller r = Some True) (om_owners m)"

definition controlled_by :: "object_meta \<Rightarrow> object_meta \<Rightarrow> bool" where
  "controlled_by m owner = (case controller_of m of None \<Rightarrow> False | Some r \<Rightarrow> ow_uid r = om_uid owner)"

definition controller_reference :: "string \<Rightarrow> object_meta \<Rightarrow> owner_ref" where
  "controller_reference k owner = \<lparr>ow_api_version = GroupVersion, ow_kind = k, ow_name = om_name owner,
     ow_uid = om_uid owner, ow_controller = Some True\<rparr>"

definition set_controller :: "string \<Rightarrow> object_meta \<Rightarrow> object_meta \<Rightarrow> error + object_meta" where
  "set_controller k owner m =
     (let same = (\<lambda>r. ow_kind r = k \<and> ow_name r = om_name owner) in
      if om_namespace owner \<noteq> om_namespace m then Inl (Errorf ''cross-namespace owner references are disallowed'')
      else if list_ex (\<lambda>r. ow_controller r = Some True \<and> \<not> same r) (om_owners m)
      then Inl (Errorf ''already owned by another controller'')
      else Inr (m\<lparr>om_owners := filter (\<lambda>r. \<not> same r) (om_owners m) @ [controller_reference k owner]\<rparr>))"

text \<open>
  \<open>SetControllerReference\<close> writes the owner references and nothing else; an object that carries the
  reference is controlled by the owner. \<open>IsControlledBy\<close> compares the UID in the owner references with the owner's.
\<close>

locale controller_references =
  fixes set_ref :: "string \<Rightarrow> object_meta \<Rightarrow> object_meta \<Rightarrow> error + object_meta"
    and is_controlled :: "object_meta \<Rightarrow> object_meta \<Rightarrow> bool"
  assumes set_ref_frame: "set_ref k owner m = Inr m' \<Longrightarrow> m'\<lparr>om_owners := []\<rparr> = m\<lparr>om_owners := []\<rparr>"
    and set_ref_controlled: "set_ref k owner m = Inr m' \<Longrightarrow> is_controlled m' owner"
    and controlled_cong: "om_owners m = om_owners m' \<Longrightarrow> om_uid owner = om_uid owner' \<Longrightarrow> is_controlled m owner = is_controlled m' owner'"
begin

lemma set_ref_name: "set_ref k owner m = Inr m' \<Longrightarrow> om_name m' = om_name m"
  "set_ref k owner m = Inr m' \<Longrightarrow> om_namespace m' = om_namespace m"
  using arg_cong [OF set_ref_frame, of k owner m m' om_name] arg_cong [OF set_ref_frame, of k owner m m' om_namespace]
  by simp_all

end

lemma controller_of_append:
  "(\<And>r. r \<in> set rs \<Longrightarrow> ow_controller r \<noteq> Some True) \<Longrightarrow> ow_controller x = Some True \<Longrightarrow>
   find (\<lambda>r. ow_controller r = Some True) (rs @ [x]) = Some x"
  by (induction rs) auto

interpretation refs: controller_references set_controller controlled_by
proof
  fix k owner m m'
  assume a: "set_controller k owner m = Inr m'"
  then show "m'\<lparr>om_owners := []\<rparr> = m\<lparr>om_owners := []\<rparr>"
    by (auto simp: set_controller_def Let_def split: if_splits)
  show "controlled_by m' owner"
  proof -
    let ?rs = "filter (\<lambda>r. \<not> (ow_kind r = k \<and> ow_name r = om_name owner)) (om_owners m)"
    have owners: "om_owners m' = ?rs @ [controller_reference k owner]"
      and no: "\<And>r. r \<in> set ?rs \<Longrightarrow> ow_controller r \<noteq> Some True"
      using a by (auto simp: set_controller_def Let_def list_ex_iff split: if_splits)
    have "controller_of m' = Some (controller_reference k owner)"
      unfolding controller_of_def owners
      by (rule controller_of_append [OF no]) (simp_all add: controller_reference_def)
    then show ?thesis by (simp add: controlled_by_def controller_reference_def)
  qed
next
  show "controlled_by m owner = controlled_by m' owner'"
    if "om_owners m = om_owners m'" "om_uid owner = om_uid owner'" for m m' owner owner'
    using that by (simp add: controlled_by_def controller_of_def split: option.splits)
qed

section \<open>The libraries the properties are about\<close>

abbreviation lib_conditions :: "lib \<Rightarrow> bool" where
  "lib_conditions L \<equiv> condition_list (set_condition L) (remove_condition L) (condition_is L)"
abbreviation lib_finalizers :: "lib \<Rightarrow> bool" where
  "lib_finalizers L \<equiv> finalizer_set (contains_finalizer L) (add_finalizer L) (remove_finalizer L)"
abbreviation lib_fields :: "lib \<Rightarrow> bool" where
  "lib_fields L \<equiv> nested_fields (nested_slice L) (nested_string L) (nested_string_map L) (set_nested L)"

abbreviation lib_owners :: "lib \<Rightarrow> bool" where
  "lib_owners L \<equiv> controller_references (set_controller_reference L) (is_controlled_by L)"

section \<open>A library to evaluate on\<close>

text \<open>
  The reference implementations above as one record. The merges and decoders of pod specs are left
  trivial and the schedule fires every second: a witness replaces the field it is about.
\<close>

definition sample_lib :: lib where
  "sample_lib =
     \<lparr>set_condition = set_status_condition,
      remove_condition = remove_status_condition,
      condition_is = condition_present_and_equal,
      contains_finalizer = contains_fin,
      add_finalizer = add_fin,
      remove_finalizer = remove_fin,
      set_controller_reference = set_controller,
      is_controlled_by = controlled_by,
      merge_pod = (\<lambda>b p. Inr JNull),
      merge_container = (\<lambda>b c. Inr JNull),
      decode_pod = (\<lambda>j. Inr empty_pod),
      decode_container = (\<lambda>c j. c),
      parse_json = (\<lambda>s. Inr JNull),
      parse_schedule = (\<lambda>s. Inr (every second)),
      parse_quantity = Some,
      nested_slice = nested_as json_array,
      nested_bool = nested_as json_bool,
      nested_string = nested_as json_string,
      nested_string_map = nested_as json_string_map,
      set_nested = set_nested_field,
      remove_nested = remove_nested_field,
      retries = 4\<rparr>"

lemma sample_lib_simps [simp]:
  "set_condition sample_lib = set_status_condition"
  "remove_condition sample_lib = remove_status_condition"
  "condition_is sample_lib = condition_present_and_equal"
  "contains_finalizer sample_lib = contains_fin"
  "add_finalizer sample_lib = add_fin"
  "remove_finalizer sample_lib = remove_fin"
  "set_controller_reference sample_lib = set_controller"
  "is_controlled_by sample_lib = controlled_by"
  "merge_pod sample_lib b p = Inr JNull"
  "merge_container sample_lib c d = Inr JNull"
  "decode_pod sample_lib j = Inr empty_pod"
  "decode_container sample_lib c j = c"
  "parse_json sample_lib s = Inr JNull"
  "parse_schedule sample_lib s = Inr (every second)"
  "parse_quantity sample_lib s = Some s"
  "nested_slice sample_lib = nested_as json_array"
  "nested_bool sample_lib = nested_as json_bool"
  "nested_string sample_lib = nested_as json_string"
  "nested_string_map sample_lib = nested_as json_string_map"
  "set_nested sample_lib = set_nested_field"
  "remove_nested sample_lib = remove_nested_field"
  "retries sample_lib = 4"
  by (simp_all add: sample_lib_def)

lemmas reference_axioms [simp] = conds.condition_list_axioms fins.finalizer_set_axioms fields.nested_fields_axioms
  refs.controller_references_axioms

lemma sample_lib_ok: "lib_conditions sample_lib" "lib_finalizers sample_lib" "lib_fields sample_lib"
  "lib_owners sample_lib"
  by simp_all

end
