(* ===== verification/OpPolicy.thy ===== *)
theory OpPolicy
  imports Library
begin

text \<open>
  The pure policies of \<open>internal/controller/nominatimoperation_resources.go\<close>: which operation types
  are write-heavy, which phases are active, what a Job's pod counts mean for the phase, which
  regions, staging volume and image an Operation uses; and \<open>operationImpactMatches\<close> of
  \<open>nominatim_workloads.go\<close>, which selects the Operations with side effects.
\<close>

section \<open>Classifiers\<close>

fun isOperationTypeImplemented :: "op_type \<Rightarrow> bool" where
  "isOperationTypeImplemented Bootstrap = True"
| "isOperationTypeImplemented AddRegions = True"
| "isOperationTypeImplemented Rebuild = True"
| "isOperationTypeImplemented Update = True"
| "isOperationTypeImplemented CatchUp = True"
| "isOperationTypeImplemented Refresh = True"
| "isOperationTypeImplemented Migrate = True"
| "isOperationTypeImplemented Freeze = True"
| "isOperationTypeImplemented _ = False"

fun isWriteHeavyOperation :: "op_type \<Rightarrow> bool" where
  "isWriteHeavyOperation Bootstrap = True"
| "isWriteHeavyOperation AddRegions = True"
| "isWriteHeavyOperation Rebuild = True"
| "isWriteHeavyOperation Migrate = True"
| "isWriteHeavyOperation Freeze = True"
| "isWriteHeavyOperation _ = False"

fun requiresRegionsEnv :: "op_type \<Rightarrow> bool" where
  "requiresRegionsEnv Refresh = False"
| "requiresRegionsEnv Migrate = False"
| "requiresRegionsEnv Freeze = False"
| "requiresRegionsEnv _ = True"

fun requiresImportPBFURL :: "op_type \<Rightarrow> bool" where
  "requiresImportPBFURL Bootstrap = True"
| "requiresImportPBFURL Rebuild = True"
| "requiresImportPBFURL _ = False"

fun isActiveOperationPhase :: "op_phase \<Rightarrow> bool" where
  "isActiveOperationPhase PhaseUnset = True"
| "isActiveOperationPhase Pending = True"
| "isActiveOperationPhase Running = True"
| "isActiveOperationPhase _ = False"

definition isTerminalOperationPhase :: "op_phase \<Rightarrow> bool" where
  "isTerminalOperationPhase p = (p = Succeeded \<or> p = Failed)"

fun requiresRegionGate :: "op_type \<Rightarrow> bool" where
  "requiresRegionGate AddRegions = True"
| "requiresRegionGate Update = True"
| "requiresRegionGate CatchUp = True"
| "requiresRegionGate _ = False"

fun operationImpactMatches :: "impact \<Rightarrow> op_type \<Rightarrow> bool" where
  "operationImpactMatches ImpactAll t = True"
| "operationImpactMatches ImpactWriteHeavy t = isWriteHeavyOperation t"
| "operationImpactMatches ImpactBootstrapRebuild t = (t = Bootstrap \<or> t = Rebuild)"
| "operationImpactMatches ImpactNever t = False"
| "operationImpactMatches ImpactUnset t = False"
| "operationImpactMatches (OtherImpact s) t = False"

lemma isActiveOperationPhase_iff [classify]:
  "isActiveOperationPhase p \<longleftrightarrow> p = PhaseUnset \<or> p = Pending \<or> p = Running"
  by (cases p) auto

lemma active_not_terminal: "isActiveOperationPhase p \<Longrightarrow> \<not> isTerminalOperationPhase p"
  by (auto simp: isActiveOperationPhase_iff isTerminalOperationPhase_def)

text \<open>The impacts are ordered: each one covers what the weaker one covers.\<close>

lemma impact_chain:
  "operationImpactMatches ImpactBootstrapRebuild t \<Longrightarrow> operationImpactMatches ImpactWriteHeavy t"
  "operationImpactMatches ImpactWriteHeavy t \<Longrightarrow> operationImpactMatches ImpactAll t"
  by auto

section \<open>Phase of a Job\<close>

definition phaseFromJob :: "int \<Rightarrow> int \<Rightarrow> int \<Rightarrow> op_phase" where
  "phaseFromJob succeeded failed active =
     (if succeeded > 0 then Succeeded
      else if failed > 0 then Failed
      else if active > 0 then Running
      else Pending)"

lemma phaseFromJob_known: "phaseFromJob s f a \<in> {Succeeded, Failed, Running, Pending}"
  by (simp add: phaseFromJob_def)

lemma phaseFromJob_terminal: "isTerminalOperationPhase (phaseFromJob s f a) \<longleftrightarrow> s > 0 \<or> f > 0"
  by (simp add: phaseFromJob_def isTerminalOperationPhase_def)

text \<open>The pod counts of a Job only grow: a terminal phase stays terminal.\<close>

lemma phaseFromJob_stable:
  "s \<le> s' \<Longrightarrow> f \<le> f' \<Longrightarrow> isTerminalOperationPhase (phaseFromJob s f a) \<Longrightarrow>
   isTerminalOperationPhase (phaseFromJob s' f' a')"
  by (auto simp: phaseFromJob_terminal)

section \<open>Regions and readiness of the parent\<close>

definition effectiveRegions :: "nominatim_operation \<Rightarrow> nominatim_instance \<Rightarrow> string list" where
  "effectiveRegions op parent =
     (if os_regions (op_spec op) \<noteq> [] then os_regions (op_spec op) else sp_regions (in_spec parent))"

definition bootstrapComplete :: "nominatim_instance \<Rightarrow> nominatim_operation list \<Rightarrow> bool" where
  "bootstrapComplete parent peers =
     (in_regions parent \<noteq> [] \<or>
      list_ex (\<lambda>peer. op_type_of peer = Bootstrap \<and> op_phase_of peer = Succeeded \<and>
        op_instance peer = in_name parent) peers)"

section \<open>Staging, claims and images\<close>

definition defaultStagingSize :: string where "defaultStagingSize = ''50Gi''"
definition defaultWorkerRepository :: string where
  "defaultWorkerRepository = ''ghcr.io/zebernst/nominatim-worker''"
definition DefaultImageTag :: string where "DefaultImageTag = ''latest''"

definition resolveStagingSpec :: "nominatim_operation \<Rightarrow> nominatim_instance \<Rightarrow> staging_spec" where
  "resolveStagingSpec op parent =
     (let out = (case sp_staging (in_spec parent) of
                   None \<Rightarrow> \<lparr>sg_storage_class = None, sg_size = ''''\<rparr> | Some s \<Rightarrow> s);
          out = (case os_staging (op_spec op) of
                   None \<Rightarrow> out
                 | Some s \<Rightarrow>
                     (let out = (if sg_size s \<noteq> '''' then out\<lparr>sg_size := sg_size s\<rparr> else out)
                      in (if sg_storage_class s \<noteq> None then out\<lparr>sg_storage_class := sg_storage_class s\<rparr> else out)))
      in (if sg_size out = '''' then out\<lparr>sg_size := defaultStagingSize\<rparr> else out))"

definition volumeClaimName :: "volume_source \<Rightarrow> string \<Rightarrow> string" where
  "volumeClaimName vs fallback =
     (if vs_claim_name vs \<noteq> '''' then vs_claim_name vs
      else case vs_template vs of
             Some t \<Rightarrow> if vct_name t \<noteq> '''' then vct_name t else fallback
           | None \<Rightarrow> fallback)"

definition resolveImage :: "image_spec option \<Rightarrow> string \<Rightarrow> string" where
  "resolveImage spec defaultRepository =
     (let repo = (case spec of Some s \<Rightarrow> (if im_repository s \<noteq> '''' then im_repository s else defaultRepository)
                  | None \<Rightarrow> defaultRepository);
          tag = (case spec of Some s \<Rightarrow> (if im_tag s \<noteq> '''' then im_tag s else DefaultImageTag)
                 | None \<Rightarrow> DefaultImageTag)
      in repo @ '':'' @ tag)"

definition resolvePullPolicy :: "image_spec option \<Rightarrow> string" where
  "resolvePullPolicy spec = (case spec of Some s \<Rightarrow> im_pull_policy s | None \<Rightarrow> '''')"

definition workerImageForOperation :: "nominatim_operation \<Rightarrow> nominatim_instance \<Rightarrow> string" where
  "workerImageForOperation op parent =
     (case os_image (op_spec op) of
        Some i \<Rightarrow> resolveImage (Some i) defaultWorkerRepository
      | None \<Rightarrow>
          (case sp_worker (in_spec parent) of
             Some w \<Rightarrow>
               (case wk_image w of
                  Some i \<Rightarrow> resolveImage (Some i) defaultWorkerRepository
                | None \<Rightarrow> resolveImage None defaultWorkerRepository)
           | None \<Rightarrow> resolveImage None defaultWorkerRepository))"

definition workerPullPolicyForOperation :: "nominatim_operation \<Rightarrow> nominatim_instance \<Rightarrow> string" where
  "workerPullPolicyForOperation op parent =
     (case os_image (op_spec op) of
        Some i \<Rightarrow> resolvePullPolicy (Some i)
      | None \<Rightarrow>
          (case sp_worker (in_spec parent) of Some w \<Rightarrow> resolvePullPolicy (wk_image w) | None \<Rightarrow> ''''))"

lemma resolveStagingSpec_size: "sg_size (resolveStagingSpec op parent) \<noteq> ''''"
  by (auto simp: resolveStagingSpec_def defaultStagingSize_def Let_def split: option.splits)

definition stagingPVCName :: "nominatim_operation \<Rightarrow> string" where
  "stagingPVCName op = op_name op @ ''-staging''"

definition pbfURLForRegion :: "string \<Rightarrow> string" where
  "pbfURLForRegion region = ''https://download.geofabrik.de/'' @ region @ ''-latest.osm.pbf''"

definition reasonConflict :: string where "reasonConflict = ''Conflict''"
definition reasonParentNotFound :: string where "reasonParentNotFound = ''ParentNotFound''"
definition reasonParentDeleting :: string where "reasonParentDeleting = ''ParentDeleting''"
definition reasonNotImplemented :: string where "reasonNotImplemented = ''NotImplemented''"
definition reasonRegionsRequired :: string where "reasonRegionsRequired = ''RegionsRequired''"
definition reasonBootstrapIncomplete :: string where "reasonBootstrapIncomplete = ''BootstrapIncomplete''"
definition reasonUnsupportedRebuild :: string where
  "reasonUnsupportedRebuild = ''UnsupportedRebuildStrategy''"

definition conflictMessage :: "nominatim_operation \<Rightarrow> string" where
  "conflictMessage peer =
     reasonConflict @ '': another active Operation '' @ quote (op_name peer) @ '' (type='' @
     string_of_op_type (op_type_of peer) @ '', phase='' @ string_of_op_phase (op_phase_of peer) @
     '') targets the same NominatimInstance''"

lemma conflictMessage_prefix: "prefix reasonConflict (conflictMessage peer)"
  by (simp add: conflictMessage_def)

end
