(* ===== verification/Mutex.thy ===== *)
theory Mutex
  imports OpPolicy
begin

text \<open>
  The write plane of \<open>internal/controller/nominatimoperation_mutex.go\<close>: which Operations exclude each
  other, who holds the plane, and \<open>evaluateWritePlane\<close>, the one evaluation that both an Operation's
  claim and the schedule probe of the Instance controller use. The loop over the peers is a fold;
  pointers to peers are options. The locale states what the protocol needs from the evaluation, the
  step relation is the protocol itself: creation, claims, the Jobs' progress and deletions, one at a
  time.
\<close>

section \<open>The evaluation\<close>

datatype write_plane_decision = WritePlaneOK | WritePlaneHold | WritePlaneRaceWait

record write_plane_eval =
  ev_decision :: write_plane_decision
  ev_peer :: "nominatim_operation option"
  ev_busy :: "nominatim_operation option"

definition ScheduleBusy :: "write_plane_eval \<Rightarrow> bool" where
  "ScheduleBusy e = (ev_busy e \<noteq> None)"

definition operationsMutexConflict :: "nominatim_operation \<Rightarrow> nominatim_operation \<Rightarrow> bool" where
  "operationsMutexConflict a b =
     (if op_name a = op_name b then False
      else if op_instance a \<noteq> op_instance b \<or> op_namespace a \<noteq> op_namespace b then False
      else isWriteHeavyOperation (op_type_of a) \<or> isWriteHeavyOperation (op_type_of b))"

definition peerHoldsWritePlane :: "nominatim_operation \<Rightarrow> bool" where
  "peerHoldsWritePlane peer =
     (if \<not> isActiveOperationPhase (op_phase_of peer) then False
      else if op_phase_of peer = Running then True
      else case ot_job_ref (op_status peer) of None \<Rightarrow> False | Some n \<Rightarrow> n \<noteq> '''')"

text \<open>One iteration of the loop: the evaluation so far and the race winner so far.\<close>

definition evaluate_peer ::
  "nominatim_operation \<Rightarrow> nominatim_operation \<Rightarrow> write_plane_eval \<times> nominatim_operation option \<Rightarrow>
   write_plane_eval \<times> nominatim_operation option" where
  "evaluate_peer op peer s =
     (case s of (ev, raceWinner) \<Rightarrow>
        if \<not> operationsMutexConflict op peer \<or> \<not> isActiveOperationPhase (op_phase_of peer) then (ev, raceWinner)
        else
          let ev = (if ev_busy ev = None then ev\<lparr>ev_busy := Some peer\<rparr> else ev) in
          if peerHoldsWritePlane peer then
            (if ev_peer ev = None \<or> ev_decision ev \<noteq> WritePlaneHold
             then (ev\<lparr>ev_decision := WritePlaneHold, ev_peer := Some peer\<rparr>, raceWinner)
             else (ev, raceWinner))
          else if op_name peer < op_name op \<and> raceWinner = None then (ev, Some peer)
          else (ev, raceWinner))"

definition evaluateWritePlane :: "nominatim_operation \<Rightarrow> nominatim_operation list \<Rightarrow> write_plane_eval" where
  "evaluateWritePlane op peers =
     (let (ev, raceWinner) =
        fold (evaluate_peer op) peers
          (\<lparr>ev_decision = WritePlaneOK, ev_peer = None, ev_busy = None\<rparr>, None)
      in
        if ev_decision ev = WritePlaneHold then ev
        else case raceWinner of
               Some w \<Rightarrow> ev\<lparr>ev_decision := WritePlaneRaceWait, ev_peer := Some w\<rparr>
             | None \<Rightarrow> ev\<lparr>ev_decision := WritePlaneOK\<rparr>)"

text \<open>What the loop computes: the first busy peer, the first holder, the first race winner.\<close>

definition busy :: "nominatim_operation \<Rightarrow> nominatim_operation \<Rightarrow> bool" where
  "busy op peer = (operationsMutexConflict op peer \<and> isActiveOperationPhase (op_phase_of peer))"

definition race_winner :: "nominatim_operation \<Rightarrow> nominatim_operation \<Rightarrow> bool" where
  "race_winner op peer = (busy op peer \<and> \<not> peerHoldsWritePlane peer \<and> op_name peer < op_name op)"

definition holder :: "nominatim_operation \<Rightarrow> nominatim_operation \<Rightarrow> bool" where
  "holder op peer = (busy op peer \<and> peerHoldsWritePlane peer)"

lemma evaluate_peer_eq:
  assumes "ev_decision ev = (if ev_peer ev = None then WritePlaneOK else WritePlaneHold)"
  shows "evaluate_peer op p (ev, w) =
    (\<lparr>ev_decision = (if ev_peer ev = None \<and> \<not> holder op p then WritePlaneOK else WritePlaneHold),
      ev_peer = (if ev_peer ev = None \<and> holder op p then Some p else ev_peer ev),
      ev_busy = (if ev_busy ev = None \<and> busy op p then Some p else ev_busy ev)\<rparr>,
     if w = None \<and> race_winner op p then Some p else w)"
proof -
  obtain d pe b where ev: "ev = \<lparr>ev_decision = d, ev_peer = pe, ev_busy = b\<rparr>" by (cases ev)
  show ?thesis using assms
    by (auto simp: ev evaluate_peer_def Let_def holder_def race_winner_def busy_def)
qed

lemma evaluate_fold:
  assumes "ev_decision ev = (if ev_peer ev = None then WritePlaneOK else WritePlaneHold)"
  shows "fold (evaluate_peer op) peers (ev, w) =
    (\<lparr>ev_decision = (if ev_peer ev = None \<and> find (holder op) peers = None then WritePlaneOK else WritePlaneHold),
      ev_peer = (if ev_peer ev = None then find (holder op) peers else ev_peer ev),
      ev_busy = (if ev_busy ev = None then find (busy op) peers else ev_busy ev)\<rparr>,
     if w = None then find (race_winner op) peers else w)"
  using assms
proof (induction peers arbitrary: ev w)
  case Nil
  then show ?case by (cases ev) auto
next
  case (Cons p ps)
  show ?case unfolding fold_Cons o_apply evaluate_peer_eq [OF Cons.prems]
    by (subst Cons.IH) auto
qed

lemma evaluateWritePlane_eq:
  "evaluateWritePlane op peers =
     \<lparr>ev_decision = (if find (holder op) peers \<noteq> None then WritePlaneHold
                     else if find (race_winner op) peers \<noteq> None then WritePlaneRaceWait else WritePlaneOK),
      ev_peer = (if find (holder op) peers \<noteq> None then find (holder op) peers else find (race_winner op) peers),
      ev_busy = find (busy op) peers\<rparr>"
  by (auto simp: evaluateWritePlane_def evaluate_fold split: option.splits)

lemma decision_Hold_iff:
  "ev_decision (evaluateWritePlane op peers) = WritePlaneHold \<longleftrightarrow> (\<exists>p \<in> set peers. holder op p)"
  by (auto simp: evaluateWritePlane_eq find_None_iff)

lemma decision_OK_iff:
  "ev_decision (evaluateWritePlane op peers) = WritePlaneOK \<longleftrightarrow>
     (\<forall>p \<in> set peers. busy op p \<longrightarrow> \<not> peerHoldsWritePlane p \<and> op_name op < op_name p)"
proof -
  have "op_name p \<noteq> op_name op" if "busy op p" for p
    using that by (auto simp: busy_def operationsMutexConflict_def split: if_splits)
  then show ?thesis
    by (auto simp: evaluateWritePlane_eq find_None_iff holder_def race_winner_def)
       (metis linorder_neqE)+
qed

lemma decision_RaceWait_iff:
  "ev_decision (evaluateWritePlane op peers) = WritePlaneRaceWait \<longleftrightarrow>
     (\<forall>p \<in> set peers. \<not> holder op p) \<and> (\<exists>p \<in> set peers. race_winner op p)"
  by (auto simp: evaluateWritePlane_eq find_None_iff)

lemma hold_peer:
  "ev_decision (evaluateWritePlane op peers) = WritePlaneHold \<Longrightarrow>
     \<exists>p \<in> set peers. ev_peer (evaluateWritePlane op peers) = Some p \<and> holder op p"
  by (auto simp: evaluateWritePlane_eq split: if_splits dest: find_SomeD)

lemma ScheduleBusy_iff: "ScheduleBusy (evaluateWritePlane op peers) \<longleftrightarrow> (\<exists>p \<in> set peers. busy op p)"
  by (auto simp: ScheduleBusy_def evaluateWritePlane_eq find_None_iff)

lemma conflict_sym: "operationsMutexConflict a b = operationsMutexConflict b a"
  by (auto simp: operationsMutexConflict_def)

lemma holds_active: "peerHoldsWritePlane p \<Longrightarrow> isActiveOperationPhase (op_phase_of p)"
  by (auto simp: peerHoldsWritePlane_def split: if_splits)

section \<open>The interface of the protocol\<close>

text \<open>
  What makes the claims exclusive, whoever evaluates them: a claim that goes through sees no armed
  rival and precedes every rival that is still racing.
\<close>

locale write_plane =
  fixes rival :: "'o \<Rightarrow> 'o \<Rightarrow> bool"
    and active :: "'o \<Rightarrow> bool"
    and armed :: "'o \<Rightarrow> bool"
    and before :: "'o \<Rightarrow> 'o \<Rightarrow> bool"
    and granted :: "'o \<Rightarrow> 'o list \<Rightarrow> bool"
  assumes rival_sym: "rival a b \<longleftrightarrow> rival b a"
    and armed_active: "armed a \<Longrightarrow> active a"
    and before_asym: "before a b \<Longrightarrow> \<not> before b a"
    and granted_free: "granted a ps \<Longrightarrow> b \<in> set ps \<Longrightarrow> rival a b \<Longrightarrow> \<not> armed b"
    and granted_first: "granted a ps \<Longrightarrow> b \<in> set ps \<Longrightarrow> rival a b \<Longrightarrow> active b \<Longrightarrow> before a b"
begin

lemma one_winner:
  "granted a ps \<Longrightarrow> granted b qs \<Longrightarrow> b \<in> set ps \<Longrightarrow> a \<in> set qs \<Longrightarrow> active a \<Longrightarrow> active b \<Longrightarrow> \<not> rival a b"
  by (metis granted_first before_asym rival_sym)

definition exclusive :: "'o list \<Rightarrow> bool" where
  "exclusive ops = (\<forall>a \<in> set ops. \<forall>b \<in> set ops. rival a b \<longrightarrow> \<not> (armed a \<and> armed b))"

text \<open>Arming one winner of a claim over the current peers keeps the armed ones exclusive.\<close>

lemma exclusive_arm:
  assumes "exclusive (xs @ a # ys)" and "granted a (xs @ a # ys)"
    and "\<And>b. rival a' b \<longleftrightarrow> rival a b" and "\<not> rival a a"
  shows "exclusive (xs @ a' # ys)"
  using assms granted_free [OF assms(2)] rival_sym
  unfolding exclusive_def by (simp add: ball_Un)

text \<open>Replacing one element by one that is armed only if the old one was.\<close>

lemma exclusive_replace:
  assumes "exclusive (xs @ a # ys)" and "\<And>b. rival a' b \<longleftrightarrow> rival a b" and "armed a' \<Longrightarrow> armed a"
  shows "exclusive (xs @ a' # ys)"
  using assms rival_sym unfolding exclusive_def by (simp add: ball_Un) metis

lemma exclusive_insert:
  assumes "exclusive (xs @ ys)" and "\<not> armed a"
  shows "exclusive (xs @ a # ys)"
  using assms unfolding exclusive_def by auto

lemma exclusive_remove: "exclusive (xs @ a # ys) \<Longrightarrow> exclusive (xs @ ys)"
  unfolding exclusive_def by auto

end

definition claimGranted :: "nominatim_operation \<Rightarrow> nominatim_operation list \<Rightarrow> bool" where
  "claimGranted op peers = (ev_decision (evaluateWritePlane op peers) = WritePlaneOK)"

interpretation plane: write_plane operationsMutexConflict "\<lambda>p. isActiveOperationPhase (op_phase_of p)"
    peerHoldsWritePlane "\<lambda>a b. op_name a < op_name b" claimGranted
proof
  fix a b ps
  show "operationsMutexConflict a b = operationsMutexConflict b a" by (rule conflict_sym)
  show "peerHoldsWritePlane a \<Longrightarrow> isActiveOperationPhase (op_phase_of a)" by (rule holds_active)
  show "op_name a < op_name b \<Longrightarrow> \<not> op_name b < op_name a" by simp
  assume a: "claimGranted a ps" and b: "b \<in> set ps" and c: "operationsMutexConflict a b"
  show "\<not> peerHoldsWritePlane b"
    using a b c holds_active [of b] by (auto simp: claimGranted_def decision_OK_iff busy_def)
  show "isActiveOperationPhase (op_phase_of b) \<Longrightarrow> op_name a < op_name b"
    using a b c by (auto simp: claimGranted_def decision_OK_iff busy_def)
qed

section \<open>The protocol\<close>

text \<open>
  One step is one thing that happens to the Operations of a namespace: a new one is created (no phase
  and no Job yet: the status subresource keeps users from setting them); the Reconcile of one of them
  gets its claim granted over the current list and arms its Job; a claim is refused; the Operation
  fails at a gate; the pod counts of an armed Job change; a finished one is synced again, its counts
  having grown; it is deleted. A Reconcile pass is one step: the controller runs one at a time.
\<close>

definition arm :: "nominatim_operation \<Rightarrow> nominatim_operation" where
  "arm p = p\<lparr>op_status := (op_status p)\<lparr>ot_phase := Pending, ot_job_ref := Some (op_name p)\<rparr>\<rparr>"

inductive mutex_step :: "nominatim_operation list \<Rightarrow> nominatim_operation list \<Rightarrow> bool" where
  create: "op_name p \<notin> op_name ` set (xs @ ys) \<Longrightarrow> op_phase_of p = PhaseUnset \<Longrightarrow>
     ot_job_ref (op_status p) = None \<Longrightarrow> mutex_step (xs @ ys) (xs @ p # ys)"
| claim: "isActiveOperationPhase (op_phase_of p) \<Longrightarrow> claimGranted p (xs @ p # ys) \<Longrightarrow> op_name p \<noteq> '''' \<Longrightarrow>
     mutex_step (xs @ p # ys) (xs @ arm p # ys)"
| reject: "ev_decision (evaluateWritePlane p (xs @ p # ys)) = WritePlaneHold \<Longrightarrow>
     mutex_step (xs @ p # ys) (xs @ set_op_phase Failed p # ys)"
| gate: "mutex_step (xs @ p # ys) (xs @ set_op_phase Failed p # ys)"
| progress: "peerHoldsWritePlane p \<Longrightarrow>
     mutex_step (xs @ p # ys) (xs @ set_op_phase (phaseFromJob s f a) p # ys)"
| finished: "isTerminalOperationPhase (op_phase_of p) \<Longrightarrow> s > 0 \<or> f > 0 \<Longrightarrow>
     mutex_step (xs @ p # ys) (xs @ set_op_phase (phaseFromJob s f a) p # ys)"
| delete: "mutex_step (xs @ p # ys) (xs @ ys)"

inductive reachable_ops :: "nominatim_operation list \<Rightarrow> bool" where
  start: "reachable_ops []"
| step: "reachable_ops ops \<Longrightarrow> mutex_step ops ops' \<Longrightarrow> reachable_ops ops'"

inductive_cases mutex_step_cases: "mutex_step ops ops'"

lemma conflict_status [simp]:
  "operationsMutexConflict (p\<lparr>op_status := s\<rparr>) q = operationsMutexConflict p q"
  "operationsMutexConflict p (q\<lparr>op_status := s\<rparr>) = operationsMutexConflict p q"
  by (simp_all add: operationsMutexConflict_def)

lemma conflict_arm [simp]: "operationsMutexConflict (arm p) q = operationsMutexConflict p q"
  by (simp add: arm_def)

lemma conflict_irrefl [simp]: "\<not> operationsMutexConflict p p"
  by (simp add: operationsMutexConflict_def)

lemma terminal_not_holding: "isTerminalOperationPhase (op_phase_of p) \<Longrightarrow> \<not> peerHoldsWritePlane p"
  by (auto simp: isTerminalOperationPhase_def peerHoldsWritePlane_def)

lemma failed_not_holding: "\<not> peerHoldsWritePlane (set_op_phase Failed p)"
  by (simp add: peerHoldsWritePlane_def)

lemma mutex_step_exclusive: "mutex_step ops ops' \<Longrightarrow> plane.exclusive ops \<Longrightarrow> plane.exclusive ops'"
proof (induction rule: mutex_step.induct)
  case (create p xs ys)
  then have "\<not> peerHoldsWritePlane p" by (simp add: peerHoldsWritePlane_def)
  with create.prems show ?case by (rule plane.exclusive_insert)
next
  case (claim p xs ys)
  show ?case
    by (rule plane.exclusive_arm [OF claim.prems claim.hyps(2) conflict_arm conflict_irrefl])
next
  case (reject p xs ys)
  show ?case
    by (rule plane.exclusive_replace [OF reject.prems conflict_status(1)]) (simp add: failed_not_holding)
next
  case (gate xs p ys)
  show ?case
    by (rule plane.exclusive_replace [OF gate.prems conflict_status(1)]) (simp add: failed_not_holding)
next
  case (progress p xs ys s f a)
  show ?case
    by (rule plane.exclusive_replace [OF progress.prems conflict_status(1)]) (rule progress.hyps)
next
  case (finished p s f xs ys a)
  have "isTerminalOperationPhase (op_phase_of (set_op_phase (phaseFromJob s f a) p))"
    using finished(2) by (simp add: phaseFromJob_terminal)
  then have *: "\<not> peerHoldsWritePlane (set_op_phase (phaseFromJob s f a) p)"
    by (rule terminal_not_holding)
  show ?case
    by (rule plane.exclusive_replace [OF finished.prems conflict_status(1)]) (use * in simp)
next
  case (delete xs p ys)
  then show ?case by (rule plane.exclusive_remove)
qed

lemma reachable_exclusive: "reachable_ops ops \<Longrightarrow> plane.exclusive ops"
  by (induction rule: reachable_ops.induct)
     (auto simp: plane.exclusive_def [of "[]"] intro: mutex_step_exclusive)

section \<open>Correctness\<close>

text \<open>C5. The loop over the peers computes a plain specification, whatever their order: the claim is refused
  exactly when some active conflicting peer holds the plane, waits exactly when none does and some active
  conflicting peer has a smaller name, and names a peer of that kind; the schedule probe is busy exactly when
  there is any active conflicting peer.\<close>

theorem write_plane_decided:
  "(case ev_decision (evaluateWritePlane op peers) of
      WritePlaneHold \<Rightarrow> (\<exists>p \<in> set peers. ev_peer (evaluateWritePlane op peers) = Some p \<and>
        operationsMutexConflict op p \<and> peerHoldsWritePlane p)
    | WritePlaneRaceWait \<Rightarrow> (\<exists>p \<in> set peers. ev_peer (evaluateWritePlane op peers) = Some p \<and>
        operationsMutexConflict op p \<and> isActiveOperationPhase (op_phase_of p) \<and> op_name p < op_name op) \<and>
        \<not> (\<exists>p \<in> set peers. operationsMutexConflict op p \<and> peerHoldsWritePlane p)
    | WritePlaneOK \<Rightarrow> \<not> (\<exists>p \<in> set peers. operationsMutexConflict op p \<and> isActiveOperationPhase (op_phase_of p) \<and>
        (peerHoldsWritePlane p \<or> op_name p \<le> op_name op))) \<and>
   (ScheduleBusy (evaluateWritePlane op peers) =
      (\<exists>p \<in> set peers. operationsMutexConflict op p \<and> isActiveOperationPhase (op_phase_of p)))"
proof (intro conjI)
  show "ScheduleBusy (evaluateWritePlane op peers) =
      (\<exists>p \<in> set peers. operationsMutexConflict op p \<and> isActiveOperationPhase (op_phase_of p))"
    by (simp add: ScheduleBusy_iff busy_def)
  show "case ev_decision (evaluateWritePlane op peers) of
      WritePlaneHold \<Rightarrow> (\<exists>p \<in> set peers. ev_peer (evaluateWritePlane op peers) = Some p \<and>
        operationsMutexConflict op p \<and> peerHoldsWritePlane p)
    | WritePlaneRaceWait \<Rightarrow> (\<exists>p \<in> set peers. ev_peer (evaluateWritePlane op peers) = Some p \<and>
        operationsMutexConflict op p \<and> isActiveOperationPhase (op_phase_of p) \<and> op_name p < op_name op) \<and>
        \<not> (\<exists>p \<in> set peers. operationsMutexConflict op p \<and> peerHoldsWritePlane p)
    | WritePlaneOK \<Rightarrow> \<not> (\<exists>p \<in> set peers. operationsMutexConflict op p \<and> isActiveOperationPhase (op_phase_of p) \<and>
        (peerHoldsWritePlane p \<or> op_name p \<le> op_name op))"
  proof (cases "ev_decision (evaluateWritePlane op peers)")
    case WritePlaneOK
    note free = WritePlaneOK [unfolded decision_OK_iff busy_def]
    show ?thesis unfolding WritePlaneOK write_plane_decision.case using free by (auto simp: not_le [symmetric])
  next
    case WritePlaneHold
    from hold_peer [OF this] WritePlaneHold show ?thesis by (auto simp: holder_def busy_def)
  next
    case WritePlaneRaceWait
    then obtain p where "find (holder op) peers = None" "find (race_winner op) peers = Some p"
      by (auto simp: evaluateWritePlane_eq split: if_splits)
    with WritePlaneRaceWait find_SomeD [OF this(2)] show ?thesis
      by (auto simp: evaluateWritePlane_eq find_None_iff race_winner_def holder_def busy_def dest: holds_active)
  qed
qed

text \<open>In every state that the protocol reaches, by creations, claims, refusals, Job progress and deletions in any
  order, no two Operations on one instance of which one is write-heavy both hold the write plane.\<close>

theorem reachable_operations_exclusive:
  assumes "reachable_ops ops" and "a \<in> set ops" and "b \<in> set ops" and "op_name a \<noteq> op_name b"
    and "op_instance a = op_instance b" and "op_namespace a = op_namespace b" and "isWriteHeavyOperation (op_type_of a)"
  shows "\<not> (peerHoldsWritePlane a \<and> peerHoldsWritePlane b)"
proof -
  have "operationsMutexConflict a b" using assms(4-7) by (simp add: operationsMutexConflict_def)
  with reachable_exclusive [OF assms(1)] assms(2,3) show ?thesis unfolding plane.exclusive_def by blast
qed

text \<open>Two active conflicting Operations that each see the other are not both granted the claim, however their
  evaluations interleave: of a creation race at most one wins.\<close>

theorem race_one_winner:
  assumes "ev_decision (evaluateWritePlane a ps) = WritePlaneOK" and "ev_decision (evaluateWritePlane b qs) = WritePlaneOK"
    and "b \<in> set ps" and "a \<in> set qs" and "isActiveOperationPhase (op_phase_of a)" and "isActiveOperationPhase (op_phase_of b)"
  shows "\<not> operationsMutexConflict a b"
  by (rule plane.one_winner [OF _ _ assms(3-6)]) (simp_all add: claimGranted_def assms(1,2))

section \<open>Witnesses\<close>

definition contender :: "string \<Rightarrow> op_type \<Rightarrow> nominatim_operation" where
  "contender n t = new_operation n ''ns'' t ''inst'' []"

lemma contender_simps [simp]:
  "op_meta (contender n t) = new_meta n ''ns''" "op_type_of (contender n t) = t" "op_phase_of (contender n t) = PhaseUnset"
  "op_instance (contender n t) = ''inst''" "ot_job_ref (op_status (contender n t)) = None"
  by (simp_all add: contender_def)

lemma peers_reached: "reachable_ops [arm (contender ''a'' Rebuild), contender ''b'' Update]"
proof -
  have "reachable_ops [contender ''a'' Rebuild]"
    using reachable_ops.step [OF reachable_ops.start, of "[contender ''a'' Rebuild]"]
      mutex_step.create [of "contender ''a'' Rebuild" "[]" "[]"] by simp
  moreover have "mutex_step [contender ''a'' Rebuild] [contender ''a'' Rebuild, contender ''b'' Update]"
    using mutex_step.create [of "contender ''b'' Update" "[contender ''a'' Rebuild]" "[]"] by simp
  moreover have "claimGranted (contender ''a'' Rebuild) [contender ''a'' Rebuild, contender ''b'' Update]"
    by (simp add: claimGranted_def decision_OK_iff busy_def operationsMutexConflict_def peerHoldsWritePlane_def less_char_def)
  then have "mutex_step [contender ''a'' Rebuild, contender ''b'' Update] [arm (contender ''a'' Rebuild), contender ''b'' Update]"
    using mutex_step.claim [of "contender ''a'' Rebuild" "[]" "[contender ''b'' Update]"] by simp
  ultimately show ?thesis by (blast intro: reachable_ops.step)
qed

theorem reachable_operations_exclusive_witness:
  "peerHoldsWritePlane (arm (contender ''a'' Rebuild)) \<and> \<not> peerHoldsWritePlane (contender ''b'' Update)"
proof -
  have a: "peerHoldsWritePlane (arm (contender ''a'' Rebuild))" by (simp add: arm_def peerHoldsWritePlane_def)
  with reachable_operations_exclusive [OF peers_reached, of "arm (contender ''a'' Rebuild)" "contender ''b'' Update"]
  show ?thesis by (simp add: arm_def)
qed

theorem race_one_winner_witness:
  "\<not> operationsMutexConflict (contender ''a'' Update) (contender ''b'' CatchUp)"
  by (rule race_one_winner [of _ "[contender ''b'' CatchUp]" _ "[contender ''a'' Update]"])
     (simp_all add: evaluateWritePlane_def evaluate_peer_def operationsMutexConflict_def)

end
