(* ===== verification/PodOverlay.thy ===== *)
theory PodOverlay
  imports Library
begin

text \<open>
  \<open>internal/controller/pod_overlay.go\<close>: merging a user's pod spec overlay into the pod spec the
  operator builds, resealing the operator's container and hardening the result. The strategic merge
  and the decoding of the overlay are parameters, so what is proved holds for every overlay and
  whatever the merge makes of it.
\<close>

section \<open>Environment variables\<close>

definition operatorReservedEnvExact :: "string list" where
  "operatorReservedEnvExact =
     [''OPERATION_TYPE'', ''PROJECT_DIR'', ''IMPORT_STAGING'', ''PBF_URL'', ''NOMINATIM_DATABASE_DSN'',
      ''NOMINATIM_FLATNODE_FILE'', ''NOMINATIM_REBUILD_CONFIRM'', ''NOMINATIM_REGIONS'', ''PGHOST'',
      ''PGPORT'', ''PGDATABASE'', ''PGUSER'', ''PGPASSWORD'']"

definition isReservedEnvName :: "string \<Rightarrow> bool" where
  "isReservedEnvName n = List.member operatorReservedEnvExact n"

definition mergeEnvReservedWin :: "env_var list \<Rightarrow> env_var list \<Rightarrow> env_var list" where
  "mergeEnvReservedWin base overlay =
     (let user = filter (\<lambda>e. \<not> isReservedEnvName (ev_name e)) overlay;
          sealed = filter (\<lambda>e. isReservedEnvName (ev_name e)) base;
          seen = map ev_name (user @ sealed);
          kept = filter (\<lambda>e. \<not> isReservedEnvName (ev_name e) \<and> \<not> List.member seen (ev_name e)) base
      in user @ sealed @ kept)"

lemma mergeEnv_reserved:
  "filter (\<lambda>e. isReservedEnvName (ev_name e)) (mergeEnvReservedWin base overlay) =
     filter (\<lambda>e. isReservedEnvName (ev_name e)) base"
  by (auto simp: mergeEnvReservedWin_def Let_def filter_empty_conv)

lemma mergeEnv_overlay:
  "e \<in> set overlay \<Longrightarrow> \<not> isReservedEnvName (ev_name e) \<Longrightarrow> e \<in> set (mergeEnvReservedWin base overlay)"
  by (simp add: mergeEnvReservedWin_def Let_def)

lemma mergeEnv_base_kept:
  "e \<in> set base \<Longrightarrow> ev_name e \<notin> ev_name ` set overlay \<Longrightarrow> e \<in> set (mergeEnvReservedWin base overlay)"
  by (auto simp: mergeEnvReservedWin_def Let_def)

lemma mergeEnv_names:
  "ev_name ` set (mergeEnvReservedWin base overlay) \<subseteq> ev_name ` set base \<union> ev_name ` set overlay"
  by (auto simp: mergeEnvReservedWin_def Let_def)

section \<open>Unions in which the base wins\<close>

text \<open>
  Volumes and mounts are merged by one discipline: the base list is kept as it is, an element of the
  overlay is taken only if its key is new.
\<close>

locale base_wins =
  fixes key :: "'a \<Rightarrow> string"
    and admit :: "'a list \<Rightarrow> 'a \<Rightarrow> bool"
    and union :: "'a list \<Rightarrow> 'a list \<Rightarrow> 'a list"
  assumes union_extends: "distinct (map key base) \<Longrightarrow>
      \<exists>extra. union base overlay = base @ extra \<and> set extra \<subseteq> {x \<in> set overlay. admit base x} \<and>
        distinct (map key (base @ extra))"
begin

lemma base_prefix: "distinct (map key base) \<Longrightarrow> prefix base (union base overlay)"
  using union_extends [of base overlay] by (auto simp: prefix_def)

lemma keys_distinct: "distinct (map key base) \<Longrightarrow> distinct (map key (union base overlay))"
  using union_extends [of base overlay] by auto

lemma origin:
  "distinct (map key base) \<Longrightarrow> x \<in> set (union base overlay) \<Longrightarrow>
     x \<in> set base \<or> (x \<in> set overlay \<and> admit base x \<and> key x \<notin> key ` set base)"
  using union_extends [of base overlay] by fastforce

end

subsection \<open>Volume mounts\<close>

type_synonym mounts_state = "(string \<rightharpoonup> volume_mount) \<times> (string \<rightharpoonup> string) \<times> string list"

definition add_mount :: "volume_mount \<Rightarrow> mounts_state \<Rightarrow> mounts_state" where
  "add_mount m s = (case s of (byName, byPath, order) \<Rightarrow>
     (byName(vm_name m \<mapsto> m), byPath(vm_path m \<mapsto> vm_name m), order @ [vm_name m]))"

definition add_overlay_mount :: "volume_mount \<Rightarrow> mounts_state \<Rightarrow> mounts_state" where
  "add_overlay_mount m s = (case s of (byName, byPath, order) \<Rightarrow>
     if byName (vm_name m) \<noteq> None then s
     else if byPath (vm_path m) \<noteq> None then s
     else add_mount m s)"

definition unionVolumeMounts :: "volume_mount list \<Rightarrow> volume_mount list \<Rightarrow> volume_mount list" where
  "unionVolumeMounts base overlay =
     (case fold add_overlay_mount overlay (fold add_mount base (Map.empty, Map.empty, [])) of
        (byName, byPath, order) \<Rightarrow> map (\<lambda>n. the (byName n)) order)"

text \<open>The list that a state stands for.\<close>

definition mounts_of :: "mounts_state \<Rightarrow> volume_mount list \<Rightarrow> bool" where
  "mounts_of s ms = (case s of (byName, byPath, order) \<Rightarrow>
     distinct (map vm_name ms) \<and> order = map vm_name ms \<and>
     byName = map_of (map (\<lambda>m. (vm_name m, m)) ms) \<and> dom byPath = vm_path ` set ms)"

lemma map_of_key_append:
  "k x \<notin> k ` set xs \<Longrightarrow>
     [k x \<mapsto> x] ++ map_of (map (\<lambda>m. (k m, m)) xs) = (map_of (map (\<lambda>m. (k m, m)) xs))(k x \<mapsto> x)"
  by (induction xs) (auto simp: fun_eq_iff map_add_def)

lemma map_of_key_None: "map_of (map (\<lambda>m. (k m, m)) xs) n = None \<longleftrightarrow> n \<notin> k ` set xs"
  by (induction xs) auto

lemma map_of_key_Some: "distinct (map k xs) \<Longrightarrow> x \<in> set xs \<Longrightarrow> map_of (map (\<lambda>m. (k m, m)) xs) (k x) = Some x"
  by (rule map_of_is_SomeI) (auto simp: o_def)

lemma mounts_of_add:
  "mounts_of s ms \<Longrightarrow> vm_name m \<notin> vm_name ` set ms \<Longrightarrow> mounts_of (add_mount m s) (ms @ [m])"
  by (cases s) (auto simp: mounts_of_def add_mount_def map_of_key_append)

lemma mounts_of_facts:
  assumes "mounts_of (bn, bp, ord) ms"
  shows "map (\<lambda>n. the (bn n)) ord = ms" and "bn n = None \<longleftrightarrow> n \<notin> vm_name ` set ms"
    and "bp p = None \<longleftrightarrow> p \<notin> vm_path ` set ms" and "distinct (map vm_name ms)"
  using assms by (auto simp: mounts_of_def map_of_key_None map_idI map_of_key_Some)

lemma mounts_of_base:
  "mounts_of s ms \<Longrightarrow> distinct (map vm_name (ms @ base)) \<Longrightarrow> mounts_of (fold add_mount base s) (ms @ base)"
proof (induction base arbitrary: s ms)
  case (Cons m base)
  have "mounts_of (add_mount m s) (ms @ [m])"
    using Cons.prems by (intro mounts_of_add) auto
  from Cons.IH [OF this] Cons.prems(2) show ?case by simp
qed simp

lemma mounts_of_overlay:
  "mounts_of s (base @ ex) \<Longrightarrow>
   \<exists>extra. mounts_of (fold add_overlay_mount overlay s) (base @ ex @ extra) \<and>
     set extra \<subseteq> {m \<in> set overlay. vm_path m \<notin> vm_path ` set base}"
proof (induction overlay arbitrary: s ex)
  case Nil
  then show ?case by (intro exI [of _ "[]"]) simp
next
  case (Cons m overlay)
  obtain bn bp ord where s: "s = (bn, bp, ord)" by (cases s)
  show ?case
  proof (cases "bn (vm_name m) = None \<and> bp (vm_path m) = None")
    case True
    then have n: "vm_name m \<notin> vm_name ` set (base @ ex)" and p: "vm_path m \<notin> vm_path ` set base"
      using Cons.prems mounts_of_facts(2,3) unfolding s by auto
    from mounts_of_add [OF Cons.prems n] have "mounts_of (add_mount m s) (base @ (ex @ [m]))" by simp
    from Cons.IH [OF this] obtain extra where
      e: "mounts_of (fold add_overlay_mount overlay (add_mount m s)) (base @ (ex @ [m]) @ extra)"
      "set extra \<subseteq> {m \<in> set overlay. vm_path m \<notin> vm_path ` set base}" by blast
    moreover have "add_overlay_mount m s = add_mount m s" using True s by (simp add: add_overlay_mount_def)
    ultimately show ?thesis using p by (intro exI [of _ "m # extra"]) auto
  next
    case False
    then have "add_overlay_mount m s = s" using s by (auto simp: add_overlay_mount_def)
    with Cons.IH [OF Cons.prems] show ?thesis by fastforce
  qed
qed

interpretation mounts: base_wins vm_name "\<lambda>base m. vm_path m \<notin> vm_path ` set base" unionVolumeMounts
proof
  fix base overlay :: "volume_mount list"
  assume "distinct (map vm_name base)"
  then have "mounts_of (fold add_mount base (Map.empty, Map.empty, [])) base"
    using mounts_of_base [of "(Map.empty, Map.empty, [])" "[]" base] by (simp add: mounts_of_def)
  then have "mounts_of (fold add_mount base (Map.empty, Map.empty, [])) (base @ [])" by simp
  from mounts_of_overlay [OF this, of overlay] obtain extra where
    e: "mounts_of (fold add_overlay_mount overlay (fold add_mount base (Map.empty, Map.empty, []))) (base @ extra)"
    "set extra \<subseteq> {m \<in> set overlay. vm_path m \<notin> vm_path ` set base}"
    by auto
  from e(1) have "unionVolumeMounts base overlay = base @ extra"
    by (auto simp: unionVolumeMounts_def mounts_of_facts(1) split: prod.splits)
  moreover from e(1) have "distinct (map vm_name (base @ extra))"
    by (metis mounts_of_facts(4) prod_cases3)
  ultimately show "\<exists>extra. unionVolumeMounts base overlay = base @ extra \<and>
      set extra \<subseteq> {m \<in> set overlay. vm_path m \<notin> vm_path ` set base} \<and> distinct (map vm_name (base @ extra))"
    using e(2) by blast
qed

subsection \<open>Volumes\<close>

type_synonym volumes_state = "(string \<rightharpoonup> volume) \<times> string list"

definition add_volume :: "volume \<Rightarrow> volumes_state \<Rightarrow> volumes_state" where
  "add_volume v s = (case s of (byName, order) \<Rightarrow> (byName(vo_name v \<mapsto> v), order @ [vo_name v]))"

definition add_overlay_volume :: "volume \<Rightarrow> volumes_state \<Rightarrow> volumes_state" where
  "add_overlay_volume v s = (case s of (byName, order) \<Rightarrow>
     if byName (vo_name v) \<noteq> None then s
     else if vo_host_path v \<noteq> None then s
     else add_volume v s)"

definition unionVolumes :: "volume list \<Rightarrow> volume list \<Rightarrow> volume list" where
  "unionVolumes base overlay =
     (case fold add_overlay_volume overlay (fold add_volume base (Map.empty, [])) of
        (byName, order) \<Rightarrow> map (\<lambda>n. the (byName n)) order)"

definition volumes_of :: "volumes_state \<Rightarrow> volume list \<Rightarrow> bool" where
  "volumes_of s vs = (case s of (byName, order) \<Rightarrow>
     distinct (map vo_name vs) \<and> order = map vo_name vs \<and> byName = map_of (map (\<lambda>v. (vo_name v, v)) vs))"

lemma volumes_of_add:
  "volumes_of s vs \<Longrightarrow> vo_name v \<notin> vo_name ` set vs \<Longrightarrow> volumes_of (add_volume v s) (vs @ [v])"
  by (cases s) (auto simp: volumes_of_def add_volume_def map_of_key_append)

lemma volumes_of_facts:
  assumes "volumes_of (bn, ord) vs"
  shows "map (\<lambda>n. the (bn n)) ord = vs" and "bn n = None \<longleftrightarrow> n \<notin> vo_name ` set vs"
    and "distinct (map vo_name vs)"
  using assms by (auto simp: volumes_of_def map_of_key_None map_idI map_of_key_Some)

lemma volumes_of_base:
  "volumes_of s vs \<Longrightarrow> distinct (map vo_name (vs @ base)) \<Longrightarrow> volumes_of (fold add_volume base s) (vs @ base)"
proof (induction base arbitrary: s vs)
  case (Cons v base)
  have "volumes_of (add_volume v s) (vs @ [v])"
    using Cons.prems by (intro volumes_of_add) auto
  from Cons.IH [OF this] Cons.prems(2) show ?case by simp
qed simp

lemma volumes_of_overlay:
  "volumes_of s ex \<Longrightarrow>
   \<exists>extra. volumes_of (fold add_overlay_volume overlay s) (ex @ extra) \<and>
     set extra \<subseteq> {v \<in> set overlay. vo_host_path v = None}"
proof (induction overlay arbitrary: s ex)
  case Nil
  then show ?case by (intro exI [of _ "[]"]) simp
next
  case (Cons v overlay)
  obtain bn ord where s: "s = (bn, ord)" by (cases s)
  show ?case
  proof (cases "bn (vo_name v) = None \<and> vo_host_path v = None")
    case True
    then have "vo_name v \<notin> vo_name ` set ex"
      using Cons.prems volumes_of_facts(2) unfolding s by auto
    from Cons.IH [OF volumes_of_add [OF Cons.prems this]] obtain extra where
      "volumes_of (fold add_overlay_volume overlay (add_volume v s)) ((ex @ [v]) @ extra)"
      "set extra \<subseteq> {v \<in> set overlay. vo_host_path v = None}" by blast
    moreover have "add_overlay_volume v s = add_volume v s" using True s by (simp add: add_overlay_volume_def)
    ultimately show ?thesis using True by (intro exI [of _ "v # extra"]) auto
  next
    case False
    then have "add_overlay_volume v s = s" using s by (auto simp: add_overlay_volume_def)
    with Cons.IH [OF Cons.prems] show ?thesis by fastforce
  qed
qed

interpretation volumes: base_wins vo_name "\<lambda>_ v. vo_host_path v = None" unionVolumes
proof
  fix base overlay :: "volume list"
  assume "distinct (map vo_name base)"
  then have "volumes_of (fold add_volume base (Map.empty, [])) base"
    using volumes_of_base [of "(Map.empty, [])" "[]" base] by (simp add: volumes_of_def)
  from volumes_of_overlay [OF this, of overlay] obtain extra where
    e: "volumes_of (fold add_overlay_volume overlay (fold add_volume base (Map.empty, []))) (base @ extra)"
    "set extra \<subseteq> {v \<in> set overlay. vo_host_path v = None}" by blast
  from e(1) have "unionVolumes base overlay = base @ extra"
    by (auto simp: unionVolumes_def volumes_of_facts(1) split: prod.splits)
  moreover from e(1) have "distinct (map vo_name (base @ extra))"
    by (metis volumes_of_facts(3) surj_pair)
  ultimately show "\<exists>extra. unionVolumes base overlay = base @ extra \<and>
      set extra \<subseteq> {v \<in> set overlay. vo_host_path v = None} \<and> distinct (map vo_name (base @ extra))"
    using e(2) by blast
qed

section \<open>Containers\<close>

definition indexContainers :: "container list \<Rightarrow> string \<rightharpoonup> container" where
  "indexContainers cs = map_of (rev (map (\<lambda>c. (ct_name c, c)) cs))"

definition mergeOneContainer :: "lib \<Rightarrow> container \<Rightarrow> container \<Rightarrow> bool \<Rightarrow> container" where
  "mergeOneContainer L base overlay managed =
     (let merged = (case merge_container L base overlay of
                      Inr patched \<Rightarrow> decode_container L base patched
                    | Inl e \<Rightarrow> overlay\<lparr>ct_name := ct_name base\<rparr>)
      in if managed
         then merged\<lparr>ct_env := mergeEnvReservedWin (ct_env base) (ct_env overlay),
                     ct_mounts := unionVolumeMounts (ct_mounts base) (ct_mounts overlay)\<rparr>
         else merged)"

definition mergeWorkloadContainers ::
  "lib \<Rightarrow> container list \<Rightarrow> container list \<Rightarrow> string \<Rightarrow> container list" where
  "mergeWorkloadContainers L base overlay managedName =
     (let baseByName = indexContainers base;
          overlayByName = indexContainers overlay;
          out = map (\<lambda>c. case overlayByName (ct_name c) of
                           Some oc \<Rightarrow> mergeOneContainer L c oc (ct_name c = managedName)
                         | None \<Rightarrow> c) base
                @ filter (\<lambda>c. \<not> List.member (map ct_name base) (ct_name c)) overlay
      in if indexContainers out managedName = None
         then (case overlayByName managedName of
                 Some oc \<Rightarrow> oc # out
               | None \<Rightarrow> (case baseByName managedName of Some bc \<Rightarrow> bc # out | None \<Rightarrow> out))
         else out)"

definition mergeContainersByName :: "lib \<Rightarrow> container list \<Rightarrow> container list \<Rightarrow> container list" where
  "mergeContainersByName L base overlay =
     (if overlay = [] then base else mergeWorkloadContainers L base overlay '''')"

text \<open>The loop returns after the first container of the managed name.\<close>

definition sealContainer :: "string \<Rightarrow> string \<Rightarrow> container option \<Rightarrow> container \<Rightarrow> container" where
  "sealContainer img pullPolicy baseContainer c =
     (let c = c\<lparr>ct_image := img, ct_pull_policy := pullPolicy\<rparr> in
      case baseContainer of
        None \<Rightarrow> c
      | Some base \<Rightarrow>
          c\<lparr>ct_ports := ct_ports base, ct_command := ct_command base, ct_args := ct_args base,
            ct_env_from := [], ct_security := ct_security base,
            ct_env := mergeEnvReservedWin (ct_env base) (ct_env c),
            ct_mounts := unionVolumeMounts (ct_mounts base) (ct_mounts c)\<rparr>)"

fun sealManagedContainer ::
  "container list \<Rightarrow> string \<Rightarrow> string \<Rightarrow> string \<Rightarrow> container list \<Rightarrow> container list" where
  "sealManagedContainer [] managedName img pullPolicy baseContainers = []"
| "sealManagedContainer (c # cs) managedName img pullPolicy baseContainers =
     (if ct_name c \<noteq> managedName
      then c # sealManagedContainer cs managedName img pullPolicy baseContainers
      else sealContainer img pullPolicy (indexContainers baseContainers managedName) c # cs)"

section \<open>Hardening\<close>

definition stripPrivilegedPodSC :: "json option \<Rightarrow> json option" where
  "stripPrivilegedPodSC sc = (case sc of None \<Rightarrow> None | Some out \<Rightarrow> Some out)"

definition stripPrivilegedContainerSC :: "security_context option \<Rightarrow> security_context option" where
  "stripPrivilegedContainerSC sc =
     (case sc of None \<Rightarrow> None
      | Some s \<Rightarrow>
          let s = (if sc_privileged s = Some True then s\<lparr>sc_privileged := Some False\<rparr> else s);
              s = (if sc_escalation s = Some True then s\<lparr>sc_escalation := Some False\<rparr> else s)
          in Some (case sc_capabilities s of
                     None \<Rightarrow> s
                   | Some caps \<Rightarrow> s\<lparr>sc_capabilities := Some (caps\<lparr>ca_add := []\<rparr>)\<rparr>))"

definition stripContainer :: "container \<Rightarrow> container" where
  "stripContainer c = c\<lparr>ct_security := stripPrivilegedContainerSC (ct_security c)\<rparr>"

definition hardenPodSpec :: "pod_spec \<Rightarrow> pod_spec \<Rightarrow> pod_spec" where
  "hardenPodSpec spec base =
     (let baseVols = map vo_name (ps_volumes base) in
      spec\<lparr>ps_host_network := ps_host_network base,
           ps_host_pid := ps_host_pid base,
           ps_host_ipc := ps_host_ipc base,
           ps_share_process := ps_share_process base,
           ps_service_account := ps_service_account base,
           ps_automount := ps_automount base,
           ps_security := (case ps_security base of
                             Some s \<Rightarrow> Some s
                           | None \<Rightarrow> stripPrivilegedPodSC (ps_security spec)),
           ps_containers := map stripContainer (ps_containers spec),
           ps_init := map stripContainer (ps_init spec),
           ps_volumes := filter (\<lambda>v. List.member baseVols (vo_name v) \<or> vo_host_path v = None) (ps_volumes spec)\<rparr>)"

section \<open>The overlay\<close>

definition decodePodSpecOverlay :: "lib \<Rightarrow> raw_extension option \<Rightarrow> error + pod_spec option" where
  "decodePodSpecOverlay L raw =
     (case raw of
        None \<Rightarrow> Inr None
      | Some RawEmpty \<Rightarrow> Inr None
      | Some RawInvalid \<Rightarrow> Inl (Wrap ''decode podSpec overlay'' (Errorf ''invalid character''))
      | Some (RawJson j) \<Rightarrow>
          (case decode_pod L j of
             Inl e \<Rightarrow> Inl (Wrap ''decode podSpec overlay'' e)
           | Inr spec \<Rightarrow> Inr (Some spec)))"

definition strategicMergePodSpec :: "lib \<Rightarrow> pod_spec \<Rightarrow> pod_spec \<Rightarrow> error + pod_spec" where
  "strategicMergePodSpec L base overlay =
     (let bare = (\<lambda>p. p\<lparr>ps_containers := [], ps_init := [], ps_volumes := []\<rparr>) in
      case merge_pod L (bare base) (bare overlay) of
        Inl e \<Rightarrow> Inl (Wrap ''strategic merge podSpec'' e)
      | Inr patched \<Rightarrow>
          (case decode_pod L patched of
             Inl e \<Rightarrow> Inl (Wrap ''unmarshal merged podSpec'' e)
           | Inr out \<Rightarrow> Inr out))"

definition mergePodSpecOverlay ::
  "lib \<Rightarrow> pod_spec \<Rightarrow> raw_extension option \<Rightarrow> string \<Rightarrow> string \<Rightarrow> string \<Rightarrow> error + pod_spec" where
  "mergePodSpecOverlay L base overlayRaw managedContainer img pullPolicy =
     (case decodePodSpecOverlay L overlayRaw of
        Inl e \<Rightarrow> Inl e
      | Inr None \<Rightarrow> Inr base
      | Inr (Some overlay) \<Rightarrow>
          (case strategicMergePodSpec L base overlay of
             Inl e \<Rightarrow> Inl e
           | Inr out \<Rightarrow>
               let out = out\<lparr>ps_init := mergeContainersByName L (ps_init base) (ps_init overlay),
                             ps_containers := mergeWorkloadContainers L (ps_containers base) (ps_containers overlay) managedContainer,
                             ps_volumes := unionVolumes (ps_volumes base) (ps_volumes overlay)\<rparr>;
                   out = out\<lparr>ps_containers := sealManagedContainer (ps_containers out) managedContainer img pullPolicy (ps_containers base)\<rparr>
               in Inr (hardenPodSpec out base)))"

section \<open>What a merge guarantees\<close>

definition unprivileged :: "container \<Rightarrow> bool" where
  "unprivileged c =
     (case ct_security c of
        None \<Rightarrow> True
      | Some s \<Rightarrow> sc_privileged s \<noteq> Some True \<and> sc_escalation s \<noteq> Some True \<and>
          (case sc_capabilities s of None \<Rightarrow> True | Some cs \<Rightarrow> ca_add cs = []))"

lemma unprivileged_strip: "unprivileged (stripContainer c)"
  by (auto simp: unprivileged_def stripContainer_def stripPrivilegedContainerSC_def Let_def split: option.splits)

lemma strip_fields [simp]:
  "ct_name (stripContainer c) = ct_name c" "ct_image (stripContainer c) = ct_image c"
  "ct_pull_policy (stripContainer c) = ct_pull_policy c" "ct_ports (stripContainer c) = ct_ports c"
  "ct_command (stripContainer c) = ct_command c" "ct_args (stripContainer c) = ct_args c"
  "ct_env_from (stripContainer c) = ct_env_from c" "ct_env (stripContainer c) = ct_env c"
  "ct_mounts (stripContainer c) = ct_mounts c"
  "ct_security (stripContainer c) = stripPrivilegedContainerSC (ct_security c)"
  by (simp_all add: stripContainer_def)

text \<open>A successful merge returns the base, or a hardened pod.\<close>

lemma mergePodSpecOverlay_cases:
  assumes "mergePodSpecOverlay L base raw mc img pp = Inr out"
  obtains "decodePodSpecOverlay L raw = Inr None" "out = base"
  | overlay merged where "decodePodSpecOverlay L raw = Inr (Some overlay)"
      "out = hardenPodSpec (merged\<lparr>ps_init := mergeContainersByName L (ps_init base) (ps_init overlay),
         ps_volumes := unionVolumes (ps_volumes base) (ps_volumes overlay),
         ps_containers := sealManagedContainer
           (mergeWorkloadContainers L (ps_containers base) (ps_containers overlay) mc) mc img pp (ps_containers base)\<rparr>) base"
  using assms by (auto simp: mergePodSpecOverlay_def Let_def split: sum.splits option.splits)

lemma volume_origin:
  assumes "distinct (map vo_name (ps_volumes base))"
    and "v \<in> set (unionVolumes (ps_volumes base) vs)" and "vo_host_path v \<noteq> None"
  shows "v \<in> set (ps_volumes base)"
  using volumes.origin [OF assms(1,2)] assms(3) by auto

lemma indexContainers_Some: "distinct (map ct_name cs) \<Longrightarrow> b \<in> set cs \<Longrightarrow> indexContainers cs (ct_name b) = Some b"
  by (simp add: indexContainers_def map_of_rev_distinct o_def map_of_key_Some)

lemma indexContainers_None: "indexContainers cs n = None \<longleftrightarrow> n \<notin> ct_name ` set cs"
  by (auto simp: indexContainers_def map_of_eq_None_iff image_iff)

text \<open>What the operator relies on: the strategic merge of two containers of one name keeps the name.\<close>

definition merge_keeps_name :: "lib \<Rightarrow> bool" where
  "merge_keeps_name L = (\<forall>b c j. ct_name b = ct_name c \<longrightarrow> merge_container L b c = Inr j \<longrightarrow>
     ct_name (decode_container L b j) = ct_name b)"

lemma indexContainers_name: "indexContainers cs n = Some c \<Longrightarrow> ct_name c = n \<and> c \<in> set cs"
  by (auto simp: indexContainers_def dest!: map_of_SomeD)

lemma mergeOneContainer_name:
  "merge_keeps_name L \<Longrightarrow> ct_name b = ct_name c \<Longrightarrow> ct_name (mergeOneContainer L b c m) = ct_name b"
  by (auto simp: merge_keeps_name_def mergeOneContainer_def Let_def split: sum.splits)

lemma mergeWorkloadContainers_shape:
  assumes "merge_keeps_name L" and "b \<in> set base" and "ct_name b = m"
  obtains bs os where "mergeWorkloadContainers L base overlay m = bs @ os"
    and "map ct_name bs = map ct_name base" and "set os \<subseteq> set overlay" and "m \<notin> ct_name ` set os"
proof
  let ?bs = "map (\<lambda>c. case indexContainers overlay (ct_name c) of
      Some oc \<Rightarrow> mergeOneContainer L c oc (ct_name c = m) | None \<Rightarrow> c) base"
  let ?os = "filter (\<lambda>c. \<not> List.member (map ct_name base) (ct_name c)) overlay"
  show names: "map ct_name ?bs = map ct_name base"
    using assms(1) by (auto simp: mergeOneContainer_name split: option.splits dest!: indexContainers_name)
  have "m \<in> set (map ct_name ?bs)" unfolding names using assms(2,3) by auto
  then have "m \<in> ct_name ` set (?bs @ ?os)" unfolding set_append image_Un Un_iff set_map by (rule disjI1)
  then have "indexContainers (?bs @ ?os) m \<noteq> None" by (simp only: indexContainers_None not_not)
  then show "mergeWorkloadContainers L base overlay m = ?bs @ ?os"
    by (simp only: mergeWorkloadContainers_def Let_def if_False)
  show "set ?os \<subseteq> set overlay" by auto
  have "m \<in> ct_name ` set base" using assms(2,3) by blast
  then show "m \<notin> ct_name ` set ?os" by (simp add: image_iff) blast
qed

lemma sealManagedContainer_at:
  "m \<notin> ct_name ` set xs \<Longrightarrow> ct_name c = m \<Longrightarrow>
     sealManagedContainer (xs @ c # ys) m img pp bs = xs @ sealContainer img pp (indexContainers bs m) c # ys"
  by (induction xs) auto

lemma sealContainer_fields [simp]:
  "ct_name (sealContainer i p b c) = ct_name c"
  "ct_image (sealContainer i p b c) = i" "ct_pull_policy (sealContainer i p b c) = p"
  "ct_ports (sealContainer i p (Some b') c) = ct_ports b'"
  "ct_command (sealContainer i p (Some b') c) = ct_command b'"
  "ct_args (sealContainer i p (Some b') c) = ct_args b'"
  "ct_env_from (sealContainer i p (Some b') c) = []"
  "ct_security (sealContainer i p (Some b') c) = ct_security b'"
  "ct_env (sealContainer i p (Some b') c) = mergeEnvReservedWin (ct_env b') (ct_env c)"
  "ct_mounts (sealContainer i p (Some b') c) = unionVolumeMounts (ct_mounts b') (ct_mounts c)"
  by (auto simp: sealContainer_def Let_def split: option.splits)

lemma filter_name_none: "n \<notin> ct_name ` set xs \<Longrightarrow> filter (\<lambda>c. ct_name c = n) xs = []"
  by (auto simp: filter_empty_conv)

text \<open>The one container of the managed name after the merge, before the hardening.\<close>

lemma seal_unique:
  assumes "merge_keeps_name L" and "b \<in> set base" and "distinct (map ct_name base)"
  obtains c where "filter (\<lambda>c. ct_name c = ct_name b)
      (sealManagedContainer (mergeWorkloadContainers L base overlay (ct_name b)) (ct_name b) img pp base) =
      [sealContainer img pp (Some b) c]" and "ct_name c = ct_name b"
proof -
  obtain bs os where m: "mergeWorkloadContainers L base overlay (ct_name b) = bs @ os"
    and names: "map ct_name bs = map ct_name base" and os: "ct_name b \<notin> ct_name ` set os"
    by (rule mergeWorkloadContainers_shape [OF assms(1,2) refl, of overlay])
  have "ct_name b \<in> set (map ct_name bs)" unfolding names using assms(2) by simp
  then obtain c where "c \<in> set bs" and c: "ct_name c = ct_name b" by auto
  then obtain xs ys where bs: "bs = xs @ c # ys" by (meson split_list)
  have "distinct (map ct_name bs)" unfolding names by (rule assms(3))
  with bs c have xy: "ct_name b \<notin> ct_name ` set xs" "ct_name b \<notin> ct_name ` set ys" by auto
  have "sealManagedContainer (bs @ os) (ct_name b) img pp base =
      xs @ sealContainer img pp (Some b) c # ys @ os"
    using sealManagedContainer_at [OF xy(1) c, of "ys @ os" img pp base]
    by (simp add: bs indexContainers_Some [OF assms(3,2)])
  moreover have "filter (\<lambda>c. ct_name c = ct_name b) (xs @ sealContainer img pp (Some b) c # ys @ os) =
      [sealContainer img pp (Some b) c]"
    using xy os c by (simp add: filter_name_none)
  ultimately show ?thesis using that c m by simp
qed

lemma filter_name_strip: "filter (\<lambda>c. ct_name c = n) (map stripContainer cs) =
    map stripContainer (filter (\<lambda>c. ct_name c = n) cs)"
  by (simp add: filter_map o_def)

text \<open>How the container of the managed name comes out of a merge of its base \<open>b\<close>.\<close>

definition sealed_from :: "container \<Rightarrow> string \<Rightarrow> string \<Rightarrow> container \<Rightarrow> bool" where
  "sealed_from b img pp c =
     (ct_name c = ct_name b \<and> ct_image c = img \<and> ct_pull_policy c = pp \<and> ct_ports c = ct_ports b \<and>
      ct_command c = ct_command b \<and> ct_args c = ct_args b \<and> ct_env_from c = [] \<and>
      ct_security c = stripPrivilegedContainerSC (ct_security b) \<and>
      filter (\<lambda>e. isReservedEnvName (ev_name e)) (ct_env c) = filter (\<lambda>e. isReservedEnvName (ev_name e)) (ct_env b) \<and>
      prefix (ct_mounts b) (ct_mounts c))"

lemma merge_sealed:
  assumes "mergePodSpecOverlay L base raw (ct_name b) img pp = Inr out"
    and "decodePodSpecOverlay L raw \<noteq> Inr None"
    and "merge_keeps_name L" and "b \<in> set (ps_containers base)"
    and "distinct (map ct_name (ps_containers base))" and "distinct (map vm_name (ct_mounts b))"
  shows "\<exists>c. filter (\<lambda>c. ct_name c = ct_name b) (ps_containers out) = [c] \<and> sealed_from b img pp c"
  using assms(1)
proof (cases rule: mergePodSpecOverlay_cases)
  case (2 overlay merged)
  obtain c where c: "filter (\<lambda>c. ct_name c = ct_name b)
      (sealManagedContainer (mergeWorkloadContainers L (ps_containers base) (ps_containers overlay) (ct_name b))
        (ct_name b) img pp (ps_containers base)) = [sealContainer img pp (Some b) c]" "ct_name c = ct_name b"
    by (rule seal_unique [OF assms(3-5)])
  have "filter (\<lambda>c. ct_name c = ct_name b) (ps_containers out) = [stripContainer (sealContainer img pp (Some b) c)]"
    unfolding 2(2) by (simp add: hardenPodSpec_def Let_def filter_name_strip c)
  then show ?thesis
    by (intro exI conjI, assumption) (simp add: sealed_from_def c mergeEnv_reserved mounts.base_prefix [OF assms(6)])
qed (use assms(2) in simp)

text \<open>A pod of one managed container without privileges, merged with an overlay or none.\<close>

lemma merge_managed:
  assumes "mergePodSpecOverlay L base raw (ct_name b) (ct_image b) (ct_pull_policy b) = Inr out"
    and "merge_keeps_name L" and "ps_containers base = [b]" and "distinct (map vm_name (ct_mounts b))"
    and "ct_env_from b = []" and "ct_security b = None"
  shows "\<exists>c. filter (\<lambda>c. ct_name c = ct_name b) (ps_containers out) = [c] \<and> sealed_from b (ct_image b) (ct_pull_policy b) c"
proof (cases "decodePodSpecOverlay L raw = Inr None")
  case True
  then have "out = base" using assms(1) by (simp add: mergePodSpecOverlay_def)
  then show ?thesis using assms(3,5,6) by (simp add: sealed_from_def stripPrivilegedContainerSC_def)
next
  case False
  from merge_sealed [OF assms(1) False assms(2)] assms(3,4) show ?thesis by simp
qed

section \<open>Properties\<close>


definition privileged_overlay :: pod_spec where
  "privileged_overlay = empty_pod\<lparr>ps_host_network := True, ps_service_account := ''admin'',
     ps_containers := [empty_container\<lparr>ct_name := ''evil'',
       ct_security := Some \<lparr>sc_privileged = Some True, sc_escalation = None, sc_capabilities = None, sc_rest = JNull\<rparr>\<rparr>],
     ps_volumes := [\<lparr>vo_name = ''root'', vo_claim = None, vo_empty_dir = False, vo_host_path = Some JNull, vo_rest = JNull\<rparr>]\<rparr>"

definition overlay_lib :: lib where
  "overlay_lib = sample_lib\<lparr>decode_pod := (\<lambda>j. Inr privileged_overlay)\<rparr>"

definition overlay_base :: pod_spec where
  "overlay_base = empty_pod\<lparr>ps_containers := [empty_container\<lparr>ct_name := ''worker'', ct_image := ''old'',
     ct_env := [env_value ''PBF_URL'' ''u''], ct_mounts := [mount ''project'' ''/nominatim'']\<rparr>]\<rparr>"

definition overlay_result :: "error + pod_spec" where
  "overlay_result = mergePodSpecOverlay overlay_lib overlay_base (Some (RawJson JNull)) ''worker'' ''img'' ''Always''"

lemma overlay_result_ok: "\<exists>out. overlay_result = Inr out \<and> length (ps_containers out) = 2"
  by (simp add: overlay_result_def mergePodSpecOverlay_def decodePodSpecOverlay_def overlay_lib_def
      strategicMergePodSpec_def Let_def hardenPodSpec_def privileged_overlay_def overlay_base_def
      mergeWorkloadContainers_def indexContainers_def empty_container_def sealContainer_def)


text \<open>C7. If the operator's pod has the managed container, the merged pod has exactly one container of
  that name, whatever the overlay says of it: with the operator's image, pull policy, ports, command
  and arguments, no \<open>envFrom\<close>, the operator's security context (stripped), the operator's reserved
  variables and no others, and the operator's mounts first.\<close>

theorem mergePodSpecOverlay_sealed:
  assumes "mergePodSpecOverlay L base raw (ct_name b) img pp = Inr out"
    and "decodePodSpecOverlay L raw \<noteq> Inr None"
    and "merge_keeps_name L" and "b \<in> set (ps_containers base)"
    and "distinct (map ct_name (ps_containers base))" and "distinct (map vm_name (ct_mounts b))"
  shows "\<exists>c. filter (\<lambda>c. ct_name c = ct_name b) (ps_containers out) = [c] \<and>
     ct_image c = img \<and> ct_pull_policy c = pp \<and> ct_ports c = ct_ports b \<and>
     ct_command c = ct_command b \<and> ct_args c = ct_args b \<and> ct_env_from c = [] \<and>
     ct_security c = stripPrivilegedContainerSC (ct_security b) \<and>
     filter (\<lambda>e. isReservedEnvName (ev_name e)) (ct_env c) = filter (\<lambda>e. isReservedEnvName (ev_name e)) (ct_env b) \<and>
     prefix (ct_mounts b) (ct_mounts c)"
  using merge_sealed [OF assms] by (simp add: sealed_from_def) blast

theorem mergePodSpecOverlay_sealed_witness:
  "\<exists>out c. overlay_result = Inr out \<and> filter (\<lambda>c. ct_name c = ''worker'') (ps_containers out) = [c] \<and> ct_image c = ''img''"
proof -
  obtain out where out: "mergePodSpecOverlay overlay_lib overlay_base (Some (RawJson JNull)) ''worker'' ''img'' ''Always'' = Inr out"
    using overlay_result_ok by (auto simp: overlay_result_def)
  have d: "decodePodSpecOverlay overlay_lib (Some (RawJson JNull)) \<noteq> Inr None"
    by (simp add: decodePodSpecOverlay_def overlay_lib_def)
  have k: "merge_keeps_name overlay_lib" by (simp add: merge_keeps_name_def overlay_lib_def)
  let ?b = "hd (ps_containers overlay_base)"
  have b: "ct_name ?b = ''worker''" by (simp add: overlay_base_def)
  have "\<exists>c. filter (\<lambda>c. ct_name c = ct_name ?b) (ps_containers out) = [c] \<and> ct_image c = ''img''"
    using mergePodSpecOverlay_sealed [OF out [folded b] d k]
    by (auto simp: overlay_base_def)
  with out b show ?thesis by (simp add: overlay_result_def)
qed

end
