(* ===== verification/Config.thy ===== *)
theory Config
  imports PodOverlay
begin

text \<open>
  \<open>internal/controller/nominatim_config.go\<close> and \<open>nominatim_aux.go\<close>: the Nominatim settings that become
  environment variables, the import-time settings that are sealed into the status once an import has
  succeeded, the condition that reports a later difference, and the auxiliary data report.
\<close>

section \<open>Import-time settings\<close>

definition effectiveImportTimeSettings :: "nominatim_instance \<Rightarrow> string \<times> string" where
  "effectiveImportTimeSettings nom =
     (case (in_regions nom \<noteq> [], st_observed_nominatim (in_status nom)) of
        (True, Some obs) \<Rightarrow> (ob_import_style obs, ob_tokenizer obs)
      | _ \<Rightarrow> (case sp_nominatim (in_spec nom) of
                None \<Rightarrow> ('''', '''')
              | Some c \<Rightarrow> (cf_import_style c, cf_tokenizer c)))"

definition sealObservedNominatimConfigForce :: "nominatim_instance \<Rightarrow> bool \<Rightarrow> nominatim_instance" where
  "sealObservedNominatimConfigForce nom force =
     (if \<not> force \<and> st_observed_nominatim (in_status nom) \<noteq> None then nom
      else let obs = (case sp_nominatim (in_spec nom) of
                        None \<Rightarrow> \<lparr>ob_import_style = '''', ob_tokenizer = ''''\<rparr>
                      | Some c \<Rightarrow> \<lparr>ob_import_style = cf_import_style c, ob_tokenizer = cf_tokenizer c\<rparr>)
           in nom\<lparr>in_status := (in_status nom)\<lparr>st_observed_nominatim := Some obs\<rparr>\<rparr>)"

definition sealObservedNominatimConfig :: "nominatim_instance \<Rightarrow> nominatim_instance" where
  "sealObservedNominatimConfig nom = sealObservedNominatimConfigForce nom False"

abbreviation set_conditions :: "condition list \<Rightarrow> nominatim_instance \<Rightarrow> nominatim_instance" where
  "set_conditions cs nom \<equiv> nom\<lparr>in_status := (in_status nom)\<lparr>st_conditions := cs\<rparr>\<rparr>"
abbreviation in_conditions :: "nominatim_instance \<Rightarrow> condition list" where
  "in_conditions nom \<equiv> st_conditions (in_status nom)"

text \<open>A condition as the sources build one: the library fills in the transition time.\<close>

definition new_condition :: "nominatim_instance \<Rightarrow> string \<Rightarrow> string \<Rightarrow> string \<Rightarrow> string \<Rightarrow> condition" where
  "new_condition nom t st r m = \<lparr>c_type = t, c_status = st, c_reason = r, c_message = m,
     c_generation = om_generation (in_meta nom), c_transition = zero_time\<rparr>"

lemma new_condition_simps [simp]:
  "c_type (new_condition nom t st r m) = t" "c_status (new_condition nom t st r m) = st"
  by (simp_all add: new_condition_def)

definition syncImportConfigDriftCondition :: "lib \<Rightarrow> nominatim_instance \<Rightarrow> nominatim_instance" where
  "syncImportConfigDriftCondition L nom =
     (let clear = set_conditions (remove_condition L ConditionImportConfigDrift (in_conditions nom)) nom in
      case (in_regions nom = [], st_observed_nominatim (in_status nom)) of
        (False, Some obs) \<Rightarrow>
          let (specStyle, specTok) = (case sp_nominatim (in_spec nom) of
                 None \<Rightarrow> ('''', '''') | Some c \<Rightarrow> (cf_import_style c, cf_tokenizer c)) in
          if specStyle = ob_import_style obs \<and> specTok = ob_tokenizer obs then clear
          else
            let msg = ''import-time nominatim settings differ from Bootstrap seal (spec importStyle='' @
                  quote specStyle @ '' tokenizer='' @ quote specTok @ ''; sealed importStyle='' @
                  quote (ob_import_style obs) @ '' tokenizer='' @ quote (ob_tokenizer obs) @
                  ''); Rebuild required to apply''
            in set_conditions (set_condition L
                 (new_condition nom ConditionImportConfigDrift ''True'' ''ImportConfigDrift'' msg)
                 (in_conditions nom)) nom
      | _ \<Rightarrow> clear)"

section \<open>Environment\<close>

text \<open>A variable that is set only when its value is given.\<close>

definition env_if :: "bool \<Rightarrow> string \<Rightarrow> string \<Rightarrow> env_var list" where
  "env_if b n v = (if b then [env_value n v] else [])"

definition env_int :: "string \<Rightarrow> int option \<Rightarrow> env_var list" where
  "env_int n v = (case v of None \<Rightarrow> [] | Some i \<Rightarrow> [env_value n (show_int i)])"

definition replicationEnv :: "replication_spec option \<Rightarrow> env_var list" where
  "replicationEnv rep =
     (case rep of None \<Rightarrow> []
      | Some r \<Rightarrow>
          env_if (re_url r \<noteq> '''') ''NOMINATIM_REPLICATION_URL'' (re_url r) @
          env_int ''NOMINATIM_REPLICATION_MAX_DIFF'' (re_max_diff r) @
          env_int ''NOMINATIM_REPLICATION_UPDATE_INTERVAL'' (re_update_interval r) @
          env_int ''NOMINATIM_REPLICATION_RECHECK_INTERVAL'' (re_recheck_interval r))"

definition apiConfigEnv :: "api_config_spec option \<Rightarrow> env_var list" where
  "apiConfigEnv api =
     (case api of None \<Rightarrow> []
      | Some a \<Rightarrow>
          env_int ''NOMINATIM_API_POOL_SIZE'' (ac_pool_size a) @
          env_int ''NOMINATIM_QUERY_TIMEOUT'' (ac_query_timeout a) @
          env_int ''NOMINATIM_REQUEST_TIMEOUT'' (ac_request_timeout a) @
          env_if (ac_default_language a \<noteq> '''') ''NOMINATIM_DEFAULT_LANGUAGE'' (ac_default_language a) @
          (case ac_cors a of None \<Rightarrow> []
           | Some c \<Rightarrow> [env_value ''NOMINATIM_CORS_NOACCESSCONTROL'' (if c then ''yes'' else ''no'')]))"

definition effectiveNominatimConfigEnv :: "nominatim_instance \<Rightarrow> env_var list" where
  "effectiveNominatimConfigEnv nom =
     (let (importStyle, tokenizer) = effectiveImportTimeSettings nom;
          env = env_if (importStyle \<noteq> '''') ''NOMINATIM_IMPORT_STYLE'' importStyle @
                env_if (tokenizer \<noteq> '''') ''NOMINATIM_TOKENIZER'' tokenizer
      in case sp_nominatim (in_spec nom) of
           None \<Rightarrow> env
         | Some cfg \<Rightarrow>
             env @ env_if (cf_languages cfg \<noteq> []) ''NOMINATIM_LANGUAGES'' (join '','' (cf_languages cfg)) @
             replicationEnv (cf_replication cfg) @ apiConfigEnv (cf_api cfg))"

definition effectiveAPIEnv :: "api_spec option \<Rightarrow> env_var list" where
  "effectiveAPIEnv api =
     (case api of None \<Rightarrow> []
      | Some a \<Rightarrow> (case ap_gunicorn a of None \<Rightarrow> [] | Some n \<Rightarrow> [env_value ''GUNICORN_WORKERS'' (show_int n)]))"

section \<open>Auxiliary data\<close>

definition auxDataEnabled :: "bool option \<Rightarrow> bool" where
  "auxDataEnabled v = (v = Some True)"

definition boolEnv :: "bool \<Rightarrow> string" where
  "boolEnv v = (if v then ''true'' else ''false'')"

definition effectiveAuxDataEnv :: "nominatim_instance \<Rightarrow> env_var list" where
  "effectiveAuxDataEnv nom =
     (case sp_aux_data (in_spec nom) of
        None \<Rightarrow> []
      | Some ad \<Rightarrow>
          [env_value ''NOMINATIM_AUX_WIKIMEDIA_IMPORTANCE'' (boolEnv (auxDataEnabled (ad_wikimedia ad))),
           env_value ''NOMINATIM_AUX_SECONDARY_IMPORTANCE'' (boolEnv (auxDataEnabled (ad_secondary ad))),
           env_value ''NOMINATIM_AUX_US_POSTCODES'' (boolEnv (auxDataEnabled (ad_us_postcodes ad)))])"

text \<open>
  The decoding of a JSON object into the report: keys match without regard to case, unknown keys are
  skipped, null leaves a field alone, another type is an error; a null document leaves all of it.
\<close>

definition lower_char :: "char \<Rightarrow> char" where
  "lower_char c = (let n = (of_char c :: nat) in if 65 \<le> n \<and> n \<le> 90 then char_of (n + 32) else c)"

definition same_key :: "string \<Rightarrow> string \<Rightarrow> bool" where
  "same_key a b = (map lower_char a = map lower_char b)"

fun decode_aux_fields :: "(string \<times> json) list \<Rightarrow> aux_data_status \<Rightarrow> error + aux_data_status" where
  "decode_aux_fields [] out = Inr out"
| "decode_aux_fields ((k, v) # kvs) out =
     (if \<not> list_ex (same_key k) [''wikimediaImportance'', ''secondaryImportance'', ''usPostcodes''] \<or> v = JNull
      then decode_aux_fields kvs out
      else case json_bool v of
             None \<Rightarrow> Inl (Errorf ''json: cannot unmarshal'')
           | Some b \<Rightarrow> decode_aux_fields kvs
               (if same_key k ''wikimediaImportance'' then out\<lparr>as_wikimedia := b\<rparr>
                else if same_key k ''secondaryImportance'' then out\<lparr>as_secondary := b\<rparr>
                else out\<lparr>as_us_postcodes := b\<rparr>))"

fun decode_aux :: "json \<Rightarrow> aux_data_status \<Rightarrow> error + aux_data_status" where
  "decode_aux (JObject kvs) out = decode_aux_fields kvs out"
| "decode_aux JNull out = Inr out"
| "decode_aux _ out = Inl (Errorf ''json: cannot unmarshal'')"

definition no_aux_data :: aux_data_status where
  "no_aux_data = \<lparr>as_wikimedia = False, as_secondary = False, as_us_postcodes = False\<rparr>"

definition parseAuxDataReport :: "lib \<Rightarrow> string \<Rightarrow> error + aux_data_status option" where
  "parseAuxDataReport L raw =
     (let raw = trim_space raw in
      if raw = '''' then Inr None
      else case parse_json L raw of
             Inl e \<Rightarrow> Inl (Wrap ''unmarshal aux data report'' e)
           | Inr j \<Rightarrow>
               (case decode_aux j no_aux_data of
                  Inl e \<Rightarrow> Inl (Wrap ''unmarshal aux data report'' e)
                | Inr out \<Rightarrow> Inr (Some out)))"

definition applyAuxDataReport :: "nominatim_instance \<Rightarrow> aux_data_status option \<Rightarrow> nominatim_instance" where
  "applyAuxDataReport nom report =
     (case report of
        None \<Rightarrow> nom
      | Some r \<Rightarrow>
          let cur = (case st_aux_data (in_status nom) of None \<Rightarrow> no_aux_data | Some c \<Rightarrow> c) in
          nom\<lparr>in_status := (in_status nom)\<lparr>st_aux_data := Some (cur\<lparr>as_wikimedia := as_wikimedia r,
            as_secondary := as_secondary r, as_us_postcodes := as_us_postcodes r\<rparr>)\<rparr>\<rparr>)"

section \<open>Facts\<close>

lemma applyAuxDataReport_value: "st_aux_data (in_status (applyAuxDataReport nom (Some r))) = Some r"
  by (simp add: applyAuxDataReport_def Let_def)

text \<open>Once sealed, the import-time settings do not follow the spec.\<close>

lemma sealed_settings:
  "in_regions nom \<noteq> [] \<Longrightarrow> st_observed_nominatim (in_status nom) = Some obs \<Longrightarrow>
     effectiveImportTimeSettings nom = (ob_import_style obs, ob_tokenizer obs)"
  by (simp add: effectiveImportTimeSettings_def)

lemma seal_keeps: "st_observed_nominatim (in_status nom) \<noteq> None \<Longrightarrow> sealObservedNominatimConfig nom = nom"
  by (simp add: sealObservedNominatimConfig_def sealObservedNominatimConfigForce_def)

lemma seal_fields [simp]:
  "in_meta (sealObservedNominatimConfigForce nom b) = in_meta nom"
  "in_spec (sealObservedNominatimConfigForce nom b) = in_spec nom"
  "st_regions (in_status (sealObservedNominatimConfigForce nom b)) = st_regions (in_status nom)"
  "st_observed_nominatim (in_status (sealObservedNominatimConfigForce nom b)) \<noteq> None"
  by (auto simp: sealObservedNominatimConfigForce_def Let_def)

lemma seal_regions [simp]: "in_regions (sealObservedNominatimConfig nom) = in_regions nom"
  "in_spec (sealObservedNominatimConfig nom) = in_spec nom" "in_meta (sealObservedNominatimConfig nom) = in_meta nom"
  by (simp_all add: sealObservedNominatimConfig_def)

lemma env_names [names]:
  "ev_name ` set (env_if b n v) \<subseteq> {n}" "ev_name ` set (env_int n i) \<subseteq> {n}"
  by (auto simp: env_if_def env_int_def split: option.splits)

text \<open>The settings differ from the sealed ones.\<close>

definition import_drift :: "nominatim_instance \<Rightarrow> bool" where
  "import_drift nom =
     (case (in_regions nom, st_observed_nominatim (in_status nom)) of
        (r # rs, Some obs) \<Rightarrow>
          (case sp_nominatim (in_spec nom) of None \<Rightarrow> ('''', '''') | Some c \<Rightarrow> (cf_import_style c, cf_tokenizer c))
            \<noteq> (ob_import_style obs, ob_tokenizer obs)
      | _ \<Rightarrow> False)"

lemma env_value_of_name:
  "n \<noteq> m \<Longrightarrow> filter (\<lambda>e. ev_name e = n) (env_if b m v) = []"
  "n \<noteq> m \<Longrightarrow> filter (\<lambda>e. ev_name e = n) (env_int m i) = []"
  "filter (\<lambda>e. ev_name e = n) (env_if b n v) = env_if b n v"
  by (auto simp: env_if_def env_int_def split: option.splits)

lemma filter_replication:
  "n \<notin> {''NOMINATIM_REPLICATION_URL'', ''NOMINATIM_REPLICATION_MAX_DIFF'',
     ''NOMINATIM_REPLICATION_UPDATE_INTERVAL'', ''NOMINATIM_REPLICATION_RECHECK_INTERVAL''} \<Longrightarrow>
   filter (\<lambda>e. ev_name e = n) (replicationEnv r) = []"
  by (auto simp: replicationEnv_def env_value_of_name split: option.splits)

lemma filter_api:
  "n \<notin> {''NOMINATIM_API_POOL_SIZE'', ''NOMINATIM_QUERY_TIMEOUT'', ''NOMINATIM_REQUEST_TIMEOUT'',
     ''NOMINATIM_DEFAULT_LANGUAGE'', ''NOMINATIM_CORS_NOACCESSCONTROL''} \<Longrightarrow>
   filter (\<lambda>e. ev_name e = n) (apiConfigEnv a) = []"
  by (auto simp: apiConfigEnv_def env_value_of_name split: option.splits)

lemma import_env:
  assumes "effectiveImportTimeSettings nom = (style, tok)"
  shows "filter (\<lambda>e. ev_name e = ''NOMINATIM_IMPORT_STYLE'') (effectiveNominatimConfigEnv nom) =
      env_if (style \<noteq> '''') ''NOMINATIM_IMPORT_STYLE'' style"
    and "filter (\<lambda>e. ev_name e = ''NOMINATIM_TOKENIZER'') (effectiveNominatimConfigEnv nom) =
      env_if (tok \<noteq> '''') ''NOMINATIM_TOKENIZER'' tok"
  by (auto simp: effectiveNominatimConfigEnv_def assms Let_def env_value_of_name filter_replication filter_api
      split: option.splits)

section \<open>Properties\<close>


text \<open>An instance for the witnesses: two regions, a secret and a cluster.\<close>

definition sample_config :: config_spec where
  "sample_config = \<lparr>cf_import_style = ''full'', cf_tokenizer = ''icu'', cf_languages = [''en'', ''fr''],
     cf_replication = None, cf_api = None\<rparr>"

definition sample_database :: database_spec where
  "sample_database = \<lparr>db_cluster = None, db_cluster_ref = None, db_secret_ref = Some ''secret'', db_profiles = None,
     db_pause = ImpactUnset, db_strategy = StrategyUnset\<rparr>"

definition sample_spec :: instance_spec where
  "sample_spec = \<lparr>sp_project = \<lparr>vs_claim_name = '''', vs_template = None\<rparr>, sp_flatnode = None, sp_staging = None,
     sp_aux_data = None, sp_regions = [''europe/monaco'', ''europe/malta''], sp_policy = PolicyUnset,
     sp_nominatim = Some sample_config, sp_database = sample_database, sp_updates = None, sp_api = None,
     sp_ui = None, sp_worker = None\<rparr>"

definition sample_status :: instance_status where
  "sample_status = \<lparr>st_conditions = [], st_regions = [], st_database = \<lparr>ds_mode = ConnectionSecret,
     ds_secret = ''secret'', ds_cluster = '''', ds_degraded = False\<rparr>, st_rebuild = None, st_observed_generation = 0,
     st_active_refs = [], st_last_schedule = None, st_observed_nominatim = None, st_aux_data = None\<rparr>"

definition sample_instance :: nominatim_instance where
  "sample_instance = \<lparr>in_meta = new_meta ''inst'' ''ns'', in_spec = sample_spec, in_status = sample_status\<rparr>"

definition sample_region :: "string \<Rightarrow> region_status" where
  "sample_region r = \<lparr>rs_name = r, rs_sequence = '''', rs_updated = None\<rparr>"

lemmas sample_simps = sample_instance_def sample_status_def sample_spec_def sample_database_def sample_config_def
  sample_region_def

definition sealed_instance :: nominatim_instance where
  "sealed_instance = set_regions [sample_region ''europe/monaco'']
     (sample_instance\<lparr>in_status := sample_status\<lparr>st_observed_nominatim := Some \<lparr>ob_import_style = ''street'', ob_tokenizer = ''icu''\<rparr>\<rparr>\<rparr>)"


end
