(* ===== verification/Regions.thy ===== *)
theory Regions
  imports Mutex Config
begin

text \<open>
  The regions of an instance: \<open>nominatim_bootstrap.go\<close> (the first import),
  \<open>nominatim_region_observe.go\<close> (succeeded Operations become observed regions),
  \<open>nominatim_region_drift.go\<close> (a difference between desired and observed regions becomes an
  Operation), and \<open>syncStatus\<close> and \<open>difference\<close> of \<open>nominatim_controller.go\<close>.
\<close>

section \<open>Observation\<close>

definition observed_region :: "time \<Rightarrow> string \<Rightarrow> region_status" where
  "observed_region t region = \<lparr>rs_name = region, rs_sequence = '''', rs_updated = Some t\<rparr>"

definition bootstrapRegions :: "nominatim_instance \<Rightarrow> nominatim_operation \<Rightarrow> string list" where
  "bootstrapRegions nom op = (if os_regions (op_spec op) = [] then sp_regions (in_spec nom) else os_regions (op_spec op))"

fun syncRegionsFromBootstrapLoop :: "nominatim_instance \<Rightarrow> nominatim_operation list \<Rightarrow> nominatim_instance prog" where
  "syncRegionsFromBootstrapLoop nom [] = Ret nom"
| "syncRegionsFromBootstrapLoop nom (op # peers) =
     (if op_type_of op \<noteq> Bootstrap then syncRegionsFromBootstrapLoop nom peers
      else if op_phase_of op \<noteq> Succeeded then syncRegionsFromBootstrapLoop nom peers
      else if bootstrapRegions nom op = [] then syncRegionsFromBootstrapLoop nom peers
      else bind now (\<lambda>t. Ret (sealObservedNominatimConfig
             (set_regions (map (observed_region t) (bootstrapRegions nom op)) nom))))"

definition syncRegionsFromBootstrap :: "nominatim_instance \<Rightarrow> nominatim_operation list \<Rightarrow> nominatim_instance prog" where
  "syncRegionsFromBootstrap nom peers =
     (if in_regions nom \<noteq> [] then Ret nom else syncRegionsFromBootstrapLoop nom peers)"

definition merge_region :: "time \<Rightarrow> string \<Rightarrow> region_status list \<Rightarrow> region_status list" where
  "merge_region t region rs = (if List.member (map rs_name rs) region then rs else rs @ [observed_region t region])"

definition mergeRegionsIntoStatus :: "nominatim_instance \<Rightarrow> string list \<Rightarrow> nominatim_instance prog" where
  "mergeRegionsIntoStatus nom regions =
     bind now (\<lambda>t. Ret (set_regions (fold (merge_region t) regions (in_regions nom)) nom))"

definition replaceRegionsStatus :: "nominatim_instance \<Rightarrow> string list \<Rightarrow> nominatim_instance prog" where
  "replaceRegionsStatus nom regions =
     bind now (\<lambda>t. Ret (sealObservedNominatimConfigForce (set_regions (map (observed_region t) regions) nom) True))"

definition syncRegionsFromDriftOp :: "nominatim_operation \<Rightarrow> nominatim_instance \<Rightarrow> nominatim_instance prog" where
  "syncRegionsFromDriftOp op nom =
     (if op_phase_of op \<noteq> Succeeded then Ret nom
      else case op_type_of op of
             AddRegions \<Rightarrow> mergeRegionsIntoStatus nom (os_regions (op_spec op))
           | Rebuild \<Rightarrow> replaceRegionsStatus nom (os_regions (op_spec op))
           | _ \<Rightarrow> Ret nom)"

definition syncRegionsFromDriftOps :: "nominatim_instance \<Rightarrow> nominatim_operation list \<Rightarrow> nominatim_instance prog" where
  "syncRegionsFromDriftOps nom peers = fold_prog syncRegionsFromDriftOp peers nom"

definition observeRegionsFromSucceededOps ::
  "nominatim_instance \<Rightarrow> nominatim_operation list \<Rightarrow> nominatim_instance prog" where
  "observeRegionsFromSucceededOps nom peers =
     bind (syncRegionsFromBootstrap nom peers) (\<lambda>nom. syncRegionsFromDriftOps nom peers)"

subsection \<open>What is observed\<close>

text \<open>
  The abstract account: the list of region names, on which a bootstrap acts if it is empty, an
  AddRegions adds the new names, a Rebuild replaces all.
\<close>

definition region_names :: "nominatim_instance \<Rightarrow> string list" where
  "region_names nom = map rs_name (in_regions nom)"

definition add_name :: "string \<Rightarrow> string list \<Rightarrow> string list" where
  "add_name r ns = (if r \<in> set ns then ns else ns @ [r])"

definition drift_names :: "nominatim_operation \<Rightarrow> string list \<Rightarrow> string list" where
  "drift_names op ns =
     (if op_phase_of op = Succeeded \<and> op_type_of op = AddRegions then fold add_name (os_regions (op_spec op)) ns
      else if op_phase_of op = Succeeded \<and> op_type_of op = Rebuild then os_regions (op_spec op)
      else ns)"

definition bootstrap_names :: "nominatim_instance \<Rightarrow> nominatim_operation list \<Rightarrow> string list \<Rightarrow> string list" where
  "bootstrap_names nom peers ns =
     (if ns \<noteq> [] then ns
      else case find (\<lambda>op. op_type_of op = Bootstrap \<and> op_phase_of op = Succeeded \<and> bootstrapRegions nom op \<noteq> []) peers of
             None \<Rightarrow> [] | Some op \<Rightarrow> bootstrapRegions nom op)"

lemma region_names_set [simp]:
  "region_names (sealObservedNominatimConfigForce nom b) = region_names nom"
  "region_names (sealObservedNominatimConfig nom) = region_names nom"
  "region_names (set_regions rs nom) = map rs_name rs"
  by (simp_all add: region_names_def)

lemma observed_region_name [simp]: "rs_name (observed_region t r) = r" "rs_name \<circ> observed_region t = id"
  by (auto simp: observed_region_def)

lemma merge_region_names: "map rs_name (fold (merge_region t) regions rs) = fold add_name regions (map rs_name rs)"
  by (induction regions arbitrary: rs) (simp_all add: merge_region_def add_name_def)

lemma wp_drift_op:
  "wp (\<lambda>_ _. True) (\<lambda>h' r. case r of Inl e \<Rightarrow> True | Inr nom' \<Rightarrow> region_names nom' = drift_names op (region_names nom))
     h (syncRegionsFromDriftOp op nom)"
  by (auto simp: syncRegionsFromDriftOp_def mergeRegionsIntoStatus_def replaceRegionsStatus_def drift_names_def
      wp_simps merge_region_names region_names_def [of nom] split: op_type.splits sum.splits response.splits)

lemma bootstrap_loop_eq:
  "syncRegionsFromBootstrapLoop nom peers =
     (case find (\<lambda>op. op_type_of op = Bootstrap \<and> op_phase_of op = Succeeded \<and> bootstrapRegions nom op \<noteq> []) peers of
        None \<Rightarrow> Ret nom
      | Some op \<Rightarrow> bind now (\<lambda>t. Ret (sealObservedNominatimConfig
             (set_regions (map (observed_region t) (bootstrapRegions nom op)) nom))))"
  by (induction peers) auto

lemma wp_bootstrap:
  "wp (\<lambda>_ _. True) (\<lambda>h' r. case r of Inl e \<Rightarrow> True | Inr nom' \<Rightarrow>
       region_names nom' = bootstrap_names nom peers (region_names nom)) h (syncRegionsFromBootstrap nom peers)"
  unfolding syncRegionsFromBootstrap_def bootstrap_loop_eq
  by (auto simp: region_names_def [of nom] bootstrap_names_def wp_simps split: sum.splits option.splits response.splits)

lemma wp_observe:
  "wp (\<lambda>_ _. True) (\<lambda>h' r. case r of Inl e \<Rightarrow> True | Inr nom' \<Rightarrow>
       region_names nom' = fold drift_names peers (bootstrap_names nom peers (region_names nom)))
     h (observeRegionsFromSucceededOps nom peers)"
  unfolding observeRegionsFromSucceededOps_def wp_bind syncRegionsFromDriftOps_def
  by (rule wp_mono [OF wp_bootstrap])
     (auto split: sum.splits intro!: wp_mono [OF wp_fold_abs [where view = region_names and g = drift_names, OF wp_drift_op]])

text \<open>A merge leaves what it finds.\<close>

lemma merge_region_prefix: "prefix rs (fold (merge_region t) regions rs)"
proof (induction regions arbitrary: rs)
  case (Cons r regions)
  have "prefix rs (merge_region t r rs)" by (simp add: merge_region_def)
  with Cons show ?case by (simp add: prefix_order.trans)
qed simp

lemma merge_region_distinct: "distinct (map rs_name rs) \<Longrightarrow> distinct (map rs_name (fold (merge_region t) regions rs))"
  by (induction regions arbitrary: rs) (auto simp: merge_region_def)

lemma merge_region_set: "rs_name ` set (fold (merge_region t) regions rs) = rs_name ` set rs \<union> set regions"
  by (induction regions arbitrary: rs) (auto simp: merge_region_def)

section \<open>Bootstrap\<close>

definition BootstrapOperationName :: "nominatim_instance \<Rightarrow> string" where
  "BootstrapOperationName nom = in_name nom @ ''-bootstrap''"

definition listOperationsForParent :: "nominatim_instance \<Rightarrow> nominatim_operation list prog" where
  "listOperationsForParent nom =
     bind (list_operations (in_namespace nom)) (\<lambda>items. Ret (filter (\<lambda>op. op_instance op = in_name nom) items))"

text \<open>\<open>SetControllerReference\<close> and \<open>Create\<close> of a new Operation, as its three callers do.\<close>

definition createOwnedOperation :: "lib \<Rightarrow> string \<Rightarrow> nominatim_instance \<Rightarrow> nominatim_operation \<Rightarrow> unit prog" where
  "createOwnedOperation L what nom op =
     bind (wrap_error (''set controller reference on '' @ what @ '' operation'')
            (lift (set_controller_reference L ''NominatimInstance'' (in_meta nom) (op_meta op))))
       (\<lambda>m. wrap_error (''create '' @ what @ '' operation'') (create (OOperation (op\<lparr>op_meta := m\<rparr>))))"

definition ensureBootstrapOperation :: "lib \<Rightarrow> nominatim_instance \<Rightarrow> nominatim_operation list \<Rightarrow> unit prog" where
  "ensureBootstrapOperation L nom peers =
     (if sp_regions (in_spec nom) = [] then Ret ()
      else if in_regions nom \<noteq> [] then Ret ()
      else if list_ex (\<lambda>p. op_type_of p = Bootstrap) peers then Ret ()
      else if ds_secret (in_database nom) = '''' then
        Fail (Errorf ''cannot create Bootstrap operation: status.database.connectionSecretName is empty'')
      else createOwnedOperation L ''Bootstrap'' nom
        (new_operation (BootstrapOperationName nom) (in_namespace nom) Bootstrap (in_name nom) (sp_regions (in_spec nom))))"

section \<open>Drift\<close>

definition difference :: "string list \<Rightarrow> string list \<Rightarrow> string list" where
  "difference a b = filter (\<lambda>x. \<not> List.member b x) a"

definition AddRegionsName :: "nominatim_instance \<Rightarrow> string" where
  "AddRegionsName nom = in_name nom @ ''-addregions''"

definition RebuildName :: "nominatim_instance \<Rightarrow> string" where
  "RebuildName nom = in_name nom @ ''-rebuild''"

text \<open>The name, with the generation appended if a peer has it.\<close>

definition driftOperationName :: "nominatim_instance \<Rightarrow> nominatim_operation list \<Rightarrow> string \<Rightarrow> string" where
  "driftOperationName nom peers name =
     (if list_ex (\<lambda>p. op_name p = name) peers then name @ ''-'' @ show_int (om_generation (in_meta nom)) else name)"

definition ensureAddRegionsOperation ::
  "lib \<Rightarrow> nominatim_instance \<Rightarrow> nominatim_operation list \<Rightarrow> string list \<Rightarrow> unit prog" where
  "ensureAddRegionsOperation L nom peers missing =
     (if list_ex (\<lambda>p. (op_type_of p = AddRegions \<and> isActiveOperationPhase (op_phase_of p)) \<or>
            (isWriteHeavyOperation (op_type_of p) \<and> isActiveOperationPhase (op_phase_of p))) peers then Ret ()
      else if ds_secret (in_database nom) = '''' then
        Fail (Errorf ''cannot create AddRegions operation: status.database.connectionSecretName is empty'')
      else
        let name = AddRegionsName nom in
        if list_ex (\<lambda>p. op_name p = name \<and> \<not> isTerminalOperationPhase (op_phase_of p)) peers then Ret ()
        else case missing of
               [] \<Rightarrow> Fail (Panic ''index out of range'')
             | next # _ \<Rightarrow>
                 createOwnedOperation L ''AddRegions'' nom
                   (new_operation (driftOperationName nom peers name) (in_namespace nom) AddRegions (in_name nom) [next]))"

definition ensureRebuildOperation ::
  "lib \<Rightarrow> nominatim_instance \<Rightarrow> nominatim_operation list \<Rightarrow> string list \<Rightarrow> unit prog" where
  "ensureRebuildOperation L nom peers desired =
     (if list_ex (\<lambda>p. (op_type_of p = Rebuild \<and> isActiveOperationPhase (op_phase_of p)) \<or>
            (isWriteHeavyOperation (op_type_of p) \<and> isActiveOperationPhase (op_phase_of p))) peers then Ret ()
      else if ds_secret (in_database nom) = '''' then
        Fail (Errorf ''cannot create Rebuild operation: status.database.connectionSecretName is empty'')
      else createOwnedOperation L ''Rebuild'' nom
             (new_operation (driftOperationName nom peers (RebuildName nom)) (in_namespace nom) Rebuild (in_name nom) desired))"

definition reconcileRegionDrift :: "lib \<Rightarrow> nominatim_instance \<Rightarrow> nominatim_operation list \<Rightarrow> unit prog" where
  "reconcileRegionDrift L nom ops =
     (if in_regions nom = [] then Ret ()
      else
        let desired = sp_regions (in_spec nom);
            observed = map rs_name (in_regions nom);
            missing = difference desired observed
        in if missing = [] then Ret ()
           else case sp_policy (in_spec nom) of
                  ChangeRebuild \<Rightarrow> ensureRebuildOperation L nom ops desired
                | _ \<Rightarrow> ensureAddRegionsOperation L nom ops missing)"

lemma set_difference [simp]: "set (difference a b) = set a - set b"
  by (auto simp: difference_def)

lemma difference_empty: "difference a b = [] \<longleftrightarrow> set a \<subseteq> set b"
  by (auto simp: difference_def filter_empty_conv)

text \<open>The only request is the creation of the one Operation.\<close>

lemma wp_createOwnedOperation:
  assumes "\<And>m. set_controller_reference L ''NominatimInstance'' (in_meta nom) (op_meta op) = Inr m \<Longrightarrow>
      G (Create (OOperation (op\<lparr>op_meta := m\<rparr>)))"
  shows "wp (\<lambda>_ q. G q) (\<lambda>_ _. True) h (createOwnedOperation L what nom op)"
  using assms by (auto simp: createOwnedOperation_def wp_simps split: sum.splits)

text \<open>The Operation that a difference of the regions asks for.\<close>

definition drift_operation :: "nominatim_instance \<Rightarrow> nominatim_operation list \<Rightarrow> nominatim_operation \<Rightarrow> bool" where
  "drift_operation nom ops op =
     (in_regions nom \<noteq> [] \<and> op_instance op = in_name nom \<and> ds_secret (in_database nom) \<noteq> '''' \<and>
      (\<forall>p \<in> set ops. \<not> (isWriteHeavyOperation (op_type_of p) \<and> isActiveOperationPhase (op_phase_of p))) \<and>
      (if sp_policy (in_spec nom) = ChangeRebuild
       then op_type_of op = Rebuild \<and> os_regions (op_spec op) = sp_regions (in_spec nom) \<and>
            \<not> set (sp_regions (in_spec nom)) \<subseteq> set (region_names nom)
       else op_type_of op = AddRegions \<and>
            (\<exists>r \<in> set (sp_regions (in_spec nom)) - set (region_names nom). os_regions (op_spec op) = [r])))"

lemma wp_region_drift:
  "wp (\<lambda>_ q. \<exists>op. q = Create (OOperation op) \<and> drift_operation nom ops op) (\<lambda>_ _. True) h (reconcileRegionDrift L nom ops)"
proof (cases "difference (sp_regions (in_spec nom)) (region_names nom)")
  case Nil
  then show ?thesis by (simp add: reconcileRegionDrift_def Let_def region_names_def)
next
  case (Cons r rs)
  then have r: "r \<in> set (sp_regions (in_spec nom)) - set (region_names nom)"
    using set_difference [of "sp_regions (in_spec nom)" "region_names nom"] by auto
  then have "\<not> set (sp_regions (in_spec nom)) \<subseteq> set (region_names nom)" by blast
  with r Cons show ?thesis
    by (auto simp: reconcileRegionDrift_def Let_def ensureAddRegionsOperation_def ensureRebuildOperation_def
        drift_operation_def list_ex_iff region_names_def [symmetric]
        intro!: wp_createOwnedOperation split: region_change_policy.splits)
qed

section \<open>Status\<close>

definition sync_regions_conditions :: "lib \<Rightarrow> nominatim_instance \<Rightarrow> time \<Rightarrow> condition list" where
  "sync_regions_conditions L nom t =
     (let desired = sp_regions (in_spec nom);
          observed = map rs_name (in_regions nom);
          missing = difference desired observed;
          removed = difference observed desired;
          set_c = (\<lambda>ty st re msg. set_condition L ((new_condition nom ty st re msg)\<lparr>c_transition := t\<rparr>));
          conds = in_conditions nom;
          conds = (if removed \<noteq> []
            then set_c ConditionRegionRemovalUnsupported ''True'' ''RegionsRemovedFromSpec''
              (''regions removed from spec but still present in status (DB data is not deleted): '' @ show_strings removed) conds
            else set_c ConditionRegionRemovalUnsupported ''False'' ''NoUnsupportedRemovals''
              ''no observed regions are missing from spec'' conds);
          conds = (if missing \<noteq> []
            then set_c ConditionRegionsDrift ''True'' ''DesiredRegionsNotImported''
              (''desired regions not yet in status.regions: '' @ show_strings missing) conds
            else set_c ConditionRegionsDrift ''False'' ''RegionsAligned''
              ''desired regions are present in status.regions'' conds);
          needsImport = desired \<noteq> [] \<and> missing \<noteq> []
      in if needsImport \<or> removed \<noteq> []
         then set_c ConditionReady ''False'' ''NotReady'' ''desired regions are not fully reflected in status''
                (set_c ConditionProgressing ''True'' ''ReconcilingRegions''
                  ''instance is progressing toward desired region set (operations wired in later tasks)'' conds)
         else set_c ConditionReady ''True'' ''RegionsSynced''
                ''desired and observed region sets match (workload readiness deferred)''
                (set_c ConditionProgressing ''False'' ''Idle''
                  ''no region import work pending from status comparison'' conds))"

definition syncStatus :: "lib \<Rightarrow> nominatim_instance \<Rightarrow> nominatim_instance prog" where
  "syncStatus L nom =
     bind now (\<lambda>t.
       let nom = set_conditions (sync_regions_conditions L nom t) nom;
           nom = nom\<lparr>in_status := (in_status nom)\<lparr>st_observed_generation := om_generation (in_meta nom)\<rparr>\<rparr>
       in update_instance_status (syncImportConfigDriftCondition L nom))"

lemma transition_simps [simp]: "c_type (c\<lparr>c_transition := t\<rparr>) = c_type c" "c_status (c\<lparr>c_transition := t\<rparr>) = c_status c"
  by (cases c, simp)+

lemma condition_types_distinct:
  "distinct [ConditionReady, ConditionProgressing, ConditionRegionsDrift, ConditionRegionRemovalUnsupported,
     ConditionImportConfigDrift, ConditionDeleting]"
  by (simp add: condition_types)

lemma sync_regions_status:
  assumes "lib_conditions L"
  shows "condition_is L (sync_regions_conditions L nom t) ConditionReady ''True'' \<longleftrightarrow>
      set (sp_regions (in_spec nom)) = set (region_names nom)"
    and "condition_is L (sync_regions_conditions L nom t) ConditionProgressing ''True'' \<longleftrightarrow>
      set (sp_regions (in_spec nom)) \<noteq> set (region_names nom)"
    and "condition_is L (sync_regions_conditions L nom t) ConditionRegionsDrift ''True'' \<longleftrightarrow>
      \<not> set (sp_regions (in_spec nom)) \<subseteq> set (region_names nom)"
    and "condition_is L (sync_regions_conditions L nom t) ConditionRegionRemovalUnsupported ''True'' \<longleftrightarrow>
      \<not> set (region_names nom) \<subseteq> set (sp_regions (in_spec nom))"
  unfolding sync_regions_conditions_def Let_def
  using condition_types_distinct
  by (auto simp: condition_list.is_set [OF assms] difference_empty region_names_def)

lemma import_drift_other:
  assumes "lib_conditions L" and "t \<noteq> ConditionImportConfigDrift"
  shows "condition_is L (in_conditions (syncImportConfigDriftCondition L nom)) t s = condition_is L (in_conditions nom) t s"
  using assms(2)
  by (auto simp: syncImportConfigDriftCondition_def Let_def condition_list.is_set [OF assms(1)]
      condition_list.is_remove [OF assms(1)] split: option.splits bool.splits prod.splits)

lemma import_drift_status [simp]:
  "in_meta (syncImportConfigDriftCondition L nom) = in_meta nom"
  "in_spec (syncImportConfigDriftCondition L nom) = in_spec nom"
  "in_regions (syncImportConfigDriftCondition L nom) = in_regions nom"
  "st_observed_generation (in_status (syncImportConfigDriftCondition L nom)) = st_observed_generation (in_status nom)"
  by (auto simp: syncImportConfigDriftCondition_def Let_def split: option.splits bool.splits prod.splits)

text \<open>What \<open>syncStatus\<close> writes.\<close>

definition regions_status :: "lib \<Rightarrow> nominatim_instance \<Rightarrow> bool" where
  "regions_status L nom =
     (let desired = set (sp_regions (in_spec nom)); observed = set (region_names nom);
          holds = (\<lambda>c. condition_is L (in_conditions nom) c ''True'')
      in holds ConditionReady = (desired = observed) \<and>
         holds ConditionProgressing = (desired \<noteq> observed) \<and>
         holds ConditionRegionsDrift = (\<not> desired \<subseteq> observed) \<and>
         holds ConditionRegionRemovalUnsupported = (\<not> observed \<subseteq> desired) \<and>
         st_observed_generation (in_status nom) = om_generation (in_meta nom))"

lemma wp_syncStatus:
  assumes "lib_conditions L"
  shows "wp (\<lambda>_ q. q = Now \<or> (\<exists>nom'. q = UpdateStatus (OInstance nom') \<and> regions_status L nom' \<and>
       in_regions nom' = in_regions nom \<and> in_spec nom' = in_spec nom \<and> in_meta nom' = in_meta nom))
     (\<lambda>_ _. True) h (syncStatus L nom)"
  using condition_types_distinct
  by (auto simp: syncStatus_def wp_simps Let_def regions_status_def import_drift_other [OF assms] region_names_def
      sync_regions_status [OF assms, unfolded region_names_def] split: sum.splits)

section \<open>Properties\<close>

text \<open>C29. The observed regions after a pass over the Operations are what the succeeded ones say, in their
  order: the first import fills an empty set, an AddRegions adds the names that are new, a Rebuild
  replaces all.\<close>

theorem observed_regions:
  assumes "play (observeRegionsFromSucceededOps nom peers) xs = (t, Done (Inr nom'))"
  shows "region_names nom' = fold drift_names peers (bootstrap_names nom peers (region_names nom))"
  using wp_play_result [OF wp_observe assms] by simp

definition sample_operation :: "string \<Rightarrow> op_type \<Rightarrow> op_phase \<Rightarrow> string list \<Rightarrow> nominatim_operation" where
  "sample_operation n t ph rs = set_op_phase ph (new_operation n ''ns'' t ''inst'' rs)"

lemma sample_operation_simps [simp]:
  "op_meta (sample_operation n t ph rs) = new_meta n ''ns''" "op_type_of (sample_operation n t ph rs) = t"
  "op_phase_of (sample_operation n t ph rs) = ph" "os_regions (op_spec (sample_operation n t ph rs)) = rs"
  "op_instance (sample_operation n t ph rs) = ''inst''" "ot_job_ref (op_status (sample_operation n t ph rs)) = None"
  by (simp_all add: sample_operation_def)

definition imported_peers :: "nominatim_operation list" where
  "imported_peers = [sample_operation ''inst-bootstrap'' Bootstrap Succeeded [''a''],
     sample_operation ''inst-addregions'' AddRegions Succeeded [''b'']]"

lemmas play_simps = call_def lift_def

lemma observed_sample:
  "\<exists>t nom'. play (observeRegionsFromSucceededOps sample_instance imported_peers) [RTime 1, RTime 2] = (t, Done (Inr nom'))"
  by (simp add: observeRegionsFromSucceededOps_def syncRegionsFromBootstrap_def syncRegionsFromDriftOps_def
      imported_peers_def syncRegionsFromDriftOp_def mergeRegionsIntoStatus_def bootstrapRegions_def play_simps sample_simps)

theorem observed_regions_witness:
  "\<exists>t nom'. play (observeRegionsFromSucceededOps sample_instance imported_peers) [RTime 1, RTime 2] = (t, Done (Inr nom')) \<and>
     region_names nom' = [''a'', ''b'']"
proof -
  obtain t nom' where p: "play (observeRegionsFromSucceededOps sample_instance imported_peers) [RTime 1, RTime 2] = (t, Done (Inr nom'))"
    using observed_sample by blast
  from observed_regions [OF this] have "region_names nom' = [''a'', ''b'']"
    by (simp add: imported_peers_def drift_names_def bootstrap_names_def bootstrapRegions_def region_names_def
        sample_simps add_name_def)
  with p show ?thesis by blast
qed

text \<open>Without a succeeded Rebuild, what is observed stays, with its sequence state.\<close>

lemma wp_drift_op_prefix:
  assumes "\<not> (op_type_of op = Rebuild \<and> op_phase_of op = Succeeded)" and "prefix rs (in_regions nom)"
  shows "wp (\<lambda>_ _. True) (\<lambda>h' r. case r of Inl e \<Rightarrow> True | Inr nom' \<Rightarrow> prefix rs (in_regions nom')) h
    (syncRegionsFromDriftOp op nom)"
  using assms merge_region_prefix
  by (auto simp: syncRegionsFromDriftOp_def mergeRegionsIntoStatus_def wp_simps
      split: op_type.splits sum.splits response.splits intro: prefix_order.trans)

lemma wp_observe_prefix:
  assumes "\<And>op. op \<in> set peers \<Longrightarrow> \<not> (op_type_of op = Rebuild \<and> op_phase_of op = Succeeded)"
  shows "wp (\<lambda>_ _. True) (\<lambda>h' r. case r of Inl e \<Rightarrow> True | Inr nom' \<Rightarrow> prefix (in_regions nom) (in_regions nom')) h
    (observeRegionsFromSucceededOps nom peers)"
proof -
  have b: "wp (\<lambda>_ _. True) (\<lambda>h' r. case r of Inl e \<Rightarrow> True | Inr nom' \<Rightarrow> prefix (in_regions nom) (in_regions nom')) h
      (syncRegionsFromBootstrap nom peers)"
    by (auto simp: syncRegionsFromBootstrap_def bootstrap_loop_eq wp_simps split: sum.splits option.splits response.splits)
  show ?thesis unfolding observeRegionsFromSucceededOps_def wp_bind syncRegionsFromDriftOps_def
  proof (rule wp_mono [OF b])
    fix h' and r :: "error + nominatim_instance"
    assume "case r of Inl e \<Rightarrow> True | Inr nom' \<Rightarrow> prefix (in_regions nom) (in_regions nom')"
    then show "case r of Inl e \<Rightarrow> (case Inl e of Inl e \<Rightarrow> True | Inr nom' \<Rightarrow> prefix (in_regions nom) (in_regions nom'))
        | Inr a \<Rightarrow> wp (\<lambda>_ _. True) (\<lambda>h' r. case r of Inl e \<Rightarrow> True | Inr nom' \<Rightarrow> prefix (in_regions nom) (in_regions nom')) h'
            (fold_prog syncRegionsFromDriftOp peers a)"
      by (auto split: sum.splits
          intro!: wp_fold_prog [where I = "\<lambda>_ n. prefix (in_regions nom) (in_regions n)"]
            wp_mono [OF wp_drift_op_prefix] assms)
  qed simp
qed

text \<open>Without a succeeded Rebuild among the Operations, an observation only appends: every region
  observed before stays, in its place and with its sequence state.\<close>

theorem observation_appends:
  assumes "play (observeRegionsFromSucceededOps nom peers) xs = (t, Done (Inr nom'))"
    and "\<And>op. op \<in> set peers \<Longrightarrow> \<not> (op_type_of op = Rebuild \<and> op_phase_of op = Succeeded)"
  shows "prefix (in_regions nom) (in_regions nom')"
  using wp_play_result [OF wp_observe_prefix [OF assms(2)] assms(1)] by simp

theorem observation_appends_witness:
  "\<exists>t nom'. play (observeRegionsFromSucceededOps (set_regions [sample_region ''a''] sample_instance) imported_peers) [RTime 2] =
     (t, Done (Inr nom')) \<and> prefix [sample_region ''a''] (in_regions nom')"
proof -
  have "\<exists>t nom'. play (observeRegionsFromSucceededOps (set_regions [sample_region ''a''] sample_instance) imported_peers) [RTime 2] =
     (t, Done (Inr nom'))"
    by (simp add: observeRegionsFromSucceededOps_def syncRegionsFromBootstrap_def syncRegionsFromDriftOps_def
        imported_peers_def syncRegionsFromDriftOp_def mergeRegionsIntoStatus_def play_simps)
  then obtain t nom' where p: "play (observeRegionsFromSucceededOps (set_regions [sample_region ''a''] sample_instance) imported_peers) [RTime 2] =
     (t, Done (Inr nom'))" by blast
  have "prefix (in_regions (set_regions [sample_region ''a''] sample_instance)) (in_regions nom')"
    by (rule observation_appends [OF p]) (auto simp: imported_peers_def)
  with p show ?thesis by auto
qed

text \<open>
  A succeeded Rebuild is observed again in every pass, as long as it exists: it resets the sequence
  states and seals the settings of the current spec, so that no \<open>ImportConfigDrift\<close> can show.
\<close>

theorem rebuild_observed_again:
  assumes "in_regions nom \<noteq> []" and "op_type_of op = Rebuild" and "op_phase_of op = Succeeded"
    and "os_regions (op_spec op) \<noteq> []"
  shows "\<exists>nom'. play (observeRegionsFromSucceededOps nom [op]) [RTime t] = ([(Now, RTime t)], Done (Inr nom')) \<and>
    in_regions nom' = map (observed_region t) (os_regions (op_spec op)) \<and> \<not> import_drift nom'"
  using assms
  by (auto simp: observeRegionsFromSucceededOps_def syncRegionsFromBootstrap_def syncRegionsFromDriftOps_def
      syncRegionsFromDriftOp_def replaceRegionsStatus_def play_simps import_drift_def
      sealObservedNominatimConfigForce_def Let_def split: list.splits option.splits)


definition drifted_instance :: nominatim_instance where
  "drifted_instance = set_regions [sample_region ''europe/monaco''] sample_instance"


text \<open>
  The names run out: the third region that is missing under one generation of the spec is given a name
  that a finished Operation has, and its creation fails from then on.
\<close>

theorem addregions_name_taken:
  assumes "op_name p = AddRegionsName nom" and "isTerminalOperationPhase (op_phase_of p)"
    and "op_name p' = AddRegionsName nom @ ''-'' @ show_int (om_generation (in_meta nom))"
    and "isTerminalOperationPhase (op_phase_of p')"
    and "ds_secret (in_database nom) \<noteq> ''''" and "lib_owners L"
    and "play (ensureAddRegionsOperation L nom [p, p'] (r # rs)) [] = (t, Waiting (Create (OOperation op)))"
  shows "op_name op = op_name p'"
proof -
  have "\<not> isActiveOperationPhase (op_phase_of p)" "\<not> isActiveOperationPhase (op_phase_of p')"
    using assms(2,4) active_not_terminal by blast+
  with assms(1-5,7) show ?thesis
    by (auto simp: ensureAddRegionsOperation_def Let_def driftOperationName_def createOwnedOperation_def
        wrap_error_def play_simps controller_references.set_ref_name [OF assms(6)] split: sum.splits)
qed

text \<open>C34. The status that a pass writes: Ready exactly when the desired and the observed regions are the
  same set, Progressing exactly when not, \<open>RegionsDrift\<close> exactly when a desired region is not observed,
  \<open>RegionRemovalUnsupported\<close> exactly when an observed region is not desired; for the current generation.\<close>

theorem status_conditions:
  assumes "lib_conditions L" and "q \<in> set (issued (play (syncStatus L nom) xs))" and "q \<noteq> Now"
  shows "\<exists>nom'. q = UpdateStatus (OInstance nom') \<and> regions_status L nom' \<and>
    in_regions nom' = in_regions nom \<and> in_spec nom' = in_spec nom \<and> in_meta nom' = in_meta nom"
  using wp_issued [OF wp_syncStatus [OF assms(1)] assms(2)] assms(3) by blast

theorem status_conditions_witness:
  "\<exists>nom'. issued (play (syncStatus sample_lib drifted_instance) [RTime 1]) = [Now, UpdateStatus (OInstance nom')] \<and>
     \<not> condition_is sample_lib (in_conditions nom') ConditionReady ''True''"
proof -
  have "\<exists>nom'. issued (play (syncStatus sample_lib drifted_instance) [RTime 1]) = [Now, UpdateStatus (OInstance nom')]"
    by (simp add: syncStatus_def play_simps issued_def Let_def update_instance_status_def)
  then obtain nom' where i: "issued (play (syncStatus sample_lib drifted_instance) [RTime 1]) = [Now, UpdateStatus (OInstance nom')]" ..
  with status_conditions [of sample_lib "UpdateStatus (OInstance nom')" drifted_instance "[RTime 1]"]
  show ?thesis by (auto simp: regions_status_def region_names_def drifted_instance_def sample_simps)
qed

end
