(* ===== verification/Database.thy ===== *)
theory Database
  imports Regions
begin

text \<open>
  \<open>internal/controller/nominatim_database.go\<close>: the three ways of attaching a database, and the owned
  CNPG Cluster and Database objects. The mutate functions handed to \<open>CreateOrUpdate\<close> are definitions
  of their own; CNPG objects are untyped, their fields are read and written through the library.
\<close>

section \<open>Names\<close>

definition OwnedCNPGClusterName :: "nominatim_instance \<Rightarrow> string" where
  "OwnedCNPGClusterName nom = in_name nom @ ''-pg''"

definition LiveOwnedCNPGClusterName :: "nominatim_instance \<Rightarrow> string" where
  "LiveOwnedCNPGClusterName nom =
     (if ds_cluster (in_database nom) \<noteq> '''' then ds_cluster (in_database nom) else OwnedCNPGClusterName nom)"

definition CNPGDatabaseNameForCluster :: "string \<Rightarrow> string" where
  "CNPGDatabaseNameForCluster clusterName = clusterName @ ''-nominatim''"

definition OwnedCNPGDatabaseName :: "nominatim_instance \<Rightarrow> string" where
  "OwnedCNPGDatabaseName nom = CNPGDatabaseNameForCluster (LiveOwnedCNPGClusterName nom)"

definition CNPGAppSecretName :: "string \<Rightarrow> string" where
  "CNPGAppSecretName clusterName = clusterName @ ''-app''"

definition cnpgAppDatabaseName :: string where "cnpgAppDatabaseName = ''nominatim''"
definition cnpgAppOwnerName :: string where "cnpgAppOwnerName = ''nominatim''"
definition cnpgDefaultPostGISImage :: string where
  "cnpgDefaultPostGISImage = ''ghcr.io/cloudnative-pg/postgis:17-3-standard-trixie''"
definition cnpgNominatimWebRole :: string where "cnpgNominatimWebRole = ''www-data''"
definition cnpgDatabaseReclaimDelete :: string where "cnpgDatabaseReclaimDelete = ''delete''"
definition cnpgNominatimExtensions :: "string list" where
  "cnpgNominatimExtensions = [''hstore'', ''postgis'', ''postgis_raster'']"

definition annotationRebuildDBReset :: string where
  "annotationRebuildDBReset = ''nominatim.zebernst.dev/rebuild-db-reset''"
definition annotationRebuildDBPrevUID :: string where
  "annotationRebuildDBPrevUID = ''nominatim.zebernst.dev/rebuild-db-prev-uid''"
definition rebuildDBResetPending :: string where "rebuildDBResetPending = ''pending''"
definition rebuildDBResetDone :: string where "rebuildDBResetDone = ''done''"
definition rebuildDBPrevUIDNone :: string where "rebuildDBPrevUIDNone = ''none''"

lemmas rebuild_annotations = annotationRebuildDBReset_def annotationRebuildDBPrevUID_def rebuildDBResetPending_def
  rebuildDBResetDone_def rebuildDBPrevUIDNone_def

section \<open>Mutate functions\<close>

text \<open>A mutate function on an untyped object, as one on any object.\<close>

fun on_unstructured :: "(unstructured \<Rightarrow> error + unstructured) \<Rightarrow> obj \<Rightarrow> error + obj" where
  "on_unstructured f (OUnstructured k u) = and_then (f u) (\<lambda>u'. Inr (OUnstructured k u'))"
| "on_unstructured f x = Inl BadResponse"

definition set_field :: "lib \<Rightarrow> string list \<Rightarrow> json \<Rightarrow> unstructured \<Rightarrow> error + unstructured" where
  "set_field L p v u = and_then (set_nested L (un_object u) p v) (\<lambda>j. Inr (u\<lparr>un_object := j\<rparr>))"

definition own_unstructured :: "lib \<Rightarrow> nominatim_instance \<Rightarrow> unstructured \<Rightarrow> error + unstructured" where
  "own_unstructured L nom u =
     and_then (set_controller_reference L ''NominatimInstance'' (in_meta nom) (un_meta u)) (\<lambda>m. Inr (u\<lparr>un_meta := m\<rparr>))"

definition cnpgStorageFromVolumeClaimTemplate :: "volume_claim_template \<Rightarrow> error + strmap" where
  "cnpgStorageFromVolumeClaimTemplate vct =
     (let out = (case pc_storage_class (vct_spec vct) of
                   Some c \<Rightarrow> (if c \<noteq> '''' then [(''storageClass'', c)] else []) | None \<Rightarrow> []) @
                (case map_of (pc_requests (vct_spec vct)) ''storage'' of
                   Some q \<Rightarrow> [(''size'', q)] | None \<Rightarrow> [])
      in if out = []
         then Inl (Errorf ''database.cluster.storage must set size and/or storageClass via volumeClaimTemplate'')
         else Inr out)"

fun set_storage :: "lib \<Rightarrow> strmap \<Rightarrow> unstructured \<Rightarrow> error + unstructured" where
  "set_storage L [] u = Inr u"
| "set_storage L ((k, v) # kvs) u =
     and_then (set_field L [''spec'', ''storage'', k] (JString v) u) (set_storage L kvs)"

definition when_some :: "'a option \<Rightarrow> ('a \<Rightarrow> 'u \<Rightarrow> error + 'u) \<Rightarrow> 'u \<Rightarrow> error + 'u" where
  "when_some v f u = (case v of None \<Rightarrow> Inr u | Some x \<Rightarrow> f x u)"

text \<open>
  The resources and the spread constraints are typed: their JSON is an object and an array. The
  affinity is raw: null decodes to a nil map, anything but an object is an error.
\<close>

definition applyOwnedCNPGClusterTune :: "lib \<Rightarrow> cluster_create \<Rightarrow> unstructured \<Rightarrow> error + unstructured" where
  "applyOwnedCNPGClusterTune L tune u =
     and_then (when_some (cc_resources tune) (set_field L [''spec'', ''resources'']) u) (\<lambda>u.
     and_then (when_some (cc_affinity tune) (\<lambda>a u. case a of
           RawEmpty \<Rightarrow> Inr u
         | RawInvalid \<Rightarrow> Inl (Wrap ''decode cluster.affinity'' (Errorf ''invalid character''))
         | RawJson (JObject m) \<Rightarrow> set_field L [''spec'', ''affinity''] (JObject m) u
         | RawJson JNull \<Rightarrow> set_field L [''spec'', ''affinity''] JNull u
         | RawJson j \<Rightarrow> Inl (Wrap ''decode cluster.affinity'' (Errorf ''cannot unmarshal''))) u) (\<lambda>u.
     if cc_topology tune \<noteq> []
     then set_field L [''spec'', ''topologySpreadConstraints''] (JArray (cc_topology tune)) u
     else Inr u))"

fun json_field :: "json \<Rightarrow> string \<Rightarrow> json option" where
  "json_field (JObject m) k = map_of m k"
| "json_field _ k = None"

definition web_role :: json where
  "web_role = JObject [(''name'', JString cnpgNominatimWebRole), (''ensure'', JString ''present''),
     (''login'', JBool False), (''comment'', JString ''Nominatim DATABASE_WEBUSER (read-only grants target)'')]"

definition is_web_role :: "json \<Rightarrow> bool" where
  "is_web_role r = (json_field r ''name'' = Some (JString cnpgNominatimWebRole))"

definition managed_roles :: "string list" where "managed_roles = [''spec'', ''managed'', ''roles'']"

definition ensureCNPGManagedWebRole :: "lib \<Rightarrow> unstructured \<Rightarrow> error + unstructured" where
  "ensureCNPGManagedWebRole L u =
     and_then (nested_slice L (un_object u) managed_roles) (\<lambda>found.
       let roles = (case found of None \<Rightarrow> [] | Some rs \<Rightarrow> rs) in
       if list_ex is_web_role roles then Inr u
       else set_field L managed_roles (JArray (roles @ [web_role])) u)"

definition initdb_database :: "string list" where
  "initdb_database = [''spec'', ''bootstrap'', ''initdb'', ''database'']"
definition initdb_owner :: "string list" where
  "initdb_owner = [''spec'', ''bootstrap'', ''initdb'', ''owner'']"

definition mutateOwnedCluster :: "lib \<Rightarrow> nominatim_instance \<Rightarrow> cluster_create \<Rightarrow> unstructured \<Rightarrow> error + unstructured" where
  "mutateOwnedCluster L nom tune cluster =
     and_then (own_unstructured L nom cluster) (\<lambda>u.
     and_then (set_field L [''spec'', ''instances'']
         (JInt (case cc_instances tune of None \<Rightarrow> 1 | Some n \<Rightarrow> n)) u) (\<lambda>u.
     and_then (when_some (cc_storage tune)
         (\<lambda>vct u. and_then (cnpgStorageFromVolumeClaimTemplate vct) (\<lambda>st. set_storage L st u)) u) (\<lambda>u.
     and_then (applyOwnedCNPGClusterTune L tune u) (\<lambda>u.
     and_then (set_field L [''spec'', ''imageName''] (JString cnpgDefaultPostGISImage) u) (\<lambda>u.
     and_then (if om_version (un_meta u) = ''''
               then and_then (set_field L initdb_database (JString cnpgAppDatabaseName) u)
                      (set_field L initdb_owner (JString cnpgAppOwnerName))
               else Inr u) (ensureCNPGManagedWebRole L))))))"

definition ensureOwnedCNPGCluster :: "lib \<Rightarrow> nominatim_instance \<Rightarrow> string \<Rightarrow> unit prog" where
  "ensureOwnedCNPGCluster L nom clusterName =
     (case db_cluster (sp_database (in_spec nom)) of
        None \<Rightarrow> Fail (Errorf (''ensureOwnedCNPGCluster '' @ quote clusterName @ '': spec.database.cluster is required''))
      | Some tune \<Rightarrow>
          wrap_error (''reconcile owned CNPG Cluster '' @ quote clusterName)
            (retry_on_conflict (retries L)
              (create_or_update (OUnstructured KCluster (new_unstructured clusterName (in_namespace nom)))
                (on_unstructured (mutateOwnedCluster L nom tune)))))"

definition extension_list :: "json list" where
  "extension_list = map (\<lambda>n. JObject [(''name'', JString n), (''ensure'', JString ''present'')]) cnpgNominatimExtensions"

definition applyOwnedCNPGDatabaseSpec :: "lib \<Rightarrow> string \<Rightarrow> unstructured \<Rightarrow> error + unstructured" where
  "applyOwnedCNPGDatabaseSpec L clusterName db =
     and_then (set_field L [''spec'', ''name''] (JString cnpgAppDatabaseName) db) (\<lambda>u.
     and_then (set_field L [''spec'', ''owner''] (JString cnpgAppOwnerName) u) (\<lambda>u.
     and_then (set_field L [''spec'', ''cluster'', ''name''] (JString clusterName) u) (\<lambda>u.
     and_then (set_field L [''spec'', ''extensions''] (JArray extension_list) u) (\<lambda>u.
     and_then (set_field L [''spec'', ''databaseReclaimPolicy''] (JString cnpgDatabaseReclaimDelete) u)
       (set_field L [''spec'', ''ensure''] (JString ''present''))))))"

definition mutateOwnedDatabase :: "lib \<Rightarrow> nominatim_instance \<Rightarrow> string \<Rightarrow> unstructured \<Rightarrow> error + unstructured" where
  "mutateOwnedDatabase L nom clusterName db =
     and_then (own_unstructured L nom db) (applyOwnedCNPGDatabaseSpec L clusterName)"

definition ensureOwnedCNPGDatabase :: "lib \<Rightarrow> nominatim_instance \<Rightarrow> string \<Rightarrow> unit prog" where
  "ensureOwnedCNPGDatabase L nom clusterName =
     (let dbName = CNPGDatabaseNameForCluster clusterName in
      wrap_error (''reconcile owned CNPG Database '' @ quote dbName)
        (retry_on_conflict (retries L)
          (create_or_update (OUnstructured KDatabase (new_unstructured dbName (in_namespace nom)))
            (on_unstructured (mutateOwnedDatabase L nom clusterName)))))"

section \<open>Attaching the database\<close>

text \<open>The Rebuild that is in the middle of its drop and recreate.\<close>

definition resettingRebuild :: "nominatim_instance \<Rightarrow> nominatim_operation \<Rightarrow> bool" where
  "resettingRebuild nom op =
     (op_instance op = in_name nom \<and> op_type_of op = Rebuild \<and> isActiveOperationPhase (op_phase_of op) \<and>
      map_get (om_annotations (op_meta op)) annotationRebuildDBReset = rebuildDBResetPending)"

definition hasPendingRebuildDatabaseReset :: "nominatim_instance \<Rightarrow> bool prog" where
  "hasPendingRebuildDatabaseReset nom =
     bind (list_operations (in_namespace nom)) (\<lambda>items. Ret (list_ex (resettingRebuild nom) items))"

definition reconcileOwnedCNPGDatabase :: "lib \<Rightarrow> nominatim_instance \<Rightarrow> string \<Rightarrow> unit prog" where
  "reconcileOwnedCNPGDatabase L nom clusterName =
     bind (hasPendingRebuildDatabaseReset nom) (\<lambda>pending.
       if pending then Ret () else ensureOwnedCNPGDatabase L nom clusterName)"

definition getCNPGCluster :: "string \<Rightarrow> string \<Rightarrow> unstructured prog" where
  "getCNPGCluster namespace name = get_unstructured KCluster (namespace, name)"

definition reconcileDatabaseConnectionSecret :: "nominatim_instance \<Rightarrow> string \<Rightarrow> nominatim_instance prog" where
  "reconcileDatabaseConnectionSecret nom name =
     bind (wrap_error (''connectionSecretRef '' @ quote name) (get_present KSecret (in_namespace nom, name))) (\<lambda>_.
       Ret (set_database \<lparr>ds_mode = ConnectionSecret, ds_secret = name, ds_cluster = '''', ds_degraded = True\<rparr> nom))"

definition reconcileDatabaseClusterRef :: "nominatim_instance \<Rightarrow> cluster_ref \<Rightarrow> nominatim_instance prog" where
  "reconcileDatabaseClusterRef nom ref =
     (let clusterName = cr_name ref in
      bind (wrap_error (''clusterRef '' @ quote clusterName) (getCNPGCluster (in_namespace nom) clusterName)) (\<lambda>cluster.
      bind (case cr_secret_ref ref of
              Some s \<Rightarrow>
                if s \<noteq> '''' then
                  bind (wrap_error (''clusterRef.connectionSecretRef '' @ quote s) (get_present KSecret (in_namespace nom, s))) (\<lambda>_. Ret s)
                else Ret (CNPGAppSecretName clusterName)
            | None \<Rightarrow> Ret (CNPGAppSecretName clusterName)) (\<lambda>secretName.
      Ret (set_database \<lparr>ds_mode = ClusterAttached, ds_secret = secretName, ds_cluster = om_name (un_meta cluster),
             ds_degraded = False\<rparr> nom))))"

definition reconcileDatabaseClusterCreate :: "lib \<Rightarrow> nominatim_instance \<Rightarrow> nominatim_instance prog" where
  "reconcileDatabaseClusterCreate L nom =
     (let clusterName = LiveOwnedCNPGClusterName nom in
      bind (ensureOwnedCNPGCluster L nom clusterName) (\<lambda>_.
      bind (reconcileOwnedCNPGDatabase L nom clusterName) (\<lambda>_.
      Ret (set_database \<lparr>ds_mode = ClusterManaged, ds_secret = CNPGAppSecretName clusterName, ds_cluster = clusterName,
             ds_degraded = False\<rparr> nom))))"

definition reconcileDatabase :: "lib \<Rightarrow> nominatim_instance \<Rightarrow> nominatim_instance prog" where
  "reconcileDatabase L nom =
     (let db = sp_database (in_spec nom) in
      case db_secret_ref db of
        Some name \<Rightarrow> reconcileDatabaseConnectionSecret nom name
      | None \<Rightarrow>
          (case db_cluster_ref db of
             Some ref \<Rightarrow> reconcileDatabaseClusterRef nom ref
           | None \<Rightarrow>
               (case db_cluster db of
                  Some _ \<Rightarrow> reconcileDatabaseClusterCreate L nom
                | None \<Rightarrow> Fail (Errorf ''database requires exactly one of cluster, clusterRef, or connectionSecretRef''))))"

section \<open>What the mutate functions establish\<close>

lemma set_field_meta: "set_field L p v u = Inr u' \<Longrightarrow> un_meta u' = un_meta u"
  by (auto simp: set_field_def)

lemma set_field_object: "set_field L p v u = Inr u' \<Longrightarrow> set_nested L (un_object u) p v = Inr (un_object u')"
  by (auto simp: set_field_def)

lemma set_field_reads:
  assumes "lib_fields L" and "set_field L p v u = Inr u'"
  shows "v = JString x \<Longrightarrow> nested_string L (un_object u') p = Inr (Some x)"
    and "v = JArray xs \<Longrightarrow> nested_slice L (un_object u') p = Inr (Some xs)"
    and "diverge p q \<Longrightarrow> nested_string L (un_object u') q = nested_string L (un_object u) q"
    and "diverge p q \<Longrightarrow> nested_slice L (un_object u') q = nested_slice L (un_object u) q"
  using set_field_object [OF assms(2)] nested_fields.str_set [OF assms(1)] nested_fields.slice_set [OF assms(1)]
    nested_fields.str_set_other [OF assms(1)] nested_fields.slice_set_other [OF assms(1)]
  by blast+

text \<open>A step that leaves the metadata and the fields at \<open>q\<close> alone.\<close>

definition leaves :: "lib \<Rightarrow> string list \<Rightarrow> unstructured \<Rightarrow> unstructured \<Rightarrow> bool" where
  "leaves L q u u' = (un_meta u' = un_meta u \<and> nested_string L (un_object u') q = nested_string L (un_object u) q \<and>
     nested_slice L (un_object u') q = nested_slice L (un_object u) q)"

lemma leaves_refl [simp]: "leaves L q u u"
  by (simp add: leaves_def)

lemma leaves_trans [trans]: "leaves L q u v \<Longrightarrow> leaves L q v w \<Longrightarrow> leaves L q u w"
  by (simp add: leaves_def)

lemma set_field_leaves: "lib_fields L \<Longrightarrow> set_field L p v u = Inr u' \<Longrightarrow> diverge p q \<Longrightarrow> leaves L q u u'"
  by (simp add: leaves_def set_field_meta set_field_reads(3,4))

lemma when_some_leaves:
  "when_some v f u = Inr u' \<Longrightarrow> (\<And>x. v = Some x \<Longrightarrow> f x u = Inr u' \<Longrightarrow> leaves L q u u') \<Longrightarrow> leaves L q u u'"
  by (auto simp: when_some_def split: option.splits)

lemma set_storage_leaves:
  "lib_fields L \<Longrightarrow> set_storage L kvs u = Inr u' \<Longrightarrow> diverge [''spec'', ''storage''] q \<Longrightarrow> leaves L q u u'"
proof (induction kvs arbitrary: u)
  case (Cons kv kvs)
  obtain k v where kv: "kv = (k, v)" by (cases kv)
  with Cons.prems obtain u1 where
    u1: "set_field L [''spec'', ''storage'', k] (JString v) u = Inr u1" "set_storage L kvs u1 = Inr u'" by auto
  have "diverge [''spec'', ''storage'', k] q"
    using Cons.prems(3) by (auto simp: diverge_def prefix_def Cons_eq_append_conv append_eq_Cons_conv)
  from set_field_leaves [OF Cons.prems(1) u1(1) this] Cons.IH [OF Cons.prems(1) u1(2) Cons.prems(3)]
  show ?case by (rule leaves_trans)
qed simp

lemma tune_leaves:
  assumes "lib_fields L" and "applyOwnedCNPGClusterTune L c u = Inr u'"
    and "diverge [''spec'', ''resources''] q" and "diverge [''spec'', ''affinity''] q"
    and "diverge [''spec'', ''topologySpreadConstraints''] q"
  shows "leaves L q u u'"
  using assms(2)
  by (auto simp: applyOwnedCNPGClusterTune_def split: if_splits option.splits raw_extension.splits json.splits
      dest!: set_field_leaves [OF assms(1) _ assms(3)] set_field_leaves [OF assms(1) _ assms(4)]
        set_field_leaves [OF assms(1) _ assms(5)]
      simp: when_some_def intro: leaves_trans)

lemma web_role_is: "is_web_role web_role"
  by (simp add: is_web_role_def web_role_def)

lemma ensure_web_role:
  assumes "lib_fields L" and "ensureCNPGManagedWebRole L u = Inr u'"
  shows "\<exists>old rs. nested_slice L (un_object u) managed_roles = Inr old \<and>
      nested_slice L (un_object u') managed_roles = Inr (if rs = [] then old else Some ((case old of None \<Rightarrow> [] | Some r \<Rightarrow> r) @ rs)) \<and>
      (\<exists>all. nested_slice L (un_object u') managed_roles = Inr (Some all) \<and> list_ex is_web_role all)"
    and "diverge managed_roles q \<Longrightarrow> leaves L q u u'"
proof -
  from assms(2) obtain old where old: "nested_slice L (un_object u) managed_roles = Inr old"
    by (auto simp: ensureCNPGManagedWebRole_def)
  let ?rs = "case old of None \<Rightarrow> [] | Some r \<Rightarrow> r"
  show "\<exists>old rs. nested_slice L (un_object u) managed_roles = Inr old \<and>
      nested_slice L (un_object u') managed_roles = Inr (if rs = [] then old else Some ((case old of None \<Rightarrow> [] | Some r \<Rightarrow> r) @ rs)) \<and>
      (\<exists>all. nested_slice L (un_object u') managed_roles = Inr (Some all) \<and> list_ex is_web_role all)"
  proof (cases "list_ex is_web_role ?rs")
    case True
    then have "u' = u" using assms(2) old by (simp add: ensureCNPGManagedWebRole_def)
    with True old show ?thesis by (intro exI [of _ old] exI [of _ "[]"]) (auto split: option.splits)
  next
    case False
    then have "set_field L managed_roles (JArray (?rs @ [web_role])) u = Inr u'"
      using assms(2) old by (simp add: ensureCNPGManagedWebRole_def)
    from set_field_reads(2) [OF assms(1) this refl] old show ?thesis
      by (intro exI [of _ old] exI [of _ "[web_role]"]) (auto simp: web_role_is)
  qed
  show "diverge managed_roles q \<Longrightarrow> leaves L q u u'"
    using assms(2) set_field_leaves [OF assms(1)]
    by (auto simp: ensureCNPGManagedWebRole_def Let_def split: if_splits)
qed

lemma mutateOwnedCluster_steps:
  assumes "mutateOwnedCluster L nom c u = Inr u'"
  obtains m u2 u3 u4 u5 u6 where
    "set_controller_reference L ''NominatimInstance'' (in_meta nom) (un_meta u) = Inr m"
    "set_field L [''spec'', ''instances''] (JInt (case cc_instances c of None \<Rightarrow> 1 | Some n \<Rightarrow> n)) (u\<lparr>un_meta := m\<rparr>) = Inr u2"
    "when_some (cc_storage c) (\<lambda>vct u. and_then (cnpgStorageFromVolumeClaimTemplate vct) (\<lambda>st. set_storage L st u)) u2 = Inr u3"
    "applyOwnedCNPGClusterTune L c u3 = Inr u4"
    "set_field L [''spec'', ''imageName''] (JString cnpgDefaultPostGISImage) u4 = Inr u5"
    "(if om_version (un_meta u5) = ''''
      then and_then (set_field L initdb_database (JString cnpgAppDatabaseName) u5)
             (set_field L initdb_owner (JString cnpgAppOwnerName))
      else Inr u5) = Inr u6"
    "ensureCNPGManagedWebRole L u6 = Inr u'"
  using assms by (fastforce simp: mutateOwnedCluster_def own_unstructured_def)

lemma diverge_paths [simp]:
  "diverge [''spec'', ''storage''] managed_roles" "diverge [''spec'', ''storage''] initdb_database"
  "diverge [''spec'', ''resources''] managed_roles" "diverge [''spec'', ''resources''] initdb_database"
  "diverge [''spec'', ''affinity''] managed_roles" "diverge [''spec'', ''affinity''] initdb_database"
  "diverge [''spec'', ''topologySpreadConstraints''] managed_roles"
  "diverge [''spec'', ''topologySpreadConstraints''] initdb_database"
  "diverge [''spec'', ''instances''] managed_roles" "diverge [''spec'', ''instances''] initdb_database"
  "diverge [''spec'', ''imageName''] managed_roles" "diverge [''spec'', ''imageName''] initdb_database"
  "diverge initdb_database managed_roles" "diverge initdb_owner managed_roles"
  "diverge initdb_owner initdb_database" "diverge initdb_database [''spec'', ''imageName'']"
  "diverge initdb_owner [''spec'', ''imageName'']" "diverge managed_roles [''spec'', ''imageName'']"
  "diverge managed_roles initdb_database"
  by (simp_all add: managed_roles_def initdb_database_def initdb_owner_def)

text \<open>The steps before the image leave the roles and the bootstrap database alone.\<close>

lemma mutate_prefix_leaves:
  assumes "lib_fields L"
    and "set_field L [''spec'', ''instances''] v u1 = Inr u2"
    and "when_some s (\<lambda>vct u. and_then (cnpgStorageFromVolumeClaimTemplate vct) (\<lambda>st. set_storage L st u)) u2 = Inr u3"
    and "applyOwnedCNPGClusterTune L c u3 = Inr u4"
    and "set_field L [''spec'', ''imageName''] w u4 = Inr u5"
    and "q = managed_roles \<or> q = initdb_database"
  shows "leaves L q u1 u5"
proof -
  have "leaves L q u1 u2" using assms(6) by (intro set_field_leaves [OF assms(1,2)]) auto
  also have "leaves L q u2 u3"
    by (rule when_some_leaves [OF assms(3)]) (use assms(6) in \<open>auto intro: set_storage_leaves [OF assms(1)]\<close>)
  also have "leaves L q u3 u4" using assms(6) by (intro tune_leaves [OF assms(1,4)]) auto
  also have "leaves L q u4 u5" using assms(6) by (intro set_field_leaves [OF assms(1,5)]) auto
  finally show ?thesis .
qed

lemma initdb_step:
  assumes "lib_fields L"
    and "(if om_version (un_meta u) = ''''
      then and_then (set_field L initdb_database (JString cnpgAppDatabaseName) u)
             (set_field L initdb_owner (JString cnpgAppOwnerName))
      else Inr u) = Inr u'"
  shows "leaves L managed_roles u u'" and "leaves L [''spec'', ''imageName''] u u'"
    and "nested_string L (un_object u') initdb_database =
      (if om_version (un_meta u) = '''' then Inr (Some cnpgAppDatabaseName) else nested_string L (un_object u) initdb_database)"
proof -
  have step: "leaves L q u u'" if "diverge initdb_database q" "diverge initdb_owner q" for q
    using assms(2) set_field_leaves [OF assms(1) _ that(1)] set_field_leaves [OF assms(1) _ that(2)]
    by (auto split: if_splits) (metis leaves_trans)
  show "leaves L managed_roles u u'" "leaves L [''spec'', ''imageName''] u u'"
    by (rule step; simp)+
  show "nested_string L (un_object u') initdb_database =
      (if om_version (un_meta u) = '''' then Inr (Some cnpgAppDatabaseName) else nested_string L (un_object u) initdb_database)"
    using assms(2) set_field_reads(1,3) [OF assms(1)] by (auto split: if_splits)
qed

section \<open>Properties\<close>


text \<open>A Cluster that CNPG has expanded, and an instance that owns it.\<close>

definition sample_create :: cluster_create where
  "sample_create = \<lparr>cc_storage = Some \<lparr>vct_name = '''', vct_labels = [], vct_annotations = [],
       vct_spec = \<lparr>pc_access_modes = [], pc_storage_class = None, pc_requests = [(''storage'', ''10Gi'')], pc_rest = JNull\<rparr>\<rparr>,
     cc_instances = Some 3, cc_resources = None, cc_affinity = None, cc_topology = []\<rparr>"

definition owning_instance :: nominatim_instance where
  "owning_instance = sample_instance\<lparr>in_spec := sample_spec\<lparr>sp_database :=
     sample_database\<lparr>db_secret_ref := None, db_cluster := Some sample_create\<rparr>\<rparr>\<rparr>"

definition live_cluster :: unstructured where
  "live_cluster = \<lparr>un_meta = (new_meta ''inst-pg'' ''ns'')\<lparr>om_version := ''7''\<rparr>,
     un_object = JObject [(''spec'', JObject [(''managed'', JObject [(''roles'',
       JArray [JObject [(''name'', JString ''admin'')]])])])]\<rparr>"

lemma mutate_live_ok: "\<exists>u. mutateOwnedCluster sample_lib owning_instance sample_create live_cluster = Inr u"
  by (simp add: mutateOwnedCluster_def own_unstructured_def set_controller_def owning_instance_def sample_instance_def
      live_cluster_def set_field_def sample_create_def when_some_def cnpgStorageFromVolumeClaimTemplate_def Let_def
      applyOwnedCNPGClusterTune_def ensureCNPGManagedWebRole_def nested_as_def managed_roles_def is_web_role_def
      cnpgNominatimWebRole_def)


text \<open>The owned Database as the operator sets it, on whatever object: name, owner, cluster and reclaim
  policy read back, the extensions are the three that Nominatim needs, and the object is the instance's.\<close>

theorem owned_database_mutated:
  assumes "lib_fields L" and "lib_owners L" and "mutateOwnedDatabase L nom cluster u = Inr u'"
  shows "is_controlled_by L (un_meta u') (in_meta nom) \<and>
    nested_string L (un_object u') [''spec'', ''name''] = Inr (Some ''nominatim'') \<and>
    nested_string L (un_object u') [''spec'', ''owner''] = Inr (Some ''nominatim'') \<and>
    nested_string L (un_object u') [''spec'', ''cluster'', ''name''] = Inr (Some cluster) \<and>
    nested_slice L (un_object u') [''spec'', ''extensions''] = Inr (Some extension_list) \<and>
    nested_string L (un_object u') [''spec'', ''databaseReclaimPolicy''] = Inr (Some ''delete'') \<and>
    nested_string L (un_object u') [''spec'', ''ensure''] = Inr (Some ''present'')"
proof -
  obtain m u1 u2 u3 u4 u5 where
    m: "set_controller_reference L ''NominatimInstance'' (in_meta nom) (un_meta u) = Inr m" and
    f: "set_field L [''spec'', ''name''] (JString cnpgAppDatabaseName) (u\<lparr>un_meta := m\<rparr>) = Inr u1"
      "set_field L [''spec'', ''owner''] (JString cnpgAppOwnerName) u1 = Inr u2"
      "set_field L [''spec'', ''cluster'', ''name''] (JString cluster) u2 = Inr u3"
      "set_field L [''spec'', ''extensions''] (JArray extension_list) u3 = Inr u4"
      "set_field L [''spec'', ''databaseReclaimPolicy''] (JString cnpgDatabaseReclaimDelete) u4 = Inr u5"
      "set_field L [''spec'', ''ensure''] (JString ''present'') u5 = Inr u'"
    using assms(3) by (auto simp: mutateOwnedDatabase_def own_unstructured_def applyOwnedCNPGDatabaseSpec_def)
  have "un_meta u' = m" using f [THEN set_field_meta] by simp
  then have "is_controlled_by L (un_meta u') (in_meta nom)"
    using controller_references.set_ref_controlled [OF assms(2) m] by simp
  then show ?thesis
    using set_field_reads(1) [OF assms(1) f(1) refl] set_field_reads(1) [OF assms(1) f(2) refl]
      set_field_reads(1) [OF assms(1) f(3) refl] set_field_reads(2) [OF assms(1) f(4) refl]
      set_field_reads(1) [OF assms(1) f(5) refl] set_field_reads(1) [OF assms(1) f(6) refl]
      set_field_reads(3,4) [OF assms(1) f(2)] set_field_reads(3,4) [OF assms(1) f(3)]
      set_field_reads(3,4) [OF assms(1) f(4)] set_field_reads(3,4) [OF assms(1) f(5)]
      set_field_reads(3,4) [OF assms(1) f(6)]
    by (simp add: cnpgAppDatabaseName_def cnpgAppOwnerName_def cnpgDatabaseReclaimDelete_def)
qed

theorem owned_database_mutated_witness:
  "\<exists>u. mutateOwnedDatabase sample_lib owning_instance ''inst-pg'' (new_unstructured ''inst-pg-nominatim'' ''ns'') = Inr u \<and>
     nested_string sample_lib (un_object u) [''spec'', ''cluster'', ''name''] = Inr (Some ''inst-pg'')"
proof -
  have "\<exists>u. mutateOwnedDatabase sample_lib owning_instance ''inst-pg'' (new_unstructured ''inst-pg-nominatim'' ''ns'') = Inr u"
    by (simp add: mutateOwnedDatabase_def own_unstructured_def set_controller_def owning_instance_def sample_instance_def
        new_unstructured_def applyOwnedCNPGDatabaseSpec_def set_field_def)
  then obtain u where u: "mutateOwnedDatabase sample_lib owning_instance ''inst-pg'' (new_unstructured ''inst-pg-nominatim'' ''ns'') = Inr u" ..
  from owned_database_mutated [OF _ _ u] u show ?thesis by simp
qed

subsection \<open>Attaching\<close>

text \<open>A guard on a history that only grows.\<close>

definition database_write :: "request \<Rightarrow> bool" where
  "database_write q = (case q of CreateOrUpdate (OUnstructured KDatabase u) f \<Rightarrow> True | _ \<Rightarrow> False)"

definition reset_checked :: "nominatim_instance \<Rightarrow> trace \<Rightarrow> bool" where
  "reset_checked nom h =
     (\<exists>ops. (ListOperations (in_namespace nom), ROperations ops) \<in> set h \<and> \<not> list_ex (resettingRebuild nom) ops)"

lemma reset_checked_mono: "reset_checked nom h \<Longrightarrow> reset_checked nom (h @ h')"
  by (auto simp: reset_checked_def)

lemma wp_ensureCluster:
  "wp (\<lambda>h q. database_write q \<longrightarrow> P h) (\<lambda>_ _. True) h (ensureOwnedCNPGCluster L nom c)"
proof -
  have "wp (\<lambda>h q. database_write q \<longrightarrow> P h) (\<lambda>_ _. True) h
     (retry_on_conflict n (create_or_update (OUnstructured KCluster u) f))" for n u f h
    by (rule wp_retry [where I = "\<lambda>_. True"]) (auto simp: wp_call database_write_def split: sum.splits)
  then show ?thesis
    by (auto simp: ensureOwnedCNPGCluster_def wp_wrap_error split: option.splits)
qed

lemma wp_ensureDatabase:
  assumes "reset_checked nom h"
  shows "wp (\<lambda>h q. database_write q \<longrightarrow> reset_checked nom h) (\<lambda>_ _. True) h (ensureOwnedCNPGDatabase L nom c)"
proof -
  have "wp (\<lambda>h q. database_write q \<longrightarrow> reset_checked nom h) (\<lambda>_ _. True) h
     (retry_on_conflict n (create_or_update (OUnstructured KDatabase u) f))" for n u f
    by (rule wp_retry [where I = "reset_checked nom"])
       (auto simp: wp_call assms intro: reset_checked_mono split: sum.splits)
  then show ?thesis by (simp add: ensureOwnedCNPGDatabase_def wp_wrap_error Let_def)
qed

lemma wp_reconcileDatabase_reset:
  "wp (\<lambda>h q. database_write q \<longrightarrow> reset_checked nom h) (\<lambda>_ _. True) [] (reconcileDatabase L nom)"
proof -
  have owned: "wp (\<lambda>h q. database_write q \<longrightarrow> reset_checked nom h) (\<lambda>_ _. True) h (reconcileOwnedCNPGDatabase L nom c)" for h c
    unfolding reconcileOwnedCNPGDatabase_def hasPendingRebuildDatabaseReset_def wp_simps
    by (auto simp: database_write_def [of "ListOperations _"] reset_checked_def [of _ "_ @ _"]
        intro!: wp_ensureDatabase split: sum.splits)
  have "wp (\<lambda>h q. database_write q \<longrightarrow> reset_checked nom h) (\<lambda>_ _. True) [] (reconcileDatabaseClusterCreate L nom)"
    unfolding reconcileDatabaseClusterCreate_def Let_def wp_bind
    by (rule wp_mono [OF wp_ensureCluster]) (auto split: sum.splits intro!: wp_mono [OF owned])
  then show ?thesis
    by (auto simp: reconcileDatabase_def reconcileDatabaseConnectionSecret_def reconcileDatabaseClusterRef_def
        getCNPGCluster_def wp_simps Let_def database_write_def split: option.splits sum.splits)
qed

text \<open>C36. The instance controller writes the owned Database only after a list of the Operations in which
  no active Rebuild of the instance is in the middle of dropping and recreating it.\<close>

theorem database_write_after_check:
  assumes "play (reconcileDatabase L nom) xs = (t1 @ (q, x) # t2, out)" and "database_write q"
  shows "reset_checked nom t1"
  using wp_play_guard [OF wp_reconcileDatabase_reset assms(1)] assms(2) by blast

theorem database_write_after_check_witness:
  "\<exists>t1 q x. fst (play (reconcileDatabase sample_lib owning_instance) [ROk, ROperations imported_peers, ROk]) = t1 @ [(q, x)] \<and>
     database_write q \<and> reset_checked owning_instance t1"
proof -
  have "\<exists>q1 q3 out. play (reconcileDatabase sample_lib owning_instance) [ROk, ROperations imported_peers, ROk] =
      ([q1, (ListOperations ''ns'', ROperations imported_peers)] @ (q3, ROk) # [], out) \<and> database_write q3"
    by (simp add: reconcileDatabase_def owning_instance_def sample_simps reconcileDatabaseClusterCreate_def
        ensureOwnedCNPGCluster_def numeral_eq_Suc wrap_error_def play_simps reconcileOwnedCNPGDatabase_def
        hasPendingRebuildDatabaseReset_def imported_peers_def resettingRebuild_def ensureOwnedCNPGDatabase_def
        database_write_def Let_def)
  then obtain q1 q3 out where p: "play (reconcileDatabase sample_lib owning_instance) [ROk, ROperations imported_peers, ROk] =
      ([q1, (ListOperations ''ns'', ROperations imported_peers)] @ (q3, ROk) # [], out)" "database_write q3"
    by blast
  from database_write_after_check [OF p] p show ?thesis by auto
qed

text \<open>What a successful attachment records, by the first of the three ways that the spec has.\<close>

definition attached :: "nominatim_instance \<Rightarrow> trace \<Rightarrow> database_status \<Rightarrow> bool" where
  "attached nom t d =
     (let db = sp_database (in_spec nom); ns = in_namespace nom in
      case (db_secret_ref db, db_cluster_ref db) of
        (Some s, _) \<Rightarrow> d = \<lparr>ds_mode = ConnectionSecret, ds_secret = s, ds_cluster = '''', ds_degraded = True\<rparr> \<and>
          (\<exists>y. (Get KSecret (ns, s), RObject y) \<in> set t)
      | (None, Some ref) \<Rightarrow>
          ds_mode d = ClusterAttached \<and> \<not> ds_degraded d \<and>
          (\<exists>k u. (Get KCluster (ns, cr_name ref), RObject (OUnstructured k u)) \<in> set t \<and> ds_cluster d = om_name (un_meta u)) \<and>
          (if cr_secret_ref ref = None \<or> cr_secret_ref ref = Some '''' then ds_secret d = CNPGAppSecretName (cr_name ref)
           else cr_secret_ref ref = Some (ds_secret d) \<and> (\<exists>y. (Get KSecret (ns, ds_secret d), RObject y) \<in> set t))
      | (None, None) \<Rightarrow> db_cluster db \<noteq> None \<and>
          d = \<lparr>ds_mode = ClusterManaged, ds_secret = CNPGAppSecretName (LiveOwnedCNPGClusterName nom),
               ds_cluster = LiveOwnedCNPGClusterName nom, ds_degraded = False\<rparr>)"

lemma wp_attached:
  "wp (\<lambda>_ _. True) (\<lambda>t r. case r of Inl e \<Rightarrow> True | Inr nom' \<Rightarrow> \<exists>d. nom' = set_database d nom \<and> attached nom t d) []
     (reconcileDatabase L nom)"
proof -
  have "wp (\<lambda>_ _. True) (\<lambda>t r. case r of Inl e \<Rightarrow> True | Inr nom' \<Rightarrow> nom' = set_database
      \<lparr>ds_mode = ClusterManaged, ds_secret = CNPGAppSecretName (LiveOwnedCNPGClusterName nom),
       ds_cluster = LiveOwnedCNPGClusterName nom, ds_degraded = False\<rparr> nom) [] (reconcileDatabaseClusterCreate L nom)"
    by (auto simp: reconcileDatabaseClusterCreate_def Let_def wp_bind split: sum.splits intro!: wp_triv)
  then show ?thesis
    by (auto simp: reconcileDatabase_def reconcileDatabaseConnectionSecret_def reconcileDatabaseClusterRef_def
        getCNPGCluster_def wp_simps Let_def attached_def split: option.splits sum.splits elim!: wp_mono)
qed

text \<open>A successful attachment changes the database status and nothing else, to what the first of
  \<open>connectionSecretRef\<close>, \<open>clusterRef\<close> and \<open>cluster\<close> in the spec gives, and only after the Secret or the
  Cluster that the spec names was found.\<close>

theorem database_attached:
  assumes "play (reconcileDatabase L nom) xs = (t, Done (Inr nom'))"
  shows "\<exists>d. nom' = set_database d nom \<and> attached nom t d"
  using wp_play_result [OF wp_attached assms] by simp

theorem database_attached_witness:
  "\<exists>d. play (reconcileDatabase sample_lib sample_instance) [RObject (OSecret (new_meta ''secret'' ''ns''))] =
     ([(Get KSecret (''ns'', ''secret''), RObject (OSecret (new_meta ''secret'' ''ns'')))], Done (Inr (set_database d sample_instance))) \<and>
     ds_secret d = ''secret'' \<and> ds_degraded d"
proof -
  let ?xs = "[RObject (OSecret (new_meta ''secret'' ''ns''))]"
  have "\<exists>t nom'. play (reconcileDatabase sample_lib sample_instance) ?xs = (t, Done (Inr nom')) \<and>
      t = [(Get KSecret (''ns'', ''secret''), RObject (OSecret (new_meta ''secret'' ''ns'')))]"
    by (simp add: reconcileDatabase_def sample_simps reconcileDatabaseConnectionSecret_def wrap_error_def play_simps)
  then obtain t nom' where p: "play (reconcileDatabase sample_lib sample_instance) ?xs = (t, Done (Inr nom'))"
    and t: "t = [(Get KSecret (''ns'', ''secret''), RObject (OSecret (new_meta ''secret'' ''ns'')))]" by blast
  from database_attached [OF p] obtain d where d: "nom' = set_database d sample_instance" "attached sample_instance t d" by blast
  then have "ds_secret d = ''secret''" "ds_degraded d" by (auto simp: attached_def sample_simps)
  with p t d(1) show ?thesis by blast
qed

end
