(* ===== verification/OpEffects.thy ===== *)
theory OpEffects
  imports Database
begin

text \<open>
  What an Operation does to its surroundings: \<open>cnpg_effects.go\<close> (backup pause and parameters of the CNPG
  Cluster, behind the interface \<open>CNPGEffects\<close>), \<open>nominatimoperation_effects.go\<close> (which of them happens
  before the Job and at the end), \<open>nominatimoperation_parent.go\<close> (the reference on the parent that
  suspends the API) and \<open>failOperation\<close> of \<open>nominatimoperation_controller.go\<close>.
\<close>

section \<open>The interface to the Cluster\<close>

definition CNPGBackupPausedAnnotation :: string where
  "CNPGBackupPausedAnnotation = ''nominatim.zebernst.dev/backup-paused''"
definition annotationValueTrue :: string where "annotationValueTrue = ''true''"

record cnpg_effects =
  pause_backups :: "unstructured \<Rightarrow> unit prog"
  resume_backups :: "unstructured \<Rightarrow> unit prog"
  apply_parameters :: "unstructured \<Rightarrow> strmap \<Rightarrow> string list \<Rightarrow> unit prog"

definition setBackupPausedAnnotation :: "unstructured \<Rightarrow> bool \<Rightarrow> unit prog" where
  "setBackupPausedAnnotation cluster paused =
     (let annotations = om_annotations (un_meta cluster);
          annotations = (if paused then map_set CNPGBackupPausedAnnotation annotationValueTrue annotations
                         else map_delete CNPGBackupPausedAnnotation annotations)
      in update_obj (OUnstructured KCluster (cluster\<lparr>un_meta := (un_meta cluster)\<lparr>om_annotations := annotations\<rparr>\<rparr>)))"

definition pg_parameters :: "string list" where
  "pg_parameters = [''spec'', ''postgresql'', ''parameters'']"

text \<open>The new parameters: the keys to remove go first, then the new values are set.\<close>

definition mergeParameters :: "strmap \<Rightarrow> strmap \<Rightarrow> string list \<Rightarrow> strmap" where
  "mergeParameters old params removeKeys =
     fold (\<lambda>(k, v). map_set k v) params (fold map_delete removeKeys old)"

definition json_of_strmap :: "strmap \<Rightarrow> json" where
  "json_of_strmap m = JObject (map (\<lambda>(k, v). (k, JString v)) m)"

definition ApplyParameters :: "lib \<Rightarrow> unstructured \<Rightarrow> strmap \<Rightarrow> string list \<Rightarrow> unit prog" where
  "ApplyParameters L cluster params removeKeys =
     (if params = [] \<and> removeKeys = [] then Ret ()
      else
        bind (wrap_error ''read spec.postgresql.parameters'' (lift (nested_string_map L (un_object cluster) pg_parameters))) (\<lambda>found.
        let merged = mergeParameters (case found of None \<Rightarrow> [] | Some m \<Rightarrow> m) params removeKeys in
        bind (wrap_error ''set spec.postgresql.parameters'' (lift (set_nested L (un_object cluster) pg_parameters (json_of_strmap merged)))) (\<lambda>j.
        update_obj (OUnstructured KCluster (cluster\<lparr>un_object := j\<rparr>)))))"

definition defaultCNPGEffects :: "lib \<Rightarrow> cnpg_effects" where
  "defaultCNPGEffects L = \<lparr>pause_backups = (\<lambda>u. setBackupPausedAnnotation u True),
     resume_backups = (\<lambda>u. setBackupPausedAnnotation u False), apply_parameters = ApplyParameters L\<rparr>"

text \<open>The reconciler's override, which only tests set.\<close>

definition cnpgEffects :: "lib \<Rightarrow> cnpg_effects option \<Rightarrow> cnpg_effects" where
  "cnpgEffects L over = (case over of Some e \<Rightarrow> e | None \<Rightarrow> defaultCNPGEffects L)"

section \<open>Effects of an Operation\<close>

definition skipCNPGClusterEffects :: "nominatim_instance \<Rightarrow> bool" where
  "skipCNPGClusterEffects nom =
     (ds_mode (in_database nom) = ModeUnset \<or> ds_degraded (in_database nom) \<or> ds_mode (in_database nom) = ConnectionSecret)"

definition setBackupPaused :: "cnpg_effects \<Rightarrow> nominatim_instance \<Rightarrow> bool \<Rightarrow> unit prog" where
  "setBackupPaused E nom paused =
     (if skipCNPGClusterEffects nom then Ret ()
      else if ds_cluster (in_database nom) = '''' then Fail (Errorf ''cannot pause backups: no CNPG cluster in status'')
      else bind (getCNPGCluster (in_namespace nom) (ds_cluster (in_database nom)))
             (\<lambda>cluster. if paused then pause_backups E cluster else resume_backups E cluster))"

datatype profile = ProfileImport | ProfileRuntime | OtherProfile string

definition profileKeysToRemove :: "postgres_profiles option \<Rightarrow> strmap \<Rightarrow> string list" where
  "profileKeysToRemove profiles target =
     (case profiles of
        None \<Rightarrow> []
      | Some p \<Rightarrow> filter (\<lambda>k. map_of target k = None) (remdups (map fst (pp_import p) @ map fst (pp_runtime p))))"

definition profile_params :: "postgres_profiles option \<Rightarrow> profile \<Rightarrow> strmap" where
  "profile_params profiles which =
     (case (profiles, which) of
        (Some p, ProfileImport) \<Rightarrow> pp_import p
      | (Some p, ProfileRuntime) \<Rightarrow> pp_runtime p
      | _ \<Rightarrow> [])"

definition applyPostgresProfile :: "cnpg_effects \<Rightarrow> nominatim_instance \<Rightarrow> profile \<Rightarrow> unit prog" where
  "applyPostgresProfile E nom which =
     (if skipCNPGClusterEffects nom then Ret ()
      else
        let profiles = db_profiles (sp_database (in_spec nom));
            params = profile_params profiles which;
            removeKeys = profileKeysToRemove profiles params
        in case which of
             OtherProfile s \<Rightarrow> Fail (Errorf (''unknown postgres profile '' @ quote s @ '' (want import or runtime)''))
           | _ \<Rightarrow>
               if params = [] \<and> removeKeys = [] then Ret ()
               else if ds_cluster (in_database nom) = ''''
               then Fail (Errorf ''cannot apply postgres profile: no CNPG cluster in status'')
               else bind (getCNPGCluster (in_namespace nom) (ds_cluster (in_database nom)))
                      (\<lambda>cluster. apply_parameters E cluster params removeKeys))"

definition in_impact :: "nominatim_instance \<Rightarrow> impact" where
  "in_impact nom = db_pause (sp_database (in_spec nom))"

definition applyPreJobCNPGEffects :: "cnpg_effects \<Rightarrow> nominatim_operation \<Rightarrow> nominatim_instance \<Rightarrow> unit prog" where
  "applyPreJobCNPGEffects E op parent =
     (if \<not> operationImpactMatches (in_impact parent) (op_type_of op) then Ret ()
      else bind (setBackupPaused E parent True) (\<lambda>_. applyPostgresProfile E parent ProfileImport))"

text \<open>Another Operation of the parent that keeps the backups paused.\<close>

definition keeps_paused :: "nominatim_instance \<Rightarrow> impact \<Rightarrow> string \<Rightarrow> nominatim_operation \<Rightarrow> bool" where
  "keeps_paused parent imp excludeName peer =
     (op_name peer \<noteq> excludeName \<and> op_instance peer = in_name parent \<and>
      isActiveOperationPhase (op_phase_of peer) \<and> operationImpactMatches imp (op_type_of peer))"

definition hasOtherActiveMatchingImpactOps :: "nominatim_instance \<Rightarrow> impact \<Rightarrow> string \<Rightarrow> bool prog" where
  "hasOtherActiveMatchingImpactOps parent imp excludeName =
     bind (list_operations (in_namespace parent)) (\<lambda>peers. Ret (list_ex (keeps_paused parent imp excludeName) peers))"

definition applyTerminalCNPGEffects :: "cnpg_effects \<Rightarrow> nominatim_operation \<Rightarrow> nominatim_instance \<Rightarrow> unit prog" where
  "applyTerminalCNPGEffects E op parent =
     (if \<not> operationImpactMatches (in_impact parent) (op_type_of op) then Ret ()
      else bind (hasOtherActiveMatchingImpactOps parent (in_impact parent) (op_name op)) (\<lambda>stillPaused.
        if stillPaused then Ret ()
        else bind (setBackupPaused E parent False) (\<lambda>_. applyPostgresProfile E parent ProfileRuntime)))"

section \<open>The reference on the parent\<close>

definition operationObjectReference :: "nominatim_operation \<Rightarrow> object_reference" where
  "operationObjectReference op = \<lparr>or_api_version = GroupVersion, or_kind = ''NominatimOperation'',
     or_namespace = op_namespace op, or_name = op_name op\<rparr>"

definition sameOperationRef :: "object_reference \<Rightarrow> object_reference \<Rightarrow> bool" where
  "sameOperationRef a b = (or_kind a = or_kind b \<and> or_namespace a = or_namespace b \<and> or_name a = or_name b)"

text \<open>The references without the first one of the Operation.\<close>

fun remove_ref :: "object_reference \<Rightarrow> object_reference list \<Rightarrow> object_reference list" where
  "remove_ref ref [] = []"
| "remove_ref ref (r # rs) = (if sameOperationRef r ref then rs else r # remove_ref ref rs)"

definition has_ref :: "object_reference \<Rightarrow> nominatim_instance \<Rightarrow> bool" where
  "has_ref ref parent = list_ex (\<lambda>r. sameOperationRef r ref) (st_active_refs (in_status parent))"

definition sync_ref :: "object_reference \<Rightarrow> bool \<Rightarrow> nominatim_instance \<Rightarrow> nominatim_instance" where
  "sync_ref ref active parent =
     set_active_refs (if active then st_active_refs (in_status parent) @ [ref]
                      else remove_ref ref (st_active_refs (in_status parent))) parent"

definition syncParentActiveOperationRef :: "lib \<Rightarrow> nominatim_operation \<Rightarrow> bool \<Rightarrow> unit prog" where
  "syncParentActiveOperationRef L op active =
     (if op_instance op = '''' then Ret ()
      else retry_on_conflict (retries L)
        (bind (attempt (get_instance (op_namespace op, op_instance op))) (\<lambda>r.
           case r of
             Inl e \<Rightarrow> if is_not_found e then Ret () else Fail e
           | Inr parent \<Rightarrow>
               if has_ref (operationObjectReference op) parent = active then Ret ()
               else bind (update_instance_status (sync_ref (operationObjectReference op) active parent)) (\<lambda>_. Ret ()))))"

definition syncParentSideEffects :: "lib \<Rightarrow> cnpg_effects \<Rightarrow> nominatim_operation \<Rightarrow> unit prog" where
  "syncParentSideEffects L E op =
     (if op_instance op = '''' then Ret ()
      else bind (syncParentActiveOperationRef L op (isActiveOperationPhase (op_phase_of op))) (\<lambda>_.
        if \<not> isTerminalOperationPhase (op_phase_of op) then Ret ()
        else bind (attempt (get_instance (op_namespace op, op_instance op))) (\<lambda>r.
          case r of
            Inl e \<Rightarrow> if is_not_found e then Ret () else Fail e
          | Inr parent \<Rightarrow> applyTerminalCNPGEffects E op parent)))"

section \<open>Failing an Operation\<close>

definition failure_message :: "string \<Rightarrow> string \<Rightarrow> string" where
  "failure_message reason message =
     (if reason \<noteq> '''' \<and> \<not> prefix reason message then reason @ '': '' @ message else message)"

definition failed_operation :: "nominatim_operation \<Rightarrow> string \<Rightarrow> string \<Rightarrow> time \<Rightarrow> nominatim_operation" where
  "failed_operation op reason message t =
     op\<lparr>op_status := (op_status op)\<lparr>
       ot_phase := Failed,
       ot_message := failure_message reason message,
       ot_observed_generation := om_generation (op_meta op),
       ot_completion := Some t,
       ot_start := (case ot_start (op_status op) of None \<Rightarrow> Some t | Some s \<Rightarrow> Some s)\<rparr>\<rparr>"

definition failOperation :: "lib \<Rightarrow> cnpg_effects \<Rightarrow> nominatim_operation \<Rightarrow> string \<Rightarrow> string \<Rightarrow> unit prog" where
  "failOperation L E op reason message =
     bind now (\<lambda>t.
     bind (update_operation_status (failed_operation op reason message t)) (\<lambda>op.
     syncParentSideEffects L E op))"

section \<open>The contract of the interface\<close>

definition cluster_write :: "request \<Rightarrow> unstructured \<Rightarrow> bool" where
  "cluster_write q u = (q = UpdateObj (OUnstructured KCluster u))"

text \<open>A write that marks the Cluster as paused or takes the mark away, and changes nothing else.\<close>

definition pause_write :: "bool \<Rightarrow> unstructured \<Rightarrow> request \<Rightarrow> bool" where
  "pause_write paused u q =
     (\<exists>u'. cluster_write q u' \<and> un_object u' = un_object u \<and>
        map_of (om_annotations (un_meta u')) =
          (map_of (om_annotations (un_meta u)))(CNPGBackupPausedAnnotation := if paused then Some annotationValueTrue else None) \<and>
        (un_meta u')\<lparr>om_annotations := []\<rparr> = (un_meta u)\<lparr>om_annotations := []\<rparr>)"

text \<open>A write that sets the parameters, drops the removed keys that are not set, and keeps the others.\<close>

definition parameters_write :: "lib \<Rightarrow> strmap \<Rightarrow> string list \<Rightarrow> unstructured \<Rightarrow> request \<Rightarrow> bool" where
  "parameters_write L params removeKeys u q =
     (\<exists>u' old new. cluster_write q u' \<and> un_meta u' = un_meta u \<and>
        nested_string_map L (un_object u) pg_parameters = Inr old \<and>
        nested_string_map L (un_object u') pg_parameters = Inr (Some new) \<and>
        map_of new = (\<lambda>k. case map_of params k of
            Some v \<Rightarrow> Some v
          | None \<Rightarrow> if k \<in> set removeKeys then None else map_of (case old of None \<Rightarrow> [] | Some m \<Rightarrow> m) k))"

locale cnpg_contract =
  fixes E :: cnpg_effects and L :: lib
  assumes pauses: "wp (\<lambda>_ q. pause_write True u q) (\<lambda>_ _. True) h (pause_backups E u)"
    and resumes: "wp (\<lambda>_ q. pause_write False u q) (\<lambda>_ _. True) h (resume_backups E u)"
    and applies: "distinct (map fst params) \<Longrightarrow>
      wp (\<lambda>_ q. parameters_write L params rm u q) (\<lambda>_ _. True) h (apply_parameters E u params rm)"
begin

text \<open>
  A guard that holds of the read of the Cluster, and of the write that the interface makes of the
  Cluster that was read.
\<close>

lemma wp_setBackupPaused:
  assumes "\<And>h. prefix h0 h \<Longrightarrow> G h (Get KCluster (in_namespace nom, ds_cluster (in_database nom)))"
    and "\<And>h k u q. prefix h0 h \<Longrightarrow>
      (Get KCluster (in_namespace nom, ds_cluster (in_database nom)), RObject (OUnstructured k u)) \<in> set h \<Longrightarrow>
      pause_write paused u q \<Longrightarrow> G h q"
  shows "wp G (\<lambda>h _. prefix h0 h) h0 (setBackupPaused E nom paused)"
proof -
  let ?q = "Get KCluster (in_namespace nom, ds_cluster (in_database nom))"
  have "wp G (\<lambda>h _. prefix h0 h) (h0 @ [(?q, RObject (OUnstructured k u))]) (if paused then pause_backups E u else resume_backups E u)" for k u
  proof -
    let ?h = "h0 @ [(?q, RObject (OUnstructured k u))]"
    have "wp (\<lambda>_ q. pause_write paused u q) (\<lambda>_ _. True) ?h (if paused then pause_backups E u else resume_backups E u)"
      using pauses [of u] resumes [of u] by auto
    from wp_prefix [OF this] show ?thesis
      by (rule wp_mono) (blast dest: event_prefix intro: assms(2))+
  qed
  with assms(1) show ?thesis
    by (auto simp: setBackupPaused_def getCNPGCluster_def wp_simps split: sum.splits)
qed

lemma wp_applyPostgresProfile:
  defines "profiles nom \<equiv> db_profiles (sp_database (in_spec nom))"
  assumes "\<And>h. prefix h0 h \<Longrightarrow> G h (Get KCluster (in_namespace nom, ds_cluster (in_database nom)))"
    and "distinct (map fst (profile_params (profiles nom) which))"
    and "\<And>h k u q. prefix h0 h \<Longrightarrow>
      (Get KCluster (in_namespace nom, ds_cluster (in_database nom)), RObject (OUnstructured k u)) \<in> set h \<Longrightarrow>
      parameters_write L (profile_params (profiles nom) which)
        (profileKeysToRemove (profiles nom) (profile_params (profiles nom) which)) u q \<Longrightarrow> G h q"
  shows "wp G (\<lambda>h _. prefix h0 h) h0 (applyPostgresProfile E nom which)"
proof -
  let ?q = "Get KCluster (in_namespace nom, ds_cluster (in_database nom))"
  let ?p = "\<lambda>u. apply_parameters E u (profile_params (profiles nom) which)
      (profileKeysToRemove (profiles nom) (profile_params (profiles nom) which))"
  have "wp G (\<lambda>h _. prefix h0 h) (h0 @ [(?q, RObject (OUnstructured k u))]) (?p u)" for k u
    by (rule wp_mono [OF wp_prefix [OF applies [OF assms(3), of _ u]]])
       (blast dest: event_prefix intro: assms(4))+
  with assms(2) show ?thesis
    by (auto simp: applyPostgresProfile_def getCNPGCluster_def wp_simps Let_def profiles_def
        split: sum.splits profile.splits)
qed

end

lemma map_of_mergeParameters:
  "distinct (map fst params) \<Longrightarrow> map_of (mergeParameters old params rm) =
     (\<lambda>k. case map_of params k of Some v \<Rightarrow> Some v | None \<Rightarrow> if k \<in> set rm then None else map_of old k)"
  by (auto simp: mergeParameters_def map_of_fold_set map_of_rev_distinct map_of_fold_delete map_add_def fun_eq_iff
      split: option.splits)

lemma set_annotation_frame: "(m\<lparr>om_annotations := a\<rparr>)\<lparr>om_annotations := []\<rparr> = m\<lparr>om_annotations := []\<rparr>"
  by simp

lemma wp_annotation: "wp (\<lambda>_ q. pause_write b u q) (\<lambda>_ _. True) h (setBackupPausedAnnotation u b)"
  by (auto simp: setBackupPausedAnnotation_def wp_simps Let_def pause_write_def cluster_write_def annotationValueTrue_def)

lemma wp_ApplyParameters:
  assumes "lib_fields L" and "distinct (map fst params)"
  shows "wp (\<lambda>_ q. parameters_write L params rm u q) (\<lambda>_ _. True) h (ApplyParameters L u params rm)"
proof -
  have "parameters_write L params rm u (UpdateObj (OUnstructured KCluster (u\<lparr>un_object := j\<rparr>)))"
    if "nested_string_map L (un_object u) pg_parameters = Inr old"
      and "set_nested L (un_object u) pg_parameters (json_of_strmap (mergeParameters (case old of None \<Rightarrow> [] | Some m \<Rightarrow> m) params rm)) = Inr j"
    for old j
    using that(1) nested_fields.strs_set [OF assms(1) that(2) [unfolded json_of_strmap_def]]
    by (auto simp: parameters_write_def cluster_write_def map_of_mergeParameters [OF assms(2)])
  then show ?thesis
    by (auto simp: ApplyParameters_def wp_simps Let_def split: sum.splits)
qed

lemma default_contract: "lib_fields L \<Longrightarrow> cnpg_contract (defaultCNPGEffects L) L"
  by unfold_locales (simp_all add: defaultCNPGEffects_def wp_annotation wp_ApplyParameters)

interpretation default_effects: cnpg_contract "defaultCNPGEffects sample_lib" sample_lib
  by (rule default_contract) simp

section \<open>What the effects establish\<close>

text \<open>The write of the terminal effects, with what was read before it.\<close>

definition terminal_write :: "lib \<Rightarrow> nominatim_operation \<Rightarrow> nominatim_instance \<Rightarrow> trace \<Rightarrow> request \<Rightarrow> bool" where
  "terminal_write L op parent h q =
     (let profiles = db_profiles (sp_database (in_spec parent)); params = profile_params profiles ProfileRuntime in
      operationImpactMatches (in_impact parent) (op_type_of op) \<and>
      (\<exists>peers. (ListOperations (in_namespace parent), ROperations peers) \<in> set h \<and>
         \<not> list_ex (keeps_paused parent (in_impact parent) (op_name op)) peers) \<and>
      (\<exists>k u. (Get KCluster (in_namespace parent, ds_cluster (in_database parent)), RObject (OUnstructured k u)) \<in> set h \<and>
         (pause_write False u q \<or> parameters_write L params (profileKeysToRemove profiles params) u q)))"

definition is_update :: "request \<Rightarrow> bool" where
  "is_update q = (case q of UpdateObj x \<Rightarrow> True | _ \<Rightarrow> False)"

lemma is_update_simps [simp]:
  "is_update (UpdateObj x)" "\<not> is_update (Get k key)" "\<not> is_update (ListOperations ns)"
  by (simp_all add: is_update_def)

lemma wp_applyTerminal:
  assumes "cnpg_contract E L"
    and "distinct (map fst (profile_params (db_profiles (sp_database (in_spec parent))) ProfileRuntime))"
  shows "wp (\<lambda>h q. is_update q \<longrightarrow> terminal_write L op parent h q) (\<lambda>_ _. True) h0 (applyTerminalCNPGEffects E op parent)"
proof -
  let ?G = "\<lambda>h q. is_update q \<longrightarrow> terminal_write L op parent h q"
  have effects: "wp ?G (\<lambda>_ _. True) h1 (bind (setBackupPaused E parent False) (\<lambda>_. applyPostgresProfile E parent ProfileRuntime))"
    if m: "operationImpactMatches (in_impact parent) (op_type_of op)"
      and p: "(ListOperations (in_namespace parent), ROperations peers) \<in> set h1"
         "\<not> list_ex (keeps_paused parent (in_impact parent) (op_name op)) peers" for h1 peers
  proof -
    have seen: "terminal_write L op parent h q"
      if "prefix h1 h" "(Get KCluster (in_namespace parent, ds_cluster (in_database parent)), RObject (OUnstructured k u)) \<in> set h"
        and "pause_write False u q \<or> parameters_write L (profile_params (db_profiles (sp_database (in_spec parent))) ProfileRuntime)
          (profileKeysToRemove (db_profiles (sp_database (in_spec parent)))
            (profile_params (db_profiles (sp_database (in_spec parent))) ProfileRuntime)) u q" for h k u q
      using that m p set_mono_prefix [OF that(1)] unfolding terminal_write_def Let_def by blast
    have second: "wp ?G (\<lambda>_ _. True) h (applyPostgresProfile E parent ProfileRuntime)" if "prefix h1 h" for h
      by (rule wp_mono [OF cnpg_contract.wp_applyPostgresProfile [OF assms(1) _ assms(2), of h ?G]])
         (use that seen in \<open>auto intro: prefix_order.trans\<close>)
    show ?thesis unfolding wp_bind
      by (rule wp_mono [OF cnpg_contract.wp_setBackupPaused [OF assms(1), of h1 ?G]])
         (use seen second in \<open>auto split: sum.splits\<close>)
  qed
  show ?thesis
    by (auto simp: applyTerminalCNPGEffects_def hasOtherActiveMatchingImpactOps_def wp_simps
        split: sum.splits intro!: effects [unfolded wp_bind])
qed

subsection \<open>References\<close>

definition ref_id :: "object_reference \<Rightarrow> string \<times> string \<times> string" where
  "ref_id r = (or_kind r, or_namespace r, or_name r)"

lemma sameOperationRef_id: "sameOperationRef a b \<longleftrightarrow> ref_id a = ref_id b"
  by (auto simp: sameOperationRef_def ref_id_def)

definition ref_ids :: "nominatim_instance \<Rightarrow> (string \<times> string \<times> string) list" where
  "ref_ids n = map ref_id (st_active_refs (in_status n))"

lemma has_ref_id: "has_ref ref n \<longleftrightarrow> ref_id ref \<in> set (ref_ids n)"
  by (auto simp: has_ref_def ref_ids_def list_ex_iff sameOperationRef_id image_iff) metis

lemma remove_ref_id: "map ref_id (remove_ref ref rs) = remove1 (ref_id ref) (map ref_id rs)"
  by (induction rs) (auto simp: sameOperationRef_id)

lemma sync_ref_ids: "ref_ids (sync_ref ref active n) = (if active then ref_ids n @ [ref_id ref] else remove1 (ref_id ref) (ref_ids n))"
  by (simp add: sync_ref_def ref_ids_def remove_ref_id)

lemma sync_ref_keeps:
  assumes "distinct (ref_ids n)" and "has_ref ref n \<noteq> active"
  shows "distinct (ref_ids (sync_ref ref active n))" and "has_ref ref (sync_ref ref active n) = active"
    and "ref_id r \<noteq> ref_id ref \<Longrightarrow> has_ref r (sync_ref ref active n) = has_ref r n"
  using assms by (auto simp: sync_ref_ids has_ref_id distinct_remove1)

text \<open>The last thing that happened: the parent is gone, or has the reference as it should, or was
  written so.\<close>

definition ref_settled :: "nominatim_operation \<Rightarrow> bool \<Rightarrow> trace \<Rightarrow> bool" where
  "ref_settled op active h =
     (\<exists>h0 q x ref. h = h0 @ [(q, x)] \<and> ref = operationObjectReference op \<and>
        ((\<exists>e. q = Get KInstance (op_namespace op, op_instance op) \<and> x = RError e \<and> is_not_found e) \<or>
         (\<exists>p. q = Get KInstance (op_namespace op, op_instance op) \<and> x = RObject (OInstance p) \<and> has_ref ref p = active) \<or>
         (\<exists>p v. q = UpdateStatus (OInstance (sync_ref ref active p)) \<and> x = RVersion v \<and> has_ref ref p \<noteq> active)))"

text \<open>A write of the parent follows the read of it at once.\<close>

definition ref_write :: "nominatim_operation \<Rightarrow> bool \<Rightarrow> trace \<Rightarrow> request \<Rightarrow> bool" where
  "ref_write op active h q =
     (q = Get KInstance (op_namespace op, op_instance op) \<or>
      (\<exists>h0 p. h = h0 @ [(Get KInstance (op_namespace op, op_instance op), RObject (OInstance p))] \<and>
        has_ref (operationObjectReference op) p \<noteq> active \<and>
        q = UpdateStatus (OInstance (sync_ref (operationObjectReference op) active p))))"

lemma version_response_Inr:
  "(case x of RError e \<Rightarrow> Inl e | RVersion v \<Rightarrow> Inr (f v) | _ \<Rightarrow> Inl BadResponse) = Inr y \<longleftrightarrow> (\<exists>v. x = RVersion v \<and> y = f v)"
  by (cases x) auto

lemma wp_syncRef:
  assumes "op_instance op \<noteq> ''''"
  shows "wp (ref_write op active) (\<lambda>h r. r = Inr () \<longrightarrow> ref_settled op active h) h (syncParentActiveOperationRef L op active)"
proof -
  let ?body = "bind (attempt (get_instance (op_namespace op, op_instance op))) (\<lambda>r.
       case r of
         Inl e \<Rightarrow> if is_not_found e then Ret () else Fail e
       | Inr parent \<Rightarrow>
           if has_ref (operationObjectReference op) parent = active then Ret ()
           else bind (update_instance_status (sync_ref (operationObjectReference op) active parent)) (\<lambda>_. Ret ()))"
  have "wp (ref_write op active) (\<lambda>h r. r = Inr () \<longrightarrow> ref_settled op active h) h ?body" for h
    by (auto simp: wp_simps ref_write_def ref_settled_def version_response_Inr dest!: bad_response split: sum.splits)
  from wp_retry [where I = "\<lambda>_. True", OF wp_mono [OF this]] show ?thesis
    using assms unfolding syncParentActiveOperationRef_def by (auto split: sum.splits)
qed

lemma wp_syncSideEffects_failed:
  assumes "op_instance op \<noteq> ''''" and "op_phase_of op = Failed"
  shows "wp (\<lambda>_ _. True) (\<lambda>h r. r = Inr () \<longrightarrow> (\<exists>h1. prefix h0 h1 \<and> prefix h1 h \<and> ref_settled op False h1)) h0
    (syncParentSideEffects L E op)"
proof -
  have later: "wp (\<lambda>_ _. True) (\<lambda>h r. prefix h1 h) h1 p" for h1 and p :: "unit prog"
    by (rule wp_mono [OF wp_prefix [OF wp_triv [of "\<lambda>_ _. True" "\<lambda>_ _. True"]]]) auto
  have t: "isTerminalOperationPhase (op_phase_of op)" "\<not> isActiveOperationPhase (op_phase_of op)"
    using assms(2) by (simp_all add: isTerminalOperationPhase_def)
  let ?rest = "bind (attempt (get_instance (op_namespace op, op_instance op))) (\<lambda>r.
      case r of Inl e \<Rightarrow> if is_not_found e then Ret () else Fail e
        | Inr parent \<Rightarrow> applyTerminalCNPGEffects E op parent)"
  have sync: "syncParentSideEffects L E op = bind (syncParentActiveOperationRef L op False) (\<lambda>_. ?rest)"
    using assms(1) t by (simp add: syncParentSideEffects_def)
  show ?thesis unfolding sync wp_bind [of _ _ _ "syncParentActiveOperationRef L op False"]
    by (rule wp_mono [OF wp_prefix [OF wp_syncRef [OF assms(1)]]])
       (auto split: sum.splits intro!: wp_mono [OF later])
qed

section \<open>Properties\<close>

text \<open>C26. The terminal effects touch the Cluster only if the policy covers the Operation and a list of
  the Operations shows no other active one that keeps the backups paused; a write of the Cluster takes
  the pause mark away from the Cluster just read, or sets the runtime parameters on it.\<close>

theorem terminal_effects_alone:
  assumes "lib_fields L" and "distinct (map fst (profile_params (db_profiles (sp_database (in_spec parent))) ProfileRuntime))"
    and "play (applyTerminalCNPGEffects (defaultCNPGEffects L) op parent) xs = (t1 @ (q, x) # t2, out)" and "is_update q"
  shows "terminal_write L op parent t1 q"
  using wp_play_guard [OF wp_applyTerminal [OF default_contract [OF assms(1)] assms(2)] assms(3)] assms(4) by blast

definition sample_profiles :: postgres_profiles where
  "sample_profiles = \<lparr>pp_import = [(''work_mem'', ''1GB'')], pp_runtime = [(''fsync'', ''on'')]\<rparr>"

lemma sample_profiles_simps [simp]:
  "pp_import sample_profiles = [(''work_mem'', ''1GB'')]" "pp_runtime sample_profiles = [(''fsync'', ''on'')]"
  by (simp_all add: sample_profiles_def)

definition paused_instance :: nominatim_instance where
  "paused_instance = set_database \<lparr>ds_mode = ClusterManaged, ds_secret = ''inst-pg-app'', ds_cluster = ''inst-pg'', ds_degraded = False\<rparr>
     (owning_instance\<lparr>in_spec := (in_spec owning_instance)\<lparr>sp_database := sample_database\<lparr>db_pause := ImpactWriteHeavy,
        db_profiles := Some sample_profiles\<rparr>\<rparr>\<rparr>)"

theorem terminal_effects_alone_witness:
  "\<exists>t1 q. fst (play (applyTerminalCNPGEffects (defaultCNPGEffects sample_lib) (hd imported_peers) paused_instance)
       [ROperations imported_peers, RObject (OUnstructured KCluster live_cluster), ROk]) = t1 @ [(q, ROk)] \<and>
     is_update q \<and> terminal_write sample_lib (hd imported_peers) paused_instance t1 q"
proof -
  have "\<exists>u out. play (applyTerminalCNPGEffects (defaultCNPGEffects sample_lib) (hd imported_peers) paused_instance)
       [ROperations imported_peers, RObject (OUnstructured KCluster live_cluster), ROk] =
      ([(ListOperations ''ns'', ROperations imported_peers),
        (Get KCluster (''ns'', ''inst-pg''), RObject (OUnstructured KCluster live_cluster))] @
       (UpdateObj (OUnstructured KCluster u), ROk) # [], out)"
    by (simp add: applyTerminalCNPGEffects_def imported_peers_def paused_instance_def owning_instance_def sample_simps
        in_impact_def hasOtherActiveMatchingImpactOps_def keeps_paused_def play_simps setBackupPaused_def
        skipCNPGClusterEffects_def getCNPGCluster_def defaultCNPGEffects_def setBackupPausedAnnotation_def
        applyPostgresProfile_def profile_params_def Let_def)
  then obtain u out where p: "play (applyTerminalCNPGEffects (defaultCNPGEffects sample_lib) (hd imported_peers) paused_instance)
       [ROperations imported_peers, RObject (OUnstructured KCluster live_cluster), ROk] =
      ([(ListOperations ''ns'', ROperations imported_peers),
        (Get KCluster (''ns'', ''inst-pg''), RObject (OUnstructured KCluster live_cluster))] @
       (UpdateObj (OUnstructured KCluster u), ROk) # [], out)" by blast
  from terminal_effects_alone [OF _ _ p] p show ?thesis
    by (fastforce simp: paused_instance_def profile_params_def)
qed

text \<open>C27. A switch of the profile: the parameters of the Cluster just read become those of the target
  profile, without the keys that only the other profile has; every other parameter is kept.\<close>

theorem profile_switched:
  assumes "lib_fields L" and "db_profiles (sp_database (in_spec nom)) = Some p" and "which \<in> {ProfileImport, ProfileRuntime}"
    and "distinct (map fst (pp_import p))" and "distinct (map fst (pp_runtime p))"
    and "play (applyPostgresProfile (defaultCNPGEffects L) nom which) xs = (t1 @ (q, x) # t2, out)" and "is_update q"
  shows "\<exists>k u u' old new target. target = (if which = ProfileImport then pp_import p else pp_runtime p) \<and>
    (Get KCluster (in_namespace nom, ds_cluster (in_database nom)), RObject (OUnstructured k u)) \<in> set t1 \<and>
    q = UpdateObj (OUnstructured KCluster u') \<and>
    nested_string_map L (un_object u) pg_parameters = Inr old \<and>
    nested_string_map L (un_object u') pg_parameters = Inr (Some new) \<and>
    (\<forall>key. map_of new key =
       (if key \<in> fst ` set target then map_of target key
        else if key \<in> fst ` set (pp_import p @ pp_runtime p) then None
        else map_of (case old of None \<Rightarrow> [] | Some m \<Rightarrow> m) key))"
proof -
  let ?G = "\<lambda>h q. is_update q \<longrightarrow> (\<exists>k u. (Get KCluster (in_namespace nom, ds_cluster (in_database nom)), RObject (OUnstructured k u)) \<in> set h \<and>
      parameters_write L (profile_params (Some p) which) (profileKeysToRemove (Some p) (profile_params (Some p) which)) u q)"
  have target: "profile_params (Some p) which = (if which = ProfileImport then pp_import p else pp_runtime p)"
    using assms(3) by (auto simp: profile_params_def)
  have "wp ?G (\<lambda>h _. prefix [] h) [] (applyPostgresProfile (defaultCNPGEffects L) nom which)"
    by (rule cnpg_contract.wp_applyPostgresProfile [OF default_contract [OF assms(1)]], simp, simp add: assms(2,4,5) target,
        unfold assms(2), blast)
  from wp_play_guard [OF this assms(6)] assms(7) obtain k u where
    u: "(Get KCluster (in_namespace nom, ds_cluster (in_database nom)), RObject (OUnstructured k u)) \<in> set t1"
    and w: "parameters_write L (profile_params (Some p) which) (profileKeysToRemove (Some p) (profile_params (Some p) which)) u q" by blast
  from w obtain u' old new where u': "cluster_write q u'"
    "nested_string_map L (un_object u) pg_parameters = Inr old"
    "nested_string_map L (un_object u') pg_parameters = Inr (Some new)"
    "map_of new = (\<lambda>k. case map_of (profile_params (Some p) which) k of Some v \<Rightarrow> Some v
       | None \<Rightarrow> if k \<in> set (profileKeysToRemove (Some p) (profile_params (Some p) which)) then None
           else map_of (case old of None \<Rightarrow> [] | Some m \<Rightarrow> m) k)"
    unfolding parameters_write_def by blast
  have "map_of new key =
       (if key \<in> fst ` set (profile_params (Some p) which) then map_of (profile_params (Some p) which) key
        else if key \<in> fst ` set (pp_import p @ pp_runtime p) then None
        else map_of (case old of None \<Rightarrow> [] | Some m \<Rightarrow> m) key)" for key
  proof (cases "map_of (profile_params (Some p) which) key")
    case None
    then have "key \<notin> fst ` set (profile_params (Some p) which)" by (simp add: map_of_eq_None_iff)
    with None show ?thesis by (simp add: u'(4) profileKeysToRemove_def image_Un)
  next
    case (Some v)
    then have "key \<in> fst ` set (profile_params (Some p) which)" by (metis map_of_eq_None_iff option.distinct(1))
    with Some show ?thesis by (simp add: u'(4))
  qed
  with u u' show ?thesis unfolding target cluster_write_def by blast
qed

definition import_cluster :: unstructured where
  "import_cluster = live_cluster\<lparr>un_object := JObject [(''spec'', JObject [(''postgresql'', JObject [(''parameters'',
     JObject [(''work_mem'', JString ''1GB''), (''max_connections'', JString ''50'')])])])]\<rparr>"

theorem profile_switched_witness:
  "\<exists>u' new. play (applyPostgresProfile (defaultCNPGEffects sample_lib) paused_instance ProfileRuntime)
       [RObject (OUnstructured KCluster import_cluster), ROk] =
     ([(Get KCluster (''ns'', ''inst-pg''), RObject (OUnstructured KCluster import_cluster)),
       (UpdateObj (OUnstructured KCluster u'), ROk)], Done (Inr ())) \<and>
     nested_string_map sample_lib (un_object u') pg_parameters = Inr (Some new) \<and>
     map_of new ''work_mem'' = None \<and> map_of new ''fsync'' = Some ''on'' \<and> map_of new ''max_connections'' = Some ''50''"
proof -
  have "\<exists>u'. play (applyPostgresProfile (defaultCNPGEffects sample_lib) paused_instance ProfileRuntime)
       [RObject (OUnstructured KCluster import_cluster), ROk] =
     ([(Get KCluster (''ns'', ''inst-pg''), RObject (OUnstructured KCluster import_cluster))] @
       (UpdateObj (OUnstructured KCluster u'), ROk) # [], Done (Inr ()))"
    by (simp add: applyPostgresProfile_def paused_instance_def owning_instance_def sample_simps skipCNPGClusterEffects_def
        getCNPGCluster_def defaultCNPGEffects_def ApplyParameters_def wrap_error_def profile_params_def Let_def
        play_simps import_cluster_def nested_as_def pg_parameters_def)
  then obtain u' where p: "play (applyPostgresProfile (defaultCNPGEffects sample_lib) paused_instance ProfileRuntime)
       [RObject (OUnstructured KCluster import_cluster), ROk] =
     ([(Get KCluster (''ns'', ''inst-pg''), RObject (OUnstructured KCluster import_cluster))] @
       (UpdateObj (OUnstructured KCluster u'), ROk) # [], Done (Inr ()))" by blast
  have pr: "db_profiles (sp_database (in_spec paused_instance)) = Some sample_profiles"
    by (simp add: paused_instance_def)
  have ps: "distinct (map fst (pp_import sample_profiles))" "distinct (map fst (pp_runtime sample_profiles))" by simp_all
  from profile_switched [OF sample_lib_ok(3) pr _ ps p] obtain old new where
    o: "nested_string_map sample_lib (un_object import_cluster) pg_parameters = Inr old"
      "nested_string_map sample_lib (un_object u') pg_parameters = Inr (Some new)"
    and n: "\<And>key. map_of new key = (if key \<in> fst ` set (pp_runtime sample_profiles) then map_of (pp_runtime sample_profiles) key
        else if key \<in> fst ` set (pp_import sample_profiles @ pp_runtime sample_profiles) then None
        else map_of (case old of None \<Rightarrow> [] | Some m \<Rightarrow> m) key)"
    by (auto simp del: sample_profiles_simps)
  have "old = Some [(''work_mem'', ''1GB''), (''max_connections'', ''50'')]"
    using o(1) by (simp add: import_cluster_def nested_as_def pg_parameters_def)
  with n [of "''work_mem''"] n [of "''fsync''"] n [of "''max_connections''"] p o(2) show ?thesis by simp
qed

text \<open>The status of the parent is written only right after it was read, and only to add or remove the
  one reference: with distinct references before, they stay distinct, the Operation's is there exactly
  when it is to be, and every other one is as it was; no other field changes.\<close>

theorem parent_ref_written:
  assumes "op_instance op \<noteq> ''''"
    and "play (syncParentActiveOperationRef L op active) xs = (t1 @ (UpdateStatus x, y) # t2, out)"
  shows "\<exists>h p n. t1 = h @ [(Get KInstance (op_namespace op, op_instance op), RObject (OInstance p))] \<and> x = OInstance n \<and>
    n\<lparr>in_status := (in_status n)\<lparr>st_active_refs := []\<rparr>\<rparr> = p\<lparr>in_status := (in_status p)\<lparr>st_active_refs := []\<rparr>\<rparr> \<and>
    (distinct (ref_ids p) \<longrightarrow> distinct (ref_ids n) \<and> has_ref (operationObjectReference op) n = active \<and>
       (\<forall>r. ref_id r \<noteq> ref_id (operationObjectReference op) \<longrightarrow> has_ref r n = has_ref r p))"
proof -
  from wp_play_guard [OF wp_syncRef [OF assms(1)] assms(2)] obtain h p where
    h: "t1 = h @ [(Get KInstance (op_namespace op, op_instance op), RObject (OInstance p))]"
    and r: "has_ref (operationObjectReference op) p \<noteq> active"
    and n: "x = OInstance (sync_ref (operationObjectReference op) active p)"
    by (auto simp: ref_write_def)
  show ?thesis
    using h n sync_ref_keeps [OF _ r]
    by (intro exI [of _ h] exI [of _ p] exI [of _ "sync_ref (operationObjectReference op) active p"])
       (auto simp: sync_ref_def)
qed

theorem parent_ref_written_witness:
  "\<exists>t1 n. fst (play (syncParentActiveOperationRef sample_lib (hd imported_peers) True) [RObject (OInstance sample_instance), RVersion ''8'']) =
     t1 @ [(UpdateStatus (OInstance n), RVersion ''8'')] \<and> has_ref (operationObjectReference (hd imported_peers)) n"
proof -
  have "\<exists>n out. play (syncParentActiveOperationRef sample_lib (hd imported_peers) True) [RObject (OInstance sample_instance), RVersion ''8''] =
     ([(Get KInstance (''ns'', ''inst''), RObject (OInstance sample_instance))] @ (UpdateStatus (OInstance n), RVersion ''8'') # [], out)"
    by (simp add: syncParentActiveOperationRef_def imported_peers_def play_simps has_ref_def sample_simps
        update_instance_status_def numeral_eq_Suc)
  then obtain n out where p: "play (syncParentActiveOperationRef sample_lib (hd imported_peers) True) [RObject (OInstance sample_instance), RVersion ''8''] =
     ([(Get KInstance (''ns'', ''inst''), RObject (OInstance sample_instance))] @ (UpdateStatus (OInstance n), RVersion ''8'') # [], out)" by blast
  have "op_instance (hd imported_peers) \<noteq> ''''" by (simp add: imported_peers_def)
  from parent_ref_written [OF this p] p show ?thesis by (auto simp: ref_ids_def sample_simps)
qed

text \<open>Adding the reference of an Operation to a parent that does not have it and removing it again gives the parent
  back, references of other Operations included; and it is there in between.\<close>

theorem reference_roundtrip:
  assumes "\<not> has_ref ref parent"
  shows "sync_ref ref False (sync_ref ref True parent) = parent \<and> has_ref ref (sync_ref ref True parent)"
proof -
  have "remove_ref ref (rs @ [ref]) = rs" if "\<not> list_ex (\<lambda>r. sameOperationRef r ref) rs" for rs
    using that by (induction rs) (auto simp: sameOperationRef_def)
  with assms show ?thesis by (simp add: sync_ref_def has_ref_def sameOperationRef_def)
qed

theorem reference_roundtrip_witness:
  "has_ref (operationObjectReference (hd imported_peers)) (sync_ref (operationObjectReference (hd imported_peers)) True sample_instance)"
  using reference_roundtrip [of "operationObjectReference (hd imported_peers)" sample_instance]
  by (simp add: has_ref_def sample_simps)

lemma failed_operation_simps [simp]:
  "op_meta (failed_operation op r m t) = op_meta op" "op_spec (failed_operation op r m t) = op_spec op"
  "op_phase_of (failed_operation op r m t) = Failed"
  by (simp_all add: failed_operation_def)

lemma ref_settled_cong: "op_key op = op_key op' \<Longrightarrow> op_instance op = op_instance op' \<Longrightarrow> ref_settled op b h = ref_settled op' b h"
  by (simp add: ref_settled_def operationObjectReference_def)

lemma wp_failOperation:
  assumes "op_instance op \<noteq> ''''"
  shows "wp (\<lambda>_ _. True) (\<lambda>h r. r = Inr () \<longrightarrow>
      (\<exists>t v h1. prefix [(Now, RTime t), (UpdateStatus (OOperation (failed_operation op reason message t)), RVersion v)] h1 \<and>
         prefix h1 h \<and> ref_settled op False h1)) [] (failOperation L E op reason message)"
proof -
  have "wp (\<lambda>_ _. True) (\<lambda>h r. r = Inr () \<longrightarrow>
      (\<exists>t v h1. prefix [(Now, RTime t), (UpdateStatus (OOperation (failed_operation op reason message t)), RVersion v)] h1 \<and>
         prefix h1 h \<and> ref_settled op False h1))
      [(Now, RTime t), (UpdateStatus (OOperation (failed_operation op reason message t)), RVersion v)]
      (syncParentSideEffects L E ((failed_operation op reason message t)\<lparr>op_meta := (op_meta op)\<lparr>om_version := v\<rparr>\<rparr>))" for t v
    by (rule wp_mono [OF wp_syncSideEffects_failed])
       (use assms ref_settled_cong [of op "(failed_operation op reason message t)\<lparr>op_meta := (op_meta op)\<lparr>om_version := v\<rparr>\<rparr>"] in auto)
  then show ?thesis
    by (auto simp: failOperation_def wp_simps version_response_Inr split: sum.splits)
qed

text \<open>C28. An Operation that was failed without an error has first been written as Failed, with a message
  that starts with the reason; then its reference was settled on the parent: the parent does not have
  it, was written without it, or is gone.\<close>

theorem failed_operation_released:
  assumes "op_instance op \<noteq> ''''" and "play (failOperation L E op reason message) xs = (h, Done (Inr ()))"
  shows "\<exists>t v h1 op'. prefix [(Now, RTime t), (UpdateStatus (OOperation op'), RVersion v)] h1 \<and> prefix h1 h \<and>
    op_key op' = op_key op \<and> op_phase_of op' = Failed \<and> prefix reason (ot_message (op_status op')) \<and> ref_settled op False h1"
proof -
  have "prefix reason (ot_message (op_status (failed_operation op reason message t)))" for t
    by (auto simp: failed_operation_def failure_message_def)
  then show ?thesis
    using wp_play_result [OF wp_failOperation [OF assms(1)] assms(2)] by fastforce
qed

theorem failed_operation_released_witness:
  "\<exists>h h1. play (failOperation sample_lib (defaultCNPGEffects sample_lib) (hd imported_peers) ''Conflict'' ''busy'')
       [RTime 3, RVersion ''8'', RError ErrNotFound, RError ErrNotFound] = (h, Done (Inr ())) \<and>
     prefix h1 h \<and> ref_settled (hd imported_peers) False h1"
proof -
  have "\<exists>h. play (failOperation sample_lib (defaultCNPGEffects sample_lib) (hd imported_peers) ''Conflict'' ''busy'')
       [RTime 3, RVersion ''8'', RError ErrNotFound, RError ErrNotFound] = (h, Done (Inr ()))"
    by (simp add: failOperation_def imported_peers_def play_simps update_operation_status_def syncParentSideEffects_def
        syncParentActiveOperationRef_def numeral_eq_Suc isTerminalOperationPhase_def)
  then obtain h where p: "play (failOperation sample_lib (defaultCNPGEffects sample_lib) (hd imported_peers) ''Conflict'' ''busy'')
       [RTime 3, RVersion ''8'', RError ErrNotFound, RError ErrNotFound] = (h, Done (Inr ()))" ..
  have "op_instance (hd imported_peers) \<noteq> ''''" by (simp add: imported_peers_def)
  from failed_operation_released [OF this p] p show ?thesis by blast
qed

end
