(* ===== verification/BlueGreen.thy ===== *)
theory BlueGreen
  imports OpEffects
begin

text \<open>
  \<open>internal/controller/rebuild_bluegreen.go\<close>: which instances rebuild by a blue/green swap, the names of
  the green objects, and the pure phase machine \<open>advanceBlueGreen\<close>. The phases are ordered by the
  course of a swap; the machine never goes back.
\<close>

section \<open>Names and policies\<close>

definition APIName :: "nominatim_instance \<Rightarrow> string" where "APIName nom = in_name nom @ ''-api''"
definition UIName :: "nominatim_instance \<Rightarrow> string" where "UIName nom = in_name nom @ ''-ui''"
definition ProjectPVCName :: "nominatim_instance \<Rightarrow> string" where
  "ProjectPVCName nom = in_name nom @ ''-project''"
definition FlatnodePVCName :: "nominatim_instance \<Rightarrow> string" where
  "FlatnodePVCName nom = in_name nom @ ''-flatnode''"

definition usesBlueGreenRebuild :: "nominatim_instance \<Rightarrow> bool" where
  "usesBlueGreenRebuild nom = (EffectiveRebuildStrategy (sp_database (in_spec nom)) = BlueGreen)"

definition blueGreenRebuildAllowed :: "nominatim_instance \<Rightarrow> bool" where
  "blueGreenRebuildAllowed nom =
     (db_cluster (sp_database (in_spec nom)) \<noteq> None \<or> ds_mode (in_database nom) = ClusterManaged)"

definition BlueGreenClusterName :: "nominatim_instance \<Rightarrow> string" where
  "BlueGreenClusterName nom = OwnedCNPGClusterName nom @ ''-bg''"
definition BlueGreenProjectPVCName :: "nominatim_instance \<Rightarrow> string" where
  "BlueGreenProjectPVCName nom = ProjectPVCName nom @ ''-bg''"
definition BlueGreenFlatnodePVCName :: "nominatim_instance \<Rightarrow> string" where
  "BlueGreenFlatnodePVCName nom = FlatnodePVCName nom @ ''-bg''"

lemmas owned_names = APIName_def UIName_def ProjectPVCName_def FlatnodePVCName_def OwnedCNPGClusterName_def
  BlueGreenClusterName_def BlueGreenProjectPVCName_def BlueGreenFlatnodePVCName_def

section \<open>The machine\<close>

definition hour :: int where "hour = 3600 * second"
definition defaultBlueGreenRollbackWindow :: int where "defaultBlueGreenRollbackWindow = hour"

record blue_green_input =
  bi_phase :: rebuild_phase
  bi_active_cluster :: string
  bi_pending_cluster :: string
  bi_pending_ready :: bool
  bi_import_succeeded :: bool
  bi_cutover_ready :: bool       \<comment> \<open>\<open>APICutoverReady\<close>\<close>
  bi_blue_gone :: bool
  bi_failed :: bool
  bi_message :: string
  bi_rollback_until :: "time option"
  bi_now :: time
  bi_window :: int               \<comment> \<open>\<open>RollbackWindow\<close>\<close>

record blue_green_actions =
  ba_pending_cluster :: bool     \<comment> \<open>\<open>EnsurePendingCluster\<close>\<close>
  ba_import_job :: bool          \<comment> \<open>\<open>EnsureImportJob\<close>\<close>
  ba_cutover :: bool             \<comment> \<open>\<open>CutoverAPI\<close>\<close>
  ba_collect_blue :: bool        \<comment> \<open>\<open>GarbageCollectBlue\<close>\<close>
  ba_collect_green :: bool       \<comment> \<open>\<open>GarbageCollectGreen\<close>\<close>

record blue_green_output =
  bo_phase :: rebuild_phase
  bo_rollback_until :: "time option"
  bo_message :: string

definition no_actions :: blue_green_actions where
  "no_actions = \<lparr>ba_pending_cluster = False, ba_import_job = False, ba_cutover = False,
     ba_collect_blue = False, ba_collect_green = False\<rparr>"

definition advanceBlueGreen :: "blue_green_input \<Rightarrow> blue_green_output \<times> blue_green_actions" where
  "advanceBlueGreen inp =
     (let window = (if bi_window inp \<le> 0 then defaultBlueGreenRollbackWindow else bi_window inp);
          out = \<lparr>bo_phase = bi_phase inp, bo_rollback_until = bi_rollback_until inp, bo_message = bi_message inp\<rparr>;
          act = no_actions
      in
        if bi_failed inp \<and> bi_phase inp \<noteq> Cutover \<and> bi_phase inp \<noteq> RollbackWindow \<and>
           bi_phase inp \<noteq> GarbageCollect \<and> bi_phase inp \<noteq> RPSucceeded
        then (out\<lparr>bo_phase := RPFailed\<rparr>, act\<lparr>ba_collect_green := True\<rparr>)
        else case bi_phase inp of
          RPUnset \<Rightarrow>
            (if bi_pending_ready inp then (out\<lparr>bo_phase := Importing\<rparr>, act\<lparr>ba_import_job := True\<rparr>)
             else (out\<lparr>bo_phase := Provisioning\<rparr>, act\<lparr>ba_pending_cluster := True\<rparr>))
        | Provisioning \<Rightarrow>
            (if bi_pending_ready inp then (out\<lparr>bo_phase := Importing\<rparr>, act\<lparr>ba_import_job := True\<rparr>)
             else (out\<lparr>bo_phase := Provisioning\<rparr>, act\<lparr>ba_pending_cluster := True\<rparr>))
        | Importing \<Rightarrow>
            (if bi_import_succeeded inp then (out\<lparr>bo_phase := ReadyToCutover\<rparr>, act)
             else (out, act\<lparr>ba_import_job := True\<rparr>))
        | ReadyToCutover \<Rightarrow> (out\<lparr>bo_phase := Cutover\<rparr>, act\<lparr>ba_cutover := True\<rparr>)
        | Cutover \<Rightarrow>
            (if bi_cutover_ready inp
             then (out\<lparr>bo_phase := RollbackWindow,
                      bo_rollback_until := (case bi_rollback_until inp of
                         None \<Rightarrow> Some (bi_now inp + window) | Some t \<Rightarrow> Some t)\<rparr>, act)
             else (out, act\<lparr>ba_cutover := True\<rparr>))
        | RollbackWindow \<Rightarrow>
            (case bi_rollback_until inp of
               None \<Rightarrow> (out, act)
             | Some t \<Rightarrow>
                 if \<not> bi_now inp < t then (out\<lparr>bo_phase := GarbageCollect\<rparr>, act\<lparr>ba_collect_blue := True\<rparr>)
                 else (out, act))
        | GarbageCollect \<Rightarrow>
            (if bi_blue_gone inp then (out\<lparr>bo_phase := RPSucceeded\<rparr>, act)
             else (out, act\<lparr>ba_collect_blue := True\<rparr>))
        | RPSucceeded \<Rightarrow> (out, act)
        | RPFailed \<Rightarrow> (out, act)
        | OtherRebuildPhase s \<Rightarrow> (out, act))"

section \<open>The order of the phases\<close>

fun phase_rank :: "rebuild_phase \<Rightarrow> nat" where
  "phase_rank RPUnset = 0"
| "phase_rank Provisioning = 1"
| "phase_rank Importing = 2"
| "phase_rank ReadyToCutover = 3"
| "phase_rank Cutover = 4"
| "phase_rank RollbackWindow = 5"
| "phase_rank GarbageCollect = 6"
| "phase_rank RPSucceeded = 7"
| "phase_rank (OtherRebuildPhase s) = 8"
| "phase_rank RPFailed = 9"

fun phase_tag :: "rebuild_phase \<Rightarrow> string" where
  "phase_tag (OtherRebuildPhase s) = s"
| "phase_tag _ = ''''"

lemma phase_eqI: "phase_rank p = phase_rank q \<Longrightarrow> phase_tag p = phase_tag q \<Longrightarrow> p = q"
  by (cases p; cases q) auto

instantiation rebuild_phase :: linorder
begin

definition less_eq_rebuild_phase :: "rebuild_phase \<Rightarrow> rebuild_phase \<Rightarrow> bool" where
  "less_eq_rebuild_phase p q \<longleftrightarrow> phase_rank p < phase_rank q \<or> (phase_rank p = phase_rank q \<and> phase_tag p \<le> phase_tag q)"

definition less_rebuild_phase :: "rebuild_phase \<Rightarrow> rebuild_phase \<Rightarrow> bool" where
  "less_rebuild_phase p q \<longleftrightarrow> phase_rank p < phase_rank q \<or> (phase_rank p = phase_rank q \<and> phase_tag p < phase_tag q)"

instance
  by standard (auto simp: less_eq_rebuild_phase_def less_rebuild_phase_def intro: phase_eqI)

end

text \<open>Whether the API serves from the green cluster.\<close>

definition cut_over :: "rebuild_phase \<Rightarrow> bool" where
  "cut_over p \<longleftrightarrow> Cutover \<le> p \<and> p \<le> RPSucceeded"

lemma cut_over_iff: "cut_over p \<longleftrightarrow> p \<in> {Cutover, RollbackWindow, GarbageCollect, RPSucceeded}"
  by (cases p) (auto simp: cut_over_def less_eq_rebuild_phase_def)

section \<open>What the machine guarantees\<close>

lemma advance_cases:
  assumes "advanceBlueGreen inp = (out, act)"
  obtains (fail) "bi_failed inp" "\<not> cut_over (bi_phase inp)" "bo_phase out = RPFailed" "act = no_actions\<lparr>ba_collect_green := True\<rparr>"
      "bo_rollback_until out = bi_rollback_until inp"
  | (stay) "bo_phase out = bi_phase inp" "\<not> ba_collect_green act" "bo_rollback_until out = bi_rollback_until inp"
      "ba_cutover act \<longrightarrow> bi_phase inp = Cutover" "ba_collect_blue act \<longrightarrow> bi_phase inp = GarbageCollect"
  | (start) "bi_phase inp = RPUnset" "bo_phase out = Provisioning" "act = no_actions\<lparr>ba_pending_cluster := True\<rparr>"
      "bo_rollback_until out = bi_rollback_until inp"
  | (ready) "bi_phase inp \<in> {RPUnset, Provisioning}" "bi_pending_ready inp" "bo_phase out = Importing"
      "act = no_actions\<lparr>ba_import_job := True\<rparr>" "bo_rollback_until out = bi_rollback_until inp"
  | (imported) "bi_phase inp = Importing" "bi_import_succeeded inp" "bo_phase out = ReadyToCutover" "act = no_actions"
      "bo_rollback_until out = bi_rollback_until inp"
  | (cutover) "bi_phase inp = ReadyToCutover" "\<not> bi_failed inp" "bo_phase out = Cutover" "act = no_actions\<lparr>ba_cutover := True\<rparr>"
      "bo_rollback_until out = bi_rollback_until inp"
  | (window) "bi_phase inp = Cutover" "bi_cutover_ready inp" "bo_phase out = RollbackWindow" "act = no_actions"
      "bo_rollback_until out \<noteq> None"
      "bi_rollback_until inp = None \<longrightarrow> bo_rollback_until out = Some (bi_now inp +
         (if bi_window inp \<le> 0 then defaultBlueGreenRollbackWindow else bi_window inp))"
      "bi_rollback_until inp \<noteq> None \<longrightarrow> bo_rollback_until out = bi_rollback_until inp"
  | (collect) t where "bi_phase inp = RollbackWindow" "bi_rollback_until inp = Some t" "t \<le> bi_now inp" "bo_phase out = GarbageCollect"
      "act = no_actions\<lparr>ba_collect_blue := True\<rparr>" "bo_rollback_until out = bi_rollback_until inp"
  | (collected) "bi_phase inp = GarbageCollect" "bi_blue_gone inp" "bo_phase out = RPSucceeded" "act = no_actions"
      "bo_rollback_until out = bi_rollback_until inp"
proof -
  note * = assms [unfolded advanceBlueGreen_def Let_def]
  show ?thesis
  proof (cases "bi_failed inp \<and> \<not> cut_over (bi_phase inp)")
    case True
    then show ?thesis using * by (intro fail) (auto simp: cut_over_iff)
  next
    case False
    then show ?thesis using *
      by (cases "bi_phase inp")
         (auto simp: cut_over_iff no_actions_def split: if_splits option.splits
           intro: stay start ready imported cutover window collect collected)
  qed
qed

text \<open>
  A run of the machine from no phase: the inputs with the actions that each gave, latest first; every
  input has the phase and the rollback time that the output before it left.
\<close>

inductive machine_run :: "(blue_green_input \<times> blue_green_actions) list \<Rightarrow> rebuild_phase \<Rightarrow> time option \<Rightarrow> bool" where
  initial: "machine_run [] RPUnset None"
| advance: "machine_run es p u \<Longrightarrow> bi_phase inp = p \<Longrightarrow> bi_rollback_until inp = u \<Longrightarrow>
     advanceBlueGreen inp = (out, act) \<Longrightarrow> machine_run ((inp, act) # es) (bo_phase out) (bo_rollback_until out)"

inductive_cases machine_run_cases: "machine_run es p u"

definition input_window :: "blue_green_input \<Rightarrow> int" where
  "input_window inp = (if bi_window inp \<le> 0 then defaultBlueGreenRollbackWindow else bi_window inp)"

text \<open>The rollback window was opened by a completed cutover, at the recorded time.\<close>

definition window_opened :: "(blue_green_input \<times> blue_green_actions) list \<Rightarrow> time \<Rightarrow> bool" where
  "window_opened es t = (\<exists>(inp, act) \<in> set es. bi_phase inp = Cutover \<and> bi_cutover_ready inp \<and> t = bi_now inp + input_window inp)"

definition window_elapsed :: "(blue_green_input \<times> blue_green_actions) list \<Rightarrow> bool" where
  "window_elapsed es = (\<exists>t. window_opened es t \<and> (\<exists>(inp, act) \<in> set es. bi_phase inp = RollbackWindow \<and> t \<le> bi_now inp))"

definition run_invariant :: "(blue_green_input \<times> blue_green_actions) list \<Rightarrow> rebuild_phase \<Rightarrow> time option \<Rightarrow> bool" where
  "run_invariant es p u =
     ((p \<le> Cutover \<longrightarrow> u = None) \<and> (\<forall>t. u = Some t \<longrightarrow> window_opened es t) \<and>
      (p = RollbackWindow \<longrightarrow> u \<noteq> None) \<and> (p \<in> {GarbageCollect, RPSucceeded} \<longrightarrow> window_elapsed es) \<and>
      (\<forall>(inp, act) \<in> set es. ba_collect_blue act \<longrightarrow> window_elapsed es))"

lemma window_mono:
  "window_opened es t \<Longrightarrow> window_opened (e # es) t" "window_elapsed es \<Longrightarrow> window_elapsed (e # es)"
  by (fastforce simp: window_opened_def window_elapsed_def)+

lemma phase_order [simp]:
  "RPUnset \<le> Cutover" "Provisioning \<le> Cutover" "Importing \<le> Cutover" "ReadyToCutover \<le> Cutover" "\<not> RollbackWindow \<le> Cutover"
  "\<not> GarbageCollect \<le> Cutover" "\<not> RPSucceeded \<le> Cutover" "\<not> RPFailed \<le> Cutover"
  by (simp_all add: less_eq_rebuild_phase_def)

lemma run_invariant_step:
  assumes "run_invariant es (bi_phase inp) (bi_rollback_until inp)" and "advanceBlueGreen inp = (out, act)"
  shows "run_invariant ((inp, act) # es) (bo_phase out) (bo_rollback_until out)"
  using assms(2)
proof (cases rule: advance_cases)
  case window
  have "window_opened ((inp, act) # es) (bi_now inp + input_window inp)"
    using window by (auto simp: window_opened_def)
  then show ?thesis using window assms(1)
    by (auto simp: run_invariant_def input_window_def no_actions_def intro: window_mono)
next
  case (collect t)
  have "window_elapsed ((inp, act) # es)"
    using collect assms(1) window_mono(1) [of es t "(inp, act)"]
    by (auto simp: run_invariant_def window_elapsed_def)
  then show ?thesis using collect assms(1) by (auto simp: run_invariant_def intro: window_mono)
next
  case stay
  then show ?thesis using assms(1) by (fastforce simp: run_invariant_def intro: window_mono)
qed (use assms(1) in \<open>auto simp: run_invariant_def no_actions_def intro: window_mono\<close>)

lemma run_invariant: "machine_run es p u \<Longrightarrow> run_invariant es p u"
  by (induction rule: machine_run.induct) (auto simp: run_invariant_def [of "[]"] intro: run_invariant_step)

section \<open>Properties\<close>

text \<open>The machine never goes back in the order of the phases; it fails only on a failed import, and
  never once the API was cut over; and once cut over it stays so.\<close>

theorem machine_forward:
  assumes "advanceBlueGreen inp = (out, act)"
  shows "bi_phase inp \<le> bo_phase out \<and>
    (bo_phase out = RPFailed \<longrightarrow> bi_phase inp = RPFailed \<or> (bi_failed inp \<and> \<not> cut_over (bi_phase inp))) \<and>
    (cut_over (bi_phase inp) \<longrightarrow> cut_over (bo_phase out))"
  using assms
proof (cases rule: advance_cases)
  case fail
  then show ?thesis by (cases "bi_phase inp") (auto simp: less_eq_rebuild_phase_def)
qed (auto simp: less_eq_rebuild_phase_def cut_over_iff)

definition sample_input :: "rebuild_phase \<Rightarrow> blue_green_input" where
  "sample_input p = \<lparr>bi_phase = p, bi_active_cluster = ''inst-pg'', bi_pending_cluster = ''inst-pg-bg'', bi_pending_ready = True,
     bi_import_succeeded = True, bi_cutover_ready = True, bi_blue_gone = True, bi_failed = False, bi_message = '''',
     bi_rollback_until = Some 100, bi_now = 200, bi_window = 0\<rparr>"

theorem machine_forward_witness:
  "\<exists>out act. advanceBlueGreen (sample_input Cutover) = (out, act) \<and> bo_phase out = RollbackWindow \<and> Cutover \<le> bo_phase out"
proof -
  obtain out act where a: "advanceBlueGreen (sample_input Cutover) = (out, act)" by fastforce
  from machine_forward [OF a] a show ?thesis
    by (auto simp: advanceBlueGreen_def sample_input_def)
qed

text \<open>The green cluster is collected only for a failed import before the cutover, the blue one only in
  the collecting phase or when the rollback window has elapsed, never both; and the API is cut over only
  in the two phases of the cutover.\<close>

theorem machine_actions:
  assumes "advanceBlueGreen inp = (out, act)"
  shows "(ba_collect_green act \<longrightarrow> bi_failed inp \<and> \<not> cut_over (bi_phase inp) \<and> \<not> ba_collect_blue act) \<and>
    (ba_collect_blue act \<longrightarrow> bi_phase inp = GarbageCollect \<or>
       (bi_phase inp = RollbackWindow \<and> (\<exists>t. bi_rollback_until inp = Some t \<and> t \<le> bi_now inp))) \<and>
    (ba_cutover act \<longrightarrow> bi_phase inp = ReadyToCutover \<or> bi_phase inp = Cutover)"
  using assms by (cases rule: advance_cases) (auto simp: no_actions_def)

theorem machine_actions_witness:
  "\<exists>out act. advanceBlueGreen (sample_input RollbackWindow) = (out, act) \<and> ba_collect_blue act \<and> \<not> ba_collect_green act"
proof -
  obtain out act where a: "advanceBlueGreen (sample_input RollbackWindow) = (out, act)" by fastforce
  from machine_actions [OF a] a show ?thesis
    by (auto simp: advanceBlueGreen_def sample_input_def no_actions_def)
qed

text \<open>C22. In every run from the beginning, the blue cluster is collected only after a completed cutover
  and a later look at the clock at least the rollback window after it.\<close>

theorem blue_collected_after_window:
  assumes "machine_run es p u" and "(inp, act) \<in> set es" and "ba_collect_blue act"
  shows "\<exists>(inp0, act0) \<in> set es. bi_phase inp0 = Cutover \<and> bi_cutover_ready inp0 \<and>
    (\<exists>(inp1, act1) \<in> set es. bi_phase inp1 = RollbackWindow \<and> bi_now inp0 + input_window inp0 \<le> bi_now inp1)"
proof -
  have "window_elapsed es" using run_invariant [OF assms(1)] assms(2,3) by (auto simp: run_invariant_def)
  then show ?thesis unfolding window_elapsed_def window_opened_def by fastforce
qed

definition step_input :: "rebuild_phase \<Rightarrow> time option \<Rightarrow> time \<Rightarrow> blue_green_input" where
  "step_input p u t = (sample_input p)\<lparr>bi_rollback_until := u, bi_now := t\<rparr>"

definition good_run :: "(blue_green_input \<times> blue_green_actions) list" where
  "good_run = map (\<lambda>inp. (inp, snd (advanceBlueGreen inp)))
     [step_input RollbackWindow (Some hour) hour, step_input Cutover None 0, step_input ReadyToCutover None 0,
      step_input Importing None 0, step_input RPUnset None 0]"

lemma good_run: "machine_run good_run GarbageCollect (Some hour)"
proof -
  have step: "machine_run ((inp, snd (advanceBlueGreen inp)) # es) (bo_phase (fst (advanceBlueGreen inp))) (bo_rollback_until (fst (advanceBlueGreen inp)))"
    if "machine_run es (bi_phase inp) (bi_rollback_until inp)" for es inp
    using that by (rule machine_run.advance) simp_all
  have advance: "advanceBlueGreen (step_input RPUnset None 0) = (\<lparr>bo_phase = Importing, bo_rollback_until = None, bo_message = ''''\<rparr>, no_actions\<lparr>ba_import_job := True\<rparr>)"
    "advanceBlueGreen (step_input Importing None 0) = (\<lparr>bo_phase = ReadyToCutover, bo_rollback_until = None, bo_message = ''''\<rparr>, no_actions)"
    "advanceBlueGreen (step_input ReadyToCutover None 0) = (\<lparr>bo_phase = Cutover, bo_rollback_until = None, bo_message = ''''\<rparr>, no_actions\<lparr>ba_cutover := True\<rparr>)"
    "advanceBlueGreen (step_input Cutover None 0) = (\<lparr>bo_phase = RollbackWindow, bo_rollback_until = Some hour, bo_message = ''''\<rparr>, no_actions)"
    "advanceBlueGreen (step_input RollbackWindow (Some hour) hour) = (\<lparr>bo_phase = GarbageCollect, bo_rollback_until = Some hour, bo_message = ''''\<rparr>, no_actions\<lparr>ba_collect_blue := True\<rparr>)"
    by (simp_all add: advanceBlueGreen_def step_input_def sample_input_def defaultBlueGreenRollbackWindow_def)
  have fields: "bi_phase (step_input q v t) = q" "bi_rollback_until (step_input q v t) = v" for q v t
    by (simp_all add: step_input_def sample_input_def)
  have "machine_run [(step_input RPUnset None 0, snd (advanceBlueGreen (step_input RPUnset None 0)))] Importing None"
    using step [of "[]" "step_input RPUnset None 0"] machine_run.initial by (simp add: fields advance)
  from step [of _ "step_input Importing None 0", unfolded fields, OF this]
  have "machine_run (drop 3 good_run) ReadyToCutover None" by (simp add: good_run_def advance)
  from step [of _ "step_input ReadyToCutover None 0", unfolded fields, OF this]
  have "machine_run (drop 2 good_run) Cutover None" by (simp add: good_run_def advance numeral_eq_Suc)
  from step [of _ "step_input Cutover None 0", unfolded fields, OF this]
  have "machine_run (drop 1 good_run) RollbackWindow (Some hour)" by (simp add: good_run_def advance numeral_eq_Suc)
  from step [of _ "step_input RollbackWindow (Some hour) hour", unfolded fields, OF this]
  show ?thesis by (simp add: good_run_def advance)
qed

theorem blue_collected_after_window_witness:
  "\<exists>(inp1, act1) \<in> set good_run. bi_phase inp1 = RollbackWindow \<and> hour \<le> bi_now inp1"
proof -
  have "(step_input RollbackWindow (Some hour) hour, no_actions\<lparr>ba_collect_blue := True\<rparr>) \<in> set good_run"
    by (simp add: good_run_def advanceBlueGreen_def step_input_def sample_input_def)
  from blue_collected_after_window [OF good_run this] show ?thesis
    by (auto simp: good_run_def step_input_def sample_input_def)
qed

text \<open>C23. No phase is stuck: while the observations are good (green ready, import succeeded, cutover done,
  blue gone, the rollback time passed) every step goes on to a later phase, and not past the end.\<close>

theorem machine_progress:
  assumes "bi_phase inp < RPSucceeded" and "\<not> bi_failed inp" and "bi_pending_ready inp" and "bi_import_succeeded inp"
    and "bi_cutover_ready inp" and "bi_blue_gone inp"
    and "bi_phase inp = RollbackWindow \<Longrightarrow> \<exists>t. bi_rollback_until inp = Some t \<and> t \<le> bi_now inp"
    and "advanceBlueGreen inp = (out, act)"
  shows "bi_phase inp < bo_phase out \<and> bo_phase out \<le> RPSucceeded"
  using assms(1-7) assms(8) [unfolded advanceBlueGreen_def Let_def]
  by (cases "bi_phase inp") (auto simp: less_rebuild_phase_def less_eq_rebuild_phase_def)

theorem machine_progress_witness:
  "\<exists>out act. advanceBlueGreen (sample_input RollbackWindow) = (out, act) \<and> RollbackWindow < bo_phase out"
proof -
  obtain out act where a: "advanceBlueGreen (sample_input RollbackWindow) = (out, act)" by fastforce
  have "RollbackWindow < RPSucceeded" by (simp add: less_rebuild_phase_def)
  with machine_progress [of "sample_input RollbackWindow" out act] a show ?thesis
    by (auto simp: sample_input_def)
qed

end
