(* ===== verification/Workloads.thy ===== *)
theory Workloads
  imports BlueGreen
begin

text \<open>
  \<open>internal/controller/nominatim_workloads.go\<close>: the volume claims, the API and the UI Deployment with
  their Service and HTTPRoute, and when the API is scaled to zero. A mutate function handed to
  \<open>CreateOrUpdate\<close> is a definition of its own.
\<close>

section \<open>Labels, claims, environment\<close>

definition DefaultAPIRepository :: string where "DefaultAPIRepository = ''ghcr.io/zebernst/nominatim-api''"
definition DefaultUIRepository :: string where "DefaultUIRepository = ''ghcr.io/zebernst/nominatim-ui''"
definition ComponentAPI :: string where "ComponentAPI = ''api''"
definition ComponentUI :: string where "ComponentUI = ''ui''"
definition ComponentProject :: string where "ComponentProject = ''project''"
definition ComponentFlatnode :: string where "ComponentFlatnode = ''flatnode''"
definition projectMountPath :: string where "projectMountPath = ''/nominatim''"
definition gatewayAPIGroup :: string where "gatewayAPIGroup = ''gateway.networking.k8s.io''"
definition envNominatimDatabaseDSN :: string where "envNominatimDatabaseDSN = ''NOMINATIM_DATABASE_DSN''"

definition commonLabels :: "nominatim_instance \<Rightarrow> string \<Rightarrow> strmap" where
  "commonLabels nom component =
     [(''app.kubernetes.io/name'', ''nominatim''), (''app.kubernetes.io/instance'', in_name nom)] @
     (if component \<noteq> '''' then [(''app.kubernetes.io/component'', component)] else [])"

definition own_meta :: "lib \<Rightarrow> nominatim_instance \<Rightarrow> object_meta \<Rightarrow> error + object_meta" where
  "own_meta L nom m = set_controller_reference L ''NominatimInstance'' (in_meta nom) m"

definition reconcilePVC :: "lib \<Rightarrow> nominatim_instance \<Rightarrow> volume_source \<Rightarrow> string \<Rightarrow> string \<Rightarrow> string prog" where
  "reconcilePVC L nom vs defaultName component =
     (if vs_claim_name vs \<noteq> '''' then Ret (vs_claim_name vs)
      else case vs_template vs of
        None \<Rightarrow> Fail (Errorf ''volume requires claimName and/or volumeClaimTemplate'')
      | Some vct \<Rightarrow>
          let name = (if vct_name vct = '''' then defaultName else vct_name vct) in
          bind (attempt (get_present KClaim (in_namespace nom, name))) (\<lambda>r.
            case r of
              Inr _ \<Rightarrow> Ret name
            | Inl e \<Rightarrow>
                if \<not> is_not_found e then Fail (Wrap (''get PVC '' @ quote name) e)
                else
                  let labels = fold (\<lambda>(k, v). map_set k v) (vct_labels vct) (commonLabels nom component);
                      m = (new_meta name (in_namespace nom))\<lparr>om_labels := labels, om_annotations := vct_annotations vct\<rparr>
                  in bind (wrap_error (''set controller reference on PVC '' @ quote name) (lift (own_meta L nom m))) (\<lambda>m.
                     bind (wrap_error (''create PVC '' @ quote name) (create (OClaim \<lparr>pv_meta = m, pv_spec = vct_spec vct\<rparr>))) (\<lambda>_.
                     Ret name))))"

definition servingWorkloadsAllowed :: "nominatim_instance \<Rightarrow> bool" where
  "servingWorkloadsAllowed nom = (if sp_regions (in_spec nom) = [] then True else in_regions nom \<noteq> [])"

definition uiAPIEndpointEnv :: "nominatim_instance \<Rightarrow> env_var list" where
  "uiAPIEndpointEnv nom =
     (case sp_api (in_spec nom) of
        None \<Rightarrow> []
      | Some a \<Rightarrow>
          (case ap_route a of
             None \<Rightarrow> []
           | Some r \<Rightarrow>
               (case find (\<lambda>h. h \<noteq> '''') (rt_hostnames r) of
                  None \<Rightarrow> []
                | Some host \<Rightarrow> [env_value ''NOMINATIM_API_ENDPOINT'' (''https://'' @ host @ ''/'')])))"

definition secret_env :: "string \<Rightarrow> string \<Rightarrow> string \<Rightarrow> env_var" where
  "secret_env secretName n k = \<lparr>ev_name = n, ev_value = '''', ev_from = Some (SecretKeyRef secretName k (Some True))\<rparr>"

definition dbEnvVars :: "string \<Rightarrow> env_var list" where
  "dbEnvVars secretName =
     [secret_env secretName envNominatimDatabaseDSN ''uri'', secret_env secretName ''PGHOST'' ''host'',
      secret_env secretName ''PGPORT'' ''port'', secret_env secretName ''PGDATABASE'' ''dbname'',
      secret_env secretName ''PGUSER'' ''user'', secret_env secretName ''PGPASSWORD'' ''password'']"

lemma secret_env_name [simp]: "ev_name (secret_env s n k) = n"
  by (simp add: secret_env_def)

definition workdir_volume :: volume where
  "workdir_volume = \<lparr>vo_name = ''workdir'', vo_claim = None, vo_empty_dir = True, vo_host_path = None, vo_rest = JNull\<rparr>"

definition apiPodFilesystem :: "nominatim_instance \<Rightarrow> volume list \<times> volume_mount list \<times> env_var list" where
  "apiPodFilesystem nom =
     ([workdir_volume], [mount ''workdir'' projectMountPath],
      [env_value ''PROJECT_DIR'' projectMountPath] @ effectiveNominatimConfigEnv nom @ effectiveAPIEnv (sp_api (in_spec nom)))"

definition status_probe :: "int \<Rightarrow> int \<Rightarrow> int \<Rightarrow> probe" where
  "status_probe period timeout failures = HttpProbe ''/status'' ''http'' period timeout failures"

definition default_probe :: "probe option \<Rightarrow> probe \<Rightarrow> probe option" where
  "default_probe p d = (case p of None \<Rightarrow> Some d | Some q \<Rightarrow> Some q)"

definition applyDefaultAPIProbes :: "container \<Rightarrow> container" where
  "applyDefaultAPIProbes c =
     c\<lparr>ct_startup := default_probe (ct_startup c) (status_probe 5 3 36),
       ct_readiness := default_probe (ct_readiness c) (status_probe 10 5 3),
       ct_liveness := default_probe (ct_liveness c) (status_probe 30 5 3)\<rparr>"

text \<open>The first container of a name, changed.\<close>

fun change_first :: "string \<Rightarrow> (container \<Rightarrow> container) \<Rightarrow> container list \<Rightarrow> container list" where
  "change_first n f [] = []"
| "change_first n f (c # cs) = (if ct_name c = n then f c # cs else c # change_first n f cs)"

section \<open>Suspending the API\<close>

fun shouldSuspendLoop :: "nominatim_instance \<Rightarrow> impact \<Rightarrow> object_reference list \<Rightarrow> bool prog" where
  "shouldSuspendLoop nom imp [] = Ret False"
| "shouldSuspendLoop nom imp (ref # refs) =
     bind (attempt (get_operation (in_namespace nom, or_name ref))) (\<lambda>r.
       case r of
         Inl e \<Rightarrow>
           if is_not_found e then shouldSuspendLoop nom imp refs
           else Fail (Wrap (''get active operation '' @ quote (or_name ref)) e)
       | Inr op \<Rightarrow>
           if op_type_of op = Rebuild \<and> \<not> usesBlueGreenRebuild nom then Ret True
           else if imp = ImpactNever then shouldSuspendLoop nom imp refs
           else if operationImpactMatches imp (op_type_of op) then Ret True
           else shouldSuspendLoop nom imp refs)"

definition shouldSuspendAPI :: "nominatim_instance \<Rightarrow> impact \<Rightarrow> bool prog" where
  "shouldSuspendAPI nom imp =
     shouldSuspendLoop nom (if imp = ImpactUnset then ImpactNever else imp) (st_active_refs (in_status nom))"

section \<open>Deployments, Services, routes\<close>

definition no_api :: api_spec where
  "no_api = \<lparr>ap_replicas = None, ap_image = None, ap_gunicorn = None, ap_pod_spec = None, ap_route = None, ap_suspend = ImpactUnset\<rparr>"

definition empty_deployment :: "string \<Rightarrow> string \<Rightarrow> deployment" where
  "empty_deployment name ns = \<lparr>de_meta = new_meta name ns, de_replicas = None, de_selector = [], de_template_labels = [],
     de_pod = empty_pod, de_status_replicas = 0, de_ready_replicas = 0, de_available_replicas = 0\<rparr>"

text \<open>What both Deployments set: owner, labels, replicas, selector and the merged pod.\<close>

definition mutateDeployment ::
  "lib \<Rightarrow> nominatim_instance \<Rightarrow> strmap \<Rightarrow> int \<Rightarrow> (error + pod_spec) \<Rightarrow> obj \<Rightarrow> error + obj" where
  "mutateDeployment L nom labels replicas merged x =
     (case x of
        ODeployment d \<Rightarrow>
          and_then (own_meta L nom (de_meta d)) (\<lambda>m.
          and_then merged (\<lambda>pod.
          Inr (ODeployment (d\<lparr>de_meta := m\<lparr>om_labels := labels\<rparr>, de_replicas := Some replicas, de_selector := labels,
                 de_template_labels := labels, de_pod := pod\<rparr>))))
      | _ \<Rightarrow> Inl BadResponse)"

definition http_container :: "string \<Rightarrow> string \<Rightarrow> string \<Rightarrow> env_var list \<Rightarrow> volume_mount list \<Rightarrow> container" where
  "http_container n img pullPolicy env mounts =
     empty_container\<lparr>ct_name := n, ct_image := img, ct_pull_policy := pullPolicy,
       ct_ports := [\<lparr>cp_name = ''http'', cp_port = 8080\<rparr>], ct_env := env, ct_mounts := mounts\<rparr>"

definition apiPod :: "lib \<Rightarrow> nominatim_instance \<Rightarrow> api_spec \<Rightarrow> error + pod_spec" where
  "apiPod L nom api =
     (let (volumes, mounts, env) = apiPodFilesystem nom;
          env = env @ dbEnvVars (ds_secret (in_database nom));
          img = resolveImage (ap_image api) DefaultAPIRepository;
          policy = resolvePullPolicy (ap_image api)
      in and_then
           (mergePodSpecOverlay L (empty_pod\<lparr>ps_containers := [http_container ''api'' img policy env mounts], ps_volumes := volumes\<rparr>)
             (ap_pod_spec api) ''api'' img policy)
           (\<lambda>merged. Inr (merged\<lparr>ps_containers := change_first ''api'' applyDefaultAPIProbes (ps_containers merged)\<rparr>)))"

definition uiPod :: "lib \<Rightarrow> nominatim_instance \<Rightarrow> ui_spec \<Rightarrow> error + pod_spec" where
  "uiPod L nom ui =
     (let img = resolveImage (ui_image ui) DefaultUIRepository; policy = resolvePullPolicy (ui_image ui) in
      mergePodSpecOverlay L (empty_pod\<lparr>ps_containers := [http_container ''ui'' img policy (uiAPIEndpointEnv nom) []]\<rparr>)
        (ui_pod_spec ui) ''ui'' img policy)"

definition mutateService :: "lib \<Rightarrow> nominatim_instance \<Rightarrow> strmap \<Rightarrow> string \<Rightarrow> obj \<Rightarrow> error + obj" where
  "mutateService L nom selector component x =
     (case x of
        OService s \<Rightarrow>
          and_then (own_meta L nom (se_meta s)) (\<lambda>m.
          Inr (OService (s\<lparr>se_meta := m\<lparr>om_labels := commonLabels nom component\<rparr>, se_selector := selector,
                 se_ports := [\<lparr>sv_name = ''http'', sv_protocol = ''TCP'', sv_port = 80, sv_target = 8080\<rparr>]\<rparr>)))
      | _ \<Rightarrow> Inl BadResponse)"

definition reconcileService :: "lib \<Rightarrow> nominatim_instance \<Rightarrow> string \<Rightarrow> strmap \<Rightarrow> string \<Rightarrow> unit prog" where
  "reconcileService L nom name selector component =
     create_or_update (OService \<lparr>se_meta = new_meta name (in_namespace nom), se_selector = [], se_ports = []\<rparr>)
       (mutateService L nom selector component)"

definition parent_ref_json :: "parent_reference \<Rightarrow> json" where
  "parent_ref_json r = JObject
     ([(''name'', JString (pr_name r)),
       (''group'', JString (case pr_group r of Some g \<Rightarrow> g | None \<Rightarrow> gatewayAPIGroup)),
       (''kind'', JString (case pr_kind r of Some k \<Rightarrow> k | None \<Rightarrow> ''Gateway''))] @
      (case pr_namespace r of Some n \<Rightarrow> [(''namespace'', JString n)] | None \<Rightarrow> []) @
      (case pr_section r of Some s \<Rightarrow> [(''sectionName'', JString s)] | None \<Rightarrow> []))"

definition default_matches :: json where
  "default_matches = JArray [JObject [(''path'', JObject [(''type'', JString ''PathPrefix''), (''value'', JString ''/'')])]]"

definition backend_refs :: "string \<Rightarrow> json" where
  "backend_refs serviceName = JArray [JObject [(''group'', JString ''''), (''kind'', JString ''Service''),
     (''name'', JString serviceName), (''port'', JInt 80), (''weight'', JInt 1)]]"

text \<open>The matches of the first rule that the route has already, if any.\<close>

definition existing_matches :: "error + json list option \<Rightarrow> json" where
  "existing_matches rules =
     (case rules of
        Inr (Some (rule # _)) \<Rightarrow> (case json_field rule ''matches'' of Some m \<Rightarrow> m | None \<Rightarrow> default_matches)
      | _ \<Rightarrow> default_matches)"

definition mutateHTTPRoute :: "lib \<Rightarrow> nominatim_instance \<Rightarrow> string \<Rightarrow> route_spec \<Rightarrow> string \<Rightarrow> unstructured \<Rightarrow> error + unstructured" where
  "mutateHTTPRoute L nom serviceName route component httpRoute =
     and_then (own_unstructured L nom httpRoute) (\<lambda>u.
     and_then (set_field L [''spec'', ''parentRefs''] (JArray (map parent_ref_json (rt_parents route)))
         (u\<lparr>un_meta := (un_meta u)\<lparr>om_labels := commonLabels nom component\<rparr>\<rparr>)) (\<lambda>u.
     let u = (if rt_hostnames route \<noteq> []
              then (case set_field L [''spec'', ''hostnames''] (JArray (map JString (rt_hostnames route))) u of
                      Inl _ \<Rightarrow> u | Inr u' \<Rightarrow> u')
              else u\<lparr>un_object := remove_nested L (un_object u) [''spec'', ''hostnames'']\<rparr>);
         matches = existing_matches (nested_slice L (un_object u) [''spec'', ''rules''])
     in set_field L [''spec'', ''rules'']
          (JArray [JObject [(''matches'', matches), (''backendRefs'', backend_refs serviceName)]]) u))"

definition reconcileHTTPRoute :: "lib \<Rightarrow> nominatim_instance \<Rightarrow> string \<Rightarrow> string \<Rightarrow> route_spec \<Rightarrow> string \<Rightarrow> unit prog" where
  "reconcileHTTPRoute L nom name serviceName route component =
     create_or_update (OUnstructured KHTTPRoute (new_unstructured name (in_namespace nom)))
       (on_unstructured (mutateHTTPRoute L nom serviceName route component))"

definition deleteServingComponent :: "nominatim_instance \<Rightarrow> string \<Rightarrow> string \<Rightarrow> unit prog" where
  "deleteServingComponent nom name component =
     (let key = (in_namespace nom, name) in
      bind (wrap_error (''delete '' @ component @ '' deployment '' @ quote name) (ignore_not_found () (delete KDeployment key))) (\<lambda>_.
      bind (wrap_error (''delete '' @ component @ '' service '' @ quote name) (ignore_not_found () (delete KService key))) (\<lambda>_.
      bind (attempt (delete KHTTPRoute key)) (\<lambda>r.
        case r of
          Inl e \<Rightarrow> if is_not_found e \<or> is_no_match e then Ret ()
                   else Fail (Wrap (''delete '' @ component @ '' HTTPRoute '' @ quote name) e)
        | Inr _ \<Rightarrow> Ret ()))))"

definition reconcileAPI :: "lib \<Rightarrow> nominatim_instance \<Rightarrow> unit prog" where
  "reconcileAPI L nom =
     (if \<not> servingWorkloadsAllowed nom then deleteServingComponent nom (APIName nom) ComponentAPI
      else if ds_secret (in_database nom) = '''' then
        Fail (Errorf ''cannot reconcile API workload: status.database.connectionSecretName is empty'')
      else
        let api = (case sp_api (in_spec nom) of None \<Rightarrow> no_api | Some a \<Rightarrow> a);
            name = APIName nom; labels = commonLabels nom ComponentAPI
        in
          bind (wrap_error ''evaluate suspendDuringOperations'' (shouldSuspendAPI nom (ap_suspend api))) (\<lambda>suspend.
          let replicas = (if suspend then 0 else case ap_replicas api of None \<Rightarrow> 1 | Some n \<Rightarrow> n) in
          bind (wrap_error ''reconcile API deployment''
                  (create_or_update (ODeployment (empty_deployment name (in_namespace nom)))
                     (mutateDeployment L nom labels replicas (apiPod L nom api)))) (\<lambda>_.
          bind (wrap_error ''reconcile API service'' (reconcileService L nom name labels ComponentAPI)) (\<lambda>_.
          case ap_route api of
            None \<Rightarrow> Ret ()
          | Some route \<Rightarrow> wrap_error ''reconcile API HTTPRoute'' (reconcileHTTPRoute L nom name name route ComponentAPI)))))"

definition uiServingDesired :: "nominatim_instance \<Rightarrow> bool" where
  "uiServingDesired nom =
     (case sp_ui (in_spec nom) of
        None \<Rightarrow> False
      | Some ui \<Rightarrow> (case ui_enabled ui of Some b \<Rightarrow> b | None \<Rightarrow> True))"

definition reconcileUI :: "lib \<Rightarrow> nominatim_instance \<Rightarrow> unit prog" where
  "reconcileUI L nom =
     (case (\<not> uiServingDesired nom \<or> \<not> servingWorkloadsAllowed nom, sp_ui (in_spec nom)) of
        (False, Some ui) \<Rightarrow>
          let name = UIName nom; labels = commonLabels nom ComponentUI;
              replicas = (case ui_replicas ui of None \<Rightarrow> 1 | Some n \<Rightarrow> n)
          in
            bind (wrap_error ''reconcile UI deployment''
                    (create_or_update (ODeployment (empty_deployment name (in_namespace nom)))
                       (mutateDeployment L nom labels replicas (uiPod L nom ui)))) (\<lambda>_.
            bind (wrap_error ''reconcile UI service'' (reconcileService L nom name labels ComponentUI)) (\<lambda>_.
            case ui_route ui of
              None \<Rightarrow> Ret ()
            | Some route \<Rightarrow> wrap_error ''reconcile UI HTTPRoute'' (reconcileHTTPRoute L nom name name route ComponentUI)))
      | _ \<Rightarrow> deleteServingComponent nom (UIName nom) ComponentUI)"

definition reconcileWorkloads :: "lib \<Rightarrow> nominatim_instance \<Rightarrow> unit prog" where
  "reconcileWorkloads L nom =
     bind (wrap_error ''reconcile project volume''
             (reconcilePVC L nom (sp_project (in_spec nom)) (ProjectPVCName nom) ComponentProject)) (\<lambda>_.
     bind (case sp_flatnode (in_spec nom) of
             None \<Rightarrow> Ret ()
           | Some vs \<Rightarrow>
               bind (wrap_error ''reconcile flatnode volume'' (reconcilePVC L nom vs (FlatnodePVCName nom) ComponentFlatnode))
                 (\<lambda>_. Ret ())) (\<lambda>_.
     bind (reconcileAPI L nom) (\<lambda>_. reconcileUI L nom)))"

section \<open>The pods\<close>

lemma reserved_names [simp]:
  "isReservedEnvName ''PROJECT_DIR''" "isReservedEnvName envNominatimDatabaseDSN" "isReservedEnvName ''PGHOST''"
  "isReservedEnvName ''PGPORT''" "isReservedEnvName ''PGDATABASE''" "isReservedEnvName ''PGUSER''" "isReservedEnvName ''PGPASSWORD''"
  by (simp_all add: isReservedEnvName_def operatorReservedEnvExact_def envNominatimDatabaseDSN_def)

definition not_reserved :: "env_var list \<Rightarrow> bool" where
  "not_reserved es = (filter (\<lambda>e. isReservedEnvName (ev_name e)) es = [])"

lemma not_reserved_append [simp]: "not_reserved (xs @ ys) \<longleftrightarrow> not_reserved xs \<and> not_reserved ys"
  by (simp add: not_reserved_def)

lemma not_reserved_if [simp]: "\<not> isReservedEnvName n \<Longrightarrow> not_reserved (env_if b n v)"
  "\<not> isReservedEnvName n \<Longrightarrow> not_reserved (env_int n i)" "not_reserved []"
  by (auto simp: not_reserved_def env_if_def env_int_def split: option.splits)

lemma not_reserved_config [simp]: "not_reserved (effectiveNominatimConfigEnv nom)"
proof -
  have "not_reserved (replicationEnv r)" for r
    by (auto simp: replicationEnv_def isReservedEnvName_def operatorReservedEnvExact_def split: option.splits)
  moreover have "not_reserved [env_value ''NOMINATIM_CORS_NOACCESSCONTROL'' v]" for v
    by (simp add: not_reserved_def isReservedEnvName_def operatorReservedEnvExact_def)
  then have "not_reserved (apiConfigEnv a)" for a
    by (auto simp: apiConfigEnv_def isReservedEnvName_def operatorReservedEnvExact_def split: option.splits)
  ultimately show ?thesis
    by (auto simp: effectiveNominatimConfigEnv_def Let_def isReservedEnvName_def operatorReservedEnvExact_def
        split: prod.splits option.splits)
qed

lemma not_reserved_api [simp]: "not_reserved (effectiveAPIEnv a)"
  by (auto simp: effectiveAPIEnv_def not_reserved_def isReservedEnvName_def operatorReservedEnvExact_def split: option.splits)

lemma not_reserved_aux [simp]: "not_reserved (effectiveAuxDataEnv nom)"
  by (auto simp: effectiveAuxDataEnv_def not_reserved_def isReservedEnvName_def operatorReservedEnvExact_def split: option.splits)

lemma filter_not_reserved: "not_reserved es \<Longrightarrow> filter (\<lambda>e. isReservedEnvName (ev_name e)) es = []"
  by (simp add: not_reserved_def)

lemma filter_db_env [simp]: "filter (\<lambda>e. isReservedEnvName (ev_name e)) (dbEnvVars s) = dbEnvVars s"
  by (simp add: dbEnvVars_def)

lemma http_container_simps [simp]:
  "ct_name (http_container n i p e m) = n" "ct_image (http_container n i p e m) = i" "ct_pull_policy (http_container n i p e m) = p"
  "ct_env (http_container n i p e m) = e" "ct_mounts (http_container n i p e m) = m" "ct_env_from (http_container n i p e m) = []"
  "ct_security (http_container n i p e m) = None" "ct_ports (http_container n i p e m) = [\<lparr>cp_name = ''http'', cp_port = 8080\<rparr>]"
  "ct_command (http_container n i p e m) = []"
  by (simp_all add: http_container_def empty_container_def)

lemma filter_change_first:
  "(\<And>c. ct_name (f c) = ct_name c) \<Longrightarrow>
     filter (\<lambda>c. ct_name c = n) (change_first n f cs) =
       (case filter (\<lambda>c. ct_name c = n) cs of [] \<Rightarrow> [] | c # cs \<Rightarrow> f c # cs)"
  by (induction cs) (auto split: list.splits)

lemma probes_fields [simp]:
  "ct_name (applyDefaultAPIProbes c) = ct_name c" "ct_image (applyDefaultAPIProbes c) = ct_image c"
  "ct_env (applyDefaultAPIProbes c) = ct_env c" "ct_command (applyDefaultAPIProbes c) = ct_command c"
  "ct_env_from (applyDefaultAPIProbes c) = ct_env_from c"
  "ct_readiness (applyDefaultAPIProbes c) \<noteq> None" "ct_liveness (applyDefaultAPIProbes c) \<noteq> None"
  "ct_startup (applyDefaultAPIProbes c) \<noteq> None"
  by (auto simp: applyDefaultAPIProbes_def default_probe_def split: option.splits)

lemma api_pod_container:
  assumes "apiPod L nom api = Inr pod" and "merge_keeps_name L"
  shows "\<exists>c. filter (\<lambda>c. ct_name c = ''api'') (ps_containers pod) = [c] \<and>
     ct_image c = resolveImage (ap_image api) DefaultAPIRepository \<and> ct_command c = [] \<and> ct_env_from c = [] \<and>
     filter (\<lambda>e. isReservedEnvName (ev_name e)) (ct_env c) =
       env_value ''PROJECT_DIR'' projectMountPath # dbEnvVars (ds_secret (in_database nom)) \<and>
     ct_startup c \<noteq> None \<and> ct_readiness c \<noteq> None \<and> ct_liveness c \<noteq> None"
proof -
  let ?env = "[env_value ''PROJECT_DIR'' projectMountPath] @ effectiveNominatimConfigEnv nom @ effectiveAPIEnv (sp_api (in_spec nom)) @
      dbEnvVars (ds_secret (in_database nom))"
  let ?b = "http_container ''api'' (resolveImage (ap_image api) DefaultAPIRepository) (resolvePullPolicy (ap_image api))
      ?env [mount ''workdir'' projectMountPath]"
  let ?base = "empty_pod\<lparr>ps_containers := [?b], ps_volumes := [workdir_volume]\<rparr>"
  obtain merged where m: "mergePodSpecOverlay L ?base (ap_pod_spec api) (ct_name ?b) (ct_image ?b) (ct_pull_policy ?b) = Inr merged"
    and pod: "pod = merged\<lparr>ps_containers := change_first ''api'' applyDefaultAPIProbes (ps_containers merged)\<rparr>"
    using assms(1) by (auto simp: apiPod_def apiPodFilesystem_def Let_def)
  have "filter (\<lambda>e. isReservedEnvName (ev_name e)) ?env =
      env_value ''PROJECT_DIR'' projectMountPath # dbEnvVars (ds_secret (in_database nom))"
    by (simp add: filter_not_reserved)
  moreover from merge_managed [OF m assms(2)] obtain c where
    c: "filter (\<lambda>c. ct_name c = ''api'') (ps_containers merged) = [c]" "sealed_from ?b (ct_image ?b) (ct_pull_policy ?b) c"
    by (auto simp: mount_def)
  ultimately show ?thesis unfolding pod
    by (intro exI [of _ "applyDefaultAPIProbes c"]) (simp add: filter_change_first sealed_from_def)
qed

section \<open>Suspension\<close>

definition suspends :: "nominatim_instance \<Rightarrow> impact \<Rightarrow> nominatim_operation \<Rightarrow> bool" where
  "suspends nom imp op =
     ((op_type_of op = Rebuild \<and> \<not> usesBlueGreenRebuild nom) \<or> operationImpactMatches imp (op_type_of op))"

definition sees_suspending :: "nominatim_instance \<Rightarrow> impact \<Rightarrow> trace \<Rightarrow> bool" where
  "sees_suspending nom imp h = (\<exists>k op. (Get KOperation k, RObject (OOperation op)) \<in> set h \<and> suspends nom imp op)"

lemma sees_suspending_append:
  "sees_suspending nom imp (h @ [(Get KOperation k, x)]) \<longleftrightarrow>
     sees_suspending nom imp h \<or> (\<exists>op. x = RObject (OOperation op) \<and> suspends nom imp op)"
  by (cases k) (auto simp: sees_suspending_def)

fun reads_operation :: "request \<Rightarrow> bool" where
  "reads_operation (Get KOperation k) = True"
| "reads_operation _ = False"

lemma suspendLoop_Cons:
  "shouldSuspendLoop nom imp (ref # refs) =
     bind (attempt (get_operation (in_namespace nom, or_name ref))) (\<lambda>r.
       case r of
         Inl e \<Rightarrow> if is_not_found e then shouldSuspendLoop nom imp refs
                  else Fail (Wrap (''get active operation '' @ quote (or_name ref)) e)
       | Inr op \<Rightarrow> if suspends nom imp op then Ret True else shouldSuspendLoop nom imp refs)"
  by (auto simp: suspends_def intro!: arg_cong [of _ _ "bind _"] split: sum.splits)

lemma wp_suspendLoop:
  "\<not> sees_suspending nom imp h \<Longrightarrow>
   wp (\<lambda>_. reads_operation) (\<lambda>h r. case r of Inl e \<Rightarrow> True | Inr b \<Rightarrow> b = sees_suspending nom imp h) h
     (shouldSuspendLoop nom imp refs)"
proof (induction refs arbitrary: h)
  case (Cons ref refs)
  then show ?case unfolding suspendLoop_Cons
    by (auto simp: wp_simps sees_suspending_append dest!: bad_response intro!: Cons.IH split: sum.splits)
qed simp

text \<open>What \<open>reconcileAPI\<close> may send, and when a request of \<open>reconcileWorkloads\<close> serves.\<close>

definition api_write :: "lib \<Rightarrow> nominatim_instance \<Rightarrow> trace \<Rightarrow> request \<Rightarrow> bool" where
  "api_write L nom h q =
     (let api = (case sp_api (in_spec nom) of None \<Rightarrow> no_api | Some a \<Rightarrow> a);
          imp = (if ap_suspend api = ImpactUnset then ImpactNever else ap_suspend api)
      in case q of
        CreateOrUpdate (ODeployment d0) f \<Rightarrow>
          servingWorkloadsAllowed nom \<and> ds_secret (in_database nom) \<noteq> '''' \<and>
          f = mutateDeployment L nom (commonLabels nom ComponentAPI)
                (if sees_suspending nom imp h then 0 else case ap_replicas api of None \<Rightarrow> 1 | Some n \<Rightarrow> n) (apiPod L nom api)
      | _ \<Rightarrow> True)"

lemma reads_api_write: "reads_operation q \<Longrightarrow> api_write L nom h q"
  by (cases q rule: reads_operation.cases) (simp_all add: api_write_def)

lemma wp_delete_serving: "wp (\<lambda>h q. \<exists>kd k. q = Delete kd k) (\<lambda>_ _. True) h (deleteServingComponent nom n c)"
  unfolding deleteServingComponent_def Let_def
  by (intro wp_any) (auto split: sum.splits)

lemma wp_reconcileAPI: "wp (api_write L nom) (\<lambda>_ _. True) [] (reconcileAPI L nom)"
proof -
  have del: "wp (api_write L nom) (\<lambda>_ _. True) h (deleteServingComponent nom n c)" for h n c
    by (rule wp_mono [OF wp_delete_serving]) (auto simp: api_write_def)
  have loop: "wp (api_write L nom) (\<lambda>h r. case r of Inl e \<Rightarrow> True | Inr b \<Rightarrow> b = sees_suspending nom imp h) []
      (shouldSuspendLoop nom imp refs)" for imp refs
    by (rule wp_mono [OF wp_suspendLoop reads_api_write]) (simp_all add: sees_suspending_def)
  have rest: "wp (api_write L nom) (\<lambda>_ _. True) h
      (bind (wrap_error m (reconcileService L nom n labels c)) (\<lambda>_. case route of None \<Rightarrow> Ret ()
         | Some route \<Rightarrow> wrap_error m' (reconcileHTTPRoute L nom n s route c)))" for h m n labels c route m' s
    unfolding reconcileService_def reconcileHTTPRoute_def
    by (intro wp_any) (auto simp: api_write_def split: option.splits intro!: wp_any)
  have serve: "wp (api_write L nom) (\<lambda>_ _. True) []
      (bind (wrap_error m (shouldSuspendLoop nom imp refs)) (\<lambda>suspend. bind (wrap_error m' (create_or_update x (F suspend))) p))"
    if "\<And>h. api_write L nom h (CreateOrUpdate x (F (sees_suspending nom imp h)))"
      "\<And>h. wp (api_write L nom) (\<lambda>_ _. True) h (p ())" for m imp refs m' x F p
    unfolding wp_bind [of _ _ _ "wrap_error m (shouldSuspendLoop nom imp refs)"] wp_wrap_error
    by (rule wp_mono [OF loop], assumption) (auto split: sum.splits intro!: wp_any that)
  show ?thesis
  proof (cases "servingWorkloadsAllowed nom \<and> ds_secret (in_database nom) \<noteq> ''''")
    case False
    then show ?thesis by (auto simp: reconcileAPI_def del)
  next
    case True
    then have t: "(\<not> servingWorkloadsAllowed nom) = False" "(ds_secret (in_database nom) = '''') = False" by simp_all
    show ?thesis
      unfolding reconcileAPI_def Let_def shouldSuspendAPI_def t if_False
      by (intro serve rest) (simp add: api_write_def Let_def True)
  qed
qed

lemma mutateDeployment_Inr:
  "mutateDeployment L nom labels n merged x = Inr y \<Longrightarrow>
     (\<And>d m pod. x = ODeployment d \<Longrightarrow> own_meta L nom (de_meta d) = Inr m \<Longrightarrow> merged = Inr pod \<Longrightarrow>
        y = ODeployment (d\<lparr>de_meta := m\<lparr>om_labels := labels\<rparr>, de_replicas := Some n, de_selector := labels,
                 de_template_labels := labels, de_pod := pod\<rparr>) \<Longrightarrow> thesis) \<Longrightarrow> thesis"
  by (auto simp: mutateDeployment_def split: obj.splits)

lemma api_deployment_request:
  assumes "play (reconcileAPI L nom) xs = (t1 @ (CreateOrUpdate (ODeployment d0) f, x) # t2, out)"
  shows "api_write L nom t1 (CreateOrUpdate (ODeployment d0) f)"
  by (rule wp_play_guard [OF wp_reconcileAPI assms])

text \<open>A deletion, or a request for a volume claim.\<close>

definition unserving :: "request \<Rightarrow> bool" where
  "unserving q = ((\<exists>kd k. q = Delete kd k) \<or> (\<exists>k. q = Get KClaim k) \<or> (\<exists>c. q = Create (OClaim c)))"

lemma unserving_delete: "wp (\<lambda>_. unserving) (\<lambda>_ _. True) h (deleteServingComponent nom n c)"
  by (rule wp_mono [OF wp_delete_serving]) (auto simp: unserving_def)

lemma unserving_claim: "wp (\<lambda>_. unserving) (\<lambda>_ _. True) h (reconcilePVC L nom vs n c)"
  unfolding reconcilePVC_def Let_def by (auto simp: unserving_def split: option.splits sum.splits intro!: wp_any)

section \<open>Properties\<close>


text \<open>Whatever the pod overlay, the pod of the API Deployment has one container \<open>api\<close>, with the configured
  image and no command of the overlay, its project directory and its database connection are the
  operator's, the connection from the secret in the status, and it has all three probes.\<close>

theorem api_container:
  assumes "play (reconcileAPI L nom) xs = (t1 @ (CreateOrUpdate (ODeployment d0) f, x) # t2, out)"
    and "f live = Inr (ODeployment d)" and "sp_api (in_spec nom) = Some api" and "merge_keeps_name L"
  shows "\<exists>c. filter (\<lambda>c. ct_name c = ''api'') (ps_containers (de_pod d)) = [c] \<and>
    ct_image c = resolveImage (ap_image api) DefaultAPIRepository \<and> ct_command c = [] \<and> ct_env_from c = [] \<and>
    filter (\<lambda>e. isReservedEnvName (ev_name e)) (ct_env c) =
      env_value ''PROJECT_DIR'' projectMountPath # dbEnvVars (ds_secret (in_database nom)) \<and>
    ct_startup c \<noteq> None \<and> ct_readiness c \<noteq> None \<and> ct_liveness c \<noteq> None"
proof -
  have "apiPod L nom api = Inr (de_pod d)"
    using api_deployment_request [OF assms(1)] assms(2,3) by (auto simp: api_write_def elim!: mutateDeployment_Inr)
  from api_pod_container [OF this assms(4)] show ?thesis .
qed

text \<open>C8. While the spec names regions and none has been imported, neither the API nor the UI is served:
  nothing but the volume claims is created, and everything else is a deletion.\<close>

theorem no_serving_before_import:
  assumes "sp_regions (in_spec nom) \<noteq> []" and "in_regions nom = []"
    and "q \<in> set (issued (play (reconcileWorkloads L nom) xs))"
  shows "(\<exists>kd k. q = Delete kd k) \<or> (\<exists>k. q = Get KClaim k) \<or> (\<exists>c. q = Create (OClaim c))"
proof -
  have "wp (\<lambda>_. unserving) (\<lambda>_ _. True) [] (reconcileWorkloads L nom)"
    unfolding reconcileWorkloads_def reconcileAPI_def reconcileUI_def servingWorkloadsAllowed_def
    using assms(1,2)
    by (auto split: option.splits prod.splits bool.splits intro!: wp_any unserving_delete unserving_claim)
  from wp_issued [OF this assms(3)] show ?thesis by (simp add: unserving_def)
qed

text \<open>An instance that serves, with an active operation, and what a run on it sends.\<close>

definition serving_api :: api_spec where
  "serving_api = no_api\<lparr>ap_replicas := Some 3, ap_suspend := ImpactWriteHeavy\<rparr>"

definition serving_instance :: nominatim_instance where
  "serving_instance =
     (let nom = set_regions [sample_region ''europe/monaco''] sample_instance in
      nom\<lparr>in_spec := (in_spec nom)\<lparr>sp_api := Some serving_api\<rparr>,
          in_status := (in_status nom)\<lparr>st_active_refs := [\<lparr>or_api_version = '''', or_kind = '''', or_namespace = ''ns'', or_name = ''op''\<rparr>]\<rparr>\<rparr>)"

definition adding_regions :: "response list" where
  "adding_regions = [RObject (OOperation (sample_operation ''op'' AddRegions Running [''a''])), ROk]"

abbreviation serving_write :: "obj \<Rightarrow> error + obj" where
  "serving_write \<equiv> mutateDeployment sample_lib serving_instance (commonLabels serving_instance ComponentAPI) 0
     (apiPod sample_lib serving_instance serving_api)"

lemma serving_run:
  "\<exists>t2 out. play (reconcileAPI sample_lib serving_instance) adding_regions =
     ([(Get KOperation (''ns'', ''op''), hd adding_regions)] @
      (CreateOrUpdate (ODeployment (empty_deployment (APIName serving_instance) ''ns'')) serving_write, ROk) # t2, out)"
  by (simp add: reconcileAPI_def Let_def shouldSuspendAPI_def servingWorkloadsAllowed_def serving_instance_def serving_api_def
      no_api_def sample_simps adding_regions_def play_simps wrap_error_def reconcileService_def)

lemma serving_live:
  "\<exists>d. serving_write (ODeployment (empty_deployment (APIName serving_instance) ''ns'')) = Inr (ODeployment d)"
  by (simp add: mutateDeployment_def own_meta_def set_controller_def Let_def empty_deployment_def new_meta_def
      serving_instance_def sample_simps apiPod_def apiPodFilesystem_def mergePodSpecOverlay_def decodePodSpecOverlay_def
      serving_api_def no_api_def)


theorem api_container_witness:
  "\<exists>d c. serving_write (ODeployment (empty_deployment (APIName serving_instance) ''ns'')) = Inr (ODeployment d) \<and>
     filter (\<lambda>c. ct_name c = ''api'') (ps_containers (de_pod d)) = [c] \<and> ct_readiness c \<noteq> None"
proof -
  obtain d where d: "serving_write (ODeployment (empty_deployment (APIName serving_instance) ''ns'')) = Inr (ODeployment d)"
    using serving_live by blast
  obtain t2 out where run: "play (reconcileAPI sample_lib serving_instance) adding_regions =
     ([(Get KOperation (''ns'', ''op''), hd adding_regions)] @
      (CreateOrUpdate (ODeployment (empty_deployment (APIName serving_instance) ''ns'')) serving_write, ROk) # t2, out)"
    using serving_run by blast
  have a: "sp_api (in_spec serving_instance) = Some serving_api" by (simp add: serving_instance_def Let_def)
  have "merge_keeps_name sample_lib" by (simp add: merge_keeps_name_def)
  from api_container [OF run d a this] d show ?thesis by blast
qed

definition unserved_instance :: nominatim_instance where
  "unserved_instance = sample_instance\<lparr>in_spec := sample_spec\<lparr>sp_project := \<lparr>vs_claim_name = ''claim'', vs_template = None\<rparr>\<rparr>\<rparr>"

theorem no_serving_before_import_witness:
  "\<exists>q. q \<in> set (issued (play (reconcileWorkloads sample_lib unserved_instance) [])) \<and>
     ((\<exists>kd k. q = Delete kd k) \<or> (\<exists>k. q = Get KClaim k) \<or> (\<exists>c. q = Create (OClaim c)))"
proof -
  have "Delete KDeployment (''ns'', APIName unserved_instance) \<in> set (issued (play (reconcileWorkloads sample_lib unserved_instance) []))"
    by (simp add: reconcileWorkloads_def reconcilePVC_def reconcileAPI_def servingWorkloadsAllowed_def deleteServingComponent_def
        unserved_instance_def sample_simps play_simps wrap_error_def ignore_not_found_def issued_def Let_def)
  moreover from this have "(\<exists>kd k. Delete KDeployment (''ns'', APIName unserved_instance) = Delete kd k) \<or>
      (\<exists>k. Delete KDeployment (''ns'', APIName unserved_instance) = Get KClaim k) \<or>
      (\<exists>c. Delete KDeployment (''ns'', APIName unserved_instance) = Create (OClaim c))"
    by (rule no_serving_before_import [rotated 2]) (simp_all add: unserved_instance_def sample_simps)
  ultimately show ?thesis by blast
qed

end
