(* ===== verification/OperationJob.thy ===== *)
theory OperationJob
  imports Workloads
begin

text \<open>
  What an Operation runs (\<open>internal/controller/nominatimoperation_resources.go\<close>): the staging claim and
  the worker Job, with the volumes, the environment and the database connection of its type.
\<close>

section \<open>The staging claim\<close>

definition operationLabels :: "nominatim_operation \<Rightarrow> strmap" where
  "operationLabels op =
     [(''app.kubernetes.io/name'', ''nominatim-operation''), (''app.kubernetes.io/instance'', op_name op),
      (''app.kubernetes.io/managed-by'', ''nominatim-operator''), (''nominatim.zebernst.dev/nominatim'', op_instance op),
      (''nominatim.zebernst.dev/operation'', op_name op),
      (''nominatim.zebernst.dev/operation-type'', string_of_op_type (op_type_of op))]"

text \<open>\<open>resource.MustParse\<close> panics on a quantity it cannot parse.\<close>

definition buildStagingPVC :: "lib \<Rightarrow> nominatim_operation \<Rightarrow> staging_spec \<Rightarrow> error + claim" where
  "buildStagingPVC L op staging =
     (case parse_quantity L (sg_size staging) of
        None \<Rightarrow> Inl (Panic ''cannot parse quantity'')
      | Some q \<Rightarrow>
          Inr \<lparr>pv_meta = (new_meta (stagingPVCName op) (op_namespace op))\<lparr>om_labels := operationLabels op\<rparr>,
            pv_spec = \<lparr>pc_access_modes = [''ReadWriteOnce''], pc_storage_class = sg_storage_class staging,
              pc_requests = [(''storage'', q)], pc_rest = JNull\<rparr>\<rparr>)"

section \<open>The Job\<close>

definition projectVolumeName :: string where "projectVolumeName = ''project''"
definition stagingVolumeName :: string where "stagingVolumeName = ''staging''"
definition flatnodeVolumeName :: string where "flatnodeVolumeName = ''flatnode''"
definition stagingMountPath :: string where "stagingMountPath = ''/import-staging''"
definition flatnodeMountPath :: string where "flatnodeMountPath = ''/flatnode''"
definition flatnodeFilePath :: string where "flatnodeFilePath = ''/flatnode/flatnode.file''"

definition blueGreenJobConnectionSecret :: "nominatim_instance \<Rightarrow> string" where
  "blueGreenJobConnectionSecret parent =
     (case in_rebuild parent of
        Some rb \<Rightarrow> if rb_pending_secret rb \<noteq> '''' then rb_pending_secret rb
                   else CNPGAppSecretName (BlueGreenClusterName parent)
      | None \<Rightarrow> CNPGAppSecretName (BlueGreenClusterName parent))"

text \<open>A Rebuild of an instance with the BlueGreen strategy, which works on the sibling cluster.\<close>

abbreviation on_sibling :: "nominatim_operation \<Rightarrow> nominatim_instance \<Rightarrow> bool" where
  "on_sibling op parent \<equiv> op_type_of op = Rebuild \<and> usesBlueGreenRebuild parent"

definition job_secret :: "nominatim_operation \<Rightarrow> nominatim_instance \<Rightarrow> string" where
  "job_secret op parent =
     (if on_sibling op parent then blueGreenJobConnectionSecret parent else ds_secret (in_database parent))"

definition job_project_claim :: "nominatim_operation \<Rightarrow> nominatim_instance \<Rightarrow> string" where
  "job_project_claim op parent =
     (if on_sibling op parent
      then (case in_rebuild parent of
              Some rb \<Rightarrow> if rb_pending_project rb \<noteq> '''' then rb_pending_project rb else BlueGreenProjectPVCName parent
            | None \<Rightarrow> BlueGreenProjectPVCName parent)
      else volumeClaimName (sp_project (in_spec parent)) (in_name parent @ ''-project''))"

definition job_flatnode_claim :: "nominatim_operation \<Rightarrow> nominatim_instance \<Rightarrow> volume_source \<Rightarrow> string" where
  "job_flatnode_claim op parent vs =
     (if on_sibling op parent
      then (case in_rebuild parent of
              Some rb \<Rightarrow> if rb_pending_flatnode rb \<noteq> '''' then rb_pending_flatnode rb else BlueGreenFlatnodePVCName parent
            | None \<Rightarrow> BlueGreenFlatnodePVCName parent)
      else volumeClaimName vs (in_name parent @ ''-flatnode''))"

definition job_regions_env :: "nominatim_operation \<Rightarrow> nominatim_instance \<Rightarrow> env_var list" where
  "job_regions_env op parent =
     (if requiresRegionsEnv (op_type_of op)
      then (case effectiveRegions op parent of
              [] \<Rightarrow> []
            | r # rs \<Rightarrow>
                env_value ''NOMINATIM_REGIONS'' (join '','' (r # rs)) #
                (if requiresImportPBFURL (op_type_of op) then [env_value ''PBF_URL'' (pbfURLForRegion r)] else []))
      else [])"

definition job_env :: "nominatim_operation \<Rightarrow> nominatim_instance \<Rightarrow> env_var list" where
  "job_env op parent =
     [env_value ''OPERATION_TYPE'' (string_of_op_type (op_type_of op)), env_value ''PROJECT_DIR'' projectMountPath,
      env_value ''IMPORT_STAGING'' stagingMountPath] @
     (if op_type_of op = Rebuild then [env_value ''NOMINATIM_REBUILD_CONFIRM'' ''1''] else []) @
     job_regions_env op parent @
     (if job_secret op parent \<noteq> '''' then dbEnvVars (job_secret op parent) else []) @
     effectiveNominatimConfigEnv parent @ effectiveAuxDataEnv parent @
     (case sp_flatnode (in_spec parent) of None \<Rightarrow> [] | Some _ \<Rightarrow> [env_value ''NOMINATIM_FLATNODE_FILE'' flatnodeFilePath])"

definition job_volumes :: "nominatim_operation \<Rightarrow> nominatim_instance \<Rightarrow> string \<Rightarrow> volume list" where
  "job_volumes op parent stagingClaim =
     [pvc_volume projectVolumeName (job_project_claim op parent), pvc_volume stagingVolumeName stagingClaim] @
     (case sp_flatnode (in_spec parent) of
        None \<Rightarrow> [] | Some vs \<Rightarrow> [pvc_volume flatnodeVolumeName (job_flatnode_claim op parent vs)])"

definition job_mounts :: "nominatim_instance \<Rightarrow> volume_mount list" where
  "job_mounts parent =
     [mount projectVolumeName projectMountPath, mount stagingVolumeName stagingMountPath] @
     (case sp_flatnode (in_spec parent) of None \<Rightarrow> [] | Some _ \<Rightarrow> [mount flatnodeVolumeName flatnodeMountPath])"

definition job_base_pod :: "nominatim_operation \<Rightarrow> nominatim_instance \<Rightarrow> string \<Rightarrow> string \<Rightarrow> string \<Rightarrow> pod_spec" where
  "job_base_pod op parent stagingClaim img pullPolicy =
     empty_pod\<lparr>ps_restart := ''Never'',
       ps_containers := [empty_container\<lparr>ct_name := ''worker'', ct_image := img, ct_pull_policy := pullPolicy,
         ct_env := job_env op parent, ct_mounts := job_mounts parent\<rparr>],
       ps_volumes := job_volumes op parent stagingClaim\<rparr>"

definition buildOperationJob ::
  "lib \<Rightarrow> nominatim_operation \<Rightarrow> nominatim_instance \<Rightarrow> string \<Rightarrow> string \<Rightarrow> string \<Rightarrow> error + job" where
  "buildOperationJob L op parent stagingClaim img pullPolicy =
     (let overlay = (case sp_worker (in_spec parent) of None \<Rightarrow> None | Some w \<Rightarrow> wk_pod_spec w) in
      and_then (mergePodSpecOverlay L (job_base_pod op parent stagingClaim img pullPolicy) overlay ''worker'' img pullPolicy) (\<lambda>merged.
      Inr \<lparr>jo_meta = (new_meta (op_name op) (op_namespace op))\<lparr>om_labels := operationLabels op\<rparr>,
           jo_backoff = Some 2, jo_ttl = None, jo_template_labels = operationLabels op,
           jo_pod = merged\<lparr>ps_restart := ''Never''\<rparr>,
           jo_succeeded = 0, jo_failed = 0, jo_active = 0, jo_start = None, jo_completion = None\<rparr>))"

definition jobHasDatabaseDSN :: "job \<Rightarrow> bool" where
  "jobHasDatabaseDSN j = list_ex (\<lambda>c. list_ex (\<lambda>e. ev_name e = envNominatimDatabaseDSN) (ct_env c)) (ps_containers (jo_pod j))"

section \<open>Facts\<close>

lemma reserved_job_names [simp]:
  "isReservedEnvName ''OPERATION_TYPE''" "isReservedEnvName ''IMPORT_STAGING''" "isReservedEnvName ''NOMINATIM_REBUILD_CONFIRM''"
  "isReservedEnvName ''NOMINATIM_REGIONS''" "isReservedEnvName ''PBF_URL''"
  by (simp_all add: isReservedEnvName_def operatorReservedEnvExact_def)

lemma env_parts [simp]:
  "filter (\<lambda>e. isReservedEnvName (ev_name e)) (effectiveNominatimConfigEnv parent) = []"
  "filter (\<lambda>e. isReservedEnvName (ev_name e)) (effectiveAuxDataEnv parent) = []"
  by (rule filter_not_reserved, simp)+

lemma job_regions_env_eq:
  "job_regions_env op parent =
     (if requiresRegionsEnv (op_type_of op) \<and> effectiveRegions op parent \<noteq> []
      then env_value ''NOMINATIM_REGIONS'' (join '','' (effectiveRegions op parent)) #
        (if requiresImportPBFURL (op_type_of op) then [env_value ''PBF_URL'' (pbfURLForRegion (hd (effectiveRegions op parent)))] else [])
      else [])"
  by (cases "effectiveRegions op parent") (simp_all add: job_regions_env_def)

lemma regions_env_reserved [simp]:
  "filter (\<lambda>e. isReservedEnvName (ev_name e)) (job_regions_env op parent) = job_regions_env op parent"
  by (simp add: job_regions_env_eq)

lemma flatnode_reserved [simp]: "isReservedEnvName ''NOMINATIM_FLATNODE_FILE''"
  by (simp add: isReservedEnvName_def operatorReservedEnvExact_def)

text \<open>The volumes of the operator's pod lead the merged ones, and no other has their names.\<close>

lemma merge_volumes_kept:
  assumes "mergePodSpecOverlay L base raw mc img pp = Inr out" and "distinct (map vo_name (ps_volumes base))"
  shows "\<exists>extra. ps_volumes out = ps_volumes base @ extra \<and> distinct (map vo_name (ps_volumes out))"
  using assms(1)
proof (cases rule: mergePodSpecOverlay_cases)
  case (2 overlay merged)
  obtain extra where u: "unionVolumes (ps_volumes base) (ps_volumes overlay) = ps_volumes base @ extra"
    using volumes.base_prefix [OF assms(2)] by (auto simp: prefix_def)
  have "distinct (map vo_name (ps_volumes base @ extra))"
    using volumes.keys_distinct [OF assms(2)] u by metis
  then show ?thesis unfolding 2(2)
    by (auto simp: hardenPodSpec_def Let_def u distinct_map intro: inj_on_subset)
qed (use assms in simp)

lemma job_names_distinct:
  "distinct (map vo_name (job_volumes op parent s))" "distinct (map vm_name (job_mounts parent))"
  by (auto simp: job_volumes_def job_mounts_def pvc_volume_def mount_def projectVolumeName_def stagingVolumeName_def
      flatnodeVolumeName_def split: option.splits)

lemma buildOperationJob_Inr:
  assumes "buildOperationJob L op parent s img pp = Inr j"
  obtains merged where
    "mergePodSpecOverlay L (job_base_pod op parent s img pp)
       (case sp_worker (in_spec parent) of None \<Rightarrow> None | Some w \<Rightarrow> wk_pod_spec w) ''worker'' img pp = Inr merged"
    "jo_pod j = merged\<lparr>ps_restart := ''Never''\<rparr>" "jo_backoff j = Some 2"
    "jo_meta j = (new_meta (op_name op) (op_namespace op))\<lparr>om_labels := operationLabels op\<rparr>"
  using assms by (auto simp: buildOperationJob_def Let_def)

lemma job_container:
  assumes "buildOperationJob L op parent s img pp = Inr j" and "merge_keeps_name L"
  shows "\<exists>c. filter (\<lambda>c. ct_name c = ''worker'') (ps_containers (jo_pod j)) = [c] \<and>
     ct_image c = img \<and> ct_command c = [] \<and> ct_args c = [] \<and> ct_env_from c = [] \<and> ct_security c = None \<and>
     filter (\<lambda>e. isReservedEnvName (ev_name e)) (ct_env c) = filter (\<lambda>e. isReservedEnvName (ev_name e)) (job_env op parent) \<and>
     prefix (job_mounts parent) (ct_mounts c)"
proof -
  let ?b = "empty_container\<lparr>ct_name := ''worker'', ct_image := img, ct_pull_policy := pp, ct_env := job_env op parent,
      ct_mounts := job_mounts parent\<rparr>"
  obtain merged where m: "mergePodSpecOverlay L (job_base_pod op parent s img pp)
       (case sp_worker (in_spec parent) of None \<Rightarrow> None | Some w \<Rightarrow> wk_pod_spec w) ''worker'' img pp = Inr merged"
    and pod: "jo_pod j = merged\<lparr>ps_restart := ''Never''\<rparr>"
    by (rule buildOperationJob_Inr [OF assms(1)])
  have "ct_name ?b = ''worker''" "ct_image ?b = img" "ct_pull_policy ?b = pp" "ct_env_from ?b = []" "ct_security ?b = None"
    "distinct (map vm_name (ct_mounts ?b))"
    by (simp_all add: empty_container_def job_names_distinct)
  note b = this
  have base: "ps_containers (job_base_pod op parent s img pp) = [?b]" by (simp add: job_base_pod_def)
  from merge_managed [of L _ _ ?b, unfolded b(1-3), OF m assms(2) base b(6,4,5)] obtain c where
    c: "filter (\<lambda>c. ct_name c = ''worker'') (ps_containers merged) = [c]" "sealed_from ?b img pp c" by blast
  then show ?thesis unfolding pod
    by (intro exI [of _ c]) (simp add: sealed_from_def stripPrivilegedContainerSC_def b empty_container_def)
qed

section \<open>Properties\<close>


text \<open>An instance whose overlay asks for privileges, and a Rebuild of it.\<close>

definition overlaid_instance :: nominatim_instance where
  "overlaid_instance = sample_instance\<lparr>in_spec := sample_spec\<lparr>sp_worker := Some \<lparr>wk_image = None, wk_pod_spec = Some (RawJson JNull)\<rparr>\<rparr>\<rparr>"

definition overlaid_job :: "error + job" where
  "overlaid_job = buildOperationJob overlay_lib (sample_operation ''op'' Rebuild PhaseUnset [''a'', ''b'']) overlaid_instance
     ''op-staging'' ''img'' ''Always''"

lemma overlaid_job_ok: "\<exists>j. overlaid_job = Inr j"
  by (simp add: overlaid_job_def buildOperationJob_def Let_def mergePodSpecOverlay_def decodePodSpecOverlay_def
      strategicMergePodSpec_def overlaid_instance_def sample_simps overlay_lib_def)


text \<open>The pod of the Job has exactly the operator's project, staging and flatnode volumes under their names:
  an overlay cannot put another volume in the place of one of the claims.\<close>

theorem job_claims:
  assumes "buildOperationJob L op parent s img pp = Inr j" and "v \<in> set (job_volumes op parent s)"
  shows "filter (\<lambda>w. vo_name w = vo_name v) (ps_volumes (jo_pod j)) = [v]"
proof -
  obtain merged where m: "mergePodSpecOverlay L (job_base_pod op parent s img pp)
       (case sp_worker (in_spec parent) of None \<Rightarrow> None | Some w \<Rightarrow> wk_pod_spec w) ''worker'' img pp = Inr merged"
    and pod: "jo_pod j = merged\<lparr>ps_restart := ''Never''\<rparr>"
    by (rule buildOperationJob_Inr [OF assms(1)])
  have base: "ps_volumes (job_base_pod op parent s img pp) = job_volumes op parent s" by (simp add: job_base_pod_def)
  from merge_volumes_kept [OF m] obtain extra where e: "ps_volumes merged = job_volumes op parent s @ extra"
    "distinct (map vo_name (ps_volumes merged))"
    unfolding base using job_names_distinct(1) by blast
  from assms(2) obtain xs ys where v: "ps_volumes merged = xs @ v # ys"
    unfolding e(1) using split_list [of v "job_volumes op parent s @ extra"] by auto
  with e(2) have "filter (\<lambda>w. vo_name w = vo_name v) xs = []" "filter (\<lambda>w. vo_name w = vo_name v) ys = []"
    by (auto simp: filter_empty_conv image_iff)
  with v show ?thesis by (simp add: pod)
qed

theorem job_claims_witness:
  "\<exists>j. overlaid_job = Inr j \<and>
     filter (\<lambda>w. vo_name w = ''staging'') (ps_volumes (jo_pod j)) = [pvc_volume ''staging'' ''op-staging'']"
proof -
  obtain j where j: "overlaid_job = Inr j" using overlaid_job_ok by blast
  have "pvc_volume ''staging'' ''op-staging'' \<in>
      set (job_volumes (sample_operation ''op'' Rebuild PhaseUnset [''a'', ''b'']) overlaid_instance ''op-staging'')"
    by (simp add: job_volumes_def stagingVolumeName_def)
  from job_claims [OF j [unfolded overlaid_job_def] this] j show ?thesis by (auto simp: pvc_volume_def)
qed

end
