(* ===== verification/BlueGreenReconcile.thy ===== *)
theory BlueGreenReconcile
  imports OperationJob OpEffects
begin

text \<open>
  \<open>internal/controller/rebuild_bluegreen_reconcile.go\<close>: what the Operation controller does for a Rebuild
  with the BlueGreen strategy around the pure machine of \<open>BlueGreen\<close>: the sibling cluster before the
  Job, and cutover, rollback window and garbage collection after it. The parent that the Go code
  updates through its pointer is returned.
\<close>

section \<open>Dates\<close>

text \<open>\<open>Format(time.RFC3339)\<close> of a UTC time: days since the epoch to year, month, day.\<close>

definition civil :: "int \<Rightarrow> int \<times> int \<times> int" where
  "civil days =
     (let z = days + 719468;
          era = z div 146097; doe = z mod 146097;
          yoe = (doe - doe div 1460 + doe div 36524 - doe div 146096) div 365;
          doy = doe - (365 * yoe + yoe div 4 - yoe div 100);
          mp = (5 * doy + 2) div 153;
          d = doy - (153 * mp + 2) div 5 + 1;
          m = (if mp < 10 then mp + 3 else mp - 9);
          y = yoe + era * 400 + (if m \<le> 2 then 1 else 0)
      in (y, m, d))"

definition pad :: "nat \<Rightarrow> int \<Rightarrow> string" where
  "pad w i = (let s = show_int i in replicate (w - length s) (CHR ''0'') @ s)"

definition format_rfc3339 :: "time \<Rightarrow> string" where
  "format_rfc3339 t =
     (let s = t div second; (y, m, d) = civil (s div 86400); r = s mod 86400 in
      pad 4 y @ ''-'' @ pad 2 m @ ''-'' @ pad 2 d @ ''T'' @
      pad 2 (r div 3600) @ '':'' @ pad 2 (r mod 3600 div 60) @ '':'' @ pad 2 (r mod 60) @ ''Z'')"

section \<open>The status of a swap\<close>

definition seedBlueGreenRebuildStatus :: "nominatim_instance \<Rightarrow> nominatim_operation \<Rightarrow> rebuild_status" where
  "seedBlueGreenRebuildStatus parent op =
     (let active = LiveOwnedCNPGClusterName parent;
          pending = (if active = BlueGreenClusterName parent then OwnedCNPGClusterName parent else BlueGreenClusterName parent)
      in \<lparr>rb_phase = Provisioning, rb_operation = op_name op, rb_active_cluster = active, rb_pending_cluster = pending,
          rb_active_secret = CNPGAppSecretName active, rb_pending_secret = CNPGAppSecretName pending,
          rb_pending_project = BlueGreenProjectPVCName parent,
          rb_pending_flatnode = (if sp_flatnode (in_spec parent) \<noteq> None then BlueGreenFlatnodePVCName parent else ''''),
          rb_rollback_until = None, rb_message = ''''\<rparr>)"

definition blueGreenRetiredClusterName :: "nominatim_instance \<Rightarrow> string" where
  "blueGreenRetiredClusterName parent =
     (let live = ds_cluster (in_database parent); def = OwnedCNPGClusterName parent; bg = BlueGreenClusterName parent in
      if live = bg then def else if live = def then bg else def)"

definition applyBlueGreenCutover :: "nominatim_instance \<Rightarrow> nominatim_instance" where
  "applyBlueGreenCutover parent =
     (case in_rebuild parent of
        None \<Rightarrow> parent
      | Some rb \<Rightarrow>
          set_rebuild (Some (rb\<lparr>rb_active_cluster := rb_pending_cluster rb, rb_active_secret := rb_pending_secret rb\<rparr>))
            (set_database ((in_database parent)\<lparr>ds_cluster := rb_pending_cluster rb, ds_secret := rb_pending_secret rb\<rparr>) parent))"

definition patchParentRebuildStatus :: "lib \<Rightarrow> nominatim_instance \<Rightarrow> nominatim_instance prog" where
  "patchParentRebuildStatus L parent =
     retry_on_conflict (retries L)
       (bind (get_instance (in_key parent)) (\<lambda>latest.
        let d = in_database parent;
            latest = set_rebuild (in_rebuild parent) latest;
            latest = set_database ((in_database latest)\<lparr>ds_cluster := ds_cluster d, ds_secret := ds_secret d,
                       ds_mode := ds_mode d, ds_degraded := ds_degraded d\<rparr>) latest
        in bind (update_instance_status latest) (\<lambda>latest.
           Ret (parent\<lparr>in_status := in_status latest,
                       in_meta := (in_meta parent)\<lparr>om_version := om_version (in_meta latest)\<rparr>\<rparr>))))"

section \<open>Before the Job\<close>

text \<open>A \<open>Ready\<close> condition that is \<open>True\<close>, among the conditions of an untyped object.\<close>

definition ready_condition :: "json list \<Rightarrow> bool" where
  "ready_condition conds =
     list_ex (\<lambda>c. json_field c ''type'' = Some (JString ''Ready'') \<and> json_field c ''status'' = Some (JString ''True'')) conds"

definition cnpgOwnedDatabaseApplied :: "lib \<Rightarrow> string \<Rightarrow> string \<Rightarrow> bool prog" where
  "cnpgOwnedDatabaseApplied L namespace name =
     bind (attempt (get_unstructured KDatabase (namespace, name))) (\<lambda>r.
       case r of
         Inl e \<Rightarrow> if is_not_found e then Ret False else Fail e
       | Inr db \<Rightarrow>
           (case nested_bool L (un_object db) [''status'', ''applied''] of
              Inl e \<Rightarrow> Fail e
            | Inr None \<Rightarrow> Ret False
            | Inr (Some applied) \<Rightarrow> Ret applied))"

definition blueGreenPendingReady :: "lib \<Rightarrow> string \<Rightarrow> string \<Rightarrow> bool prog" where
  "blueGreenPendingReady L namespace clusterName =
     bind (attempt (get_unstructured KCluster (namespace, clusterName))) (\<lambda>r.
       case r of
         Inl e \<Rightarrow> if is_not_found e then Ret False else Fail e
       | Inr cluster \<Rightarrow>
           (case nested_slice L (un_object cluster) [''status'', ''conditions''] of
              Inl e \<Rightarrow> Fail e
            | Inr None \<Rightarrow> Ret False
            | Inr (Some conds) \<Rightarrow>
                if \<not> ready_condition conds then Ret False
                else bind (attempt (get_present KSecret (namespace, CNPGAppSecretName clusterName))) (\<lambda>r.
                  case r of
                    Inl e \<Rightarrow> if is_not_found e then Ret False else Fail e
                  | Inr _ \<Rightarrow> cnpgOwnedDatabaseApplied L namespace (CNPGDatabaseNameForCluster clusterName))))"

definition ensureBlueGreenPending ::
  "lib \<Rightarrow> nominatim_operation \<Rightarrow> nominatim_instance \<Rightarrow> (bool \<times> nominatim_instance) prog" where
  "ensureBlueGreenPending L op parent =
     bind (case in_rebuild parent of
             None \<Rightarrow> patchParentRebuildStatus L (set_rebuild (Some (seedBlueGreenRebuildStatus parent op)) parent)
           | Some _ \<Rightarrow> Ret parent) (\<lambda>parent.
     bind (case in_rebuild parent of
             None \<Rightarrow> Fail (Panic ''nil pointer dereference'')
           | Some rb \<Rightarrow>
               if rb_pending_cluster rb = ''''
               then let pending = BlueGreenClusterName parent in
                 patchParentRebuildStatus L
                   (set_rebuild (Some (rb\<lparr>rb_pending_cluster := pending, rb_pending_secret := CNPGAppSecretName pending\<rparr>)) parent)
               else Ret parent) (\<lambda>parent.
     let pending = (case in_rebuild parent of Some rb \<Rightarrow> rb_pending_cluster rb | None \<Rightarrow> '''') in
     bind (ensureOwnedCNPGCluster L parent pending) (\<lambda>_.
     bind (ensureOwnedCNPGDatabase L parent pending) (\<lambda>_.
     bind (wrap_error ''blue/green project PVC''
             (reconcilePVC L parent (sp_project (in_spec parent)) (BlueGreenProjectPVCName parent) ComponentProject)) (\<lambda>_.
     bind (case sp_flatnode (in_spec parent) of
             None \<Rightarrow> Ret ''''
           | Some vs \<Rightarrow> wrap_error ''blue/green flatnode PVC''
                 (reconcilePVC L parent vs (BlueGreenFlatnodePVCName parent) ComponentFlatnode)) (\<lambda>_.
     bind (blueGreenPendingReady L (in_namespace parent) pending) (\<lambda>ready. Ret (ready, parent))))))))"

section \<open>After the Job\<close>

definition blueGreenInputFrom ::
  "nominatim_operation \<Rightarrow> nominatim_instance \<Rightarrow> rebuild_status \<Rightarrow> rebuild_phase \<Rightarrow> time \<Rightarrow> blue_green_input" where
  "blueGreenInputFrom op parent rb phase t =
     (let failed = (op_phase_of op = Failed \<and>
            (rb_phase rb = Importing \<or> rb_phase rb = Provisioning \<or> rb_phase rb = ReadyToCutover \<or> rb_phase rb = RPUnset))
      in \<lparr>bi_phase = phase, bi_active_cluster = rb_active_cluster rb, bi_pending_cluster = rb_pending_cluster rb,
          bi_pending_ready = False, bi_import_succeeded = (op_phase_of op \<noteq> Failed),
          bi_cutover_ready = (ds_secret (in_database parent) = rb_pending_secret rb \<and>
                              ds_cluster (in_database parent) = rb_pending_cluster rb),
          bi_blue_gone = False, bi_failed = failed,
          bi_message = (if failed \<and> rb_message rb = '''' then ot_message (op_status op) else rb_message rb),
          bi_rollback_until = rb_rollback_until rb, bi_now = t, bi_window = 0\<rparr>)"

definition clusterGone :: "string \<Rightarrow> string \<Rightarrow> bool prog" where
  "clusterGone namespace name =
     bind (attempt (get_unstructured KCluster (namespace, name))) (\<lambda>r.
       case r of Inl e \<Rightarrow> if is_not_found e then Ret True else Fail e | Inr _ \<Rightarrow> Ret False)"

definition deleteOwnedClusterBundle :: "nominatim_instance \<Rightarrow> string \<Rightarrow> unit prog" where
  "deleteOwnedClusterBundle parent clusterName =
     bind (ignore_not_found () (delete KDatabase (in_namespace parent, CNPGDatabaseNameForCluster clusterName))) (\<lambda>_.
       ignore_not_found () (delete KCluster (in_namespace parent, clusterName)))"

definition applyBlueGreenActions ::
  "nominatim_instance \<Rightarrow> blue_green_actions \<Rightarrow> string \<Rightarrow> blue_green_output \<Rightarrow> nominatim_instance prog" where
  "applyBlueGreenActions parent act retired out =
     (let parent = (if ba_cutover act
            then let p = applyBlueGreenCutover parent in
              set_rebuild (map_option (\<lambda>rb. rb\<lparr>rb_phase := bo_phase out, rb_rollback_until := bo_rollback_until out\<rparr>) (in_rebuild p)) p
            else parent)
      in
        bind (if ba_collect_blue act then deleteOwnedClusterBundle parent retired else Ret ()) (\<lambda>_.
        bind (if ba_collect_green act
              then deleteOwnedClusterBundle parent
                (case in_rebuild parent of
                   Some rb \<Rightarrow> if rb_pending_cluster rb = '''' then BlueGreenClusterName parent else rb_pending_cluster rb
                 | None \<Rightarrow> BlueGreenClusterName parent)
              else Ret ()) (\<lambda>_.
        Ret parent)))"

text \<open>What the Operation shows of the phase; the delay is the one until the next pass.\<close>

definition running_status :: "string \<Rightarrow> nominatim_operation \<Rightarrow> nominatim_operation" where
  "running_status msg op =
     op\<lparr>op_status := (op_status op)\<lparr>ot_phase := Running, ot_message := msg, ot_completion := None\<rparr>\<rparr>"

definition syncBlueGreenOperationStatus ::
  "lib \<Rightarrow> cnpg_effects \<Rightarrow> nominatim_operation \<Rightarrow> rebuild_status \<Rightarrow> blue_green_output \<Rightarrow> int prog" where
  "syncBlueGreenOperationStatus L E op rb out =
     (case bo_phase out of
        RPSucceeded \<Rightarrow>
          bind now (\<lambda>t.
          bind (update_operation_status (op\<lparr>op_status := (op_status op)\<lparr>ot_phase := Succeeded,
                  ot_message := ''BlueGreen Rebuild succeeded'', ot_completion := Some t\<rparr>\<rparr>)) (\<lambda>_. Ret 0))
      | RPFailed \<Rightarrow> bind (failOperation L E op ''BlueGreenFailed'' (rb_message rb)) (\<lambda>_. Ret 0)
      | RollbackWindow \<Rightarrow>
          bind now (\<lambda>t.
          let until = (case rb_rollback_until rb of None \<Rightarrow> t + defaultBlueGreenRollbackWindow | Some u \<Rightarrow> u) in
          bind now (\<lambda>t'.
          let delay = (if until - t' < 5 * second then 5 * second else until - t') in
          bind (update_operation_status
                  (running_status (''BlueGreen rollback window; retiring blue after '' @ format_rfc3339 until) op)) (\<lambda>_. Ret delay)))
      | ph \<Rightarrow>
          bind (update_operation_status (running_status (''BlueGreen phase '' @ string_of_rebuild_phase ph) op)) (\<lambda>_.
          Ret (5 * second)))"

definition reconcileBlueGreenAfterImport ::
  "lib \<Rightarrow> cnpg_effects \<Rightarrow> nominatim_operation \<Rightarrow> nominatim_instance \<Rightarrow> int prog" where
  "reconcileBlueGreenAfterImport L E op parent =
     (let rb = (case in_rebuild parent of None \<Rightarrow> seedBlueGreenRebuildStatus parent op | Some rb \<Rightarrow> rb);
          phase = (if rb_phase rb = Importing \<or> rb_phase rb = Provisioning \<or> rb_phase rb = RPUnset then Importing else rb_phase rb);
          retired = blueGreenRetiredClusterName parent
      in
        bind now (\<lambda>t.
        let inp = blueGreenInputFrom op parent rb phase t in
        bind (if phase = GarbageCollect \<or> phase = RollbackWindow
              then bind (clusterGone (in_namespace parent) retired) (\<lambda>gone. Ret (inp\<lparr>bi_blue_gone := gone\<rparr>))
              else Ret inp) (\<lambda>inp.
        let (out, act) = advanceBlueGreen inp;
            rb = rb\<lparr>rb_phase := bo_phase out, rb_rollback_until := bo_rollback_until out,
                    rb_message := (if bo_message out \<noteq> '''' then bo_message out else rb_message rb)\<rparr>
        in
        bind (applyBlueGreenActions (set_rebuild (Some rb) parent) act retired out) (\<lambda>parent.
        bind (patchParentRebuildStatus L parent) (\<lambda>parent.
        case in_rebuild parent of
          None \<Rightarrow> Fail (Panic ''nil pointer dereference'')
        | Some rb \<Rightarrow> syncBlueGreenOperationStatus L E op rb out)))))"

section \<open>The swap\<close>

lemma sibling_names [simp]:
  "BlueGreenClusterName parent \<noteq> OwnedCNPGClusterName parent" "OwnedCNPGClusterName parent \<noteq> BlueGreenClusterName parent"
  by (simp_all add: BlueGreenClusterName_def)

lemma status_names [simp]:
  "OwnedCNPGClusterName (p\<lparr>in_status := s\<rparr>) = OwnedCNPGClusterName p"
  "BlueGreenClusterName (p\<lparr>in_status := s\<rparr>) = BlueGreenClusterName p"
  "BlueGreenProjectPVCName (p\<lparr>in_status := s\<rparr>) = BlueGreenProjectPVCName p"
  "usesBlueGreenRebuild (p\<lparr>in_status := s\<rparr>) = usesBlueGreenRebuild p"
  "BlueGreenProjectPVCName p \<noteq> ''''" "CNPGAppSecretName n \<noteq> ''''"
  by (simp_all add: owned_names usesBlueGreenRebuild_def CNPGAppSecretName_def)

lemma retired_not_live: "ds_cluster (in_database parent) \<noteq> blueGreenRetiredClusterName parent"
  by (simp add: blueGreenRetiredClusterName_def Let_def)

lemma secret_name_inject [simp]: "CNPGAppSecretName a = CNPGAppSecretName b \<longleftrightarrow> a = b"
  by (simp add: CNPGAppSecretName_def)

lemma format_epoch: "format_rfc3339 (951782400 * second) = ''2000-02-29T00:00:00Z''"
  by code_simp

text \<open>Once the status of a swap is kept after its cutover, the next swap works on the live cluster: its Job
  gets the live secret, and its failure collects the live cluster.\<close>

lemma second_swap_on_live:
  assumes "in_rebuild parent = Some rb" and "rb_pending_secret rb \<noteq> ''''" and "on_sibling op parent"
  shows "job_secret op (applyBlueGreenCutover parent) = ds_secret (in_database (applyBlueGreenCutover parent))"
  using assms by (simp add: job_secret_def applyBlueGreenCutover_def blueGreenJobConnectionSecret_def usesBlueGreenRebuild_def)

lemma failed_second_swap_collects_live:
  assumes "in_rebuild parent = Some rb" and "rb_phase rb = Importing" and "op_phase_of op = Failed"
    and "rb_pending_cluster rb = ds_cluster (in_database parent)" and "rb_pending_cluster rb \<noteq> ''''"
  shows "Delete KCluster (in_namespace parent, ds_cluster (in_database parent)) \<in>
    set (issued (play (reconcileBlueGreenAfterImport L E op parent) [RTime t, ROk]))"
  using assms
  by (simp add: reconcileBlueGreenAfterImport_def Let_def blueGreenInputFrom_def advanceBlueGreen_def applyBlueGreenActions_def
      deleteOwnedClusterBundle_def ignore_not_found_def play_simps no_actions_def issued_def)

text \<open>The deletions of Clusters: none by what the Operation does when it fails, and the two that the machine asks for.\<close>

definition collects :: "nominatim_operation \<Rightarrow> nominatim_instance \<Rightarrow> rebuild_status \<Rightarrow> trace \<Rightarrow> key \<Rightarrow> bool" where
  "collects op parent rb h k =
     ((op_phase_of op = Failed \<and> rb_phase rb \<in> {RPUnset, Provisioning, Importing, ReadyToCutover} \<and>
         k = (in_namespace parent, rb_pending_cluster rb)) \<or>
      (k = (in_namespace parent, blueGreenRetiredClusterName parent) \<and>
         (rb_phase rb = GarbageCollect \<or>
          (rb_phase rb = RollbackWindow \<and> (\<exists>t u. (Now, RTime t) \<in> set h \<and> rb_rollback_until rb = Some u \<and> u \<le> t)))))"

definition swap_request :: "nominatim_operation \<Rightarrow> nominatim_instance \<Rightarrow> rebuild_status \<Rightarrow> trace \<Rightarrow> request \<Rightarrow> bool" where
  "swap_request op parent rb h q =
     ((\<forall>k. q = Delete KCluster k \<longrightarrow> collects op parent rb h k) \<and>
      (\<forall>op'. q = UpdateStatus (OOperation op') \<longrightarrow> op_phase_of op' = Succeeded \<longrightarrow>
         rb_phase rb = RPSucceeded \<or>
         (rb_phase rb = GarbageCollect \<and>
          (\<exists>e. is_not_found e \<and> (Get KCluster (in_namespace parent, blueGreenRetiredClusterName parent), RError e) \<in> set h))))"

text \<open>Requests of the effects and of a failing Operation.\<close>

definition harmless :: "request \<Rightarrow> bool" where
  "harmless q = ((\<forall>k. q \<noteq> Delete KCluster k) \<and> (\<forall>x. q \<noteq> Create x) \<and> (\<forall>op'. q = UpdateStatus (OOperation op') \<longrightarrow> op_phase_of op' \<noteq> Succeeded))"

lemma harmless_swap: "harmless q \<Longrightarrow> swap_request op parent rb h q"
  by (auto simp: harmless_def swap_request_def)

lemma harmless_simps [simp]:
  "harmless (Get kd k)" "harmless (ListOperations ns)" "harmless (UpdateStatus (OInstance n))" "harmless Now" "harmless (UpdateObj x)"
  "harmless (Delete KDatabase k)"
  by (simp_all add: harmless_def)

lemma effects_harmless:
  "wp (\<lambda>_. harmless) (\<lambda>_ _. True) h (setBackupPaused (defaultCNPGEffects L) parent b)"
  "wp (\<lambda>_. harmless) (\<lambda>_ _. True) h (applyPostgresProfile (defaultCNPGEffects L) parent p)"
  unfolding setBackupPaused_def applyPostgresProfile_def defaultCNPGEffects_def setBackupPausedAnnotation_def ApplyParameters_def
    getCNPGCluster_def Let_def
  by (auto split: sum.splits option.splits profile.splits intro!: wp_any)

lemma terminal_harmless: "wp (\<lambda>_. harmless) (\<lambda>_ _. True) h (applyTerminalCNPGEffects (defaultCNPGEffects L) op parent)"
  unfolding applyTerminalCNPGEffects_def hasOtherActiveMatchingImpactOps_def
  by (auto intro!: wp_any effects_harmless)

lemma side_effects_harmless: "wp (\<lambda>_. harmless) (\<lambda>_ _. True) h (syncParentSideEffects L (defaultCNPGEffects L) op)"
  unfolding syncParentSideEffects_def syncParentActiveOperationRef_def
  by (auto split: sum.splits intro!: wp_any any_update_status terminal_harmless)

lemma fail_harmless: "wp (\<lambda>_. harmless) (\<lambda>_ _. True) h (failOperation L (defaultCNPGEffects L) op reason m)"
  unfolding failOperation_def
  by (intro wp_any any_update_status side_effects_harmless) (simp_all add: harmless_def failed_operation_def)

lemma patch_harmless: "wp (\<lambda>_. harmless) (\<lambda>_ _. True) h (patchParentRebuildStatus L parent)"
  unfolding patchParentRebuildStatus_def Let_def
  by (intro wp_any any_update_status) simp_all

text \<open>A longer history allows more.\<close>

lemma swap_request_grows:
  assumes "wp (\<lambda>_. swap_request op parent rb h) (\<lambda>_ _. True) h p"
  shows "wp (swap_request op parent rb) (\<lambda>_ _. True) h p"
proof -
  have "swap_request op parent rb h' q" if "prefix h h'" "swap_request op parent rb h q" for h' q
    using that(2) set_mono_prefix [OF that(1)] unfolding swap_request_def collects_def by blast
  then show ?thesis by (intro wp_mono [OF wp_prefix [OF assms]]) auto
qed

definition finish_swap ::
  "lib \<Rightarrow> cnpg_effects \<Rightarrow> nominatim_operation \<Rightarrow> nominatim_instance \<Rightarrow> blue_green_actions \<Rightarrow> string \<Rightarrow> blue_green_output \<Rightarrow> int prog" where
  "finish_swap L E op parent act retired out =
     bind (applyBlueGreenActions parent act retired out) (\<lambda>parent.
     bind (patchParentRebuildStatus L parent) (\<lambda>parent.
     case in_rebuild parent of
       None \<Rightarrow> Fail (Panic ''nil pointer dereference'')
     | Some rb \<Rightarrow> syncBlueGreenOperationStatus L E op rb out))"

lemma harmless_running: "harmless (UpdateStatus (OOperation (running_status m op)))"
  by (simp add: harmless_def running_status_def)

lemma sync_harmless:
  "bo_phase out \<noteq> RPSucceeded \<Longrightarrow> wp (\<lambda>_. harmless) (\<lambda>_ _. True) h (syncBlueGreenOperationStatus L (defaultCNPGEffects L) op rb out)"
  unfolding syncBlueGreenOperationStatus_def Let_def
  by (auto simp: harmless_running split: rebuild_phase.splits intro!: wp_any any_update_status fail_harmless)

lemma wp_finish:
  assumes blue: "ba_collect_blue act \<Longrightarrow> G (Delete KCluster (in_namespace parent, retired))"
    and green: "ba_collect_green act \<Longrightarrow> G (Delete KCluster (in_namespace parent, rb_pending_cluster rb'))"
    and succeeds: "bo_phase out = RPSucceeded \<Longrightarrow> (\<And>op'. G (UpdateStatus (OOperation op')))"
    and harmless: "\<And>q. harmless q \<Longrightarrow> G q"
    and rb: "in_rebuild parent = Some rb'" "rb_pending_cluster rb' \<noteq> ''''"
  shows "wp (\<lambda>_. G) (\<lambda>_ _. True) h (finish_swap L (defaultCNPGEffects L) op parent act retired out)"
proof -
  have weak: "wp (\<lambda>_. G) (\<lambda>_ _. True) h p" if "wp (\<lambda>_. harmless) (\<lambda>_ _. True) h p" for h and p :: "'b prog"
    by (rule wp_mono [OF that]) (auto intro: harmless)
  have base: "G Now" "G (Delete KDatabase k)" for k by (auto intro: harmless)
  have actions: "wp (\<lambda>_. G) (\<lambda>_ _. True) h (applyBlueGreenActions parent act retired out)" for h
    unfolding applyBlueGreenActions_def Let_def deleteOwnedClusterBundle_def
    by (auto simp: applyBlueGreenCutover_def rb intro!: wp_any blue green base)
  have sync: "wp (\<lambda>_. G) (\<lambda>_ _. True) h (syncBlueGreenOperationStatus L (defaultCNPGEffects L) op rb out)" for h rb
  proof (cases "bo_phase out = RPSucceeded")
    case True
    then show ?thesis
      unfolding syncBlueGreenOperationStatus_def
      by (auto intro!: wp_any any_update_status succeeds base)
  qed (rule weak [OF sync_harmless])
  show ?thesis
    unfolding finish_swap_def
    by (intro any_bind actions weak [OF patch_harmless]) (auto split: option.splits intro: sync)
qed

lemma advance_requests:
  assumes "advanceBlueGreen inp = (out, act)"
  shows "ba_collect_blue act \<Longrightarrow> bi_phase inp = GarbageCollect \<or>
      (bi_phase inp = RollbackWindow \<and> (\<exists>u. bi_rollback_until inp = Some u \<and> u \<le> bi_now inp))"
    and "ba_collect_green act \<Longrightarrow> bi_failed inp"
    and "bo_phase out = RPSucceeded \<Longrightarrow> bi_phase inp = RPSucceeded \<or> (bi_phase inp = GarbageCollect \<and> bi_blue_gone inp)"
  using assms
  by (auto simp: advanceBlueGreen_def Let_def no_actions_def split: rebuild_phase.splits if_splits option.splits)

lemma after_import_eq:
  assumes "in_rebuild parent = Some rb"
  shows "reconcileBlueGreenAfterImport L E op parent =
    (let phase = (if rb_phase rb = Importing \<or> rb_phase rb = Provisioning \<or> rb_phase rb = RPUnset then Importing else rb_phase rb);
         retired = blueGreenRetiredClusterName parent
     in bind now (\<lambda>t.
        let inp = blueGreenInputFrom op parent rb phase t in
        bind (if phase = GarbageCollect \<or> phase = RollbackWindow
              then bind (clusterGone (in_namespace parent) retired) (\<lambda>gone. Ret (inp\<lparr>bi_blue_gone := gone\<rparr>))
              else Ret inp) (\<lambda>inp.
        case advanceBlueGreen inp of (out, act) \<Rightarrow>
          finish_swap L E op (set_rebuild (Some (rb\<lparr>rb_phase := bo_phase out, rb_rollback_until := bo_rollback_until out,
             rb_message := (if bo_message out \<noteq> '''' then bo_message out else rb_message rb)\<rparr>)) parent) act retired out)))"
  by (simp add: reconcileBlueGreenAfterImport_def assms finish_swap_def Let_def)

lemma wp_finish_from:
  assumes "in_rebuild parent = Some rb" and "rb_pending_cluster rb \<noteq> ''''" and "advanceBlueGreen inp = (out, act)"
    and "bi_phase inp = (if rb_phase rb = Importing \<or> rb_phase rb = Provisioning \<or> rb_phase rb = RPUnset then Importing else rb_phase rb)"
    and "bi_failed inp \<Longrightarrow> op_phase_of op = Failed \<and> rb_phase rb \<in> {RPUnset, Provisioning, Importing, ReadyToCutover}"
    and "bi_rollback_until inp = rb_rollback_until rb" and "(Now, RTime (bi_now inp)) \<in> set h"
    and "bi_blue_gone inp \<Longrightarrow>
      \<exists>e. is_not_found e \<and> (Get KCluster (in_namespace parent, blueGreenRetiredClusterName parent), RError e) \<in> set h"
  shows "wp (swap_request op parent rb) (\<lambda>_ _. True) h
    (finish_swap L (defaultCNPGEffects L) op (set_rebuild (Some (rb\<lparr>rb_phase := bo_phase out, rb_rollback_until := bo_rollback_until out,
       rb_message := m\<rparr>)) parent) act (blueGreenRetiredClusterName parent) out)"
proof (rule swap_request_grows, rule wp_finish)
  note adv = advance_requests [OF assms(3)]
  show "swap_request op parent rb h (Delete KCluster (in_namespace (set_rebuild (Some r) parent), blueGreenRetiredClusterName parent))"
    if "ba_collect_blue act" for r
    using adv(1) [OF that] assms(4,6,7) by (auto simp: swap_request_def collects_def split: if_splits)
  show "swap_request op parent rb h (Delete KCluster (in_namespace (set_rebuild (Some r) parent), rb_pending_cluster (rb\<lparr>rb_phase := bo_phase out,
      rb_rollback_until := bo_rollback_until out, rb_message := m\<rparr>)))"
    if "ba_collect_green act" for r
    using assms(5) [OF adv(2) [OF that]] by (auto simp: swap_request_def collects_def)
  show "swap_request op parent rb h (UpdateStatus (OOperation op'))" if "bo_phase out = RPSucceeded" for op'
    using adv(3) [OF that] assms(4,8) by (auto simp: swap_request_def split: if_splits)
  show "harmless q \<Longrightarrow> swap_request op parent rb h q" for q by (rule harmless_swap)
qed (use assms(2) in simp_all)

lemma wp_clusterGone:
  assumes "\<And>k. G h (Get KCluster k)"
  shows "wp G (\<lambda>h' r. case r of Inl e \<Rightarrow> True | Inr b \<Rightarrow> set h \<subseteq> set h' \<and>
      (b \<longrightarrow> (\<exists>e. is_not_found e \<and> (Get KCluster (ns, n), RError e) \<in> set h'))) h (clusterGone ns n)"
  using assms by (auto simp: clusterGone_def wp_simps dest!: bad_response split: sum.splits)

lemma wp_after_import:
  assumes "in_rebuild parent = Some rb" and "rb_pending_cluster rb \<noteq> ''''"
  shows "wp (swap_request op parent rb) (\<lambda>_ _. True) [] (reconcileBlueGreenAfterImport L (defaultCNPGEffects L) op parent)"
proof -
  define ph where ph: "ph = (if rb_phase rb = Importing \<or> rb_phase rb = Provisioning \<or> rb_phase rb = RPUnset then Importing else rb_phase rb)"
  let ?inp = "blueGreenInputFrom op parent rb ph"
  let ?m = "\<lambda>out. if bo_message out \<noteq> '''' then bo_message out else rb_message rb"
  note go = wp_finish_from [OF assms]
  have fields: "bi_phase (?inp t) = ph" "bi_failed (?inp t) \<Longrightarrow> op_phase_of op = Failed \<and> rb_phase rb \<in> {RPUnset, Provisioning, Importing, ReadyToCutover}"
    "bi_rollback_until (?inp t) = rb_rollback_until rb" "bi_now (?inp t) = t" "\<not> bi_blue_gone (?inp t)" for t
    by (auto simp: blueGreenInputFrom_def Let_def)
  have step: "wp (swap_request op parent rb) (\<lambda>_ _. True) h
      (case advanceBlueGreen (?inp t\<lparr>bi_blue_gone := b\<rparr>) of (out, act) \<Rightarrow>
         finish_swap L (defaultCNPGEffects L) op (set_rebuild (Some (rb\<lparr>rb_phase := bo_phase out, rb_rollback_until := bo_rollback_until out,
           rb_message := ?m out\<rparr>)) parent) act (blueGreenRetiredClusterName parent) out)"
    if "(Now, RTime t) \<in> set h" "b \<Longrightarrow> \<exists>e. is_not_found e \<and>
      (Get KCluster (in_namespace parent, blueGreenRetiredClusterName parent), RError e) \<in> set h" for h t b
  proof -
    obtain out act where a: "advanceBlueGreen (?inp t\<lparr>bi_blue_gone := b\<rparr>) = (out, act)" by fastforce
    show ?thesis unfolding a prod.case
      by (rule go [OF a]) (use that fields in \<open>auto simp: ph [symmetric]\<close>)
  qed
  have same: "?inp t\<lparr>bi_blue_gone := False\<rparr> = ?inp t" for t
    by (simp add: blueGreenInputFrom_def Let_def)
  have rest: "wp (swap_request op parent rb) (\<lambda>_ _. True) h
      (bind (if ph = GarbageCollect \<or> ph = RollbackWindow
             then bind (clusterGone (in_namespace parent) (blueGreenRetiredClusterName parent)) (\<lambda>gone. Ret (?inp t\<lparr>bi_blue_gone := gone\<rparr>))
             else Ret (?inp t)) (\<lambda>inp.
         case advanceBlueGreen inp of (out, act) \<Rightarrow>
           finish_swap L (defaultCNPGEffects L) op (set_rebuild (Some (rb\<lparr>rb_phase := bo_phase out, rb_rollback_until := bo_rollback_until out,
             rb_message := ?m out\<rparr>)) parent) act (blueGreenRetiredClusterName parent) out))"
    if t: "(Now, RTime t) \<in> set h" for h t
  proof (cases "ph = GarbageCollect \<or> ph = RollbackWindow")
    case True
    show ?thesis unfolding if_P [OF True] wp_bind
      by (rule wp_mono [OF wp_clusterGone])
         (use t in \<open>auto simp: swap_request_def split: sum.splits intro!: step\<close>)
  next
    case False
    show ?thesis unfolding if_not_P [OF False] bind.simps
      using step [OF t, of False] by (simp add: same)
  qed
  show ?thesis
    unfolding after_import_eq [OF assms(1)] Let_def ph [symmetric]
    by (intro any_now rest) (simp_all add: swap_request_def)
qed

section \<open>Properties\<close>

text \<open>A swap that starts on the default or the sibling cluster goes to the other one: the Job of the Rebuild
  gets the pending cluster's secret and claim, never the live one's; the cutover attaches the instance to
  the pending cluster and its secret, and what is retired after it is the cluster that was live before.\<close>

theorem cutover_to_sibling:
  assumes "LiveOwnedCNPGClusterName parent \<in> {OwnedCNPGClusterName parent, BlueGreenClusterName parent}"
    and "on_sibling op parent" and "rb = seedBlueGreenRebuildStatus parent op"
    and "after = applyBlueGreenCutover (set_rebuild (Some rb) parent)"
  shows "rb_active_cluster rb = LiveOwnedCNPGClusterName parent \<and> rb_pending_cluster rb \<noteq> rb_active_cluster rb \<and>
    job_secret op (set_rebuild (Some rb) parent) = CNPGAppSecretName (rb_pending_cluster rb) \<and>
    job_secret op (set_rebuild (Some rb) parent) \<noteq> CNPGAppSecretName (LiveOwnedCNPGClusterName parent) \<and>
    job_project_claim op (set_rebuild (Some rb) parent) = BlueGreenProjectPVCName parent \<and>
    in_database after = (in_database parent)\<lparr>ds_cluster := rb_pending_cluster rb, ds_secret := CNPGAppSecretName (rb_pending_cluster rb)\<rparr> \<and>
    blueGreenRetiredClusterName after = LiveOwnedCNPGClusterName parent"
  using assms
  by (auto simp: seedBlueGreenRebuildStatus_def Let_def applyBlueGreenCutover_def job_secret_def job_project_claim_def
      blueGreenJobConnectionSecret_def blueGreenRetiredClusterName_def)

text \<open>C24. After the import Job, a Cluster is deleted only in two cases: the pending one when the import has failed
  before the cutover, or the retired one, which is not the attached one, when the rollback deadline has passed
  on the clock just read or the collection has begun.\<close>

theorem collected_clusters:
  assumes "play (reconcileBlueGreenAfterImport L (defaultCNPGEffects L) op parent) xs = (t1 @ (Delete KCluster k, x) # t2, out)"
    and "in_rebuild parent = Some rb" and "rb_pending_cluster rb \<noteq> ''''"
  shows "(op_phase_of op = Failed \<and> rb_phase rb \<in> {RPUnset, Provisioning, Importing, ReadyToCutover} \<and>
      k = (in_namespace parent, rb_pending_cluster rb)) \<or>
    (k = (in_namespace parent, blueGreenRetiredClusterName parent) \<and>
     blueGreenRetiredClusterName parent \<noteq> ds_cluster (in_database parent) \<and>
     (rb_phase rb = GarbageCollect \<or>
      (rb_phase rb = RollbackWindow \<and> (\<exists>t u. (Now, RTime t) \<in> set t1 \<and> rb_rollback_until rb = Some u \<and> u \<le> t))))"
  using wp_play_guard [OF wp_after_import [OF assms(2,3)] assms(1)] retired_not_live [of parent]
  by (auto simp: swap_request_def collects_def)

text \<open>A BlueGreen Rebuild is reported as Succeeded only when the phase already was, or when it was collecting
  and the retired Cluster has just been looked for and not found.\<close>

theorem swap_success:
  assumes "play (reconcileBlueGreenAfterImport L (defaultCNPGEffects L) op parent) xs = (t1 @ (UpdateStatus (OOperation op'), x) # t2, out)"
    and "in_rebuild parent = Some rb" and "rb_pending_cluster rb \<noteq> ''''" and "op_phase_of op' = Succeeded"
  shows "rb_phase rb = RPSucceeded \<or>
    (rb_phase rb = GarbageCollect \<and>
     (\<exists>e. is_not_found e \<and> (Get KCluster (in_namespace parent, blueGreenRetiredClusterName parent), RError e) \<in> set t1))"
  using wp_play_guard [OF wp_after_import [OF assms(2,3)] assms(1)] assms(4)
  by (auto simp: swap_request_def)

section \<open>Witnesses\<close>

definition swapping_instance :: nominatim_instance where
  "swapping_instance = sample_instance\<lparr>in_spec := sample_spec\<lparr>sp_database := sample_database\<lparr>db_strategy := BlueGreen\<rparr>\<rparr>\<rparr>"

definition swapping :: "rebuild_phase \<Rightarrow> nominatim_instance" where
  "swapping ph = set_rebuild
     (Some ((seedBlueGreenRebuildStatus swapping_instance (sample_operation ''op'' Rebuild Running []))\<lparr>rb_phase := ph\<rparr>)) swapping_instance"

lemma swapping_simps [simp]:
  "in_rebuild (swapping ph) = Some ((seedBlueGreenRebuildStatus swapping_instance (sample_operation ''op'' Rebuild Running []))\<lparr>rb_phase := ph\<rparr>)"
  "in_meta (swapping ph) = new_meta ''inst'' ''ns''"
  by (simp_all add: swapping_def swapping_instance_def sample_simps)

lemma swapping_seed [simp]:
  "rb_pending_cluster (seedBlueGreenRebuildStatus swapping_instance op) = ''inst-pg-bg''"
  "rb_rollback_until (seedBlueGreenRebuildStatus swapping_instance op) = None"
  "rb_message (seedBlueGreenRebuildStatus swapping_instance op) = ''''"
  by (simp_all add: seedBlueGreenRebuildStatus_def swapping_instance_def sample_simps Let_def LiveOwnedCNPGClusterName_def owned_names)

theorem cutover_to_sibling_witness:
  "job_secret (sample_operation ''op'' Rebuild Running []) (set_rebuild (Some (seedBlueGreenRebuildStatus swapping_instance
      (sample_operation ''op'' Rebuild Running []))) swapping_instance) = CNPGAppSecretName ''inst-pg-bg''"
  using cutover_to_sibling [of swapping_instance "sample_operation ''op'' Rebuild Running []", OF _ _ refl refl]
  by (simp add: LiveOwnedCNPGClusterName_def usesBlueGreenRebuild_def EffectiveRebuildStrategy_def swapping_instance_def sample_simps
      seedBlueGreenRebuildStatus_def owned_names Let_def)

abbreviation failed_import :: nominatim_operation where
  "failed_import \<equiv> sample_operation ''op'' Rebuild Failed []"

theorem collected_clusters_witness:
  "\<exists>t1 x t2 out. play (reconcileBlueGreenAfterImport sample_lib (defaultCNPGEffects sample_lib) failed_import (swapping Importing))
     [RTime 0, ROk, ROk] = (t1 @ (Delete KCluster (''ns'', ''inst-pg-bg''), x) # t2, out)"
proof -
  have run: "play (reconcileBlueGreenAfterImport sample_lib (defaultCNPGEffects sample_lib) failed_import (swapping Importing)) [RTime 0, ROk, ROk] =
      ([(Now, RTime 0), (Delete KDatabase (''ns'', CNPGDatabaseNameForCluster ''inst-pg-bg''), ROk)] @
       (Delete KCluster (''ns'', ''inst-pg-bg''), ROk) # [], Waiting (Get KInstance (''ns'', ''inst'')))"
    by (simp add: reconcileBlueGreenAfterImport_def Let_def blueGreenInputFrom_def advanceBlueGreen_def applyBlueGreenActions_def
        deleteOwnedClusterBundle_def ignore_not_found_def play_simps no_actions_def patchParentRebuildStatus_def eval_nat_numeral)
  from collected_clusters [OF this swapping_simps(1)] run show ?thesis by blast
qed

theorem swap_success_witness:
  "\<exists>t1 op' x t2 out. play (reconcileBlueGreenAfterImport sample_lib (defaultCNPGEffects sample_lib)
       (sample_operation ''op'' Rebuild Succeeded []) (swapping GarbageCollect))
       [RTime 0, RError ErrNotFound, RObject (OInstance swapping_instance), RVersion ''2'', RTime 1, RVersion ''3''] =
     (t1 @ (UpdateStatus (OOperation op'), x) # t2, out) \<and> op_phase_of op' = Succeeded \<and>
     (Get KCluster (''ns'', ''inst-pg''), RError ErrNotFound) \<in> set t1"
proof -
  let ?p = "play (reconcileBlueGreenAfterImport sample_lib (defaultCNPGEffects sample_lib)
       (sample_operation ''op'' Rebuild Succeeded []) (swapping GarbageCollect))
       [RTime 0, RError ErrNotFound, RObject (OInstance swapping_instance), RVersion ''2'', RTime 1, RVersion ''3'']"
  have retired: "blueGreenRetiredClusterName (swapping GarbageCollect) = ''inst-pg''"
    by (simp add: blueGreenRetiredClusterName_def owned_names swapping_def swapping_instance_def sample_simps Let_def)
  have "\<exists>n t1 op' out. ?p = ([(Now, RTime 0), (Get KCluster (''ns'', ''inst-pg''), RError ErrNotFound),
      (Get KInstance (''ns'', ''inst''), RObject (OInstance swapping_instance)), (UpdateStatus (OInstance n), RVersion ''2''), (Now, RTime 1)] @
      (UpdateStatus (OOperation op'), RVersion ''3'') # [], out) \<and> op_phase_of op' = Succeeded"
    by (simp add: reconcileBlueGreenAfterImport_def Let_def blueGreenInputFrom_def advanceBlueGreen_def applyBlueGreenActions_def
        clusterGone_def play_simps no_actions_def patchParentRebuildStatus_def eval_nat_numeral retired
        update_instance_status_def update_operation_status_def
        syncBlueGreenOperationStatus_def)
  then obtain t1 op' out where run: "?p = (t1 @ (UpdateStatus (OOperation op'), RVersion ''3'') # [], out)" "op_phase_of op' = Succeeded"
    and seen: "(Get KCluster (''ns'', ''inst-pg''), RError ErrNotFound) \<in> set t1" by (metis list.set_intros)
  from swap_success [OF run(1) swapping_simps(1) _ run(2)] run seen show ?thesis by auto
qed

end
