(* ===== verification/OperationReconcile.thy ===== *)
theory OperationReconcile
  imports BlueGreenReconcile Mutex
begin

text \<open>
  \<open>internal/controller/nominatimoperation_controller.go\<close> and the claim of
  \<open>nominatimoperation_mutex.go\<close>: one pass of the Operation controller. A pass returns the delay after
  which it wants to run again, 0 for none; a step that may end the pass returns an option, the delay to
  end with or \<open>None\<close> to go on. What the Go code changes through its pointers is returned.
\<close>

section \<open>The claim\<close>

definition writePlaneRequeueDelay :: int where "writePlaneRequeueDelay = 15 * second"

definition listPeersForNominatim :: "nominatim_operation \<Rightarrow> nominatim_operation list prog" where
  "listPeersForNominatim op =
     bind (list_operations (op_namespace op)) (\<lambda>items. Ret (filter (\<lambda>peer. op_instance peer = op_instance op) items))"

text \<open>What one attempt finds: the error \<open>errWritePlaneBusy\<close> and the terminal conflict are values of their own.\<close>

datatype claim_outcome = Claimed | ClaimBusy | ClaimHeld nominatim_operation

definition claimAttempt :: "nominatim_operation \<Rightarrow> claim_outcome prog" where
  "claimAttempt op =
     bind (listPeersForNominatim op) (\<lambda>peers.
     let ev = evaluateWritePlane op peers; ref = operationObjectReference op in
     case ev_decision ev of
       WritePlaneHold \<Rightarrow>
         (case ev_peer ev of Some peer \<Rightarrow> Ret (ClaimHeld peer) | None \<Rightarrow> Fail (Panic ''nil pointer dereference''))
     | WritePlaneRaceWait \<Rightarrow> Ret ClaimBusy
     | WritePlaneOK \<Rightarrow>
         bind (attempt (get_instance (op_namespace op, op_instance op))) (\<lambda>r.
           case r of
             Inl e \<Rightarrow> if is_not_found e then Ret Claimed else Fail e
           | Inr parent \<Rightarrow>
               if has_ref ref parent then Ret Claimed
               else bind (update_instance_status (sync_ref ref True parent)) (\<lambda>_. Ret Claimed)))"

definition claimWritePlane :: "lib \<Rightarrow> cnpg_effects \<Rightarrow> nominatim_operation \<Rightarrow> int option prog" where
  "claimWritePlane L E op =
     (if op_instance op = '''' then Ret None
      else bind (retry_on_conflict (retries L) (claimAttempt op)) (\<lambda>outcome.
        case outcome of
          ClaimHeld peer \<Rightarrow> bind (failOperation L E op reasonConflict (conflictMessage peer)) (\<lambda>_. Ret (Some 0))
        | ClaimBusy \<Rightarrow> Ret (Some writePlaneRequeueDelay)
        | Claimed \<Rightarrow> Ret None))"

section \<open>Gates, owner, staging\<close>

definition enforceRegionGates ::
  "lib \<Rightarrow> cnpg_effects \<Rightarrow> nominatim_operation \<Rightarrow> nominatim_instance \<Rightarrow> nominatim_operation list \<Rightarrow> bool prog" where
  "enforceRegionGates L E op parent peers =
     (if \<not> requiresRegionGate (op_type_of op) then Ret False
      else if effectiveRegions op parent = [] then
        bind (failOperation L E op reasonRegionsRequired
          (''no regions configured on Operation '' @ quote (op_name op) @ '' or NominatimInstance '' @ quote (in_name parent)))
          (\<lambda>_. Ret True)
      else if sp_regions (in_spec parent) \<noteq> [] \<and> \<not> bootstrapComplete parent peers then
        bind (failOperation L E op reasonBootstrapIncomplete
          (''NominatimInstance '' @ quote (in_name parent) @
           '' has not completed Bootstrap (status.regions empty and no Succeeded Bootstrap Operation)''))
          (\<lambda>_. Ret True)
      else Ret False)"

definition operation_owned :: "lib \<Rightarrow> nominatim_operation \<Rightarrow> object_meta \<Rightarrow> error + object_meta" where
  "operation_owned L op m = set_controller_reference L ''NominatimOperation'' (op_meta op) m"

definition ensureOperationOwnerRef :: "lib \<Rightarrow> nominatim_operation \<Rightarrow> nominatim_instance \<Rightarrow> nominatim_operation prog" where
  "ensureOperationOwnerRef L op parent =
     bind (lift (own_meta L parent (op_meta op))) (\<lambda>m.
       if om_owners m = om_owners (op_meta op) then Ret (op\<lparr>op_meta := m\<rparr>) else update_operation (op\<lparr>op_meta := m\<rparr>))"

definition ensureStagingPVC :: "lib \<Rightarrow> nominatim_operation \<Rightarrow> staging_spec \<Rightarrow> unit prog" where
  "ensureStagingPVC L op staging =
     bind (lift (buildStagingPVC L op staging)) (\<lambda>desired.
     bind (lift (operation_owned L op (pv_meta desired))) (\<lambda>m.
     bind (attempt (get_present KClaim (om_namespace m, om_name m))) (\<lambda>r.
       case r of
         Inr _ \<Rightarrow> Ret ()
       | Inl e \<Rightarrow> if \<not> is_not_found e then Fail e else create (OClaim (desired\<lparr>pv_meta := m\<rparr>)))))"

section \<open>The Job\<close>

definition ensureJob :: "lib \<Rightarrow> nominatim_operation \<Rightarrow> nominatim_instance \<Rightarrow> unit prog" where
  "ensureJob L op parent =
     bind (wrap_error ''build Operation Job'' (lift (buildOperationJob L op parent (stagingPVCName op)
             (workerImageForOperation op parent) (workerPullPolicyForOperation op parent)))) (\<lambda>desired.
     bind (lift (operation_owned L op (jo_meta desired))) (\<lambda>m.
     bind (attempt (get_job (om_namespace m, om_name m))) (\<lambda>r.
       case r of
         Inr existing \<Rightarrow>
           if jo_succeeded existing = 0 \<and> \<not> jobHasDatabaseDSN existing then
             bind (delete KJob (om_namespace (jo_meta existing), om_name (jo_meta existing))) (\<lambda>_.
               Fail (Errorf (''deleted Job '' @ quote (om_name (jo_meta existing)) @ '' missing '' @
                 envNominatimDatabaseDSN @ ''; will recreate'')))
           else Ret ()
       | Inl e \<Rightarrow> if \<not> is_not_found e then Fail e else create (OJob (desired\<lparr>jo_meta := m\<rparr>)))))"

text \<open>The status of the Operation as the Job's pod counts give it; the time is read only when it is needed.\<close>

definition job_status :: "job \<Rightarrow> nominatim_operation \<Rightarrow> nominatim_operation" where
  "job_status j op =
     op\<lparr>op_status := (op_status op)\<lparr>ot_phase := phaseFromJob (jo_succeeded j) (jo_failed j) (jo_active j),
          ot_job_ref := Some (om_name (jo_meta j)), ot_observed_generation := om_generation (op_meta op),
          ot_start := (case jo_start j of None \<Rightarrow> ot_start (op_status op) | Some t \<Rightarrow> Some t)\<rparr>\<rparr>"

definition write_job_status :: "job \<Rightarrow> nominatim_operation \<Rightarrow> nominatim_operation prog" where
  "write_job_status j op =
     (let op = job_status j op; phase = op_phase_of op in
      if phase = Succeeded \<or> phase = Failed then
        bind (case jo_completion j of
                Some t \<Rightarrow> Ret (Some t)
              | None \<Rightarrow> (case ot_completion (op_status op) of
                           Some t \<Rightarrow> Ret (Some t)
                         | None \<Rightarrow> bind now (\<lambda>t. Ret (Some t)))) (\<lambda>completion.
        update_operation_status (op\<lparr>op_status := (op_status op)\<lparr>ot_completion := completion,
          ot_message := (if phase = Failed then ''Job failed'' else ''Job succeeded'')\<rparr>\<rparr>))
      else update_operation_status (op\<lparr>op_status := (op_status op)\<lparr>ot_completion := None,
        ot_message := (if phase = Running then ''Job running'' else ''Job pending'')\<rparr>\<rparr>))"

definition syncStatusFromJob :: "nominatim_operation \<Rightarrow> nominatim_operation prog" where
  "syncStatusFromJob op =
     bind (attempt (get_job (op_key op))) (\<lambda>r.
       case r of
         Inl e \<Rightarrow> if is_not_found e then Ret op else Fail e
       | Inr j \<Rightarrow> write_job_status j op)"

section \<open>Readiness of the database\<close>

definition cnpgClusterReadyForJobs :: "lib \<Rightarrow> nominatim_instance \<Rightarrow> bool prog" where
  "cnpgClusterReadyForJobs L parent =
     (let d = in_database parent; owned = (db_cluster (sp_database (in_spec parent)) \<noteq> None);
          clusterName = (if ds_cluster d = '''' \<and> owned then OwnedCNPGClusterName parent else ds_cluster d)
      in
        if ds_degraded d \<or> ds_mode d = ConnectionSecret then Ret True
        else if clusterName = '''' then Ret (db_cluster_ref (sp_database (in_spec parent)) = None)
        else bind (attempt (getCNPGCluster (in_namespace parent) clusterName)) (\<lambda>r.
          case r of
            Inl e \<Rightarrow> if is_not_found e then Ret False else Fail e
          | Inr cluster \<Rightarrow>
              (case nested_slice L (un_object cluster) [''status'', ''conditions''] of
                 Inl e \<Rightarrow> Fail e
               | Inr None \<Rightarrow> Ret False
               | Inr (Some conds) \<Rightarrow>
                   if \<not> ready_condition conds then Ret False
                   else if owned \<or> ds_mode d = ClusterManaged
                   then cnpgOwnedDatabaseApplied L (in_namespace parent) (OwnedCNPGDatabaseName parent)
                   else Ret True)))"

section \<open>Dropping the database of a Rebuild\<close>

definition apiQuiescedForRebuild :: "lib \<Rightarrow> nominatim_instance \<Rightarrow> bool prog" where
  "apiQuiescedForRebuild L parent =
     (let key = (in_namespace parent, APIName parent) in
      bind (attempt (get_deployment key)) (\<lambda>r.
        case r of
          Inl e \<Rightarrow> if is_not_found e then Ret True else Fail e
        | Inr deploy \<Rightarrow>
            if de_replicas deploy \<noteq> Some 0 then
              bind (retry_on_conflict (retries L)
                (bind (attempt (get_deployment key)) (\<lambda>r.
                   case r of
                     Inl e \<Rightarrow> if is_not_found e then Ret () else Fail e
                   | Inr current \<Rightarrow>
                       if de_replicas current = Some 0 then Ret ()
                       else update_obj (ODeployment (current\<lparr>de_replicas := Some 0\<rparr>))))) (\<lambda>_. Ret False)
            else Ret (\<not> (de_status_replicas deploy > 0 \<or> de_ready_replicas deploy > 0 \<or> de_available_replicas deploy > 0))))"

definition ensureDatabaseReclaimDelete :: "lib \<Rightarrow> unstructured \<Rightarrow> unit prog" where
  "ensureDatabaseReclaimDelete L db =
     (if nested_string L (un_object db) [''spec'', ''databaseReclaimPolicy''] = Inr (Some cnpgDatabaseReclaimDelete) then Ret ()
      else retry_on_conflict (retries L)
        (bind (get_unstructured KDatabase (om_namespace (un_meta db), om_name (un_meta db))) (\<lambda>current.
         bind (lift (set_field L [''spec'', ''databaseReclaimPolicy''] (JString cnpgDatabaseReclaimDelete) current)) (\<lambda>current.
         update_obj (OUnstructured KDatabase current)))))"

definition patchRebuildResetAnnotations ::
  "lib \<Rightarrow> nominatim_operation \<Rightarrow> string \<Rightarrow> string \<Rightarrow> nominatim_operation prog" where
  "patchRebuildResetAnnotations L op reset prevUID =
     retry_on_conflict (retries L)
       (bind (get_operation (op_key op)) (\<lambda>latest.
        let annotations = map_set annotationRebuildDBPrevUID prevUID
              (map_set annotationRebuildDBReset reset (om_annotations (op_meta latest)))
        in bind (update_operation (latest\<lparr>op_meta := (op_meta latest)\<lparr>om_annotations := annotations\<rparr>\<rparr>)) (\<lambda>latest.
           Ret (op\<lparr>op_meta := (op_meta op)\<lparr>om_annotations := om_annotations (op_meta latest),
                                        om_version := om_version (op_meta latest)\<rparr>\<rparr>))))"

text \<open>The annotation with the UID of the database to drop, empty before the first pass.\<close>

definition dropDatabase ::
  "lib \<Rightarrow> nominatim_operation \<Rightarrow> nominatim_instance \<Rightarrow> unstructured \<Rightarrow> nominatim_operation prog" where
  "dropDatabase L op parent db =
     (let dbName = OwnedCNPGDatabaseName parent; uid = om_uid (un_meta db) in
      bind (ensureDatabaseReclaimDelete L db) (\<lambda>_.
      bind (attempt (get_unstructured KDatabase (in_namespace parent, dbName))) (\<lambda>r.
        case r of
          Inl e \<Rightarrow> if is_not_found e then patchRebuildResetAnnotations L op rebuildDBResetPending uid else Fail e
        | Inr fresh \<Rightarrow>
            bind (attempt (delete KDatabase (om_namespace (un_meta fresh), om_name (un_meta fresh)))) (\<lambda>r.
              case r of
                Inl e \<Rightarrow>
                  if is_not_found e then patchRebuildResetAnnotations L op rebuildDBResetPending uid
                  else Fail (Wrap (''delete owned CNPG Database '' @ quote dbName @ '' for Rebuild'') e)
              | Inr _ \<Rightarrow> patchRebuildResetAnnotations L op rebuildDBResetPending uid))))"

definition resetDatabase ::
  "lib \<Rightarrow> nominatim_operation \<Rightarrow> nominatim_instance \<Rightarrow> (bool \<times> nominatim_operation) prog" where
  "resetDatabase L op parent =
     (let dbName = OwnedCNPGDatabaseName parent;
          clusterName = (if ds_cluster (in_database parent) = '''' then OwnedCNPGClusterName parent else ds_cluster (in_database parent));
          prevUID = map_get (om_annotations (op_meta op)) annotationRebuildDBPrevUID
      in
      bind (attempt (get_unstructured KDatabase (in_namespace parent, dbName))) (\<lambda>r.
        if prevUID = '''' then
          (case r of
             Inl e \<Rightarrow>
               if is_not_found e
               then bind (patchRebuildResetAnnotations L op rebuildDBResetPending rebuildDBPrevUIDNone) (\<lambda>op. Ret (False, op))
               else Fail e
           | Inr db \<Rightarrow> bind (dropDatabase L op parent db) (\<lambda>op. Ret (False, op)))
        else
          (case r of
             Inl e \<Rightarrow>
               if is_not_found e then bind (ensureOwnedCNPGDatabase L parent clusterName) (\<lambda>_. Ret (False, op)) else Fail e
           | Inr db \<Rightarrow>
               if prevUID \<noteq> rebuildDBPrevUIDNone \<and> om_uid (un_meta db) = prevUID then Ret (False, op)
               else (case nested_bool L (un_object db) [''status'', ''applied''] of
                       Inl e \<Rightarrow> Fail e
                     | Inr (Some True) \<Rightarrow>
                         bind (patchRebuildResetAnnotations L op rebuildDBResetDone prevUID) (\<lambda>op. Ret (True, op))
                     | Inr _ \<Rightarrow> Ret (False, op)))))"

definition ensureRebuildDatabaseReset ::
  "lib \<Rightarrow> nominatim_operation \<Rightarrow> nominatim_instance \<Rightarrow> (bool \<times> nominatim_operation) prog" where
  "ensureRebuildDatabaseReset L op parent =
     (if op_type_of op \<noteq> Rebuild then Ret (True, op)
      else if usesBlueGreenRebuild parent then Ret (True, op)
      else if \<not> (db_cluster (sp_database (in_spec parent)) \<noteq> None \<or> ds_mode (in_database parent) = ClusterManaged) then Ret (True, op)
      else if map_get (om_annotations (op_meta op)) annotationRebuildDBReset = rebuildDBResetDone then Ret (True, op)
      else bind (apiQuiescedForRebuild L parent) (\<lambda>quiesced.
        if \<not> quiesced then Ret (False, op) else resetDatabase L op parent))"

section \<open>What a Job waits for\<close>

text \<open>The delay to wait, if any, with the Operation and the parent as they are then.\<close>

definition waitForJobPrerequisites ::
  "lib \<Rightarrow> nominatim_operation \<Rightarrow> nominatim_instance \<Rightarrow> (int option \<times> nominatim_operation \<times> nominatim_instance) prog" where
  "waitForJobPrerequisites L op parent =
     (if ds_secret (in_database parent) = '''' then Ret (Some (5 * second), op, parent)
      else
        bind (if on_sibling op parent then ensureBlueGreenPending L op parent else Ret (True, parent)) (\<lambda>(ready, parent).
        if \<not> ready then Ret (Some (10 * second), op, parent)
        else
          let secretName = job_secret op parent in
          bind (if on_sibling op parent
                then (case in_rebuild parent of
                        None \<Rightarrow> Ret parent
                      | Some rb \<Rightarrow>
                          let importing = set_rebuild (Some (rb\<lparr>rb_phase := Importing\<rparr>)) parent in
                          bind (attempt (patchParentRebuildStatus L importing)) (\<lambda>r.
                            case r of Inl _ \<Rightarrow> Ret importing | Inr p \<Rightarrow> Ret p))
                else Ret parent) (\<lambda>parent.
          bind (attempt (get_present KSecret (in_namespace parent, secretName))) (\<lambda>r.
            case r of
              Inl e \<Rightarrow> if is_not_found e then Ret (Some (5 * second), op, parent) else Fail e
            | Inr _ \<Rightarrow>
                bind (ensureRebuildDatabaseReset L op parent) (\<lambda>(reset, op).
                if \<not> reset then Ret (Some (5 * second), op, parent)
                else if on_sibling op parent then Ret (None, op, parent)
                else bind (cnpgClusterReadyForJobs L parent) (\<lambda>ready.
                  if \<not> ready then Ret (Some (10 * second), op, parent) else Ret (None, op, parent)))))))"

section \<open>The pass\<close>

definition reconcileTerminalOperation :: "lib \<Rightarrow> cnpg_effects \<Rightarrow> nominatim_operation \<Rightarrow> int prog" where
  "reconcileTerminalOperation L E op =
     bind (if ot_job_ref (op_status op) \<noteq> None then syncStatusFromJob op else Ret op) (\<lambda>op.
     bind (syncParentSideEffects L E op) (\<lambda>_. Ret 0))"

definition reconcileOperationDelete :: "lib \<Rightarrow> cnpg_effects \<Rightarrow> nominatim_operation \<Rightarrow> int prog" where
  "reconcileOperationDelete L E op =
     (if \<not> contains_finalizer L (op_meta op) NominatimOperationFinalizer then Ret 0
      else
        bind (syncParentActiveOperationRef L op False) (\<lambda>_.
        bind (if op_instance op = '''' then Ret ()
              else bind (attempt (get_instance (op_namespace op, op_instance op))) (\<lambda>r.
                case r of
                  Inl e \<Rightarrow> if is_not_found e then Ret () else Fail e
                | Inr parent \<Rightarrow> applyTerminalCNPGEffects E op parent)) (\<lambda>_.
        bind (update_operation (op\<lparr>op_meta := remove_finalizer L (op_meta op) NominatimOperationFinalizer\<rparr>)) (\<lambda>_.
        Ret 0))))"

text \<open>From the claim on: the part of a pass that works towards the Job.\<close>

definition reconcileJob :: "lib \<Rightarrow> cnpg_effects \<Rightarrow> nominatim_operation \<Rightarrow> nominatim_instance \<Rightarrow> int prog" where
  "reconcileJob L E op parent =
     bind (ensureJob L op parent) (\<lambda>_.
     bind (syncStatusFromJob op) (\<lambda>op.
     if on_sibling op parent \<and> (op_phase_of op = Succeeded \<or> op_phase_of op = Failed)
     then reconcileBlueGreenAfterImport L E op parent
     else bind (syncParentSideEffects L E op) (\<lambda>_. Ret 0)))"

definition reconcilePrepared :: "lib \<Rightarrow> cnpg_effects \<Rightarrow> nominatim_operation \<Rightarrow> nominatim_instance \<Rightarrow> int prog" where
  "reconcilePrepared L E op parent =
     bind (waitForJobPrerequisites L op parent) (\<lambda>(wait, op, parent).
       case wait of Some delay \<Rightarrow> Ret delay | None \<Rightarrow> reconcileJob L E op parent)"

definition reconcileClaimed ::
  "lib \<Rightarrow> cnpg_effects \<Rightarrow> nominatim_operation \<Rightarrow> nominatim_instance \<Rightarrow> nominatim_operation list \<Rightarrow> int prog" where
  "reconcileClaimed L E op parent peers =
     bind (enforceRegionGates L E op parent peers) (\<lambda>stop.
       if stop then Ret 0
       else
         bind (ensureStagingPVC L op (resolveStagingSpec op parent)) (\<lambda>_.
         bind (applyPreJobCNPGEffects E op parent) (\<lambda>_.
         reconcilePrepared L E op parent)))"

definition reconcileActive :: "lib \<Rightarrow> cnpg_effects \<Rightarrow> nominatim_operation \<Rightarrow> nominatim_instance \<Rightarrow> int prog" where
  "reconcileActive L E op parent =
     bind (list_operations (op_namespace op)) (\<lambda>peers.
     bind (claimWritePlane L E op) (\<lambda>claimed.
     case claimed of
       Some delay \<Rightarrow> Ret delay
     | None \<Rightarrow> reconcileClaimed L E op parent peers))"

text \<open>A pass over an Operation that is not being deleted and has its finalizer.\<close>

definition reconcileLive :: "lib \<Rightarrow> cnpg_effects \<Rightarrow> nominatim_operation \<Rightarrow> int prog" where
  "reconcileLive L E op =
     (if isTerminalOperationPhase (op_phase_of op) then reconcileTerminalOperation L E op
      else if \<not> isOperationTypeImplemented (op_type_of op) then
        bind (failOperation L E op reasonNotImplemented (''operation type '' @ quote (string_of_op_type (op_type_of op)) @
          '' is reserved but not implemented yet (no Job will be created)'')) (\<lambda>_. Ret 0)
      else
        bind (attempt (get_instance (op_namespace op, op_instance op))) (\<lambda>r.
          case r of
            Inl e \<Rightarrow>
              if is_not_found e then
                bind (failOperation L E op reasonParentNotFound (''NominatimInstance '' @ quote (op_instance op) @
                  '' not found in namespace '' @ quote (op_namespace op))) (\<lambda>_. Ret 0)
              else Fail e
          | Inr parent \<Rightarrow>
              if om_deletion (in_meta parent) \<noteq> None then
                bind (failOperation L E op reasonParentDeleting (''NominatimInstance '' @ quote (in_name parent) @
                  '' is deleting; refusing new Operation work'')) (\<lambda>_. Ret 0)
              else
                bind (ensureOperationOwnerRef L op parent) (\<lambda>op.
                if on_sibling op parent \<and> \<not> blueGreenRebuildAllowed parent then
                  bind (failOperation L E op reasonUnsupportedRebuild
                    (''rebuildStrategy=BlueGreen requires an owned CNPG Cluster (spec.database.cluster); '' @
                     ''for clusterRef, provision a second Cluster manually and retarget the ref'')) (\<lambda>_. Ret 0)
                else reconcileActive L E op parent)))"

definition reconcileOperation :: "lib \<Rightarrow> cnpg_effects \<Rightarrow> key \<Rightarrow> int prog" where
  "reconcileOperation L E req =
     bind (attempt (get_operation req)) (\<lambda>r.
       case r of
         Inl e \<Rightarrow> if is_not_found e then Ret 0 else Fail e
       | Inr op \<Rightarrow>
           if om_deletion (op_meta op) \<noteq> None then reconcileOperationDelete L E op
           else
             bind (if contains_finalizer L (op_meta op) NominatimOperationFinalizer then Ret op
                   else update_operation (op\<lparr>op_meta := add_finalizer L (op_meta op) NominatimOperationFinalizer\<rparr>))
               (reconcileLive L E))"

section \<open>Stages of a pass\<close>

text \<open>A part of a pass that creates no Job, and what it leaves for the rest.\<close>

definition no_job :: "request \<Rightarrow> bool" where
  "no_job q = (\<forall>j. q \<noteq> Create (OJob j))"

lemma no_job_simps [simp]:
  "no_job (Get kd k)" "no_job (ListOperations ns)" "no_job (UpdateStatus x)" "no_job (UpdateObj x)" "no_job Now" "no_job (Delete kd k)"
  "no_job (CreateOrUpdate x f)" "no_job (Create (OClaim c))"
  by (simp_all add: no_job_def)

text \<open>Nothing but \<open>ensureJob\<close> creates Jobs.\<close>

lemma harmless_no_job: "wp (\<lambda>_. harmless) (\<lambda>_ _. True) h p \<Longrightarrow> wp (\<lambda>_. no_job) (\<lambda>_ _. True) h p"
  by (erule wp_mono) (auto simp: harmless_def no_job_def)

lemmas fail_no_job = fail_harmless [THEN harmless_no_job]
lemmas patch_no_job = patch_harmless [THEN harmless_no_job]

lemma prejob_no_job: "wp (\<lambda>_. no_job) (\<lambda>_ _. True) h (applyPreJobCNPGEffects (defaultCNPGEffects L) op parent)"
  unfolding applyPreJobCNPGEffects_def by (auto intro!: wp_any effects_harmless [THEN harmless_no_job])

lemma staging_no_job: "wp (\<lambda>_. no_job) (\<lambda>_ _. True) h (ensureStagingPVC L op staging)"
  unfolding ensureStagingPVC_def by (auto split: sum.splits intro!: wp_any)

lemma owned_database_no_job: "wp (\<lambda>_. no_job) (\<lambda>_ _. True) h (ensureOwnedCNPGDatabase L parent n)"
  unfolding ensureOwnedCNPGDatabase_def Let_def by (auto intro!: wp_any)

lemma owned_cluster_no_job: "wp (\<lambda>_. no_job) (\<lambda>_ _. True) h (ensureOwnedCNPGCluster L parent n)"
  unfolding ensureOwnedCNPGCluster_def Let_def by (auto split: option.splits intro!: wp_any)

lemma applied_no_job: "wp (\<lambda>_. no_job) (\<lambda>_ _. True) h (cnpgOwnedDatabaseApplied L ns n)"
  unfolding cnpgOwnedDatabaseApplied_def by (auto split: sum.splits option.splits intro!: wp_any)

lemma pending_no_job: "wp (\<lambda>_. no_job) (\<lambda>_ _. True) h (ensureBlueGreenPending L op parent)"
proof -
  have "wp (\<lambda>_. no_job) (\<lambda>_ _. True) h (reconcilePVC L parent vs n c)" for h vs n c parent
    unfolding reconcilePVC_def Let_def by (auto split: option.splits sum.splits intro!: wp_any)
  moreover have "wp (\<lambda>_. no_job) (\<lambda>_ _. True) h (blueGreenPendingReady L ns n)" for h ns n
    unfolding blueGreenPendingReady_def by (auto split: option.splits sum.splits intro!: wp_any applied_no_job)
  ultimately show ?thesis
    unfolding ensureBlueGreenPending_def Let_def
    by (auto split: option.splits intro!: wp_any patch_no_job owned_database_no_job owned_cluster_no_job)
qed

text \<open>The reset changes nothing of the Operation but its metadata.\<close>

lemma patch_annotations_keeps:
  "wp (\<lambda>_. no_job) (\<lambda>_ r. case r of Inl e \<Rightarrow> True | Inr op' \<Rightarrow> op_spec op' = op_spec op) h (patchRebuildResetAnnotations L op a b)"
  unfolding patchRebuildResetAnnotations_def Let_def
  by (rule wp_retry [where I = "\<lambda>_. True"]) (auto simp: wp_simps split: sum.splits response.splits)

lemma quiesced_no_job: "wp (\<lambda>_. no_job) (\<lambda>_ _. True) h (apiQuiescedForRebuild L parent)"
  unfolding apiQuiescedForRebuild_def Let_def by (auto split: sum.splits intro!: wp_any)

lemma drop_keeps:
  "wp (\<lambda>_. no_job) (\<lambda>_ r. case r of Inl e \<Rightarrow> True | Inr op' \<Rightarrow> op_spec op' = op_spec op) h (dropDatabase L op parent db)"
proof -
  have "wp (\<lambda>_. no_job) (\<lambda>_ _. True) h (ensureDatabaseReclaimDelete L db)" for h
    unfolding ensureDatabaseReclaimDelete_def by (auto intro!: wp_any)
  then show ?thesis
    unfolding dropDatabase_def Let_def
    by (intro wp_seq_any) (auto split: sum.splits intro!: wp_seq_any any_parts patch_annotations_keeps)
qed

lemma reset_keeps:
  "wp (\<lambda>_. no_job) (\<lambda>_ r. case r of Inl e \<Rightarrow> True | Inr (b, op') \<Rightarrow> op_spec op' = op_spec op) h
     (ensureRebuildDatabaseReset L op parent)"
proof -
  have patch: "wp (\<lambda>_. no_job) (\<lambda>_ r. case r of Inl e \<Rightarrow> True | Inr (b, op') \<Rightarrow> op_spec op' = op_spec op) h
      (bind p (\<lambda>op. Ret (c, op)))"
    if "wp (\<lambda>_. no_job) (\<lambda>_ r. case r of Inl e \<Rightarrow> True | Inr op' \<Rightarrow> op_spec op' = op_spec op) h p" for h p c
    by (rule wp_seq [OF that]) auto
  have "wp (\<lambda>_. no_job) (\<lambda>_ r. case r of Inl e \<Rightarrow> True | Inr (b, op') \<Rightarrow> op_spec op' = op_spec op) h (resetDatabase L op parent)" for h
    unfolding resetDatabase_def Let_def
    by (rule wp_seq_any)
       (auto split: sum.splits option.splits bool.splits
         intro!: any_parts patch patch_annotations_keeps drop_keeps wp_seq_any owned_database_no_job)
  then show ?thesis
    unfolding ensureRebuildDatabaseReset_def by (auto intro!: wp_seq_any quiesced_no_job)
qed

section \<open>From the claim to the Job\<close>

text \<open>What a granted claim has seen, and what a satisfied wait has.\<close>

definition saw_free_plane :: "nominatim_operation \<Rightarrow> trace \<Rightarrow> bool" where
  "saw_free_plane op h =
     (\<exists>items. (ListOperations (op_namespace op), ROperations items) \<in> set h \<and>
        claimGranted op (filter (\<lambda>p. op_instance p = op_instance op) items))"

definition saw_secret :: "nominatim_instance \<Rightarrow> string \<Rightarrow> trace \<Rightarrow> bool" where
  "saw_secret parent s h = (\<exists>x. (Get KSecret (in_namespace parent, s), RObject x) \<in> set h)"

definition saw_ready_cluster :: "lib \<Rightarrow> nominatim_instance \<Rightarrow> trace \<Rightarrow> bool" where
  "saw_ready_cluster L parent h =
     (\<exists>n kd cluster conds. (Get KCluster (in_namespace parent, n), RObject (OUnstructured kd cluster)) \<in> set h \<and>
        nested_slice L (un_object cluster) [''status'', ''conditions''] = Inr (Some conds) \<and> ready_condition conds)"

definition without_cluster :: "nominatim_instance \<Rightarrow> bool" where
  "without_cluster parent =
     (ds_degraded (in_database parent) \<or> ds_mode (in_database parent) = ConnectionSecret \<or>
      (ds_cluster (in_database parent) = '''' \<and> db_cluster (sp_database (in_spec parent)) = None \<and>
       db_cluster_ref (sp_database (in_spec parent)) = None))"

lemma saw_grows:
  "prefix h h' \<Longrightarrow> saw_free_plane op h \<Longrightarrow> saw_free_plane op h'"
  "prefix h h' \<Longrightarrow> saw_secret parent s h \<Longrightarrow> saw_secret parent s h'"
  "prefix h h' \<Longrightarrow> saw_ready_cluster L parent h \<Longrightarrow> saw_ready_cluster L parent h'"
  using set_mono_prefix unfolding saw_free_plane_def saw_secret_def saw_ready_cluster_def by blast+

lemma saw_secret_now: "saw_secret parent s (h @ [(Get KSecret (in_namespace parent, s), RObject x)])"
  by (auto simp: saw_secret_def)

lemma claimAttempt_seen:
  "wp (\<lambda>_. no_job) (\<lambda>h r. r = Inr Claimed \<longrightarrow> saw_free_plane op h) h (claimAttempt op)"
  unfolding claimAttempt_def listPeersForNominatim_def Let_def
  by (auto simp: wp_simps saw_free_plane_def claimGranted_def split: sum.splits write_plane_decision.splits option.splits)

lemma claim_seen:
  assumes "op_instance op \<noteq> ''''"
  shows "wp (\<lambda>_. no_job) (\<lambda>h r. case r of Inl e \<Rightarrow> True | Inr c \<Rightarrow> c = None \<longrightarrow> saw_free_plane op h) h
    (claimWritePlane L (defaultCNPGEffects L) op)"
proof -
  have attempt: "wp (\<lambda>_. no_job) (\<lambda>h r. r = Inr Claimed \<longrightarrow> saw_free_plane op h) h (retry_on_conflict (retries L) (claimAttempt op))" for h
    by (rule wp_retry [where I = "\<lambda>_. True"]) (auto split: sum.splits intro!: wp_mono [OF claimAttempt_seen])
  show ?thesis
    unfolding claimWritePlane_def wp_bind [of _ _ _ "retry_on_conflict _ _"] if_not_P [OF assms]
    by (rule wp_mono [OF attempt])
       (auto simp: wp_bind split: sum.splits claim_outcome.splits intro!: wp_mono [OF fail_no_job])
qed

lemma gates_passed:
  "wp (\<lambda>_. no_job) (\<lambda>h r. case r of Inl e \<Rightarrow> True | Inr stop \<Rightarrow> \<not> stop \<longrightarrow> requiresRegionGate (op_type_of op) \<longrightarrow>
      effectiveRegions op parent \<noteq> [] \<and> (sp_regions (in_spec parent) = [] \<or> bootstrapComplete parent peers)) h
    (enforceRegionGates L (defaultCNPGEffects L) op parent peers)"
  unfolding enforceRegionGates_def
  by (auto simp: wp_bind split: sum.splits intro!: wp_mono [OF fail_no_job])

lemma saw_ready_now:
  "nested_slice L (un_object cluster) [''status'', ''conditions''] = Inr (Some conds) \<Longrightarrow> ready_condition conds \<Longrightarrow>
     saw_ready_cluster L parent (h @ [(Get KCluster (in_namespace parent, n), RObject (OUnstructured kd cluster))])"
  by (auto simp: saw_ready_cluster_def)

lemma cluster_ready_seen:
  "wp (\<lambda>_. no_job) (\<lambda>h r. case r of Inl e \<Rightarrow> True | Inr b \<Rightarrow> b \<longrightarrow> without_cluster parent \<or> saw_ready_cluster L parent h) h
    (cnpgClusterReadyForJobs L parent)"
proof -
  have applied: "wp (\<lambda>_. no_job) (\<lambda>h r. case r of Inl e \<Rightarrow> True | Inr b \<Rightarrow> b \<longrightarrow> saw_ready_cluster L parent h) h
      (cnpgOwnedDatabaseApplied L ns n)" if "saw_ready_cluster L parent h" for h ns n
    by (rule wp_mono [OF wp_prefix [OF applied_no_job]]) (auto split: sum.splits dest: saw_grows(3) [OF _ that])
  have named: "OwnedCNPGClusterName parent \<noteq> ''''" by (simp add: OwnedCNPGClusterName_def)
  show ?thesis
  proof (cases "without_cluster parent")
    case True
    then show ?thesis
      unfolding cnpgClusterReadyForJobs_def Let_def getCNPGCluster_def
      by (auto simp: wp_simps split: sum.splits option.splits intro!: wp_mono [OF applied_no_job])
  next
    case False
    then show ?thesis
      unfolding cnpgClusterReadyForJobs_def Let_def getCNPGCluster_def
      by (auto simp: wp_simps named split: sum.splits option.splits intro!: applied saw_ready_now)
         (auto simp: without_cluster_def)
  qed
qed

text \<open>A wait that lets the pass go on, for an Operation that works on the live cluster.\<close>

lemma wait_seen:
  assumes "\<not> on_sibling op parent"
  shows "wp (\<lambda>_. no_job)
    (\<lambda>h r. case r of Inl e \<Rightarrow> True
       | Inr (w, op', parent') \<Rightarrow> w = None \<longrightarrow> saw_secret parent (ds_secret (in_database parent)) h \<and>
           (without_cluster parent \<or> saw_ready_cluster L parent h)) h
    (waitForJobPrerequisites L op parent)"
    (is "wp _ ?Q _ _")
proof -
  have live: "job_secret op parent = ds_secret (in_database parent)" using assms by (auto simp: job_secret_def)
  have ready: "wp (\<lambda>_. no_job) ?Q h
     (bind (cnpgClusterReadyForJobs L parent) (\<lambda>ready. if \<not> ready then Ret (Some (10 * second), op', parent) else Ret (None, op', parent)))"
    if "saw_secret parent (ds_secret (in_database parent)) h" for h op'
    by (rule wp_seq [OF cluster_ready_seen]) (auto dest: saw_grows(2) [OF _ that])
  have reset: "wp (\<lambda>_. no_job) ?Q h
     (bind (ensureRebuildDatabaseReset L op parent) (\<lambda>(reset, op).
        if \<not> reset then Ret (Some (5 * second), op, parent)
        else if on_sibling op parent then Ret (None, op, parent)
        else bind (cnpgClusterReadyForJobs L parent) (\<lambda>ready. if \<not> ready then Ret (Some (10 * second), op, parent) else Ret (None, op, parent))))"
    if "saw_secret parent (ds_secret (in_database parent)) h" for h
    by (rule wp_seq [OF reset_keeps]) (use assms in \<open>auto intro!: ready dest: saw_grows(2) [OF _ that]\<close>)
  show ?thesis
    unfolding waitForJobPrerequisites_def Let_def if_not_P [OF assms] bind.simps prod.case live
    by (auto simp: wp_attempt wp_bind [of _ _ _ "attempt _"] wp_call split: sum.splits intro!: reset saw_secret_now)
qed

text \<open>What has happened before a Job is created.\<close>

definition gates_open :: "nominatim_operation \<Rightarrow> nominatim_instance \<Rightarrow> trace \<Rightarrow> bool" where
  "gates_open op parent h =
     (requiresRegionGate (op_type_of op) \<longrightarrow> effectiveRegions op parent \<noteq> [] \<and>
       (sp_regions (in_spec parent) = [] \<or>
        (\<exists>peers. (ListOperations (op_namespace op), ROperations peers) \<in> set h \<and> bootstrapComplete parent peers)))"

definition job_prepared :: "lib \<Rightarrow> nominatim_operation \<Rightarrow> nominatim_instance \<Rightarrow> trace \<Rightarrow> bool" where
  "job_prepared L op parent h =
     (saw_free_plane op h \<and> gates_open op parent h \<and>
      (\<not> on_sibling op parent \<longrightarrow> saw_secret parent (ds_secret (in_database parent)) h \<and>
         (without_cluster parent \<or> saw_ready_cluster L parent h)))"

lemma gates_grow: "prefix h h' \<Longrightarrow> gates_open op parent h \<Longrightarrow> gates_open op parent h'"
  unfolding gates_open_def by (meson set_mono_prefix subsetD)

lemma job_prepared_grows: "prefix h h' \<Longrightarrow> job_prepared L op parent h \<Longrightarrow> job_prepared L op parent h'"
  unfolding job_prepared_def using saw_grows [of h h'] gates_grow [of h h'] by blast

text \<open>From there on nothing more is needed.\<close>

lemma wp_prepared:
  assumes "job_prepared L op parent h"
  shows "wp (\<lambda>h q. no_job q \<or> job_prepared L op parent h) (\<lambda>_ _. True) h p"
proof -
  have "wp (\<lambda>_ _. True) (\<lambda>_ _. True) h p" by (rule wp_triv) simp_all
  from wp_prefix [OF this] show ?thesis by (rule wp_mono) (use job_prepared_grows [OF _ assms] in auto)
qed

lemma wp_reconcilePrepared:
  assumes c: "saw_free_plane op h" and g: "gates_open op parent h"
  shows "wp (\<lambda>h q. no_job q \<or> job_prepared L op parent h) (\<lambda>_ _. True) h (reconcilePrepared L E op parent)"
proof (cases "on_sibling op parent")
  case True
  with c g show ?thesis by (intro wp_prepared) (simp add: job_prepared_def)
next
  case False
  show ?thesis
    unfolding reconcilePrepared_def
  proof (rule wp_seq [OF wp_mono [OF wait_seen [OF False]]])
    fix h' and a :: "int option \<times> nominatim_operation \<times> nominatim_instance"
    assume p: "prefix h h'" and w: "case a of (w, op', parent') \<Rightarrow> w = None \<longrightarrow>
      saw_secret parent (ds_secret (in_database parent)) h' \<and> (without_cluster parent \<or> saw_ready_cluster L parent h')"
    have "saw_free_plane op h'" "gates_open op parent h'" using c g saw_grows(1) [OF p] gates_grow [OF p] by blast+
    with w have "fst a = None \<Longrightarrow> job_prepared L op parent h'" by (cases a) (simp add: job_prepared_def)
    then show "wp (\<lambda>h q. no_job q \<or> job_prepared L op parent h) (\<lambda>_ _. True) h'
        (case a of (wait, op, parent) \<Rightarrow> (case wait of Some delay \<Rightarrow> Ret delay | None \<Rightarrow> reconcileJob L E op parent))"
      by (auto split: prod.splits option.splits intro: wp_prepared)
  qed simp_all
qed

lemma no_job_weak: "wp (\<lambda>_. no_job) Q h p \<Longrightarrow> wp (\<lambda>h q. no_job q \<or> S h) Q h p"
  by (erule wp_mono) simp_all

lemma wp_reconcileClaimed:
  assumes c: "saw_free_plane op h" and peers: "(ListOperations (op_namespace op), ROperations peers) \<in> set h"
  shows "wp (\<lambda>h q. no_job q \<or> job_prepared L op parent h) (\<lambda>_ _. True) h
    (reconcileClaimed L (defaultCNPGEffects L) op parent peers)"
  unfolding reconcileClaimed_def
proof (rule wp_seq [OF no_job_weak [OF gates_passed]], simp)
  fix h' stop
  assume p: "prefix h h'" and gate: "\<not> stop \<longrightarrow> requiresRegionGate (op_type_of op) \<longrightarrow>
    effectiveRegions op parent \<noteq> [] \<and> (sp_regions (in_spec parent) = [] \<or> bootstrapComplete parent peers)"
  have "gates_open op parent h'" if "\<not> stop"
    using gate that peers set_mono_prefix [OF p] unfolding gates_open_def by blast
  with c saw_grows(1) [OF p] show "wp (\<lambda>h q. no_job q \<or> job_prepared L op parent h) (\<lambda>_ _. True) h'
      (if stop then Ret 0
       else
         bind (ensureStagingPVC L op (resolveStagingSpec op parent)) (\<lambda>_.
         bind (applyPreJobCNPGEffects (defaultCNPGEffects L) op parent) (\<lambda>_.
         reconcilePrepared L (defaultCNPGEffects L) op parent)))"
    by (auto intro!: wp_seq_any [OF no_job_weak [OF staging_no_job]] wp_seq_any [OF no_job_weak [OF prejob_no_job]]
        wp_reconcilePrepared intro: saw_grows(1) gates_grow)
qed

lemma wp_reconcileActive:
  assumes "op_instance op \<noteq> ''''"
  shows "wp (\<lambda>h q. no_job q \<or> job_prepared L op parent h) (\<lambda>_ _. True) [] (reconcileActive L (defaultCNPGEffects L) op parent)"
proof -
  have listed: "wp (\<lambda>h q. no_job q \<or> job_prepared L op parent h) (\<lambda>h' r. case r of Inl e \<Rightarrow> True
      | Inr peers \<Rightarrow> (ListOperations (op_namespace op), ROperations peers) \<in> set h') [] (list_operations (op_namespace op))"
    by (auto simp: wp_call split: sum.splits)
  show ?thesis
    unfolding reconcileActive_def
    by (rule wp_seq [OF listed], simp, rule wp_seq [OF no_job_weak [OF claim_seen [OF assms]]])
       (auto split: option.splits intro!: wp_reconcileClaimed dest: set_mono_prefix)
qed

text \<open>C1. A Job is created only by a pass that has first seen, in the answers of the API server, that no
  conflicting Operation of the same instance holds the write plane or comes first by name, that the region
  gates are open, and, unless the Operation works on a sibling cluster, that the DSN secret exists and the
  cluster is ready (or that there is none to wait for).\<close>

theorem job_created_prepared:
  assumes "op_instance op \<noteq> ''''"
    and "play (reconcileActive L (defaultCNPGEffects L) op parent) xs = (t1 @ (Create (OJob j), x) # t2, out)"
  shows "(\<exists>items. (ListOperations (op_namespace op), ROperations items) \<in> set t1 \<and>
           claimGranted op (filter (\<lambda>p. op_instance p = op_instance op) items)) \<and>
         gates_open op parent t1 \<and>
         (on_sibling op parent \<or>
          (saw_secret parent (ds_secret (in_database parent)) t1 \<and> (without_cluster parent \<or> saw_ready_cluster L parent t1)))"
  using wp_play_guard [OF wp_reconcileActive [OF assms(1)] assms(2)]
  by (auto simp: job_prepared_def saw_free_plane_def no_job_def)

text \<open>A Bootstrap of an instance with a connection secret: the staging claim and the Job are new.\<close>

abbreviation bootstrap_op :: nominatim_operation where
  "bootstrap_op \<equiv> sample_operation ''op'' Bootstrap PhaseUnset [''a'']"

lemma sample_built:
  "\<exists>j. buildOperationJob sample_lib op sample_instance s i p = Inr j \<and>
     om_name (jo_meta j) = op_name op \<and> om_namespace (jo_meta j) = op_namespace op \<and> om_owners (jo_meta j) = []"
  by (simp add: buildOperationJob_def Let_def mergePodSpecOverlay_def decodePodSpecOverlay_def sample_simps)

lemma sample_facts:
  "ds_secret (in_database sample_instance) = ''secret''" "ds_mode (in_database sample_instance) = ConnectionSecret"
  "in_meta sample_instance = new_meta ''inst'' ''ns''" "in_impact sample_instance = ImpactUnset"
  "resolveStagingSpec bootstrap_op sample_instance = \<lparr>sg_storage_class = None, sg_size = ''50Gi''\<rparr>"
  by (simp_all add: sample_simps resolveStagingSpec_def defaultStagingSize_def in_impact_def sample_operation_def new_operation_def)

lemmas pass_defs = reconcileActive_def claimWritePlane_def claimAttempt_def listPeersForNominatim_def reconcileClaimed_def
  enforceRegionGates_def ensureStagingPVC_def buildStagingPVC_def operation_owned_def set_controller_def controller_of_def
  applyPreJobCNPGEffects_def reconcilePrepared_def waitForJobPrerequisites_def ensureRebuildDatabaseReset_def
  cnpgClusterReadyForJobs_def reconcileJob_def ensureJob_def syncStatusFromJob_def evaluateWritePlane_def

abbreviation bootstrap_pass :: "trace \<times> int outcome" where
  "bootstrap_pass \<equiv> play (reconcileActive sample_lib (defaultCNPGEffects sample_lib) bootstrap_op sample_instance)
     [ROperations [], ROperations [], RError ErrNotFound, RError ErrNotFound, ROk, RObject (OInstance sample_instance), RError ErrNotFound, ROk]"

lemma bootstrap_run:
  "\<exists>j e1 e2 e3 e4 e5 e6 e7 out. bootstrap_pass = ([e1, e2, e3, e4, e5, e6, e7] @ (Create (OJob j), ROk) # [], out)"
proof -
  obtain j where j: "buildOperationJob sample_lib bootstrap_op sample_instance (stagingPVCName bootstrap_op)
      (workerImageForOperation bootstrap_op sample_instance) (workerPullPolicyForOperation bootstrap_op sample_instance) = Inr j"
    "om_name (jo_meta j) = ''op''" "om_namespace (jo_meta j) = ''ns''" "om_owners (jo_meta j) = []"
    using sample_built by fastforce
  show ?thesis
    by (simp add: pass_defs play_simps eval_nat_numeral Let_def sample_facts wrap_error_def j)
qed

theorem job_created_prepared_witness:
  "\<exists>j t1 x t2 out. bootstrap_pass = (t1 @ (Create (OJob j), x) # t2, out) \<and>
     saw_secret sample_instance ''secret'' t1 \<and> gates_open bootstrap_op sample_instance t1"
proof -
  obtain j e1 e2 e3 e4 e5 e6 e7 out where run: "bootstrap_pass = ([e1, e2, e3, e4, e5, e6, e7] @ (Create (OJob j), ROk) # [], out)"
    using bootstrap_run by (elim exE)
  have "op_instance bootstrap_op \<noteq> ''''" by simp
  from job_created_prepared [OF this run]
  have "saw_secret sample_instance ''secret'' [e1, e2, e3, e4, e5, e6, e7]" "gates_open bootstrap_op sample_instance [e1, e2, e3, e4, e5, e6, e7]"
    by (simp_all add: sample_facts)
  with run show ?thesis by blast
qed

end
