(* ===== verification/OperationBounds.thy ===== *)
theory OperationBounds
  imports OperationReconcile
begin

text \<open>
  How long a pass of the Operation controller takes and waits: the number of requests it makes is bounded
  whatever the answers, and so is the delay it asks for from below.
\<close>

section \<open>How many requests a program makes\<close>

text \<open>\<open>within n p\<close>: whatever the answers, \<open>p\<close> ends after at most \<open>n\<close> requests.\<close>

primrec within :: "nat \<Rightarrow> 'a prog \<Rightarrow> bool" where
  "within n (Ret a) = True"
| "within n (Fail e) = True"
| "within n (Call q k) = (0 < n \<and> (\<forall>x. within (n - 1) (k x)))"

lemma within_mono: "within m p \<Longrightarrow> m \<le> n \<Longrightarrow> within n p"
proof (induction p arbitrary: m n)
  case (Call q k)
  have "within (n - 1) (k x)" for x
    by (rule Call.IH [of "k x" "m - 1"]) (use Call.prems in \<open>auto intro: diff_le_mono\<close>)
  with Call.prems show ?case by auto
qed simp_all

lemma within_bind: "within m p \<Longrightarrow> (\<And>a. within n (f a)) \<Longrightarrow> within (m + n) (bind p f)"
proof (induction p arbitrary: m)
  case (Ret a)
  then have "within n (f a)" by simp
  then show ?case by (auto intro: within_mono)
next
  case (Call q k)
  have "within (m - 1 + n) (bind (k x) f)" for x
    by (rule Call.IH [of "k x" "m - 1"]) (use Call.prems in auto)
  moreover have "0 < m" using Call.prems by simp
  ultimately show ?case by simp
qed simp

lemma within_attempt [simp]: "within n (attempt p) = within n p"
  by (induction p arbitrary: n) simp_all

lemma within_lift [simp]: "within n (lift r)"
  by (cases r) (simp_all add: lift_def)

lemma within_call [simp]: "within n (call q d) \<longleftrightarrow> 0 < n"
  by (simp add: call_def)

lemma within_stage: "within m p \<Longrightarrow> m \<le> k \<Longrightarrow> (\<And>a. within (k - m) (f a)) \<Longrightarrow> within k (bind p f)"
  using within_bind [of m p "k - m" f] by simp

lemma within_wrap [simp]: "within n (wrap_error m p) = within n p" "within n (ignore_not_found a p) = within n p"
  by (induction p arbitrary: n) (simp_all add: wrap_error_def ignore_not_found_def)

text \<open>How often a conflict is tried.\<close>

definition attempts :: "lib \<Rightarrow> nat" where "attempts L = Suc (retries L)"

lemma within_retry: "within m p \<Longrightarrow> within (m * Suc n) (retry_on_conflict n p)"
proof (induction n)
  case (Suc n)
  have "within (m + m * Suc n) (retry_on_conflict (Suc n) p)"
    unfolding retry_on_conflict.simps
    by (rule within_bind) (use Suc in \<open>auto split: sum.splits\<close>)
  then show ?case by (simp add: algebra_simps)
qed simp

lemma within_attempts: "within m p \<Longrightarrow> within (m * attempts L) (retry_on_conflict (retries L) p)"
  unfolding attempts_def by (rule within_retry)

lemma within_written: "0 < n \<Longrightarrow> within n (bind (call q d) (\<lambda>v. Ret (g v)))"
  by (rule within_stage [of 1]) simp_all

lemma within_update:
  "0 < n \<Longrightarrow> within n (update_instance_status i)" "0 < n \<Longrightarrow> within n (update_instance i)"
  "0 < n \<Longrightarrow> within n (update_operation_status p)" "0 < n \<Longrightarrow> within n (update_operation p)"
  by (simp_all add: update_instance_status_def update_instance_def update_operation_status_def update_operation_def within_written)

lemma bind_assoc: "bind (bind p f) g = bind p (\<lambda>a. bind (f a) g)"
  by (induction p) simp_all

text \<open>The steps of one request, and of none.\<close>

lemma within_steps:
  "0 < n \<Longrightarrow> (\<And>a. within (n - 1) (f a)) \<Longrightarrow> within n (bind (call q d) f)"
  "0 < n \<Longrightarrow> (\<And>a. within (n - 1) (g a)) \<Longrightarrow> within n (bind (attempt (call q d)) g)"
  "0 < n \<Longrightarrow> (\<And>a. within (n - 1) (f a)) \<Longrightarrow> within n (bind (wrap_error m (call q d)) f)"
  "0 < n \<Longrightarrow> (\<And>a. within (n - 1) (f a)) \<Longrightarrow> within n (bind (ignore_not_found b (call q d)) f)"
  "(\<And>a. within n (f a)) \<Longrightarrow> within n (bind (lift r) f)"
  "(\<And>a. within n (f a)) \<Longrightarrow> within n (bind (wrap_error m (lift r)) f)"
  "0 < n \<Longrightarrow> (\<And>a. within (n - 1) (fi a)) \<Longrightarrow> within n (bind (update_instance_status i) fi)"
  "0 < n \<Longrightarrow> (\<And>a. within (n - 1) (fo a)) \<Longrightarrow> within n (bind (update_operation_status o') fo)"
  "0 < n \<Longrightarrow> (\<And>a. within (n - 1) (fo a)) \<Longrightarrow> within n (bind (update_operation o') fo)"
  by (auto intro: within_stage [of 1] within_stage [of 0] within_update)

lemmas within_intros = within_steps within_update

section \<open>The parts of a pass\<close>

lemma within_effects:
  "within 2 (setBackupPaused (defaultCNPGEffects L) parent b)" "within 2 (applyPostgresProfile (defaultCNPGEffects L) parent p)"
  unfolding setBackupPaused_def applyPostgresProfile_def defaultCNPGEffects_def setBackupPausedAnnotation_def ApplyParameters_def
    getCNPGCluster_def Let_def
  by (auto split: sum.splits option.splits profile.splits intro!: within_intros)

lemma within_terminal: "within 5 (applyTerminalCNPGEffects (defaultCNPGEffects L) op parent)"
  unfolding applyTerminalCNPGEffects_def hasOtherActiveMatchingImpactOps_def
  by (auto simp: bind_assoc intro!: within_steps within_stage [OF within_effects(1)] within_mono [OF within_effects(2)])

lemma within_ref: "within (2 * attempts L) (syncParentActiveOperationRef L op b)"
  unfolding syncParentActiveOperationRef_def
  by (auto split: sum.splits intro!: within_attempts within_intros)

lemma within_side: "within (2 * attempts L + 6) (syncParentSideEffects L (defaultCNPGEffects L) op)"
  unfolding syncParentSideEffects_def
  by (auto split: sum.splits intro!: within_stage [OF within_ref] within_steps within_mono [OF within_terminal] within_mono [OF within_ref])

lemma within_fail: "within (2 * attempts L + 8) (failOperation L (defaultCNPGEffects L) op r m)"
  unfolding failOperation_def
  by (auto intro!: within_steps within_mono [OF within_side])

lemma within_patch: "within (2 * attempts L) (patchParentRebuildStatus L parent)"
  unfolding patchParentRebuildStatus_def Let_def by (auto intro!: within_attempts within_intros)


lemma within_claim: "within (5 * attempts L + 8) (claimWritePlane L (defaultCNPGEffects L) op)"
proof -
  have "within 3 (claimAttempt op)"
    unfolding claimAttempt_def listPeersForNominatim_def Let_def bind_assoc
    by (auto split: write_plane_decision.splits option.splits sum.splits intro!: within_intros)
  from within_attempts [OF this] show ?thesis
    unfolding claimWritePlane_def
    by (auto split: claim_outcome.splits intro!: within_stage [of "3 * attempts L"] within_stage [OF within_fail])
qed

lemma within_gates: "within (2 * attempts L + 8) (enforceRegionGates L (defaultCNPGEffects L) op parent peers)"
  unfolding enforceRegionGates_def by (auto intro!: within_stage [OF within_fail])

lemma within_staging: "within 2 (ensureStagingPVC L op staging)"
  unfolding ensureStagingPVC_def by (auto split: sum.splits intro!: within_intros)

lemma within_prejob: "within 4 (applyPreJobCNPGEffects (defaultCNPGEffects L) op parent)"
  unfolding applyPreJobCNPGEffects_def
  by (auto intro!: within_stage [OF within_effects(1)] within_mono [OF within_effects(2)])

lemma within_annotations: "within (2 * attempts L) (patchRebuildResetAnnotations L op a b)"
  unfolding patchRebuildResetAnnotations_def Let_def by (auto intro!: within_attempts within_intros)

lemma within_quiesced: "within (2 * attempts L + 1) (apiQuiescedForRebuild L parent)"
  unfolding apiQuiescedForRebuild_def Let_def
  by (auto split: sum.splits intro!: within_steps within_stage [of "2 * attempts L"] within_attempts)

lemma within_drop: "within (4 * attempts L + 2) (dropDatabase L op parent db)"
proof -
  have "within (2 * attempts L) (ensureDatabaseReclaimDelete L db)"
    unfolding ensureDatabaseReclaimDelete_def by (auto intro!: within_attempts within_intros)
  then show ?thesis
    unfolding dropDatabase_def Let_def
    by (auto split: sum.splits intro!: within_stage [of "2 * attempts L"] within_steps within_mono [OF within_annotations])
qed

lemma within_database: "within (attempts L) (ensureOwnedCNPGDatabase L parent n)"
  unfolding ensureOwnedCNPGDatabase_def Let_def by (simp add: within_attempts [of 1, simplified])

lemma within_reset: "within (6 * attempts L + 4) (ensureRebuildDatabaseReset L op parent)"
proof -
  have "within (4 * attempts L + 3) (resetDatabase L op parent)"
    unfolding resetDatabase_def Let_def
    by (auto split: sum.splits option.splits bool.splits
        intro!: within_steps within_stage [OF within_annotations] within_stage [OF within_drop] within_stage [OF within_database])
  from within_mono [OF this] show ?thesis
    unfolding ensureRebuildDatabaseReset_def by (auto intro!: within_stage [OF within_quiesced])
qed

lemma within_applied: "within 1 (cnpgOwnedDatabaseApplied L ns n)"
  unfolding cnpgOwnedDatabaseApplied_def by (auto split: sum.splits option.splits intro!: within_intros)

lemma within_ready: "within 2 (cnpgClusterReadyForJobs L parent)"
  unfolding cnpgClusterReadyForJobs_def getCNPGCluster_def Let_def
  by (auto split: sum.splits option.splits intro!: within_intros within_mono [OF within_applied])

lemma within_pending: "within (6 * attempts L + 7) (ensureBlueGreenPending L op parent)"
proof -
  have "within 2 (reconcilePVC L parent vs n c)" for vs n c parent
    unfolding reconcilePVC_def Let_def by (auto split: option.splits sum.splits intro!: within_intros)
  note pvc = this
  have "within 3 (blueGreenPendingReady L ns n)" for ns n
    unfolding blueGreenPendingReady_def by (auto split: option.splits sum.splits intro!: within_intros within_mono [OF within_applied])
  note ready = within_stage [OF this]
  have "within (attempts L) (ensureOwnedCNPGCluster L parent n)" for n parent
    unfolding ensureOwnedCNPGCluster_def by (auto simp: within_attempts [of 1, simplified] split: option.splits)
  note cluster = within_stage [OF this]
  have seeded: "within (2 * attempts L) (case in_rebuild parent of
             None \<Rightarrow> patchParentRebuildStatus L (set_rebuild (Some (seedBlueGreenRebuildStatus parent op)) parent)
           | Some _ \<Rightarrow> Ret parent)" for parent
    by (auto split: option.splits intro: within_patch)
  have named: "within (2 * attempts L) (case in_rebuild parent of
             None \<Rightarrow> Fail (Panic ''nil pointer dereference'')
           | Some rb \<Rightarrow>
               if rb_pending_cluster rb = ''''
               then let pending = BlueGreenClusterName parent in
                 patchParentRebuildStatus L
                   (set_rebuild (Some (rb\<lparr>rb_pending_cluster := pending, rb_pending_secret := CNPGAppSecretName pending\<rparr>)) parent)
               else Ret parent)" for parent
    by (auto simp: Let_def split: option.splits intro: within_patch)
  have flatnode: "within 2 (case sp_flatnode (in_spec parent) of
             None \<Rightarrow> Ret ''''
           | Some vs \<Rightarrow> wrap_error ''blue/green flatnode PVC''
                 (reconcilePVC L parent vs (BlueGreenFlatnodePVCName parent) ComponentFlatnode))" for parent
    by (auto split: option.splits intro: pvc)
  show ?thesis
    unfolding ensureBlueGreenPending_def Let_def [of "case _ of Some rb \<Rightarrow> _ rb | None \<Rightarrow> _"]
    by (auto intro!: within_stage [OF seeded] within_stage [OF named] ready cluster within_stage [OF within_database]
        within_stage [OF flatnode] within_stage [of 2] pvc)
qed

lemma within_wait: "within (14 * attempts L + 14) (waitForJobPrerequisites L op parent)"
proof -
  have importing: "within (2 * attempts L) (case in_rebuild parent of
               None \<Rightarrow> Ret parent
             | Some rb \<Rightarrow>
                 bind (attempt (patchParentRebuildStatus L (set_rebuild (Some (rb\<lparr>rb_phase := Importing\<rparr>)) parent))) (\<lambda>r.
                   case r of Inl _ \<Rightarrow> Ret (set_rebuild (Some (rb\<lparr>rb_phase := Importing\<rparr>)) parent) | Inr p \<Rightarrow> Ret p))" for parent
    by (auto split: option.splits sum.splits intro!: within_stage [of "2 * attempts L"] within_patch)
  show ?thesis
    unfolding waitForJobPrerequisites_def Let_def
    by (auto split: sum.splits
        intro!: within_stage [OF within_pending] within_stage [OF importing] within_steps within_stage [OF within_reset] within_stage [OF within_ready])
qed

lemma within_swap: "within (4 * attempts L + 14) (reconcileBlueGreenAfterImport L (defaultCNPGEffects L) op parent)"
proof -
  have "within 4 (applyBlueGreenActions parent act retired out)" for parent act retired out
    unfolding applyBlueGreenActions_def Let_def deleteOwnedClusterBundle_def
    by (auto split: option.splits intro!: within_stage [of 2] within_intros)
  note actions = within_stage [OF this]
  have sync: "within (2 * attempts L + 8) (syncBlueGreenOperationStatus L (defaultCNPGEffects L) op rb out)" for rb out
    unfolding syncBlueGreenOperationStatus_def Let_def
    by (auto split: rebuild_phase.splits intro!: within_steps within_stage [OF within_fail])
  have "within 1 (clusterGone ns n)" for ns n
    unfolding clusterGone_def by (auto split: sum.splits intro!: within_steps)
  then have gone: "within 1 (if b then bind (clusterGone ns n) (\<lambda>g. Ret (f g)) else Ret z)"
    for b ns n and f :: "bool \<Rightarrow> blue_green_input" and z
    by (auto intro: within_stage [of 1])
  show ?thesis
    unfolding reconcileBlueGreenAfterImport_def Let_def
    by (auto split: prod.splits option.splits
        intro!: within_steps within_stage [OF gone] actions within_stage [OF within_patch] within_mono [OF sync])
qed

lemma within_job: "within (4 * attempts L + 19) (reconcileJob L (defaultCNPGEffects L) op parent)"
proof -
  have ensure: "within 2 (ensureJob L op parent)"
    unfolding ensureJob_def by (auto split: sum.splits intro!: within_steps within_stage [of 0])
  have sync: "within 3 (syncStatusFromJob op)" for op
    unfolding syncStatusFromJob_def write_job_status_def Let_def
    by (auto split: sum.splits option.splits intro!: within_intros within_stage [of 1])
  show ?thesis
    unfolding reconcileJob_def
    by (auto intro!: within_stage [OF ensure] within_stage [OF sync] within_mono [OF within_swap] within_stage [OF within_side])
qed

lemma within_active: "within (25 * attempts L + 56) (reconcileActive L (defaultCNPGEffects L) op parent)"
proof -
  have prepared: "within (18 * attempts L + 33) (reconcilePrepared L (defaultCNPGEffects L) op parent)" for op parent
    unfolding reconcilePrepared_def
    by (auto split: option.splits intro!: within_stage [OF within_wait] within_mono [OF within_job])
  have claimed: "within (20 * attempts L + 47) (reconcileClaimed L (defaultCNPGEffects L) op parent peers)" for op parent peers
    unfolding reconcileClaimed_def
    by (auto intro!: within_stage [OF within_gates] within_stage [OF within_staging] within_stage [OF within_prejob] within_mono [OF prepared])
  show ?thesis
    unfolding reconcileActive_def
    by (auto split: option.splits intro!: within_steps within_stage [OF within_claim] within_mono [OF claimed])
qed

lemma within_operation: "within (25 * attempts L + 60) (reconcileOperation L (defaultCNPGEffects L) req)"
proof -
  have delete: "within (2 * attempts L + 7) (reconcileOperationDelete L (defaultCNPGEffects L) op)" for op
    unfolding reconcileOperationDelete_def bind_assoc
    by (auto split: sum.splits intro!: within_stage [OF within_ref] within_steps within_stage [of 6] within_mono [OF within_terminal])
  have sync: "within 3 (syncStatusFromJob op)" for op
    unfolding syncStatusFromJob_def write_job_status_def Let_def
    by (auto split: sum.splits option.splits intro!: within_intros within_stage [of 1])
  have finished: "within (2 * attempts L + 9) (reconcileTerminalOperation L (defaultCNPGEffects L) op)" for op
    unfolding reconcileTerminalOperation_def by (auto intro!: within_stage [OF sync] within_stage [OF within_side])
  have owner: "within 1 (ensureOperationOwnerRef L op parent)" for op parent
    unfolding ensureOperationOwnerRef_def by (auto intro!: within_intros)
  have live: "within (25 * attempts L + 58) (reconcileLive L (defaultCNPGEffects L) op)" for op
    unfolding reconcileLive_def
    by (auto split: sum.splits intro!: within_mono [OF finished] within_stage [OF within_fail] within_steps within_stage [OF owner]
        within_mono [OF within_active])
  show ?thesis
    unfolding reconcileOperation_def
    by (auto split: sum.splits intro!: within_steps within_mono [OF delete] within_stage [of 0] within_mono [OF live])
qed

lemma within_play: "within n p \<Longrightarrow> n \<le> length xs \<Longrightarrow> \<exists>t r. play p xs = (t, Done r) \<and> length t \<le> n"
proof (induction p arbitrary: n xs)
  case (Call q k)
  then obtain x ys where xs: "xs = x # ys" by (cases xs) auto
  have "within (n - 1) (k x)" "n - 1 \<le> length ys" using Call.prems by (auto simp: xs)
  from Call.IH [OF rangeI this] obtain t r where "play (k x) ys = (t, Done r)" "length t \<le> n - 1" by blast
  with Call.prems show ?case by (auto simp: xs)
qed simp_all



section \<open>How long a pass waits\<close>

definition sane_delay :: "error + int \<Rightarrow> bool" where
  "sane_delay r = (case r of Inl e \<Rightarrow> True | Inr d \<Rightarrow> d = 0 \<or> 5 * second \<le> d)"

lemma sane_delay_simps [simp]: "sane_delay (Inl e)" "sane_delay (Inr d) \<longleftrightarrow> d = 0 \<or> 5 * second \<le> d"
  by (simp_all add: sane_delay_def)

lemma delay_bind:
  "(\<And>h a. wp (\<lambda>_ _. True) (\<lambda>_. sane_delay) h (f a)) \<Longrightarrow> wp (\<lambda>_ _. True) (\<lambda>_. sane_delay) h (bind p f)"
  by (rule wp_seq_any [OF wp_triv]) simp_all

lemma delay_step:
  "wp (\<lambda>_ _. True) (\<lambda>_ r. case r of Inl e \<Rightarrow> True | Inr a \<Rightarrow> S a) h p \<Longrightarrow>
   (\<And>h a. S a \<Longrightarrow> wp (\<lambda>_ _. True) (\<lambda>_. sane_delay) h (f a)) \<Longrightarrow> wp (\<lambda>_ _. True) (\<lambda>_. sane_delay) h (bind p f)"
  unfolding wp_bind by (erule wp_mono) (simp_all split: sum.splits)

lemma step_bind:
  "(\<And>h a. wp (\<lambda>_ _. True) (\<lambda>_ r. case r of Inl e \<Rightarrow> True | Inr a \<Rightarrow> S a) h (f a)) \<Longrightarrow>
   wp (\<lambda>_ _. True) (\<lambda>_ r. case r of Inl e \<Rightarrow> True | Inr a \<Rightarrow> S a) h (bind p f)"
  by (rule wp_seq_any [OF wp_triv]) simp_all

lemma second_pos [simp]: "0 < second"
  by (simp add: second_def)

lemma sync_delay: "wp (\<lambda>_ _. True) (\<lambda>_. sane_delay) h (syncBlueGreenOperationStatus L E op rb out)"
  unfolding syncBlueGreenOperationStatus_def Let_def by (auto split: rebuild_phase.splits intro!: delay_bind)

lemma after_import_delay: "wp (\<lambda>_ _. True) (\<lambda>_. sane_delay) h (reconcileBlueGreenAfterImport L E op parent)"
  unfolding reconcileBlueGreenAfterImport_def Let_def
  by (auto split: prod.splits option.splits intro!: delay_bind sync_delay)

lemma claim_delay:
  "wp (\<lambda>_ _. True) (\<lambda>_ r. case r of Inl e \<Rightarrow> True | Inr a \<Rightarrow> (case a of None \<Rightarrow> True | Some d \<Rightarrow> sane_delay (Inr d))) h (claimWritePlane L E op)"
  unfolding claimWritePlane_def
  by (auto split: claim_outcome.splits simp: writePlaneRequeueDelay_def intro!: step_bind)

lemma wait_delay:
  "wp (\<lambda>_ _. True) (\<lambda>_ r. case r of Inl e \<Rightarrow> True | Inr a \<Rightarrow> (case a of (w, _, _) \<Rightarrow> (case w of None \<Rightarrow> True | Some d \<Rightarrow> sane_delay (Inr d)))) h
    (waitForJobPrerequisites L op parent)"
  unfolding waitForJobPrerequisites_def Let_def
  by (auto split: sum.splits option.splits intro!: step_bind)

lemma active_delay: "wp (\<lambda>_ _. True) (\<lambda>_. sane_delay) h (reconcileActive L E op parent)"
proof -
  have job: "wp (\<lambda>_ _. True) (\<lambda>_. sane_delay) h (reconcileJob L E op parent)" for h op parent
    unfolding reconcileJob_def by (auto intro!: delay_bind after_import_delay)
  have "wp (\<lambda>_ _. True) (\<lambda>_. sane_delay) h (reconcilePrepared L E op parent)" for h
    unfolding reconcilePrepared_def by (rule delay_step [OF wait_delay]) (auto split: option.splits intro: job)
  then have "wp (\<lambda>_ _. True) (\<lambda>_. sane_delay) h (reconcileClaimed L E op parent peers)" for h peers
    unfolding reconcileClaimed_def by (auto intro!: delay_bind)
  then show ?thesis
    unfolding reconcileActive_def
    by (intro delay_bind delay_step [OF claim_delay]) (auto split: option.splits)
qed

text \<open>C20. A pass that ends without an error asks for no further pass, or for one in five seconds or more: the
  delay is never negative and never so short that the controller spins.\<close>

theorem requeue_bounded:
  assumes "play (reconcileOperation L E req) xs = (t, Done (Inr d))"
  shows "d = 0 \<or> 5 * second \<le> d"
proof -
  have deleted: "wp (\<lambda>_ _. True) (\<lambda>_. sane_delay) h (reconcileOperationDelete L E op)" for h op
    unfolding reconcileOperationDelete_def by (auto intro!: delay_bind)
  have finished: "wp (\<lambda>_ _. True) (\<lambda>_. sane_delay) h (reconcileTerminalOperation L E op)" for h op
    unfolding reconcileTerminalOperation_def by (auto intro!: delay_bind)
  have "wp (\<lambda>_ _. True) (\<lambda>_. sane_delay) [] (reconcileOperation L E req)"
    unfolding reconcileOperation_def reconcileLive_def
    by (auto split: sum.splits intro!: delay_bind deleted finished active_delay)
  from wp_play_result [OF this assms] show ?thesis by simp
qed


theorem requeue_bounded_witness:
  "\<exists>t. play (reconcileOperation sample_lib (defaultCNPGEffects sample_lib) (''ns'', ''op''))
      [RObject (OOperation bootstrap_op), RVersion ''1'', RObject (OInstance sample_instance), RVersion ''2'',
       ROperations [], ROperations [sample_operation ''a'' Bootstrap Pending []]] = (t, Done (Inr (15 * second))) \<and>
     (15 * second = 0 \<or> 5 * second \<le> 15 * second)"
proof -
  have run: "\<exists>e1 e2 e3 e4 e5 e6. play (reconcileOperation sample_lib (defaultCNPGEffects sample_lib) (''ns'', ''op''))
      [RObject (OOperation bootstrap_op), RVersion ''1'', RObject (OInstance sample_instance), RVersion ''2'',
       ROperations [], ROperations [sample_operation ''a'' Bootstrap Pending []]] =
      ([e1, e2, e3, e4, e5, e6], Done (Inr (15 * second)))"
    by (simp add: reconcileOperation_def reconcileLive_def pass_defs play_simps eval_nat_numeral Let_def sample_facts ensureOperationOwnerRef_def
        own_meta_def contains_fin_def add_fin_def update_operation_def isTerminalOperationPhase_def
        evaluate_peer_def operationsMutexConflict_def peerHoldsWritePlane_def writePlaneRequeueDelay_def)
  then obtain e1 e2 e3 e4 e5 e6 where "play (reconcileOperation sample_lib (defaultCNPGEffects sample_lib) (''ns'', ''op''))
      [RObject (OOperation bootstrap_op), RVersion ''1'', RObject (OInstance sample_instance), RVersion ''2'',
       ROperations [], ROperations [sample_operation ''a'' Bootstrap Pending []]] =
      ([e1, e2, e3, e4, e5, e6], Done (Inr (15 * second)))" by (elim exE)
  with requeue_bounded [OF this] show ?thesis by blast
qed

end
