(* ===== verification/OperationSafety.thy ===== *)
theory OperationSafety
  imports OperationReconcile
begin

text \<open>
  What one pass of the Operation controller may do: when the database of a Rebuild is dropped and when
  its reset counts as done, what the Job says of the status, when the finalizer goes, and what a pass of
  a finished Operation leaves alone.
\<close>

section \<open>The reset of the database\<close>

text \<open>The API of the instance was seen to be gone or scaled down, with no pod left.\<close>

definition saw_quiet_api :: "nominatim_instance \<Rightarrow> trace \<Rightarrow> bool" where
  "saw_quiet_api parent h =
     (\<exists>x. (Get KDeployment (in_namespace parent, APIName parent), x) \<in> set h \<and>
        ((\<exists>e. x = RError e \<and> is_not_found e) \<or>
         (\<exists>d. x = RObject (ODeployment d) \<and> de_replicas d = Some 0 \<and> de_status_replicas d \<le> 0 \<and>
            de_ready_replicas d \<le> 0 \<and> de_available_replicas d \<le> 0)))"

text \<open>A Rebuild that works in place on a database of the operator, not yet reset.\<close>

definition reset_wanted :: "nominatim_operation \<Rightarrow> nominatim_instance \<Rightarrow> bool" where
  "reset_wanted op parent =
     (op_type_of op = Rebuild \<and> \<not> usesBlueGreenRebuild parent \<and>
      (db_cluster (sp_database (in_spec parent)) \<noteq> None \<or> ds_mode (in_database parent) = ClusterManaged) \<and>
      map_get (om_annotations (op_meta op)) annotationRebuildDBReset \<noteq> rebuildDBResetDone)"

text \<open>The reclaim policy of the Database was seen to be delete, or a write of it was accepted.\<close>

definition saw_reclaim :: "lib \<Rightarrow> nominatim_instance \<Rightarrow> trace \<Rightarrow> bool" where
  "saw_reclaim L parent h =
     (\<exists>kd db q x. nested_string L (un_object db) [''spec'', ''databaseReclaimPolicy''] = Inr (Some cnpgDatabaseReclaimDelete) \<and>
        (q, x) \<in> set h \<and>
        (q = Get KDatabase (in_namespace parent, OwnedCNPGDatabaseName parent) \<and> x = RObject (OUnstructured kd db) \<or>
         q = UpdateObj (OUnstructured KDatabase db) \<and> (\<forall>e. x \<noteq> RError e)))"

definition saw_database :: "nominatim_instance \<Rightarrow> key \<Rightarrow> trace \<Rightarrow> bool" where
  "saw_database parent k h =
     (\<exists>kd db. (Get KDatabase (in_namespace parent, OwnedCNPGDatabaseName parent), RObject (OUnstructured kd db)) \<in> set h \<and>
        k = (om_namespace (un_meta db), om_name (un_meta db)))"

definition drop_request :: "lib \<Rightarrow> nominatim_operation \<Rightarrow> nominatim_instance \<Rightarrow> trace \<Rightarrow> request \<Rightarrow> bool" where
  "drop_request L op parent h q =
     (\<forall>kd k. q = Delete kd k \<longrightarrow>
        kd = KDatabase \<and> reset_wanted op parent \<and> saw_database parent k h \<and>
        map_get (om_annotations (op_meta op)) annotationRebuildDBPrevUID = '''' \<and>
        saw_quiet_api parent h \<and> saw_reclaim L parent h)"

lemma drop_request_simps [simp]:
  "drop_request L op parent h (Get kd k)" "drop_request L op parent h (UpdateObj x)" "drop_request L op parent h (CreateOrUpdate x f)"
  by (simp_all add: drop_request_def)

lemma quiet_grows: "prefix h h' \<Longrightarrow> saw_quiet_api parent h \<Longrightarrow> saw_quiet_api parent h'"
  "prefix h h' \<Longrightarrow> saw_reclaim L parent h \<Longrightarrow> saw_reclaim L parent h'"
  using set_mono_prefix unfolding saw_quiet_api_def saw_reclaim_def by blast+

lemma wp_quiesced:
  "wp (drop_request L op parent) (\<lambda>h r. case r of Inl e \<Rightarrow> True | Inr b \<Rightarrow> b \<longrightarrow> saw_quiet_api parent h) h (apiQuiescedForRebuild L parent)"
proof -
  have down: "wp (drop_request L op parent) (\<lambda>_ _. True) h (retry_on_conflict (retries L)
      (bind (attempt (get_deployment key)) (\<lambda>r.
         case r of
           Inl e \<Rightarrow> if is_not_found e then Ret () else Fail e
         | Inr current \<Rightarrow>
             if de_replicas current = Some 0 then Ret ()
             else update_obj (ODeployment (current\<lparr>de_replicas := Some 0\<rparr>)))))" for h key
    by (auto split: sum.splits intro!: wp_any)
  show ?thesis
    unfolding apiQuiescedForRebuild_def Let_def
    by (auto simp: wp_bind [of _ _ _ "attempt _"] wp_attempt wp_call saw_quiet_api_def dest!: bad_response
        split: sum.splits intro!: wp_seq_any [OF down])
qed

text \<open>The Database after its policy was ensured.\<close>

lemma wp_reclaim:
  assumes "lib_fields L"
    and "(Get KDatabase (in_namespace parent, OwnedCNPGDatabaseName parent), RObject (OUnstructured kd db)) \<in> set h"
  shows "wp (drop_request L op parent) (\<lambda>h r. case r of Inl e \<Rightarrow> True | Inr u \<Rightarrow> saw_reclaim L parent h) h (ensureDatabaseReclaimDelete L db)"
proof (cases "nested_string L (un_object db) [''spec'', ''databaseReclaimPolicy''] = Inr (Some cnpgDatabaseReclaimDelete)")
  case True
  with assms(2) show ?thesis by (auto simp: ensureDatabaseReclaimDelete_def saw_reclaim_def)
next
  case False
  then show ?thesis
    unfolding ensureDatabaseReclaimDelete_def if_not_P [OF False]
    by (intro wp_retry [where I = "\<lambda>_. True"])
       (auto simp: wp_simps saw_reclaim_def split: sum.splits dest!: set_field_reads(1) [OF assms(1) _ refl])
qed

lemma wp_patch_annotations:
  "wp (drop_request L op' parent) (\<lambda>_ _. True) h (patchRebuildResetAnnotations L op a b)"
  unfolding patchRebuildResetAnnotations_def Let_def by (intro wp_any any_update_status) simp_all

lemma wp_dropDatabase:
  assumes "lib_fields L" and "saw_quiet_api parent h" and "reset_wanted op parent"
    and "map_get (om_annotations (op_meta op)) annotationRebuildDBPrevUID = ''''"
    and "(Get KDatabase (in_namespace parent, OwnedCNPGDatabaseName parent), RObject (OUnstructured kd db)) \<in> set h"
  shows "wp (drop_request L op parent) (\<lambda>_ _. True) h (dropDatabase L op parent db)"
proof -
  have delete: "drop_request L op parent h' (Delete KDatabase k)"
    if "prefix h h'" "saw_reclaim L parent h'" "saw_database parent k h'" for h' k
    using that assms quiet_grows(1) by (auto simp: drop_request_def)
  have fresh: "wp (drop_request L op parent) (\<lambda>_ _. True) h'
     (bind (attempt (get_unstructured KDatabase (in_namespace parent, dbName))) (\<lambda>r.
        case r of
          Inl e \<Rightarrow> if is_not_found e then patchRebuildResetAnnotations L op rebuildDBResetPending uid else Fail e
        | Inr fresh \<Rightarrow>
            bind (attempt (delete KDatabase (om_namespace (un_meta fresh), om_name (un_meta fresh)))) (\<lambda>r.
              case r of
                Inl e \<Rightarrow>
                  if is_not_found e then patchRebuildResetAnnotations L op rebuildDBResetPending uid
                  else Fail (Wrap (''delete owned CNPG Database '' @ quote dbName @ '' for Rebuild'') e)
              | Inr _ \<Rightarrow> patchRebuildResetAnnotations L op rebuildDBResetPending uid)))"
    if "prefix h h'" "saw_reclaim L parent h'" "dbName = OwnedCNPGDatabaseName parent" for h' dbName uid
  proof (rule wp_seq)
    show "wp (drop_request L op parent) (\<lambda>h r. case r of Inl e \<Rightarrow> True
        | Inr r \<Rightarrow> (case r of Inl e \<Rightarrow> True | Inr u \<Rightarrow> dbName = OwnedCNPGDatabaseName parent \<longrightarrow>
            saw_database parent (om_namespace (un_meta u), om_name (un_meta u)) h)) h'
      (attempt (get_unstructured KDatabase (in_namespace parent, dbName)))"
      by (auto simp: wp_attempt wp_call saw_database_def split: sum.splits)
    fix h'' and r :: "error + unstructured"
    assume p: "prefix h' h''" and seen: "case r of Inl e \<Rightarrow> True | Inr u \<Rightarrow> dbName = OwnedCNPGDatabaseName parent \<longrightarrow>
      saw_database parent (om_namespace (un_meta u), om_name (un_meta u)) h''"
    with that have "prefix h h''" "saw_reclaim L parent h''" using prefix_order.trans quiet_grows(2) by blast+
    note del = delete [OF this]
    then show "wp (drop_request L op parent) (\<lambda>_ _. True) h''
      (case r of
          Inl e \<Rightarrow> if is_not_found e then patchRebuildResetAnnotations L op rebuildDBResetPending uid else Fail e
        | Inr fresh \<Rightarrow>
            bind (attempt (delete KDatabase (om_namespace (un_meta fresh), om_name (un_meta fresh)))) (\<lambda>r.
              case r of
                Inl e \<Rightarrow>
                  if is_not_found e then patchRebuildResetAnnotations L op rebuildDBResetPending uid
                  else Fail (Wrap (''delete owned CNPG Database '' @ quote dbName @ '' for Rebuild'') e)
              | Inr _ \<Rightarrow> patchRebuildResetAnnotations L op rebuildDBResetPending uid))"
      using seen that(3) by (auto split: sum.splits intro!: wp_any wp_patch_annotations wp_seq_any)
  qed simp_all
  show ?thesis
    unfolding dropDatabase_def Let_def by (rule wp_seq [OF wp_reclaim [OF assms(1,5)]]) (auto intro: fresh)
qed

lemma wp_resetDatabase:
  assumes "lib_fields L" and "saw_quiet_api parent h" and "reset_wanted op parent"
  shows "wp (drop_request L op parent) (\<lambda>_ _. True) h (resetDatabase L op parent)"
proof -
  have owned: "wp (drop_request L op parent) (\<lambda>_ _. True) h (ensureOwnedCNPGDatabase L parent n)" for h n
    unfolding ensureOwnedCNPGDatabase_def Let_def by (auto intro!: wp_any)
  show ?thesis
    unfolding resetDatabase_def Let_def wp_bind [of _ _ _ "attempt _"] wp_attempt wp_call
    by (auto split: sum.splits option.splits bool.splits intro!: wp_any wp_patch_annotations owned
        wp_dropDatabase [OF assms(1) quiet_grows(1) [OF _ assms(2)] assms(3)])
qed

text \<open>C2. The Database of an instance is deleted only for a Rebuild that works in place on a database of the
  operator and has not recorded a database to replace yet, after the API was seen to be gone or scaled to zero
  without pods, the Database was read under its name, and its reclaim policy was seen to be or written as delete.\<close>

theorem database_dropped_quiesced:
  assumes "lib_fields L"
    and "play (ensureRebuildDatabaseReset L op parent) xs = (t1 @ (Delete kd k, x) # t2, out)"
  shows "kd = KDatabase \<and> reset_wanted op parent \<and> saw_database parent k t1 \<and>
    map_get (om_annotations (op_meta op)) annotationRebuildDBPrevUID = '''' \<and> saw_quiet_api parent t1 \<and> saw_reclaim L parent t1"
proof -
  have "wp (drop_request L op parent) (\<lambda>_ _. True) [] (ensureRebuildDatabaseReset L op parent)"
  proof (cases "reset_wanted op parent")
    case True
    then show ?thesis
      unfolding ensureRebuildDatabaseReset_def
      by (auto intro!: wp_seq [OF wp_quiesced] wp_resetDatabase assms(1))
  next
    case False
    then show ?thesis by (auto simp: ensureRebuildDatabaseReset_def reset_wanted_def)
  qed
  from wp_play_guard [OF this assms(2)] show ?thesis unfolding drop_request_def by blast
qed

text \<open>A Rebuild in place of an instance with an owned cluster, its API gone.\<close>

definition rebuilding_instance :: nominatim_instance where
  "rebuilding_instance = sample_instance\<lparr>in_spec := sample_spec\<lparr>sp_database := sample_database\<lparr>db_cluster := Some sample_create\<rparr>\<rparr>\<rparr>"

definition rebuilt_database :: unstructured where
  "rebuilt_database = \<lparr>un_meta = new_meta ''inst-db'' ''ns'',
     un_object = JObject [(''spec'', JObject [(''databaseReclaimPolicy'', JString ''delete'')]), (''status'', JObject [(''applied'', JBool True)])]\<rparr>"

definition resetting_op :: nominatim_operation where
  "resetting_op = (let op = sample_operation ''op'' Rebuild Running [] in
     op\<lparr>op_meta := (op_meta op)\<lparr>om_annotations := [(annotationRebuildDBPrevUID, rebuildDBPrevUIDNone)]\<rparr>\<rparr>)"

lemma rebuilding_facts [simp]:
  "\<not> usesBlueGreenRebuild rebuilding_instance" "db_cluster (sp_database (in_spec rebuilding_instance)) = Some sample_create"
  "in_meta rebuilding_instance = new_meta ''inst'' ''ns''"
  by (simp_all add: rebuilding_instance_def usesBlueGreenRebuild_def EffectiveRebuildStrategy_def sample_simps)

lemma resetting_facts [simp]:
  "op_type_of resetting_op = Rebuild" "map_get (om_annotations (op_meta resetting_op)) annotationRebuildDBReset = ''''"
  "map_get (om_annotations (op_meta resetting_op)) annotationRebuildDBPrevUID = rebuildDBPrevUIDNone"
  "reset_wanted resetting_op rebuilding_instance"
  by (simp_all add: resetting_op_def Let_def map_get_def annotationRebuildDBReset_def annotationRebuildDBPrevUID_def reset_wanted_def
      rebuildDBResetDone_def)

theorem database_dropped_quiesced_witness:
  "\<exists>t1 x t2 out. play (ensureRebuildDatabaseReset sample_lib (sample_operation ''op'' Rebuild Running []) rebuilding_instance)
       [RError ErrNotFound, RObject (OUnstructured KDatabase rebuilt_database), RObject (OUnstructured KDatabase rebuilt_database), ROk] =
     (t1 @ (Delete KDatabase (''ns'', ''inst-db''), x) # t2, out) \<and> saw_quiet_api rebuilding_instance t1"
proof -
  let ?p = "play (ensureRebuildDatabaseReset sample_lib (sample_operation ''op'' Rebuild Running []) rebuilding_instance)
       [RError ErrNotFound, RObject (OUnstructured KDatabase rebuilt_database), RObject (OUnstructured KDatabase rebuilt_database), ROk]"
  have "\<exists>e1 e2 e3 out. ?p = ([e1, e2, e3] @ (Delete KDatabase (''ns'', ''inst-db''), ROk) # [], out)"
    by (simp add: ensureRebuildDatabaseReset_def apiQuiescedForRebuild_def resetDatabase_def dropDatabase_def Let_def
        ensureDatabaseReclaimDelete_def rebuilt_database_def nested_as_def cnpgDatabaseReclaimDelete_def map_get_def rebuildDBResetDone_def
        patchRebuildResetAnnotations_def eval_nat_numeral play_simps)
  then obtain e1 e2 e3 out where run: "?p = ([e1, e2, e3] @ (Delete KDatabase (''ns'', ''inst-db''), ROk) # [], out)" by (elim exE)
  from database_dropped_quiesced [OF sample_lib_ok(3) run] have "saw_quiet_api rebuilding_instance [e1, e2, e3]" by blast
  with run show ?thesis by blast
qed

text \<open>A database that replaces the recorded one was seen, with its roles and extensions applied.\<close>

definition saw_fresh_database :: "lib \<Rightarrow> nominatim_operation \<Rightarrow> nominatim_instance \<Rightarrow> trace \<Rightarrow> bool" where
  "saw_fresh_database L op parent h =
     (\<exists>kd db. (Get KDatabase (in_namespace parent, OwnedCNPGDatabaseName parent), RObject (OUnstructured kd db)) \<in> set h \<and>
        nested_bool L (un_object db) [''status'', ''applied''] = Inr (Some True) \<and>
        map_get (om_annotations (op_meta op)) annotationRebuildDBPrevUID \<noteq> '''' \<and>
        (map_get (om_annotations (op_meta op)) annotationRebuildDBPrevUID = rebuildDBPrevUIDNone \<or>
         om_uid (un_meta db) \<noteq> map_get (om_annotations (op_meta op)) annotationRebuildDBPrevUID))"

definition reset_result ::
  "lib \<Rightarrow> nominatim_operation \<Rightarrow> nominatim_instance \<Rightarrow> trace \<Rightarrow> error + bool \<times> nominatim_operation \<Rightarrow> bool" where
  "reset_result L op parent h r =
     (\<forall>op'. r = Inr (True, op') \<longrightarrow> saw_fresh_database L op parent h \<and>
        map_get (om_annotations (op_meta op')) annotationRebuildDBReset = rebuildDBResetDone)"

lemma reset_result_simps [simp]:
  "reset_result L op parent h (Inl e)" "reset_result L op parent h (Inr (False, op'))"
  by (simp_all add: reset_result_def)

lemma wp_patched:
  "wp (\<lambda>_ _. True) (\<lambda>h r. case r of Inl e \<Rightarrow> True
     | Inr op' \<Rightarrow> map_get (om_annotations (op_meta op')) annotationRebuildDBReset = reset) h (patchRebuildResetAnnotations L op reset uid)"
  unfolding patchRebuildResetAnnotations_def Let_def
  by (rule wp_retry [where I = "\<lambda>_. True"])
     (auto simp: wp_simps annotationRebuildDBReset_def annotationRebuildDBPrevUID_def split: sum.splits response.splits)

lemma saw_fresh_now:
  assumes "nested_bool L (un_object db) [''status'', ''applied''] = Inr (Some True)"
    and "map_get (om_annotations (op_meta op)) annotationRebuildDBPrevUID \<noteq> ''''"
    and "map_get (om_annotations (op_meta op)) annotationRebuildDBPrevUID = rebuildDBPrevUIDNone \<or>
      om_uid (un_meta db) \<noteq> map_get (om_annotations (op_meta op)) annotationRebuildDBPrevUID"
  shows "saw_fresh_database L op parent
    (h @ [(Get KDatabase (in_namespace parent, OwnedCNPGDatabaseName parent), RObject (OUnstructured kd db))])"
  unfolding saw_fresh_database_def using assms by (intro exI [of _ kd] exI [of _ db]) simp

lemma wp_reset_result:
  "wp (\<lambda>_ _. True) (reset_result L op parent) h (resetDatabase L op parent)"
proof -
  have not_yet: "wp (\<lambda>_ _. True) (reset_result L op parent) h (bind p (\<lambda>op. Ret (False, op)))"
    for h and p :: "nominatim_operation prog"
    by (rule wp_seq_any [OF wp_triv]) simp_all
  have ensured: "wp (\<lambda>_ _. True) (reset_result L op parent) h (bind p (\<lambda>_. Ret (False, op)))" for h and p :: "unit prog"
    by (rule wp_seq_any [OF wp_triv]) simp_all
  have reported: "wp (\<lambda>_ _. True) (reset_result L op parent) h
      (bind (patchRebuildResetAnnotations L op rebuildDBResetDone uid) (\<lambda>op. Ret (True, op)))"
    if "saw_fresh_database L op parent h" for h uid
  proof (rule wp_seq [OF wp_patched])
    fix h' and op' :: nominatim_operation
    assume p: "prefix h h'" and a: "map_get (om_annotations (op_meta op')) annotationRebuildDBReset = rebuildDBResetDone"
    have "saw_fresh_database L op parent h'"
      using that set_mono_prefix [OF p] unfolding saw_fresh_database_def by blast
    with a show "wp (\<lambda>_ _. True) (reset_result L op parent) h' (Ret (True, op'))" by (simp add: reset_result_def)
  qed simp
  show ?thesis
    unfolding resetDatabase_def Let_def wp_bind [of _ _ _ "attempt _"] wp_attempt wp_call
    by (auto split: sum.splits option.splits bool.splits intro!: not_yet ensured reported saw_fresh_now)
qed

text \<open>C3. The reset of a Rebuild that needs one is reported done only after a Database other than the recorded
  one was seen applied, with the annotation that says so on the Operation.\<close>

theorem reset_reported_fresh:
  assumes "reset_wanted op parent" and "play (ensureRebuildDatabaseReset L op parent) xs = (t, Done (Inr (True, op')))"
  shows "saw_fresh_database L op parent t \<and> map_get (om_annotations (op_meta op')) annotationRebuildDBReset = rebuildDBResetDone"
proof -
  have "wp (\<lambda>_ _. True) (reset_result L op parent) [] (ensureRebuildDatabaseReset L op parent)"
    using assms(1) unfolding ensureRebuildDatabaseReset_def reset_wanted_def
    by (auto intro!: wp_seq_any [OF wp_triv] wp_reset_result)
  from wp_play_result [OF this assms(2)] show ?thesis by (simp add: reset_result_def)
qed

theorem reset_reported_fresh_witness:
  "\<exists>t op'. play (ensureRebuildDatabaseReset sample_lib resetting_op rebuilding_instance)
       [RError ErrNotFound, RObject (OUnstructured KDatabase rebuilt_database), RObject (OOperation resetting_op), RVersion ''9''] =
     (t, Done (Inr (True, op'))) \<and> saw_fresh_database sample_lib resetting_op rebuilding_instance t"
proof -
  let ?p = "play (ensureRebuildDatabaseReset sample_lib resetting_op rebuilding_instance)
       [RError ErrNotFound, RObject (OUnstructured KDatabase rebuilt_database), RObject (OOperation resetting_op), RVersion ''9'']"
  have "\<exists>t op'. ?p = (t, Done (Inr (True, op')))"
    by (simp add: ensureRebuildDatabaseReset_def apiQuiescedForRebuild_def resetDatabase_def Let_def rebuilt_database_def nested_as_def
        rebuildDBPrevUIDNone_def rebuildDBResetDone_def patchRebuildResetAnnotations_def update_operation_def eval_nat_numeral play_simps)
  then obtain t op' where run: "?p = (t, Done (Inr (True, op')))" by (elim exE)
  from reset_reported_fresh [OF resetting_facts(4) run] run show ?thesis by blast
qed

section \<open>The status from the Job\<close>

text \<open>What the Operation shows of a Job.\<close>

definition job_shown :: "nominatim_operation \<Rightarrow> job \<Rightarrow> nominatim_operation \<Rightarrow> bool" where
  "job_shown op j op' =
     (op_spec op' = op_spec op \<and> op_phase_of op' = phaseFromJob (jo_succeeded j) (jo_failed j) (jo_active j) \<and>
      ot_job_ref (op_status op') = Some (om_name (jo_meta j)) \<and>
      ot_observed_generation (op_status op') = om_generation (op_meta op) \<and>
      (ot_completion (op_status op') \<noteq> None \<longleftrightarrow> op_phase_of op' = Succeeded \<or> op_phase_of op' = Failed) \<and>
      ot_message (op_status op') =
        (if op_phase_of op' = Succeeded then ''Job succeeded'' else if op_phase_of op' = Failed then ''Job failed''
         else if op_phase_of op' = Running then ''Job running'' else ''Job pending''))"

lemma job_status_fields [simp]:
  "op_phase_of (job_status j op) = phaseFromJob (jo_succeeded j) (jo_failed j) (jo_active j)"
  "op_spec (job_status j op) = op_spec op" "op_meta (job_status j op) = op_meta op"
  "ot_job_ref (op_status (job_status j op)) = Some (om_name (jo_meta j))"
  "ot_observed_generation (op_status (job_status j op)) = om_generation (op_meta op)"
  by (simp_all add: job_status_def)

lemma wp_shown:
  "wp (\<lambda>_ _. True) (\<lambda>_ r. case r of Inl e \<Rightarrow> True | Inr op' \<Rightarrow> job_shown op j op') h
    (write_job_status j op)"
proof -
  have finished: "wp (\<lambda>_ _. True) (\<lambda>_ r. case r of Inl e \<Rightarrow> True | Inr c \<Rightarrow> c \<noteq> None) h
      (case jo_completion j of Some t \<Rightarrow> Ret (Some t) | None \<Rightarrow> (case old of Some t \<Rightarrow> Ret (Some t) | None \<Rightarrow> bind now (\<lambda>t. Ret (Some t))))" for old
    by (auto simp: wp_simps split: option.splits sum.splits)
  show ?thesis
    unfolding write_job_status_def Let_def
    by (simp, intro conjI impI; (rule wp_seq [OF finished])?)
       (auto simp: job_shown_def split: response.splits sum.splits)
qed


text \<open>A Job whose pods have both failed and succeeded.\<close>

definition finished_job :: job where
  "finished_job = \<lparr>jo_meta = new_meta ''op'' ''ns'', jo_backoff = Some 2, jo_ttl = None, jo_template_labels = [], jo_pod = empty_pod,
     jo_succeeded = 1, jo_failed = 1, jo_active = 0, jo_start = Some 3, jo_completion = None\<rparr>"


section \<open>Finished and deleted Operations\<close>

text \<open>A request that neither creates nor deletes an object.\<close>

definition inert :: "request \<Rightarrow> bool" where
  "inert q = ((\<forall>x. q \<noteq> Create x) \<and> (\<forall>x f. q \<noteq> CreateOrUpdate x f) \<and> (\<forall>kd k. q \<noteq> Delete kd k))"

definition effect_request :: "request \<Rightarrow> bool" where
  "effect_request q = (inert q \<and> (\<forall>p. q \<noteq> UpdateObj (OOperation p)))"

lemma effect_request_simps [simp]:
  "effect_request (Get kd k)" "effect_request (ListOperations ns)" "effect_request (UpdateStatus x)" "effect_request Now"
  "effect_request (UpdateObj (OUnstructured kd u))" "inert (UpdateObj x)"
  by (simp_all add: effect_request_def inert_def)

lemma effects_requests:
  "wp (\<lambda>_. effect_request) (\<lambda>_ _. True) h (setBackupPaused (defaultCNPGEffects L) parent b)"
  "wp (\<lambda>_. effect_request) (\<lambda>_ _. True) h (applyPostgresProfile (defaultCNPGEffects L) parent p)"
  unfolding setBackupPaused_def applyPostgresProfile_def defaultCNPGEffects_def setBackupPausedAnnotation_def ApplyParameters_def
    getCNPGCluster_def Let_def
  by (auto split: sum.splits option.splits profile.splits intro!: wp_any)

lemma terminal_requests: "wp (\<lambda>_. effect_request) (\<lambda>_ _. True) h (applyTerminalCNPGEffects (defaultCNPGEffects L) op parent)"
  unfolding applyTerminalCNPGEffects_def hasOtherActiveMatchingImpactOps_def
  by (auto intro!: wp_any effects_requests)

lemma ref_requests: "wp (\<lambda>_. effect_request) (\<lambda>_ _. True) h (syncParentActiveOperationRef L op b)"
  unfolding syncParentActiveOperationRef_def by (auto split: sum.splits intro!: wp_any any_update_status)

lemma side_effects_requests: "wp (\<lambda>_. effect_request) (\<lambda>_ _. True) h (syncParentSideEffects L (defaultCNPGEffects L) op)"
  unfolding syncParentSideEffects_def
  by (auto split: sum.splits intro!: wp_any ref_requests terminal_requests)

lemma sync_job_requests: "wp (\<lambda>_. effect_request) (\<lambda>_ _. True) h (syncStatusFromJob op)"
  unfolding syncStatusFromJob_def write_job_status_def Let_def
  by (auto split: sum.splits option.splits intro!: wp_any any_update_status)



text \<open>What the write of a finalizer must follow.\<close>

definition released_request :: "lib \<Rightarrow> nominatim_operation \<Rightarrow> trace \<Rightarrow> request \<Rightarrow> bool" where
  "released_request L op h q =
     (\<forall>p. q = UpdateObj (OOperation p) \<longrightarrow>
        p = op\<lparr>op_meta := remove_finalizer L (op_meta op) NominatimOperationFinalizer\<rparr> \<and>
        (\<exists>h1. prefix h1 h \<and> ref_settled op False h1))"

lemma wp_released_effect:
  "wp (\<lambda>_. effect_request) (\<lambda>_ _. True) h p \<Longrightarrow> wp (released_request L op) (\<lambda>_ _. True) h p"
  by (erule wp_mono) (simp_all add: effect_request_def released_request_def)

lemma wp_reconcileOperationDelete:
  assumes "op_instance op \<noteq> ''''"
  shows "wp (released_request L op) (\<lambda>_ _. True) [] (reconcileOperationDelete L (defaultCNPGEffects L) op)"
proof -
  have settle: "wp (released_request L op) (\<lambda>h r. case r of Inl e \<Rightarrow> True | Inr _ \<Rightarrow> ref_settled op False h) []
      (syncParentActiveOperationRef L op False)"
    by (rule wp_mono [OF wp_conj [OF wp_syncRef [OF assms] wp_released_effect [OF ref_requests]]]) (auto split: sum.splits)
  have rest: "wp (released_request L op) (\<lambda>_ _. True) h
     (bind (if op_instance op = '''' then Ret ()
              else bind (attempt (get_instance (op_namespace op, op_instance op))) (\<lambda>r.
                case r of
                  Inl e \<Rightarrow> if is_not_found e then Ret () else Fail e
                | Inr parent \<Rightarrow> applyTerminalCNPGEffects (defaultCNPGEffects L) op parent)) (\<lambda>_.
        bind (update_operation (op\<lparr>op_meta := remove_finalizer L (op_meta op) NominatimOperationFinalizer\<rparr>)) (\<lambda>_. Ret 0)))"
    if "ref_settled op False h" for h
  proof (rule wp_seq_any)
    show "wp (released_request L op) (\<lambda>_ _. True) h
       (if op_instance op = '''' then Ret ()
        else bind (attempt (get_instance (op_namespace op, op_instance op))) (\<lambda>r.
                case r of
                  Inl e \<Rightarrow> if is_not_found e then Ret () else Fail e
                | Inr parent \<Rightarrow> applyTerminalCNPGEffects (defaultCNPGEffects L) op parent))"
      by (rule wp_released_effect) (auto split: sum.splits intro!: wp_any terminal_requests)
    show "wp (released_request L op) (\<lambda>_ _. True) h'
       (bind (update_operation (op\<lparr>op_meta := remove_finalizer L (op_meta op) NominatimOperationFinalizer\<rparr>)) (\<lambda>_. Ret 0))"
      if "prefix h h'" for h'
      using that \<open>ref_settled op False h\<close>
      by (intro any_bind any_update_status any_parts) (auto simp: released_request_def)
  qed simp
  show ?thesis
  proof (cases "contains_finalizer L (op_meta op) NominatimOperationFinalizer")
    case True
    then show ?thesis
      unfolding reconcileOperationDelete_def by (subst if_not_P, simp) (rule wp_seq [OF settle], simp, rule rest)
  qed (simp add: reconcileOperationDelete_def)
qed


definition deleted_op :: nominatim_operation where
  "deleted_op = failed_import\<lparr>op_meta := (op_meta failed_import)\<lparr>om_finalizers := [NominatimOperationFinalizer], om_deletion := Some 5\<rparr>\<rparr>"


end
