(* ===== verification/SwapRestart.thy ===== *)
theory SwapRestart
  imports OperationSafety
begin

text \<open>
  How far a BlueGreen Rebuild gets under the Operation controller: every pass that reaches the Job puts the rebuild
  back to \<open>Importing\<close> first (\<open>waitForJobPrerequisites\<close>), and what follows the Job takes one step of the machine.
\<close>

definition swapped :: "nominatim_instance \<Rightarrow> bool" where
  "swapped n = (case in_rebuild n of None \<Rightarrow> False | Some rb \<Rightarrow> cut_over (rb_phase rb))"

definition saw_swapped :: "trace \<Rightarrow> bool" where
  "saw_swapped h = (\<exists>k m. (Get KInstance k, RObject (OInstance m)) \<in> set h \<and> swapped m)"

definition not_swapping :: "trace \<Rightarrow> request \<Rightarrow> bool" where
  "not_swapping h q = (\<forall>n. q = UpdateStatus (OInstance n) \<longrightarrow> swapped n \<longrightarrow> saw_swapped h)"

lemma not_swapping_simps [simp]:
  "not_swapping h (Get kd k)" "not_swapping h (ListOperations ns)" "not_swapping h (UpdateStatus (OOperation x))"
  "not_swapping h (UpdateObj y)" "not_swapping h Now" "not_swapping h (Delete kd k)" "not_swapping h (Create y)"
  "not_swapping h (CreateOrUpdate y f)" "not_swapping h (UpdateStatus (OInstance n)) \<longleftrightarrow> (swapped n \<longrightarrow> saw_swapped h)"
  by (simp_all add: not_swapping_def)

lemma saw_swapped_read: "saw_swapped (h @ [(Get KInstance k, RObject (OInstance m))]) \<longleftrightarrow> swapped m \<or> saw_swapped h"
  unfolding saw_swapped_def by fastforce

section \<open>Requests that do not swap\<close>

lemma patch_unswapped:
  assumes "\<not> swapped p"
  shows "wp not_swapping (\<lambda>_ r. case r of Inl e \<Rightarrow> True | Inr p' \<Rightarrow> in_rebuild p' = in_rebuild p) h (patchParentRebuildStatus L p)"
  unfolding patchParentRebuildStatus_def Let_def
  by (rule wp_retry [where I = "\<lambda>_. True"])
     (use assms in \<open>auto simp: wp_simps swapped_def update_instance_status_def split: sum.splits response.splits\<close>)

lemma ref_unswapped: "wp not_swapping (\<lambda>_ _. True) h (syncParentActiveOperationRef L op b)"
  unfolding syncParentActiveOperationRef_def
  by (auto intro!: wp_retry [where I = "\<lambda>_. True"] any_parts split: sum.splits response.splits
      simp: wp_simps update_instance_status_def saw_swapped_read swapped_def sync_ref_def)

lemma side_effects_unswapped: "wp not_swapping (\<lambda>_ _. True) h (syncParentSideEffects L (defaultCNPGEffects L) op)"
proof -
  have "wp not_swapping (\<lambda>_ _. True) h (applyTerminalCNPGEffects (defaultCNPGEffects L) op p)" for h p
    unfolding applyTerminalCNPGEffects_def hasOtherActiveMatchingImpactOps_def setBackupPaused_def applyPostgresProfile_def
      defaultCNPGEffects_def setBackupPausedAnnotation_def ApplyParameters_def getCNPGCluster_def Let_def
    by (auto split: sum.splits option.splits profile.splits intro!: wp_any)
  then show ?thesis
    unfolding syncParentSideEffects_def by (auto split: sum.splits intro!: wp_any ref_unswapped)
qed

lemma fail_unswapped: "wp not_swapping (\<lambda>_ _. True) h (failOperation L (defaultCNPGEffects L) op reason m)"
  unfolding failOperation_def by (intro wp_any any_update_status side_effects_unswapped) simp_all

section \<open>One step of the machine\<close>

definition restarted :: "nominatim_instance \<Rightarrow> bool" where
  "restarted p = (case in_rebuild p of None \<Rightarrow> True | Some rb \<Rightarrow> rb_phase rb = Importing)"

lemma importing_step:
  assumes "bi_phase inp = Importing" and "advanceBlueGreen inp = (out, act)"
  shows "\<not> cut_over (bo_phase out)" and "\<not> ba_cutover act"
  using assms by (auto simp: advanceBlueGreen_def Let_def no_actions_def cut_over_iff split: if_splits)

lemma after_import_unswapped:
  assumes "restarted p"
  shows "wp not_swapping (\<lambda>_ _. True) h (reconcileBlueGreenAfterImport L (defaultCNPGEffects L) op p)"
proof -
  let ?rb = "case in_rebuild p of None \<Rightarrow> seedBlueGreenRebuildStatus p op | Some rb \<Rightarrow> rb"
  have phase: "(if rb_phase ?rb = Importing \<or> rb_phase ?rb = Provisioning \<or> rb_phase ?rb = RPUnset then Importing else rb_phase ?rb) = Importing"
    using assms by (auto simp: restarted_def seedBlueGreenRebuildStatus_def Let_def split: option.splits)
  have acted: "wp not_swapping (\<lambda>_ r. case r of Inl e \<Rightarrow> True | Inr p'' \<Rightarrow> p'' = p') h (applyBlueGreenActions p' act retired out)"
    if "\<not> ba_cutover act" for h p' act retired out
    using that unfolding applyBlueGreenActions_def Let_def deleteOwnedClusterBundle_def
    by (auto simp: wp_simps split: sum.splits)
  have shown: "wp not_swapping (\<lambda>_ _. True) h (syncBlueGreenOperationStatus L (defaultCNPGEffects L) op rb out)" for h rb out
    unfolding syncBlueGreenOperationStatus_def Let_def
    by (auto split: rebuild_phase.splits intro!: wp_any any_update_status fail_unswapped)
  have finish: "wp not_swapping (\<lambda>_ _. True) h
      (bind (applyBlueGreenActions p' act retired out) (\<lambda>parent.
       bind (patchParentRebuildStatus L parent) (\<lambda>parent.
       case in_rebuild parent of
         None \<Rightarrow> Fail (Panic ''nil pointer dereference'')
       | Some rb \<Rightarrow> syncBlueGreenOperationStatus L (defaultCNPGEffects L) op rb out)))"
    if "\<not> ba_cutover act" "\<not> swapped p'" for h p' act retired out
    by (rule wp_seq [OF acted [OF that(1)]])
       (use that(2) in \<open>auto split: option.splits intro!: any_bind patch_unswapped [THEN any_weaken] shown\<close>)
  have step: "wp not_swapping (\<lambda>_ _. True) h (case advanceBlueGreen inp of (out, act) \<Rightarrow>
      bind (applyBlueGreenActions (set_rebuild (Some (rb\<lparr>rb_phase := bo_phase out, rb_rollback_until := bo_rollback_until out,
              rb_message := M out\<rparr>)) p) act retired out) (\<lambda>parent.
      bind (patchParentRebuildStatus L parent) (\<lambda>parent.
      case in_rebuild parent of
        None \<Rightarrow> Fail (Panic ''nil pointer dereference'')
      | Some rb \<Rightarrow> syncBlueGreenOperationStatus L (defaultCNPGEffects L) op rb out)))"
    if "bi_phase inp = Importing" for h inp M retired rb
  proof (cases "advanceBlueGreen inp")
    case (Pair out act)
    from importing_step [OF that this] show ?thesis unfolding Pair by (auto simp: swapped_def intro!: finish)
  qed
  have "bi_phase (blueGreenInputFrom op p rb Importing t) = Importing" for rb t
    by (simp add: blueGreenInputFrom_def Let_def)
  then show ?thesis
    unfolding reconcileBlueGreenAfterImport_def Let_def phase
    by (auto intro!: any_bind any_parts step)
qed

section \<open>A pass\<close>

lemma pending_unswapped:
  assumes "\<not> swapped parent"
  shows "wp not_swapping (\<lambda>_ _. True) h (ensureBlueGreenPending L op parent)"
proof -
  have kept: "wp not_swapping (\<lambda>_ _. True) h (reconcilePVC L p vs n c)" "wp not_swapping (\<lambda>_ _. True) h (ensureOwnedCNPGCluster L p n)"
    "wp not_swapping (\<lambda>_ _. True) h (ensureOwnedCNPGDatabase L p n)" for h p vs n c
    unfolding reconcilePVC_def ensureOwnedCNPGCluster_def ensureOwnedCNPGDatabase_def Let_def
    by (auto split: option.splits sum.splits intro!: wp_any)
  have ready: "wp not_swapping (\<lambda>_ _. True) h (blueGreenPendingReady L ns n)" for h ns n
    unfolding blueGreenPendingReady_def cnpgOwnedDatabaseApplied_def by (auto split: option.splits sum.splits intro!: wp_any)
  have seeded: "wp not_swapping (\<lambda>_ r. case r of Inl e \<Rightarrow> True | Inr p \<Rightarrow> \<not> swapped p) h
      (patchParentRebuildStatus L (set_rebuild (Some rb) p))" if "\<not> cut_over (rb_phase rb)" for h rb p
    by (rule wp_mono [OF patch_unswapped]) (use that in \<open>auto simp: swapped_def split: sum.splits\<close>)
  have seed: "\<not> cut_over (rb_phase (seedBlueGreenRebuildStatus p op))" for p
    by (simp add: seedBlueGreenRebuildStatus_def Let_def cut_over_iff)
  show ?thesis
    unfolding ensureBlueGreenPending_def Let_def
    by (rule wp_seq [where S = "\<lambda>_ p. \<not> swapped p"], (use assms in \<open>auto split: option.splits intro!: seeded seed\<close>)[1], simp)
       (auto simp: swapped_def split: option.splits intro!: wp_any kept ready seeded [THEN any_weaken])
qed

lemma wait_restarts:
  assumes "on_sibling op parent" and "\<not> swapped parent"
  shows "wp not_swapping (\<lambda>_ r. case r of Inl e \<Rightarrow> True | Inr (w, op', p) \<Rightarrow> w = None \<longrightarrow> on_sibling op' p \<longrightarrow> restarted p) h
    (waitForJobPrerequisites L op parent)"
    (is "wp _ ?Q _ _")
proof -
  have reset: "wp not_swapping (\<lambda>_ r. case r of Inl e \<Rightarrow> True | Inr (b, op') \<Rightarrow> op_spec op' = op_spec op) h (ensureRebuildDatabaseReset L op p)" for h p
  proof -
    have "wp not_swapping (\<lambda>_ _. True) h (ensureOwnedCNPGDatabase L p n)" for h n
      unfolding ensureOwnedCNPGDatabase_def Let_def by (auto intro!: wp_any)
    moreover have "wp not_swapping (\<lambda>_ _. True) h (patchRebuildResetAnnotations L op a b)" for h a b
      unfolding patchRebuildResetAnnotations_def Let_def by (intro wp_any any_update_status) simp_all
    ultimately have "wp not_swapping (\<lambda>_ _. True) h (ensureRebuildDatabaseReset L op p)"
      unfolding ensureRebuildDatabaseReset_def resetDatabase_def dropDatabase_def ensureDatabaseReclaimDelete_def apiQuiescedForRebuild_def Let_def
      by (auto split: sum.splits option.splits bool.splits intro!: wp_any)
    from wp_conj [OF this reset_keeps] show ?thesis by (rule wp_mono) auto
  qed
  have ready: "wp not_swapping (\<lambda>_ _. True) h (cnpgClusterReadyForJobs L p)" for h p
    unfolding cnpgClusterReadyForJobs_def cnpgOwnedDatabaseApplied_def getCNPGCluster_def Let_def
    by (auto split: sum.splits option.splits intro!: wp_any)
  have rest: "wp not_swapping ?Q h
     (bind (attempt (get_present KSecret k)) (\<lambda>r.
        case r of
          Inl e \<Rightarrow> if is_not_found e then Ret (Some (5 * second), op, p) else Fail e
        | Inr _ \<Rightarrow>
            bind (ensureRebuildDatabaseReset L op p) (\<lambda>(reset, op).
            if \<not> reset then Ret (Some (5 * second), op, p)
            else if on_sibling op p then Ret (None, op, p)
            else bind (cnpgClusterReadyForJobs L p) (\<lambda>ready.
              if \<not> ready then Ret (Some (10 * second), op, p) else Ret (None, op, p)))))"
    if "on_sibling op p \<longrightarrow> restarted p" for h p k
  proof -
    have after: "wp not_swapping ?Q h
        (if \<not> b then Ret (Some (5 * second), op', p)
         else if on_sibling op' p then Ret (None, op', p)
         else bind (cnpgClusterReadyForJobs L p) (\<lambda>ready. if \<not> ready then Ret (Some (10 * second), op', p) else Ret (None, op', p)))"
      if s: "op_spec op' = op_spec op" for h b op'
    proof (cases "on_sibling op' p")
      case True
      with s \<open>on_sibling op p \<longrightarrow> restarted p\<close> have "restarted p" by simp
      with True show ?thesis by simp
    next
      case False
      then show ?thesis by (auto intro!: wp_seq_any [OF ready])
    qed
    show ?thesis
      by (rule wp_seq_any) (auto split: sum.splits intro!: any_parts wp_seq [OF reset] after)
  qed
  have importing: "wp not_swapping (\<lambda>_ r. \<forall>p'. r = Inr p' \<longrightarrow> usesBlueGreenRebuild p' \<longrightarrow> restarted p') h
      (bind (attempt (patchParentRebuildStatus L p)) (case_sum (\<lambda>_. Ret p) Ret))"
    if "\<exists>rb. in_rebuild p = Some rb \<and> rb_phase rb = Importing" for h p
    unfolding wp_bind wp_attempt
    by (rule wp_mono [OF patch_unswapped]) (use that in \<open>auto simp: swapped_def restarted_def cut_over_iff split: sum.splits\<close>)
  have fresh: "in_rebuild p = None \<Longrightarrow> restarted p" for p by (simp add: restarted_def)
  show ?thesis
    unfolding waitForJobPrerequisites_def Let_def
    using assms
    by (auto simp: fresh split: option.splits sum.splits
        intro!: wp_seq_any [OF pending_unswapped] wp_seq [where S = "\<lambda>_ p. on_sibling op p \<longrightarrow> restarted p"] rest importing)
qed


text \<open>
  A pass whose import runs: it restarts the rebuild, shows the state of the Job and adds its reference to an instance
  that somebody else has cut over in between.
\<close>

definition green_instance :: nominatim_instance where
  "green_instance = sample_instance\<lparr>in_spec := sample_spec\<lparr>sp_project := \<lparr>vs_claim_name = ''data'', vs_template = None\<rparr>,
     sp_database := sample_database\<lparr>db_cluster := Some sample_create, db_strategy := BlueGreen\<rparr>\<rparr>\<rparr>"

definition green_rebuild :: "rebuild_phase \<Rightarrow> nominatim_instance" where
  "green_rebuild ph = set_rebuild
     (Some ((seedBlueGreenRebuildStatus green_instance (sample_operation ''op'' Rebuild Running []))\<lparr>rb_phase := ph\<rparr>)) green_instance"

definition ready_cluster :: unstructured where
  "ready_cluster = \<lparr>un_meta = new_meta ''inst-pg-bg'' ''ns'', un_object = JObject [(''status'', JObject [(''conditions'',
     JArray [JObject [(''type'', JString ''Ready''), (''status'', JString ''True'')]])])]\<rparr>"

definition running_job :: job where
  "running_job = finished_job\<lparr>jo_succeeded := 0, jo_failed := 0, jo_active := 1,
     jo_pod := empty_pod\<lparr>ps_containers := [empty_container\<lparr>ct_name := ''worker'', ct_env := dbEnvVars ''s''\<rparr>]\<rparr>\<rparr>"

lemma green_facts [simp]:
  "usesBlueGreenRebuild (green_rebuild ph)" "in_meta (green_rebuild ph) = new_meta ''inst'' ''ns''"
  "in_rebuild (green_rebuild ph) = Some ((seedBlueGreenRebuildStatus green_instance (sample_operation ''op'' Rebuild Running []))\<lparr>rb_phase := ph\<rparr>)"
  "rb_pending_cluster (seedBlueGreenRebuildStatus green_instance op) = ''inst-pg-bg''"
  "ds_secret (in_database (green_rebuild ph)) = ''secret''" "sp_flatnode (in_spec (green_rebuild ph)) = None"
  "vs_claim_name (sp_project (in_spec (green_rebuild ph))) = ''data''" "db_cluster (sp_database (in_spec (green_rebuild ph))) = Some sample_create"
  "st_active_refs (in_status (green_rebuild ph)) = []" "sp_worker (in_spec (green_rebuild ph)) = None"
  "usesBlueGreenRebuild (p\<lparr>in_meta := m\<rparr>) = usesBlueGreenRebuild p"
  by (simp_all add: green_rebuild_def green_instance_def sample_simps seedBlueGreenRebuildStatus_def Let_def LiveOwnedCNPGClusterName_def owned_names
      usesBlueGreenRebuild_def EffectiveRebuildStrategy_def)

lemma running_dsn: "jobHasDatabaseDSN running_job" "phaseFromJob (jo_succeeded running_job) (jo_failed running_job) (jo_active running_job) = Running"
  by (simp_all add: jobHasDatabaseDSN_def running_job_def dbEnvVars_def phaseFromJob_def)

text \<open>The Job is there and runs.\<close>

lemma job_kept:
  assumes "sp_worker (in_spec p) = None"
  shows "play (bind (ensureJob sample_lib (sample_operation ''op'' Rebuild Running []) p) f) (RObject (OJob running_job) # xs) =
    (case play (f ()) xs of (t, out) \<Rightarrow> ((Get KJob (''ns'', ''op''), RObject (OJob running_job)) # t, out))"
proof -
  obtain j where j: "buildOperationJob sample_lib (sample_operation ''op'' Rebuild Running []) p
      (stagingPVCName (sample_operation ''op'' Rebuild Running [])) (workerImageForOperation (sample_operation ''op'' Rebuild Running []) p)
      (workerPullPolicyForOperation (sample_operation ''op'' Rebuild Running []) p) = Inr j"
    "om_name (jo_meta j) = ''op''" "om_namespace (jo_meta j) = ''ns''" "om_owners (jo_meta j) = []"
    using assms by (simp add: buildOperationJob_def Let_def mergePodSpecOverlay_def decodePodSpecOverlay_def sample_simps)
  then show ?thesis
    by (simp add: ensureJob_def operation_owned_def set_controller_def wrap_error_def running_dsn play_simps)
qed


end
