(* ===== verification/Updates.thy ===== *)
theory Updates
  imports Regions
begin

text \<open>
  \<open>internal/controller/nominatim_updates.go\<close>: the scheduled Updates. The schedule is what the cron
  library parsed, a function from an instant to the next fire; a requeue delay is in nanoseconds, zero
  for none.
\<close>

section \<open>The most recent fire\<close>

text \<open>The loop: the current fire, the one before it, and the most recent one so far.\<close>

function mostRecentLoop :: "(time \<Rightarrow> time) \<Rightarrow> time \<Rightarrow> time \<Rightarrow> time \<Rightarrow> time option \<Rightarrow> time option" where
  "mostRecentLoop nxt present t prev mostRecent =
     (if t > present then mostRecent
      else if \<not> t > prev then Some t
      else mostRecentLoop nxt present (nxt t) t (Some t))"
  by auto
termination
  by (relation "measure (\<lambda>(nxt, present, t, prev, m). nat (present - prev))") auto

declare mostRecentLoop.simps [simp del]

definition mostRecentScheduleTime :: "(time \<Rightarrow> time) \<Rightarrow> time \<Rightarrow> time \<Rightarrow> time option" where
  "mostRecentScheduleTime nxt prev present = mostRecentLoop nxt present (nxt prev) prev None"

context cron_schedule
begin

text \<open>A schedule with a next fire after every instant.\<close>

lemma loop_step:
  assumes "\<And>u. nxt u \<noteq> zero_time"
  shows "mostRecentLoop nxt present (nxt prev) prev m =
    (if nxt prev > present then m else mostRecentLoop nxt present (nxt (nxt prev)) (nxt prev) (Some (nxt prev)))"
  using assms later [of prev] by (subst mostRecentLoop.simps) auto

lemma loop_correct:
  assumes "\<And>u. nxt u \<noteq> zero_time" and "prev \<le> present"
  shows "\<exists>f. mostRecentLoop nxt present (nxt prev) prev (Some prev) = Some f \<and> prev \<le> f \<and> f \<le> present \<and> present < nxt f \<and>
    (f = prev \<or> f \<in> range nxt)"
  using assms(2)
proof (induction "nat (present - prev)" arbitrary: prev rule: less_induct)
  case less
  have l: "prev < nxt prev" using later [of prev] assms(1) by auto
  show ?case
  proof (cases "nxt prev > present")
    case True
    then show ?thesis using less.prems by (simp add: loop_step [OF assms(1)])
  next
    case False
    with l have "nat (present - nxt prev) < nat (present - prev)" "nxt prev \<le> present" by auto
    from less.hyps [OF this] l False show ?thesis
      by (subst loop_step [OF assms(1)]) fastforce
  qed
qed

text \<open>No fire lies between a fire and the instant before its next one.\<close>

lemma no_fire_between:
  assumes "\<And>u. nxt u \<noteq> zero_time" and "g \<in> range nxt" and "f < g"
  shows "nxt f \<le> g"
proof -
  obtain u where g: "g = nxt u" using assms(2) by blast
  show ?thesis
  proof (cases "f \<le> u")
    case True
    then show ?thesis using mono assms(1) g by blast
  next
    case False
    then show ?thesis using none_between [of u f] assms(1,3) g by auto
  qed
qed

lemma most_recent:
  assumes "\<And>u. nxt u \<noteq> zero_time"
  shows "mostRecentScheduleTime nxt prev present = Some f \<longleftrightarrow>
    f \<in> range nxt \<and> prev < f \<and> f \<le> present \<and> (\<forall>g \<in> range nxt. g \<le> present \<longrightarrow> g \<le> f)"
proof (cases "nxt prev > present")
  case True
  have "mostRecentScheduleTime nxt prev present = None"
    using True by (simp add: mostRecentScheduleTime_def loop_step [OF assms])
  moreover have "\<not> (f \<in> range nxt \<and> prev < f \<and> f \<le> present)"
    using no_fire_between [OF assms, of f prev] True by auto
  ultimately show ?thesis by auto
next
  case False
  then have n: "nxt prev \<le> present" by simp
  from loop_correct [OF assms n] obtain h where
    h: "mostRecentLoop nxt present (nxt (nxt prev)) (nxt prev) (Some (nxt prev)) = Some h"
      "nxt prev \<le> h" "h \<le> present" "present < nxt h" "h = nxt prev \<or> h \<in> range nxt" by blast
  have m: "mostRecentScheduleTime nxt prev present = Some h"
    using False h(1) by (simp add: mostRecentScheduleTime_def loop_step [OF assms, of present prev])
  have fire: "h \<in> range nxt" using h(5) by auto
  have "prev < h" using later [of prev] assms h(2) by (metis less_le_trans)
  moreover have "\<forall>g \<in> range nxt. g \<le> present \<longrightarrow> g \<le> h"
    using no_fire_between [OF assms, of _ h] h(4) by (meson leI le_less_trans less_le_not_le)
  ultimately show ?thesis using m fire h(3)
    by (auto simp: m intro: antisym)
qed

lemma none_recent:
  assumes "\<And>u. nxt u \<noteq> zero_time"
  shows "mostRecentScheduleTime nxt prev present = None \<longleftrightarrow> \<not> (\<exists>g \<in> range nxt. prev < g \<and> g \<le> present)"
proof (cases "nxt prev > present")
  case True
  then show ?thesis using no_fire_between [OF assms, of _ prev]
    by (fastforce simp: mostRecentScheduleTime_def loop_step [OF assms])
next
  case False
  then have n: "nxt prev \<le> present" by simp
  moreover have "prev < nxt prev" using later [of prev] assms by auto
  ultimately show ?thesis using loop_correct [OF assms n] False
    by (auto simp: mostRecentScheduleTime_def loop_step [OF assms, of present prev])
qed

end

section \<open>The schedule\<close>

definition scheduleCursor :: "nominatim_instance \<Rightarrow> time prog" where
  "scheduleCursor nom =
     (case st_last_schedule (in_status nom) of
        Some t \<Rightarrow> Ret t
      | None \<Rightarrow>
          if om_created (in_meta nom) \<noteq> zero_time then Ret (om_created (in_meta nom))
          else bind now (\<lambda>t. Ret (t - second)))"

definition scheduledUpdateOperationName :: "nominatim_instance \<Rightarrow> time \<Rightarrow> string" where
  "scheduledUpdateOperationName nom fire = in_name nom @ ''-update-'' @ show_int (fire div second)"

definition regionsForUpdate :: "nominatim_instance \<Rightarrow> string list" where
  "regionsForUpdate nom =
     (if in_regions nom \<noteq> [] then map rs_name (in_regions nom) else sp_regions (in_spec nom))"

definition scheduleProbe :: "nominatim_instance \<Rightarrow> nominatim_operation" where
  "scheduleProbe nom = new_operation ''__schedule-probe__'' (in_namespace nom) Update (in_name nom) []"

definition set_last_schedule :: "time \<Rightarrow> nominatim_instance \<Rightarrow> nominatim_instance" where
  "set_last_schedule t nom = nom\<lparr>in_status := (in_status nom)\<lparr>st_last_schedule := Some t\<rparr>\<rparr>"

definition requeueUntil :: "time \<Rightarrow> time \<Rightarrow> int" where
  "requeueUntil nextFire t =
     (if nextFire = zero_time then 0 else if nextFire - t < second then second else nextFire - t)"

definition reconcileUpdates ::
  "lib \<Rightarrow> nominatim_instance \<Rightarrow> nominatim_operation list \<Rightarrow> (nominatim_instance \<times> int) prog" where
  "reconcileUpdates L nom ops =
     (case sp_updates (in_spec nom) of
        None \<Rightarrow> Ret (nom, 0)
      | Some u \<Rightarrow>
          if \<not> up_enabled u \<or> up_schedule u = '''' then Ret (nom, 0)
          else if in_regions nom = [] then Ret (nom, 0)
          else
            bind (wrap_error (''parse updates.schedule '' @ quote (up_schedule u)) (lift (parse_schedule L (up_schedule u)))) (\<lambda>nxt.
            bind now (\<lambda>t.
            bind (scheduleCursor nom) (\<lambda>prev.
              let missed = mostRecentScheduleTime nxt prev t;
                  requeue = requeueUntil (nxt t) t
              in case missed of
                   None \<Rightarrow> Ret (nom, requeue)
                 | Some fire \<Rightarrow>
                     if ScheduleBusy (evaluateWritePlane (scheduleProbe nom) ops) then Ret (nom, 30 * second)
                     else if list_ex (\<lambda>p. op_name p = scheduledUpdateOperationName nom fire) ops
                     then Ret (set_last_schedule fire nom, requeue)
                     else
                       let op = new_operation (scheduledUpdateOperationName nom fire) (in_namespace nom) Update
                                  (in_name nom) (regionsForUpdate nom)
                       in bind (wrap_error ''set controller reference on Update operation''
                                 (lift (set_controller_reference L ''NominatimInstance'' (in_meta nom) (op_meta op)))) (\<lambda>m.
                          bind (wrap_error ''create scheduled Update operation'' (create (OOperation (op\<lparr>op_meta := m\<rparr>)))) (\<lambda>_.
                          Ret (set_last_schedule fire nom, requeue)))))))"

section \<open>What a pass creates\<close>

definition blocks_updates :: "nominatim_instance \<Rightarrow> nominatim_operation \<Rightarrow> bool" where
  "blocks_updates nom p = (op_instance p = in_name nom \<and> op_namespace p = in_namespace nom \<and>
     op_name p \<noteq> ''__schedule-probe__'' \<and> isWriteHeavyOperation (op_type_of p) \<and> isActiveOperationPhase (op_phase_of p))"

lemma probe_busy: "busy (scheduleProbe nom) p \<longleftrightarrow> blocks_updates nom p"
  by (auto simp: busy_def operationsMutexConflict_def scheduleProbe_def blocks_updates_def)

definition scheduled_update :: "nominatim_instance \<Rightarrow> nominatim_operation list \<Rightarrow> nominatim_operation \<Rightarrow> bool" where
  "scheduled_update nom ops op =
     (op_type_of op = Update \<and> op_instance op = in_name nom \<and> in_regions nom \<noteq> [] \<and>
      os_regions (op_spec op) = map rs_name (in_regions nom) \<and>
      (\<exists>u. sp_updates (in_spec nom) = Some u \<and> up_enabled u) \<and>
      (\<forall>p \<in> set ops. \<not> blocks_updates nom p \<and> op_name p \<noteq> op_name op) \<and>
      (\<exists>fire. op_name op = scheduledUpdateOperationName nom fire))"

lemma wp_scheduleCursor:
  assumes "G Now" and "\<And>h t. Q h (Inr t)" and "\<And>h e. Q h (Inl e)"
  shows "wp (\<lambda>_ q. G q) Q h (scheduleCursor nom)"
  using assms by (auto simp: scheduleCursor_def wp_simps split: option.splits sum.splits response.splits)

lemma wp_reconcileUpdates:
  assumes "lib_owners L"
  shows "wp (\<lambda>_ q. q = Now \<or> (\<exists>op. q = Create (OOperation op) \<and> scheduled_update nom ops op)) (\<lambda>_ _. True) h
    (reconcileUpdates L nom ops)"
  unfolding reconcileUpdates_def
  by (auto simp: wp_simps Let_def ScheduleBusy_iff probe_busy scheduled_update_def regionsForUpdate_def list_ex_iff
      controller_references.set_ref_name [OF assms]
      intro!: wp_scheduleCursor split: option.splits sum.splits)

section \<open>Properties\<close>

text \<open>C33. For a schedule that always has a next fire, the missed fire is the latest one after the cursor
  and up to now, and there is none exactly when the schedule has no fire in that interval.\<close>

theorem missed_fire:
  assumes "cron_schedule nxt" and "\<And>u. nxt u \<noteq> zero_time"
  shows "(mostRecentScheduleTime nxt prev present = Some f \<longleftrightarrow>
      f \<in> range nxt \<and> prev < f \<and> f \<le> present \<and> (\<forall>g \<in> range nxt. g \<le> present \<longrightarrow> g \<le> f)) \<and>
    (mostRecentScheduleTime nxt prev present = None \<longleftrightarrow> \<not> (\<exists>g \<in> range nxt. prev < g \<and> g \<le> present))"
  using cron_schedule.most_recent [OF assms] cron_schedule.none_recent [OF assms] by blast

text \<open>A schedule with a fire every second, which never returns the zero time.\<close>

definition after_epoch :: "time \<Rightarrow> time" where
  "after_epoch t = (if t < 0 then second else every second t)"

lemma after_epoch_pos: "0 < after_epoch t"
  using every_later [of second t] by (auto simp: after_epoch_def second_def)

interpretation epoch_seconds: cron_schedule after_epoch
proof
  fix t u :: time
  show "after_epoch t = zero_time \<or> t < after_epoch t"
    using every_later [of second t] by (auto simp: after_epoch_def second_def)
  assume tu: "t \<le> u" and u: "u < after_epoch t"
  show "after_epoch u = after_epoch t"
  proof (cases "t < 0")
    case False
    then show ?thesis using tu u every_none_between [of second t u] by (simp add: after_epoch_def second_def)
  next
    case True
    then have "u < second" using u by (simp add: after_epoch_def)
    then have "0 \<le> u \<Longrightarrow> u div second = 0" by (simp add: div_pos_pos_trivial)
    then show ?thesis using True by (auto simp: after_epoch_def every_def)
  qed
qed

theorem missed_fire_witness: "mostRecentScheduleTime after_epoch (5 * second) (7 * second + 1) = Some (7 * second)"
proof -
  have nz: "after_epoch u \<noteq> zero_time" for u
    using after_epoch_pos [of u] by (simp add: zero_time_def second_def)
  have "after_epoch (6 * second) = 7 * second" by (simp add: after_epoch_def every_def second_def)
  then have r: "7 * second \<in> range after_epoch" by (metis rangeI)
  have "g \<le> 7 * second" if "g \<in> range after_epoch" "g \<le> 7 * second + 1" for g
  proof -
    from that(1) obtain u where u: "g = after_epoch u" by blast
    have "g = (if u < 0 then 1 else u div second + 1) * second" by (simp add: u after_epoch_def every_def)
    then show ?thesis using that(2) by (simp add: second_def split: if_splits)
  qed
  with missed_fire [OF epoch_seconds.cron_schedule_axioms nz, of "5 * second" "7 * second + 1" "7 * second"] r
  show ?thesis by (auto simp: second_def)
qed


definition updating_instance :: nominatim_instance where
  "updating_instance = set_last_schedule 0 (set_regions [sample_region ''europe/monaco'']
     (sample_instance\<lparr>in_spec := sample_spec\<lparr>sp_updates := Some \<lparr>up_enabled = True, up_schedule = ''* * * * *''\<rparr>\<rparr>\<rparr>))"


text \<open>
  A schedule that never fires (its next fire is the zero time, as for February 30) is taken to have
  fired at the zero time.
\<close>

theorem never_fires:
  assumes "zero_time \<le> present"
  shows "mostRecentScheduleTime (\<lambda>t. zero_time) prev present = Some zero_time"
  using assms by (simp add: mostRecentScheduleTime_def mostRecentLoop.simps)

end
