(* ===== verification/Sequence.thy ===== *)
theory Sequence
  imports OperationJob OpEffects
begin

text \<open>
  \<open>internal/controller/nominatim_sequence.go\<close>: after a write Operation succeeded, a probe Job reports the
  sequence state of the regions into a ConfigMap, and the report is copied into \<open>status.regions\<close>.
\<close>

section \<open>Names\<close>

definition annotationSequenceObserved :: string where
  "annotationSequenceObserved = ''nominatim.zebernst.dev/sequence-observed''"
definition labelSequenceProbe :: string where "labelSequenceProbe = ''sequence-probe''"
definition sequenceReportCMKey :: string where "sequenceReportCMKey = ''report.json''"
definition sequenceAuxReportCMKey :: string where "sequenceAuxReportCMKey = ''aux-data.json''"
definition sequenceProbeSASuffix :: string where "sequenceProbeSASuffix = ''-seq-probe''"
definition sequenceProbeJobSuffix :: string where "sequenceProbeJobSuffix = ''-seq''"

definition sequenceProbeOperation :: "nominatim_operation \<Rightarrow> bool" where
  "sequenceProbeOperation op =
     (op_phase_of op = Succeeded \<and> op_type_of op \<in> {Bootstrap, AddRegions, Rebuild, Update, CatchUp})"

definition sequenceProbeSAName :: "nominatim_instance \<Rightarrow> string" where
  "sequenceProbeSAName nom = in_name nom @ sequenceProbeSASuffix"

definition sequenceReportConfigMapName :: "nominatim_instance \<Rightarrow> string" where
  "sequenceReportConfigMapName nom = in_name nom @ ''-sequence''"

definition sequenceProbeJobName :: "nominatim_operation \<Rightarrow> string" where
  "sequenceProbeJobName op =
     (let base = op_name op @ sequenceProbeJobSuffix in if length base \<le> 63 then base else take 63 base)"

section \<open>The account of the probe\<close>

text \<open>A \<open>Create\<close> that tolerates that the object exists by now.\<close>

definition create_once :: "string \<Rightarrow> obj \<Rightarrow> unit prog" where
  "create_once m x =
     bind (attempt (create x)) (\<lambda>r.
       case r of Inl e \<Rightarrow> if is_already_exists e then Ret () else Fail (Wrap m e) | Inr _ \<Rightarrow> Ret ())"

definition probe_rules :: "policy_rule list" where
  "probe_rules = [\<lparr>ru_api_groups = [''''], ru_resources = [''configmaps''], ru_verbs = [''get'', ''create'', ''update'', ''patch'']\<rparr>]"

definition ensure_probe_account :: "lib \<Rightarrow> nominatim_instance \<Rightarrow> unit prog" where
  "ensure_probe_account L nom =
     bind (attempt (get_present KServiceAccount (in_namespace nom, sequenceProbeSAName nom))) (\<lambda>r.
       case r of
         Inr _ \<Rightarrow> Ret ()
       | Inl e \<Rightarrow>
           if \<not> is_not_found e then Fail (Wrap ''get sequence probe ServiceAccount'' e)
           else
             bind (wrap_error ''ownerref sequence probe ServiceAccount''
                    (lift (own_meta L nom (new_meta (sequenceProbeSAName nom) (in_namespace nom))))) (\<lambda>m.
             create_once ''create sequence probe ServiceAccount'' (OServiceAccount m)))"

definition ensure_probe_role :: "lib \<Rightarrow> nominatim_instance \<Rightarrow> unit prog" where
  "ensure_probe_role L nom =
     bind (attempt (call (Get KRole (in_namespace nom, sequenceProbeSAName nom)) as_role)) (\<lambda>r.
       case r of
         Inr role \<Rightarrow> wrap_error ''update sequence probe Role'' (update_obj (ORole (role\<lparr>ro_rules := probe_rules\<rparr>)))
       | Inl e \<Rightarrow>
           if \<not> is_not_found e then Fail (Wrap ''get sequence probe Role'' e)
           else
             bind (wrap_error ''ownerref sequence probe Role''
                    (lift (own_meta L nom (new_meta (sequenceProbeSAName nom) (in_namespace nom))))) (\<lambda>m.
             create_once ''create sequence probe Role'' (ORole \<lparr>ro_meta = m, ro_rules = probe_rules\<rparr>)))"

definition probe_role_ref :: "nominatim_instance \<Rightarrow> string \<times> string \<times> string" where
  "probe_role_ref nom = (''rbac.authorization.k8s.io'', ''Role'', sequenceProbeSAName nom)"

definition probe_subjects :: "nominatim_instance \<Rightarrow> (string \<times> string \<times> string) list" where
  "probe_subjects nom = [(''ServiceAccount'', sequenceProbeSAName nom, in_namespace nom)]"

definition ensure_probe_binding :: "lib \<Rightarrow> nominatim_instance \<Rightarrow> unit prog" where
  "ensure_probe_binding L nom =
     bind (attempt (call (Get KRoleBinding (in_namespace nom, sequenceProbeSAName nom)) as_role_binding)) (\<lambda>r.
       case r of
         Inr rb \<Rightarrow> wrap_error ''update sequence probe RoleBinding''
           (update_obj (ORoleBinding (rb\<lparr>rb_role_ref := probe_role_ref nom, rb_subjects := probe_subjects nom\<rparr>)))
       | Inl e \<Rightarrow>
           if \<not> is_not_found e then Fail (Wrap ''get sequence probe RoleBinding'' e)
           else
             bind (wrap_error ''ownerref sequence probe RoleBinding''
                    (lift (own_meta L nom (new_meta (sequenceProbeSAName nom) (in_namespace nom))))) (\<lambda>m.
             create_once ''create sequence probe RoleBinding''
               (ORoleBinding \<lparr>rb_meta = m, rb_role_ref = probe_role_ref nom, rb_subjects = probe_subjects nom\<rparr>)))"

definition ensureSequenceProbeRBAC :: "lib \<Rightarrow> nominatim_instance \<Rightarrow> unit prog" where
  "ensureSequenceProbeRBAC L nom =
     bind (ensure_probe_account L nom) (\<lambda>_. bind (ensure_probe_role L nom) (\<lambda>_. ensure_probe_binding L nom))"

section \<open>The report\<close>

definition mutateReport :: "lib \<Rightarrow> nominatim_instance \<Rightarrow> obj \<Rightarrow> error + obj" where
  "mutateReport L nom x =
     (case x of
        OConfigMap cm \<Rightarrow>
          and_then (own_meta L nom (cm_meta cm)) (\<lambda>m.
          Inr (OConfigMap (cm\<lparr>cm_meta := m\<lparr>om_labels :=
             map_set ''nominatim.zebernst.dev/component'' ''sequence-report''
              (map_set ''nominatim.zebernst.dev/nominatim'' (in_name nom)
                (map_set ''app.kubernetes.io/managed-by'' ''nominatim-operator'' (om_labels m)))\<rparr>\<rparr>)))
      | _ \<Rightarrow> Inl BadResponse)"

definition ensureSequenceReportConfigMap :: "lib \<Rightarrow> nominatim_instance \<Rightarrow> unit prog" where
  "ensureSequenceReportConfigMap L nom =
     wrap_error ''ensure sequence report ConfigMap''
       (create_or_update (OConfigMap \<lparr>cm_meta = new_meta (sequenceReportConfigMapName nom) (in_namespace nom), cm_data = []\<rparr>)
         (mutateReport L nom))"

section \<open>The probe\<close>

definition probe_container :: "nominatim_instance \<Rightarrow> string \<Rightarrow> string \<Rightarrow> container" where
  "probe_container nom img pullPolicy =
     empty_container\<lparr>ct_name := ''sequence-probe'', ct_image := img, ct_pull_policy := pullPolicy,
       ct_command := [''/opt/nominatim/scripts/report-sequence.sh''],
       ct_env := [env_value ''PROJECT_DIR'' projectMountPath, env_value ''NOMINATIM_NAME'' (in_name nom)],
       ct_mounts := [(mount projectVolumeName projectMountPath)\<lparr>vm_read_only := True\<rparr>]\<rparr>"

definition buildSequenceProbeJob :: "lib \<Rightarrow> nominatim_instance \<Rightarrow> nominatim_operation \<Rightarrow> error + job" where
  "buildSequenceProbeJob L nom op =
     (let projectClaim = volumeClaimName (sp_project (in_spec nom)) (ProjectPVCName nom);
          worker_image = (case sp_worker (in_spec nom) of None \<Rightarrow> None | Some w \<Rightarrow> wk_image w);
          img = resolveImage worker_image defaultWorkerRepository;
          pullPolicy = (case sp_worker (in_spec nom) of None \<Rightarrow> ''IfNotPresent'' | Some w \<Rightarrow> resolvePullPolicy (wk_image w));
          meta = (new_meta (sequenceProbeJobName op) (in_namespace nom))\<lparr>om_labels :=
            [(''app.kubernetes.io/managed-by'', ''nominatim-operator''), (''nominatim.zebernst.dev/nominatim'', in_name nom),
             (''nominatim.zebernst.dev/operation'', op_name op), (''nominatim.zebernst.dev/component'', labelSequenceProbe)]\<rparr>
      in case own_meta L nom meta of
           Inl e \<Rightarrow> Inl (Wrap ''ownerref sequence probe Job'' e)
         | Inr m \<Rightarrow>
             Inr \<lparr>jo_meta = m, jo_backoff = Some 1, jo_ttl = Some 600,
               jo_template_labels = [(''nominatim.zebernst.dev/component'', labelSequenceProbe), (''nominatim.zebernst.dev/nominatim'', in_name nom)],
               jo_pod = empty_pod\<lparr>ps_restart := ''Never'', ps_service_account := sequenceProbeSAName nom, ps_automount := Some True,
                 ps_containers := [probe_container nom img pullPolicy],
                 ps_volumes := [(pvc_volume projectVolumeName projectClaim)\<lparr>vo_claim := Some (projectClaim, True)\<rparr>]\<rparr>,
               jo_succeeded = 0, jo_failed = 0, jo_active = 0, jo_start = None, jo_completion = None\<rparr>)"

definition markSequenceObserved :: "nominatim_operation \<Rightarrow> unit prog" where
  "markSequenceObserved op =
     bind (attempt (get_operation (op_key op))) (\<lambda>r.
       case r of
         Inl e \<Rightarrow> if is_not_found e then Ret () else Fail e
       | Inr latest \<Rightarrow>
           if map_get (om_annotations (op_meta latest)) annotationSequenceObserved = annotationValueTrue then Ret ()
           else call (PatchObj (OOperation (latest\<lparr>op_meta := (op_meta latest)\<lparr>om_annotations :=
                  map_set annotationSequenceObserved annotationValueTrue (om_annotations (op_meta latest))\<rparr>\<rparr>))) as_ok)"

definition ensureSequenceProbeJob :: "lib \<Rightarrow> nominatim_instance \<Rightarrow> nominatim_operation \<Rightarrow> unit prog" where
  "ensureSequenceProbeJob L nom op =
     bind (attempt (get_job (in_namespace nom, sequenceProbeJobName op))) (\<lambda>r.
       case r of
         Inl e \<Rightarrow>
           if is_not_found e then
             bind (lift (buildSequenceProbeJob L nom op)) (\<lambda>built.
             create_once (''create sequence probe Job '' @ quote (sequenceProbeJobName op)) (OJob built))
           else Fail (Wrap (''get sequence probe Job '' @ quote (sequenceProbeJobName op)) e)
       | Inr job \<Rightarrow> if jo_succeeded job > 0 \<or> jo_failed job > 0 then markSequenceObserved op else Ret ())"

definition ensureSequenceProbes :: "lib \<Rightarrow> nominatim_instance \<Rightarrow> nominatim_operation list \<Rightarrow> unit prog" where
  "ensureSequenceProbes L nom ops =
     bind (ensureSequenceProbeRBAC L nom) (\<lambda>_.
     bind (ensureSequenceReportConfigMap L nom) (\<lambda>_.
     for_each (\<lambda>op.
       if \<not> sequenceProbeOperation op then Ret ()
       else if map_get (om_annotations (op_meta op)) annotationSequenceObserved = annotationValueTrue then Ret ()
       else ensureSequenceProbeJob L nom op) ops))"

section \<open>Reading the report\<close>

text \<open>
  The decoding of a JSON object into a map of strings: a later entry replaces an earlier one of the
  same key, null is the empty string, any other value an error; a null document is the empty map.
\<close>

fun decode_report_fields :: "(string \<times> json) list \<Rightarrow> strmap \<Rightarrow> error + strmap" where
  "decode_report_fields [] out = Inr out"
| "decode_report_fields ((k, JString s) # kvs) out = decode_report_fields kvs (map_set k s out)"
| "decode_report_fields ((k, JNull) # kvs) out = decode_report_fields kvs (map_set k '''' out)"
| "decode_report_fields (kv # kvs) out = Inl (Errorf ''json: cannot unmarshal'')"

fun decode_report :: "json \<Rightarrow> error + strmap" where
  "decode_report (JObject kvs) = decode_report_fields kvs []"
| "decode_report JNull = Inr []"
| "decode_report _ = Inl (Errorf ''json: cannot unmarshal'')"

definition parseSequenceReport :: "lib \<Rightarrow> string \<Rightarrow> error + strmap" where
  "parseSequenceReport L raw = and_then (parse_json L raw) decode_report"

text \<open>The index of the regions by their name; of two regions of a name the later one counts.\<close>

definition region_index :: "region_status list \<Rightarrow> string \<Rightarrow> nat option" where
  "region_index regions = map_of (rev (zip (map rs_name regions) [0..<length regions]))"

definition apply_report_entry :: "time \<Rightarrow> (string \<Rightarrow> nat option) \<Rightarrow> string \<times> string \<Rightarrow> region_status list \<Rightarrow> region_status list" where
  "apply_report_entry t byName entry regions =
     (case entry of (region, state) \<Rightarrow>
        if state = '''' then regions
        else case byName region of
          None \<Rightarrow> regions
        | Some i \<Rightarrow>
            if rs_sequence (regions ! i) = state then regions
            else regions[i := (regions ! i)\<lparr>rs_sequence := state, rs_updated := Some t\<rparr>])"

definition applySequenceReportMap :: "nominatim_instance \<Rightarrow> strmap \<Rightarrow> time option \<Rightarrow> nominatim_instance prog" where
  "applySequenceReportMap nom report observedAt =
     (if report = [] \<or> in_regions nom = [] then Ret nom
      else bind now (\<lambda>t.
        let t = (case observedAt of None \<Rightarrow> t | Some u \<Rightarrow> u)
        in Ret (set_regions (fold (apply_report_entry t (region_index (in_regions nom))) report (in_regions nom)) nom)))"

definition applySequenceReportConfigMap :: "lib \<Rightarrow> nominatim_instance \<Rightarrow> nominatim_instance prog" where
  "applySequenceReportConfigMap L nom =
     bind (attempt (call (Get KConfigMap (in_namespace nom, sequenceReportConfigMapName nom)) as_config_map)) (\<lambda>r.
       case r of
         Inl e \<Rightarrow> if is_not_found e then Ret nom else Fail (Wrap ''get sequence report ConfigMap'' e)
       | Inr cm \<Rightarrow>
           let raw = map_get (cm_data cm) sequenceReportCMKey; auxRaw = map_get (cm_data cm) sequenceAuxReportCMKey in
           bind (if trim_space raw = '''' then Ret nom
                 else bind (wrap_error ''parse sequence report ConfigMap'' (lift (parseSequenceReport L raw))) (\<lambda>report.
                      applySequenceReportMap nom report None)) (\<lambda>nom.
           if trim_space auxRaw = '''' then Ret nom
           else bind (wrap_error ''parse aux data report ConfigMap'' (lift (parseAuxDataReport L auxRaw))) (\<lambda>report.
                Ret (applyAuxDataReport nom report))))"

definition reconcileSequenceObservation ::
  "lib \<Rightarrow> nominatim_instance \<Rightarrow> nominatim_operation list \<Rightarrow> nominatim_instance prog" where
  "reconcileSequenceObservation L nom ops =
     (if in_regions nom = [] then Ret nom
      else bind (ensureSequenceProbes L nom ops) (\<lambda>_. applySequenceReportConfigMap L nom))"

section \<open>What a report changes\<close>

definition reported :: "time \<Rightarrow> strmap \<Rightarrow> region_status \<Rightarrow> region_status" where
  "reported t report rs =
     (case map_of report (rs_name rs) of
        None \<Rightarrow> rs
      | Some state \<Rightarrow>
          if state = '''' \<or> rs_sequence rs = state then rs else rs\<lparr>rs_sequence := state, rs_updated := Some t\<rparr>)"

lemma reported_name [simp]: "rs_name (reported t report rs) = rs_name rs"
  by (simp add: reported_def split: option.splits)

lemma reported_nil [simp]: "reported t [] = (\<lambda>rs. rs)"
  by (simp add: reported_def fun_eq_iff)

lemma region_index_distinct:
  assumes "distinct (map rs_name R)"
  shows "region_index R k = Some i \<longleftrightarrow> i < length R \<and> rs_name (R ! i) = k"
proof -
  have "distinct (map fst (zip (map rs_name R) [0..<length R]))" using assms by simp
  then have "distinct (map fst (rev (zip (map rs_name R) [0..<length R])))" by (simp add: rev_map [symmetric])
  then have "region_index R k = Some i \<longleftrightarrow> (k, i) \<in> set (zip (map rs_name R) [0..<length R])"
    unfolding region_index_def by (simp add: rev_map [symmetric])
  also have "\<dots> \<longleftrightarrow> i < length R \<and> rs_name (R ! i) = k"
    by (auto simp: in_set_zip intro!: exI [of _ i])
  finally show ?thesis .
qed

text \<open>One entry through the index is one entry for all regions, whatever an earlier entry has changed.\<close>

lemma apply_entry_map:
  assumes "distinct (map rs_name R)" and "map rs_name R' = map rs_name R"
  shows "apply_report_entry t (region_index R) (k, state) R' = map (reported t [(k, state)]) R'"
proof -
  have len: "length R' = length R" using assms(2) by (rule map_eq_imp_length_eq)
  have names: "rs_name (R' ! i) = rs_name (R ! i)" if "i < length R" for i
    using assms(2) len that by (metis nth_map)
  show ?thesis
  proof (cases "region_index R k")
    case None
    then have "rs_name (R ! i) \<noteq> k" if "i < length R" for i
      using region_index_distinct [OF assms(1), of k i] that by simp
    then have "rs_name rs \<noteq> k" if "rs \<in> set R'" for rs
      using that names len by (metis in_set_conv_nth)
    then have "reported t [(k, state)] rs = rs" if "rs \<in> set R'" for rs
      using that by (simp add: reported_def)
    with None show ?thesis by (simp add: apply_report_entry_def map_idI)
  next
    case (Some i)
    then have i: "i < length R" "rs_name (R ! i) = k" using region_index_distinct [OF assms(1)] by auto
    have others: "rs_name (R ! j) \<noteq> k" if "j < length R" "j \<noteq> i" for j
      using that i assms(1) by (metis length_map nth_eq_iff_index_eq nth_map)
    show ?thesis
      by (rule nth_equalityI)
         (use Some i others names len in \<open>auto simp: apply_report_entry_def reported_def nth_list_update split: if_splits\<close>)
  qed
qed

lemma reported_Cons: "k \<notin> fst ` set rest \<Longrightarrow> reported t ((k, s) # rest) rs = reported t rest (reported t [(k, s)] rs)"
  by (auto simp: reported_def map_of_eq_None_iff [THEN iffD2] split: option.splits)

lemma fold_report:
  assumes "distinct (map rs_name R)"
  shows "map rs_name R' = map rs_name R \<Longrightarrow> distinct (map fst report) \<Longrightarrow>
    fold (apply_report_entry t (region_index R)) report R' = map (reported t report) R'"
proof (induction report arbitrary: R')
  case (Cons e rest)
  obtain k s where e: "e = (k, s)" by fastforce
  have "map rs_name (map (reported t [(k, s)]) R') = map rs_name R" using Cons.prems(1) by (simp add: o_def)
  from Cons.IH [OF this] Cons.prems(2)
  have "fold (apply_report_entry t (region_index R)) (e # rest) R' = map (reported t rest) (map (reported t [(k, s)]) R')"
    by (simp add: e apply_entry_map [OF assms Cons.prems(1)])
  also have "\<dots> = map (reported t (e # rest)) R'"
    using Cons.prems(2) by (simp add: e reported_Cons [of k rest, symmetric])
  finally show ?case .
qed simp



section \<open>What a probe may do\<close>

definition probe_request :: "lib \<Rightarrow> nominatim_instance \<Rightarrow> nominatim_operation list \<Rightarrow> request \<Rightarrow> bool" where
  "probe_request L nom ops q =
     ((\<forall>j. q = Create (OJob j) \<longrightarrow>
        (\<exists>op \<in> set ops. sequenceProbeOperation op \<and>
           map_get (om_annotations (op_meta op)) annotationSequenceObserved \<noteq> annotationValueTrue \<and>
           buildSequenceProbeJob L nom op = Inr j)) \<and>
      (\<forall>x. q = UpdateObj x \<longrightarrow> obj_kind x \<in> {KRole, KRoleBinding}) \<and>
      (\<forall>kd k. q \<noteq> Delete kd k) \<and> (\<forall>x. q \<noteq> UpdateStatus x))"

lemma probe_request_simps [simp]:
  "probe_request L nom ops (Get kd k)" "probe_request L nom ops (PatchObj x)" "probe_request L nom ops (CreateOrUpdate x f)"
  "probe_request L nom ops (Create (ORole r))" "probe_request L nom ops (Create (ORoleBinding b))"
  "probe_request L nom ops (Create (OServiceAccount m))" "probe_request L nom ops (UpdateObj (ORole r))"
  "probe_request L nom ops (UpdateObj (ORoleBinding b))" "probe_request L nom ops Now"
  by (simp_all add: probe_request_def)

lemma any_create_once: "G h (Create x) \<Longrightarrow> wp G (\<lambda>_ _. True) h (create_once m x)"
  unfolding create_once_def by (auto split: sum.splits intro!: wp_any)

lemma account_requests: "wp (\<lambda>_. probe_request L nom ops) (\<lambda>_ _. True) h (ensureSequenceProbeRBAC L nom)"
  unfolding ensureSequenceProbeRBAC_def ensure_probe_account_def ensure_probe_role_def ensure_probe_binding_def
  by (auto split: sum.splits intro!: wp_any any_create_once)

lemma probe_job_requests:
  assumes "op \<in> set ops" and "sequenceProbeOperation op"
    and "map_get (om_annotations (op_meta op)) annotationSequenceObserved \<noteq> annotationValueTrue"
  shows "wp (\<lambda>_. probe_request L nom ops) (\<lambda>_ _. True) h (ensureSequenceProbeJob L nom op)"
proof -
  have "probe_request L nom ops (Create (OJob j))" if "buildSequenceProbeJob L nom op = Inr j" for j
    using assms that by (auto simp: probe_request_def)
  then show ?thesis
    unfolding ensureSequenceProbeJob_def markSequenceObserved_def
    by (auto split: sum.splits intro!: any_lift wp_any any_create_once)
qed

text \<open>A pass of the sequence observation deletes nothing, writes no status and updates nothing but the Role and
  RoleBinding of the probe; the Jobs it creates belong to succeeded Operations that are not marked as observed, and
  they mount the project volume read-only, both the claim and the mount.\<close>

theorem probe_reads_only:
  assumes "q \<in> set (issued (play (reconcileSequenceObservation L nom ops) xs))"
  shows "(\<forall>kd k. q \<noteq> Delete kd k) \<and> (\<forall>x. q \<noteq> UpdateStatus x) \<and> (\<forall>x. q = UpdateObj x \<longrightarrow> obj_kind x \<in> {KRole, KRoleBinding}) \<and>
    (\<forall>j. q = Create (OJob j) \<longrightarrow>
       (\<exists>op \<in> set ops. op_phase_of op = Succeeded \<and> buildSequenceProbeJob L nom op = Inr j \<and>
          map_get (om_annotations (op_meta op)) annotationSequenceObserved \<noteq> annotationValueTrue) \<and>
       (\<forall>v \<in> set (ps_volumes (jo_pod j)). \<exists>c. vo_claim v = Some (c, True)) \<and>
       (\<forall>c \<in> set (ps_containers (jo_pod j)). \<forall>m \<in> set (ct_mounts c). vm_read_only m))"
proof -
  have report: "wp (\<lambda>_. probe_request L nom ops) (\<lambda>_ _. True) h (applySequenceReportConfigMap L n)" for h n
    unfolding applySequenceReportConfigMap_def applySequenceReportMap_def Let_def
    by (auto split: sum.splits intro!: wp_any)
  have "wp (\<lambda>_. probe_request L nom ops) (\<lambda>_ _. True) [] (reconcileSequenceObservation L nom ops)"
    unfolding reconcileSequenceObservation_def ensureSequenceProbes_def ensureSequenceReportConfigMap_def
    by (auto intro!: wp_any account_requests probe_job_requests report)
  from wp_issued [OF this assms] have q: "probe_request L nom ops q" .
  have "(\<forall>v \<in> set (ps_volumes (jo_pod j)). \<exists>c. vo_claim v = Some (c, True)) \<and>
       (\<forall>c \<in> set (ps_containers (jo_pod j)). \<forall>m \<in> set (ct_mounts c). vm_read_only m)"
    if "buildSequenceProbeJob L nom op = Inr j" for op j
    using that by (auto simp: buildSequenceProbeJob_def Let_def probe_container_def split: sum.splits)
  with q show ?thesis unfolding probe_request_def sequenceProbeOperation_def by blast
qed

text \<open>A succeeded import whose probe is new.\<close>

definition observed_instance :: nominatim_instance where
  "observed_instance = set_regions [sample_region ''a''] sample_instance"

theorem probe_reads_only_witness:
  "\<exists>j. Create (OJob j) \<in> set (issued (play (reconcileSequenceObservation sample_lib observed_instance imported_peers)
       [RObject (OServiceAccount (new_meta ''sa'' ''ns'')), RError ErrNotFound, RError ErrAlreadyExists, RError ErrNotFound, ROk, ROk,
        RError ErrNotFound])) \<and>
     (\<exists>op \<in> set imported_peers. buildSequenceProbeJob sample_lib observed_instance op = Inr j)"
proof -
  let ?run = "play (reconcileSequenceObservation sample_lib observed_instance imported_peers)
       [RObject (OServiceAccount (new_meta ''sa'' ''ns'')), RError ErrNotFound, RError ErrAlreadyExists, RError ErrNotFound, ROk, ROk,
        RError ErrNotFound]"
  have "\<exists>e1 e2 e3 e4 e5 e6 e7 j. ?run = ([e1, e2, e3, e4, e5, e6, e7], Waiting (Create (OJob j)))"
    by (simp add: reconcileSequenceObservation_def ensureSequenceProbes_def ensureSequenceProbeRBAC_def ensure_probe_account_def
        ensure_probe_role_def ensure_probe_binding_def create_once_def ensureSequenceReportConfigMap_def wrap_error_def play_simps
        observed_instance_def imported_peers_def sequenceProbeOperation_def ensureSequenceProbeJob_def buildSequenceProbeJob_def Let_def
        own_meta_def set_controller_def controller_of_def sample_simps map_get_def annotationValueTrue_def)
  then obtain e1 e2 e3 e4 e5 e6 e7 j where run: "?run = ([e1, e2, e3, e4, e5, e6, e7], Waiting (Create (OJob j)))" by (elim exE)
  then have j: "Create (OJob j) \<in> set (issued ?run)" by (simp add: issued_def)
  from probe_reads_only [OF this] have "\<exists>op \<in> set imported_peers. buildSequenceProbeJob sample_lib observed_instance op = Inr j" by blast
  with j show ?thesis by blast
qed

end
