(* ===== verification/InstanceReconcile.thy ===== *)
theory InstanceReconcile
  imports Workloads Updates Sequence
begin

text \<open>
  One pass of the instance controller (\<open>Reconcile\<close> of \<open>internal/controller/nominatim_controller.go\<close>, with the
  maps from watched objects to instances) and its deletion (\<open>nominatim_delete.go\<close>). A pass returns the delay
  after which it wants to run again, 0 for none.
\<close>

section \<open>Deletion\<close>

definition deleteRequeueAfter :: int where "deleteRequeueAfter = 5 * second"

text \<open>The instance takes over the status that was read or written, and its version.\<close>

definition adopt_status :: "nominatim_instance \<Rightarrow> nominatim_instance \<Rightarrow> nominatim_instance" where
  "adopt_status latest nom =
     nom\<lparr>in_status := in_status latest, in_meta := (in_meta nom)\<lparr>om_version := om_version (in_meta latest)\<rparr>\<rparr>"

definition deleting_conditions :: "lib \<Rightarrow> nominatim_instance \<Rightarrow> time \<Rightarrow> condition list" where
  "deleting_conditions L latest t =
     set_condition L ((new_condition latest ConditionReady ''False'' ''Deleting''
         ''NominatimInstance is being deleted'')\<lparr>c_transition := t\<rparr>)
      (set_condition L ((new_condition latest ConditionDeleting ''True'' ''Deleting''
         ''NominatimInstance is draining Operations and owned database resources'')\<lparr>c_transition := t\<rparr>)
       (in_conditions latest))"

definition markInstanceDeleting :: "lib \<Rightarrow> nominatim_instance \<Rightarrow> nominatim_instance prog" where
  "markInstanceDeleting L nom =
     retry_on_conflict (retries L)
       (bind (get_instance (in_key nom)) (\<lambda>latest.
        if condition_is L (in_conditions latest) ConditionDeleting ''True'' \<and>
           condition_is L (in_conditions latest) ConditionReady ''False''
        then Ret (adopt_status latest nom)
        else bind now (\<lambda>t.
          bind (update_instance_status (set_conditions (deleting_conditions L latest t) latest)) (\<lambda>latest.
          Ret (adopt_status latest nom)))))"

definition drainChildOperations :: "nominatim_instance \<Rightarrow> nat prog" where
  "drainChildOperations nom =
     bind (listOperationsForParent nom) (\<lambda>ops.
     bind (for_each (\<lambda>op.
        if om_deletion (op_meta op) \<noteq> None then Ret ()
        else bind (attempt (delete KOperation (op_key op))) (\<lambda>r.
          case r of
            Inl e \<Rightarrow> if is_not_found e then Ret () else Fail (Wrap (''delete NominatimOperation '' @ quote (op_name op)) e)
          | Inr _ \<Rightarrow> Ret ())) ops) (\<lambda>_.
     bind (listOperationsForParent nom) (\<lambda>ops. Ret (length ops))))"

definition deleteOwnedUnstructuredIfController :: "lib \<Rightarrow> nominatim_instance \<Rightarrow> kind \<Rightarrow> string \<Rightarrow> string \<Rightarrow> bool prog" where
  "deleteOwnedUnstructuredIfController L nom kd kindName name =
     bind (attempt (get_unstructured kd (in_namespace nom, name))) (\<lambda>r.
       case r of
         Inl e \<Rightarrow> if is_not_found e \<or> is_no_match e then Ret False else Fail e
       | Inr u \<Rightarrow>
           if \<not> is_controlled_by L (un_meta u) (in_meta nom) then Ret False
           else if om_deletion (un_meta u) = None then
             bind (attempt (delete kd (om_namespace (un_meta u), om_name (un_meta u)))) (\<lambda>r.
               case r of
                 Inl e \<Rightarrow> if is_not_found e then Ret True else Fail (Wrap (''delete '' @ kindName @ '' '' @ quote name) e)
               | Inr _ \<Rightarrow> Ret True)
           else Ret True)"

definition deleteOwnedCNPGResources :: "lib \<Rightarrow> nominatim_instance \<Rightarrow> bool prog" where
  "deleteOwnedCNPGResources L nom =
     bind (deleteOwnedUnstructuredIfController L nom KDatabase ''Database'' (OwnedCNPGDatabaseName nom)) (\<lambda>dbWaiting.
     if dbWaiting then Ret True
     else bind (deleteOwnedUnstructuredIfController L nom KCluster ''Cluster'' (OwnedCNPGClusterName nom)) (\<lambda>clusterWaiting.
       if clusterWaiting then Ret True else Ret False))"

definition reconcileDelete :: "lib \<Rightarrow> nominatim_instance \<Rightarrow> int prog" where
  "reconcileDelete L nom =
     (if \<not> contains_finalizer L (in_meta nom) NominatimInstanceFinalizer then Ret 0
      else
        bind (markInstanceDeleting L nom) (\<lambda>nom.
        bind (drainChildOperations nom) (\<lambda>remaining.
        if remaining > 0 then Ret deleteRequeueAfter
        else
          bind (deleteOwnedCNPGResources L nom) (\<lambda>waiting.
          if waiting then Ret deleteRequeueAfter
          else
            bind (update_instance (nom\<lparr>in_meta := remove_finalizer L (in_meta nom) NominatimInstanceFinalizer\<rparr>)) (\<lambda>_.
            Ret 0)))))"

section \<open>A pass\<close>

text \<open>Writing the database status before anything reads it from the API.\<close>

definition persistDatabase :: "lib \<Rightarrow> key \<Rightarrow> nominatim_instance \<Rightarrow> nominatim_instance prog" where
  "persistDatabase L req nom =
     retry_on_conflict (retries L)
       (bind (get_instance req) (\<lambda>latest.
        bind (update_instance_status (set_database (in_database nom) latest)) (\<lambda>latest.
        Ret (adopt_status latest nom))))"

text \<open>From there on: the Operations of the instance, its workloads and its status.\<close>

definition reconcileAttached :: "lib \<Rightarrow> nominatim_instance \<Rightarrow> int prog" where
  "reconcileAttached L nom =
     bind (listOperationsForParent nom) (\<lambda>ops.
     bind (observeRegionsFromSucceededOps nom ops) (\<lambda>nom.
     bind (ensureBootstrapOperation L nom ops) (\<lambda>_.
     bind (reconcileWorkloads L nom) (\<lambda>_.
     bind (reconcileRegionDrift L nom ops) (\<lambda>_.
     bind (reconcileSequenceObservation L nom ops) (\<lambda>nom.
     bind (reconcileUpdates L nom ops) (\<lambda>(nom, delay).
     bind (syncStatus L nom) (\<lambda>_.
     Ret delay))))))))"

definition reconcileInstance :: "lib \<Rightarrow> key \<Rightarrow> int prog" where
  "reconcileInstance L req =
     bind (attempt (get_instance req)) (\<lambda>r.
       case r of
         Inl e \<Rightarrow> if is_not_found e then Ret 0 else Fail e
       | Inr nom \<Rightarrow>
           if om_deletion (in_meta nom) \<noteq> None then reconcileDelete L nom
           else if \<not> contains_finalizer L (in_meta nom) NominatimInstanceFinalizer then
             bind (update_instance (nom\<lparr>in_meta := add_finalizer L (in_meta nom) NominatimInstanceFinalizer\<rparr>)) (\<lambda>_. Ret 0)
           else
             bind (reconcileDatabase L nom) (\<lambda>nom.
             bind (persistDatabase L req nom) (\<lambda>nom.
             reconcileAttached L nom)))"

section \<open>Which instances a watched object concerns\<close>

definition mapOperationToNominatimInstance :: "obj \<Rightarrow> key list" where
  "mapOperationToNominatimInstance x =
     (case x of
        OOperation op \<Rightarrow> if op_instance op = '''' then [] else [(op_namespace op, op_instance op)]
      | _ \<Rightarrow> [])"

definition add_key :: "key \<Rightarrow> key list \<Rightarrow> key list" where
  "add_key k ks = (if List.member ks k then ks else ks @ [k])"

text \<open>Without a client only the owners count.\<close>

definition mapCNPGClusterToNominatimInstance :: "bool \<Rightarrow> obj \<Rightarrow> key list prog" where
  "mapCNPGClusterToNominatimInstance client x =
     (case x of
        OUnstructured kd u \<Rightarrow>
          let ns = om_namespace (un_meta u);
              owners = fold (\<lambda>r. if ow_kind r = ''NominatimInstance'' \<and> ow_api_version r = GroupVersion then add_key (ns, ow_name r) else id)
                (om_owners (un_meta u)) []
          in if \<not> client then Ret owners
             else bind (attempt (call (ListInstances ns) as_instances)) (\<lambda>r.
               case r of
                 Inl e \<Rightarrow> Ret owners
               | Inr items \<Rightarrow>
                   Ret (fold (\<lambda>nom. case db_cluster_ref (sp_database (in_spec nom)) of
                          Some ref \<Rightarrow> if cr_name ref = om_name (un_meta u) then add_key (in_key nom) else id
                        | None \<Rightarrow> id) items owners))
      | _ \<Rightarrow> Ret [])"

text \<open>The REST mapper is not part of the sources: its answer for the kind is an argument.\<close>

definition gvkAvailableFromMapper :: "(error + unit) \<Rightarrow> error + bool" where
  "gvkAvailableFromMapper answer =
     (case answer of Inl e \<Rightarrow> if is_no_match e then Inr False else Inl e | Inr _ \<Rightarrow> Inr True)"

end
