(* ===== verification/InstanceSafety.thy ===== *)
theory InstanceSafety
  imports InstanceReconcile
begin

text \<open>
  What a pass of the instance controller may do: what a deletion deletes and when the instance is let go, and
  what is persisted before an Operation is created.
\<close>

section \<open>Deletion\<close>

text \<open>Only the status and the version of the instance change before its end.\<close>

definition same_object :: "nominatim_instance \<Rightarrow> nominatim_instance \<Rightarrow> bool" where
  "same_object nom nom' = (in_spec nom' = in_spec nom \<and> (\<exists>v. in_meta nom' = (in_meta nom)\<lparr>om_version := v\<rparr>))"

lemma same_object_names [simp]:
  "same_object nom nom' \<Longrightarrow> in_name nom' = in_name nom" "same_object nom nom' \<Longrightarrow> in_namespace nom' = in_namespace nom"
  "same_object nom nom' \<Longrightarrow> OwnedCNPGClusterName nom' = OwnedCNPGClusterName nom"
  by (auto simp: same_object_def OwnedCNPGClusterName_def)

lemma same_adopted [simp]: "same_object nom (adopt_status latest nom)"
  unfolding same_object_def adopt_status_def by (intro conjI exI [of _ "om_version (in_meta latest)"]) simp_all

text \<open>No Operation of the instance is left, as the last list of them showed.\<close>

definition saw_drained :: "nominatim_instance \<Rightarrow> trace \<Rightarrow> bool" where
  "saw_drained nom h =
     (\<exists>items. (ListOperations (in_namespace nom), ROperations items) \<in> set h \<and> filter (\<lambda>op. op_instance op = in_name nom) items = [])"

text \<open>The object of a name is gone, has no kind in this cluster, or is not controlled by the instance.\<close>

definition saw_gone :: "lib \<Rightarrow> nominatim_instance \<Rightarrow> kind \<Rightarrow> string \<Rightarrow> trace \<Rightarrow> bool" where
  "saw_gone L nom kd n h =
     (\<exists>x. (Get kd (in_namespace nom, n), x) \<in> set h \<and>
        ((\<exists>e. x = RError e \<and> (is_not_found e \<or> is_no_match e)) \<or>
         (\<exists>kd' u v. x = RObject (OUnstructured kd' u) \<and> \<not> is_controlled_by L (un_meta u) ((in_meta nom)\<lparr>om_version := v\<rparr>))))"

text \<open>An object of the instance was read.\<close>

definition saw_owned :: "lib \<Rightarrow> nominatim_instance \<Rightarrow> kind \<Rightarrow> key \<Rightarrow> trace \<Rightarrow> bool" where
  "saw_owned L nom kd k h =
     (\<exists>n kd' u v. (Get kd (in_namespace nom, n), RObject (OUnstructured kd' u)) \<in> set h \<and>
        is_controlled_by L (un_meta u) ((in_meta nom)\<lparr>om_version := v\<rparr>) \<and> k = (om_namespace (un_meta u), om_name (un_meta u)))"

definition saw_child :: "nominatim_instance \<Rightarrow> key \<Rightarrow> trace \<Rightarrow> bool" where
  "saw_child nom k h =
     (\<exists>items op. (ListOperations (in_namespace nom), ROperations items) \<in> set h \<and> op \<in> set items \<and>
        op_instance op = in_name nom \<and> om_deletion (op_meta op) = None \<and> k = op_key op)"

definition teardown_request :: "lib \<Rightarrow> nominatim_instance \<Rightarrow> trace \<Rightarrow> request \<Rightarrow> bool" where
  "teardown_request L nom h q =
     ((\<forall>kd k. q = Delete kd k \<longrightarrow>
        (kd = KOperation \<and> saw_child nom k h) \<or> (kd \<in> {KDatabase, KCluster} \<and> saw_drained nom h \<and> saw_owned L nom kd k h)) \<and>
      (\<forall>n. q = UpdateObj (OInstance n) \<longrightarrow>
         saw_drained nom h \<and> (\<exists>nom'. same_object nom nom' \<and> saw_gone L nom KDatabase (OwnedCNPGDatabaseName nom') h) \<and>
         saw_gone L nom KCluster (OwnedCNPGClusterName nom) h))"

lemma teardown_simps [simp]:
  "teardown_request L nom h (Get kd k)" "teardown_request L nom h (ListOperations ns)" "teardown_request L nom h (UpdateStatus x)"
  "teardown_request L nom h Now"
  by (simp_all add: teardown_request_def)

lemma teardown_grows:
  "prefix h h' \<Longrightarrow> saw_drained nom h \<Longrightarrow> saw_drained nom h'"
  "prefix h h' \<Longrightarrow> saw_gone L nom kd n h \<Longrightarrow> saw_gone L nom kd n h'"
  "prefix h h' \<Longrightarrow> saw_owned L nom kd k h \<Longrightarrow> saw_owned L nom kd k h'"
  "prefix h h' \<Longrightarrow> saw_child nom k h \<Longrightarrow> saw_child nom k h'"
  using set_mono_prefix unfolding saw_drained_def saw_gone_def saw_owned_def saw_child_def by blast+

lemma wp_mark:
  "wp (teardown_request L nom) (\<lambda>_ r. case r of Inl e \<Rightarrow> True | Inr nom' \<Rightarrow> same_object nom nom') h (markInstanceDeleting L nom)"
  unfolding markInstanceDeleting_def
  by (rule wp_retry [where I = "\<lambda>_. True"]) (auto simp: wp_simps split: sum.splits response.splits)

lemma wp_drain:
  assumes "same_object nom nom'"
  shows "wp (teardown_request L nom) (\<lambda>h r. case r of Inl e \<Rightarrow> True | Inr n \<Rightarrow> n = 0 \<longrightarrow> saw_drained nom h) h (drainChildOperations nom')"
proof -
  note same = assms [THEN same_object_names(1)] assms [THEN same_object_names(2)]
  have each: "wp (teardown_request L nom) (\<lambda>_ _. True) h' (for_each (\<lambda>op.
        if om_deletion (op_meta op) \<noteq> None then Ret ()
        else bind (attempt (delete KOperation (op_key op))) (\<lambda>r.
          case r of
            Inl e \<Rightarrow> if is_not_found e then Ret () else Fail (Wrap (''delete NominatimOperation '' @ quote (op_name op)) e)
          | Inr _ \<Rightarrow> Ret ())) (filter (\<lambda>op. op_instance op = in_name nom) items))"
    if "(ListOperations (in_namespace nom), ROperations items) \<in> set h'" for h' items
  proof (rule wp_for_each [where I = "\<lambda>h. (ListOperations (in_namespace nom), ROperations items) \<in> set h"])
    fix op h
    assume op: "op \<in> set (filter (\<lambda>op. op_instance op = in_name nom) items)"
      and seen: "(ListOperations (in_namespace nom), ROperations items) \<in> set h"
    then have "saw_child nom (op_key op) h" if "om_deletion (op_meta op) = None" using that by (auto simp: saw_child_def)
    with seen show "wp (teardown_request L nom) (\<lambda>h' r. case r of Inl e \<Rightarrow> True
        | Inr _ \<Rightarrow> (ListOperations (in_namespace nom), ROperations items) \<in> set h') h
       (if om_deletion (op_meta op) \<noteq> None then Ret ()
        else bind (attempt (delete KOperation (op_key op))) (\<lambda>r.
          case r of
            Inl e \<Rightarrow> if is_not_found e then Ret () else Fail (Wrap (''delete NominatimOperation '' @ quote (op_name op)) e)
          | Inr _ \<Rightarrow> Ret ()))"
      by (auto simp: wp_simps teardown_request_def split: sum.splits)
  qed (use that in simp_all)
  have list: "wp (teardown_request L nom) (\<lambda>h r. case r of Inl e \<Rightarrow> True | Inr ops \<Rightarrow>
      \<exists>items. (ListOperations (in_namespace nom), ROperations items) \<in> set h \<and> ops = filter (\<lambda>op. op_instance op = in_name nom) items) h
      (listOperationsForParent nom')" for h
    by (auto simp: listOperationsForParent_def wp_simps same split: sum.splits)
  show ?thesis
    unfolding drainChildOperations_def
    by (rule wp_seq [OF list], simp, elim exE conjE, simp only:, rule wp_seq_any [OF each], assumption, simp,
        rule wp_seq [OF list], simp) (auto simp: saw_drained_def)
qed

lemma wp_delete_owned:
  assumes "same_object nom nom'" and "saw_drained nom h" and "kd \<in> {KDatabase, KCluster}"
  shows "wp (teardown_request L nom) (\<lambda>h r. case r of Inl e \<Rightarrow> True | Inr b \<Rightarrow> \<not> b \<longrightarrow> saw_gone L nom kd n h) h
    (deleteOwnedUnstructuredIfController L nom' kd what n)"
proof -
  obtain v where v: "in_meta nom' = (in_meta nom)\<lparr>om_version := v\<rparr>" using assms(1) unfolding same_object_def by blast
  have drained: "saw_drained nom (h @ es)" for es using teardown_grows(1) [OF _ assms(2)] by simp
  have delete: "teardown_request L nom (h @ [(Get kd (in_namespace nom, n), RObject (OUnstructured kd' u))])
      (Delete kd (om_namespace (un_meta u), om_name (un_meta u)))"
    if "is_controlled_by L (un_meta u) ((in_meta nom)\<lparr>om_version := v\<rparr>)" for kd' u
  proof -
    have "saw_owned L nom kd (om_namespace (un_meta u), om_name (un_meta u))
        (h @ [(Get kd (in_namespace nom, n), RObject (OUnstructured kd' u))])"
      unfolding saw_owned_def using that by (intro exI [of _ n] exI [of _ kd'] exI [of _ u] exI [of _ v]) simp
    with drained assms(3) show ?thesis by (simp add: teardown_request_def)
  qed
  have gone: "saw_gone L nom kd n (h @ [(Get kd (in_namespace nom, n), RError e)])" if "is_not_found e \<or> is_no_match e" for e
    using that by (auto simp: saw_gone_def)
  have alien: "saw_gone L nom kd n (h @ [(Get kd (in_namespace nom, n), RObject (OUnstructured kd' u))])"
    if "\<not> is_controlled_by L (un_meta u) ((in_meta nom)\<lparr>om_version := v\<rparr>)" for kd' u
    unfolding saw_gone_def using that
    by (intro exI [of _ "RObject (OUnstructured kd' u)"] conjI disjI2 exI [of _ kd'] exI [of _ u] exI [of _ v]) simp_all
  show ?thesis
    unfolding deleteOwnedUnstructuredIfController_def
    by (auto simp: wp_simps v same_object_names [OF assms(1)] dest!: bad_response split: sum.splits intro: delete gone alien)
qed

lemma wp_reconcileDelete: "wp (teardown_request L nom) (\<lambda>_ _. True) [] (reconcileDelete L nom)"
proof -
  have finish: "wp (teardown_request L nom) (\<lambda>_ _. True) h (bind (update_instance n) (\<lambda>_. Ret 0))"
    if "saw_drained nom h" "same_object nom nom'" "saw_gone L nom KDatabase (OwnedCNPGDatabaseName nom') h"
      "saw_gone L nom KCluster (OwnedCNPGClusterName nom) h" for h nom' n
  proof (intro any_bind any_update_status any_parts)
    show "teardown_request L nom h (UpdateObj (OInstance n))" using that by (auto simp: teardown_request_def)
  qed
  have cluster: "wp (teardown_request L nom) (\<lambda>h r. case r of Inl e \<Rightarrow> True | Inr b \<Rightarrow> \<not> b \<longrightarrow>
      saw_gone L nom KDatabase (OwnedCNPGDatabaseName nom') h \<and> saw_gone L nom KCluster (OwnedCNPGClusterName nom) h) h
      (deleteOwnedCNPGResources L nom')"
    if d: "saw_drained nom h" and s: "same_object nom nom'" for h nom'
    unfolding deleteOwnedCNPGResources_def
  proof (rule wp_seq [OF wp_delete_owned [OF s d]], simp, simp)
    fix h' b
    assume p: "prefix h h'" and g: "\<not> b \<longrightarrow> saw_gone L nom KDatabase (OwnedCNPGDatabaseName nom') h'"
    show "wp (teardown_request L nom) (\<lambda>h r. case r of Inl e \<Rightarrow> True | Inr b \<Rightarrow> \<not> b \<longrightarrow>
        saw_gone L nom KDatabase (OwnedCNPGDatabaseName nom') h \<and> saw_gone L nom KCluster (OwnedCNPGClusterName nom) h) h'
      (if b then Ret True
       else bind (deleteOwnedUnstructuredIfController L nom' KCluster ''Cluster'' (OwnedCNPGClusterName nom')) (\<lambda>clusterWaiting.
         if clusterWaiting then Ret True else Ret False))"
      using g s by (auto intro!: wp_seq [OF wp_delete_owned [OF s teardown_grows(1) [OF p d]]] intro: teardown_grows(2))
  qed
  have rest: "wp (teardown_request L nom) (\<lambda>_ _. True) h
     (bind (deleteOwnedCNPGResources L nom') (\<lambda>waiting.
          if waiting then Ret deleteRequeueAfter
          else
            bind (update_instance (nom'\<lparr>in_meta := remove_finalizer L (in_meta nom') NominatimInstanceFinalizer\<rparr>)) (\<lambda>_.
            Ret 0)))"
    if d: "saw_drained nom h" and s: "same_object nom nom'" for h nom'
    by (rule wp_seq [OF cluster [OF d s]]) (auto intro!: finish [OF _ s] intro: teardown_grows(1) [OF _ d])
  have marked: "wp (teardown_request L nom) (\<lambda>_ _. True) h
      (bind (drainChildOperations nom') (\<lambda>remaining.
        if remaining > 0 then Ret deleteRequeueAfter
        else
          bind (deleteOwnedCNPGResources L nom') (\<lambda>waiting.
          if waiting then Ret deleteRequeueAfter
          else
            bind (update_instance (nom'\<lparr>in_meta := remove_finalizer L (in_meta nom') NominatimInstanceFinalizer\<rparr>)) (\<lambda>_.
            Ret 0))))"
    if s: "same_object nom nom'" for h nom'
    by (rule wp_seq [OF wp_drain [OF s]]) (auto intro: rest [OF _ s])
  show ?thesis
    unfolding reconcileDelete_def by (auto intro!: wp_seq [OF wp_mark] marked)
qed

text \<open>C15. Whatever the API server answers, a deletion deletes nothing but Operations of the instance that it listed
  and that are not deleted yet, and, once no Operation is left, CNPG Databases and Clusters that it read and
  that the instance controls; claims and clusters of others stay.\<close>

theorem teardown_deletes_owned:
  assumes "play (reconcileDelete L nom) xs = (t1 @ (Delete kd k, x) # t2, out)"
  shows "(kd = KOperation \<and> saw_child nom k t1) \<or> (kd \<in> {KDatabase, KCluster} \<and> saw_drained nom t1 \<and> saw_owned L nom kd k t1)"
  using wp_play_guard [OF wp_reconcileDelete assms] unfolding teardown_request_def by blast


text \<open>After a BlueGreen swap the live Cluster has the sibling's name: no deletion reads or deletes it, only the
  Cluster of the default name.\<close>

theorem swapped_cluster_not_awaited:
  assumes "q \<in> set (issued (play (reconcileDelete L nom) xs))" and "q = Get KCluster k"
  shows "k = (in_namespace nom, OwnedCNPGClusterName nom)"
proof -
  define G where "G q = (\<forall>k. q = Get KCluster k \<longrightarrow> k = (in_namespace nom, OwnedCNPGClusterName nom))" for q
  have reads: "G (Get KInstance k)" "G (ListOperations ns)" "G Now" "G (UpdateStatus x)" "G (UpdateObj x)" "G (Delete kd k)" "G (Get KDatabase k)"
    "G (Get KCluster (in_namespace nom, OwnedCNPGClusterName nom))" for k ns x kd
    by (simp_all add: G_def)
  have after: "wp (\<lambda>_. G) (\<lambda>_ _. True) h
      (bind (drainChildOperations nom') (\<lambda>remaining.
        if remaining > 0 then Ret deleteRequeueAfter
        else
          bind (deleteOwnedCNPGResources L nom') (\<lambda>waiting.
          if waiting then Ret deleteRequeueAfter
          else
            bind (update_instance (nom'\<lparr>in_meta := remove_finalizer L (in_meta nom') NominatimInstanceFinalizer\<rparr>)) (\<lambda>_.
            Ret 0))))" if s: "same_object nom nom'" for h nom'
    unfolding drainChildOperations_def listOperationsForParent_def deleteOwnedCNPGResources_def deleteOwnedUnstructuredIfController_def
    by (auto simp: reads same_object_names [OF s] split: sum.splits intro!: wp_any any_update_status)
  have mark: "wp (\<lambda>_. G) (\<lambda>_ r. case r of Inl e \<Rightarrow> True | Inr nom' \<Rightarrow> same_object nom nom') h (markInstanceDeleting L nom)" for h
    unfolding markInstanceDeleting_def
    by (rule wp_retry [where I = "\<lambda>_. True"]) (auto simp: wp_simps reads split: sum.splits response.splits)
  have "wp (\<lambda>_. G) (\<lambda>_ _. True) [] (reconcileDelete L nom)"
    unfolding reconcileDelete_def by (auto intro!: wp_seq [OF mark] after)
  from wp_issued [OF this assms(1)] assms(2) show ?thesis by (simp add: G_def)
qed

section \<open>A pass\<close>

definition no_operation :: "request \<Rightarrow> bool" where
  "no_operation q = (\<forall>op. q \<noteq> Create (OOperation op))"

lemma no_operation_simps [simp]:
  "no_operation (Get kd k)" "no_operation (ListOperations ns)" "no_operation (UpdateStatus x)" "no_operation (UpdateObj x)"
  "no_operation Now" "no_operation (Delete kd k)" "no_operation (CreateOrUpdate x f)" "no_operation (PatchObj x)"
  "no_operation (Create (OClaim c))" "no_operation (Create (OJob j))" "no_operation (Create (ORole r))"
  "no_operation (Create (ORoleBinding b))" "no_operation (Create (OServiceAccount m))"
  by (simp_all add: no_operation_def)

lemma database_no_operation: "wp (\<lambda>_. no_operation) (\<lambda>_ _. True) h (reconcileDatabase L nom)"
  unfolding reconcileDatabase_def reconcileDatabaseClusterCreate_def reconcileDatabaseClusterRef_def reconcileDatabaseConnectionSecret_def
    ensureOwnedCNPGCluster_def reconcileOwnedCNPGDatabase_def ensureOwnedCNPGDatabase_def hasPendingRebuildDatabaseReset_def
    getCNPGCluster_def Let_def
  by (auto split: option.splits sum.splits intro!: wp_any)

lemma deleted_serving_no_operation: "wp (\<lambda>_. no_operation) (\<lambda>_ _. True) h (deleteServingComponent nom n c)"
  by (rule wp_mono [OF wp_delete_serving]) auto

lemma service_no_operation:
  "wp (\<lambda>_. no_operation) (\<lambda>_ _. True) h (reconcileService L nom n sel c)"
  "wp (\<lambda>_. no_operation) (\<lambda>_ _. True) h (reconcileHTTPRoute L nom n sn r c)"
  by (simp_all add: reconcileService_def reconcileHTTPRoute_def wp_call)

lemma pvc_no_operation: "wp (\<lambda>_. no_operation) (\<lambda>_ _. True) h (reconcilePVC L nom vs n c)"
  unfolding reconcilePVC_def Let_def by (auto split: option.splits sum.splits intro!: wp_any)

lemma suspend_no_operation: "wp (\<lambda>_. no_operation) (\<lambda>_ _. True) h (shouldSuspendAPI nom imp)"
proof -
  have "wp (\<lambda>_. no_operation) (\<lambda>_ _. True) h (shouldSuspendLoop nom imp refs)" for imp refs
    by (induction refs arbitrary: h) (auto split: sum.splits intro!: wp_any)
  then show ?thesis unfolding shouldSuspendAPI_def .
qed

lemma api_no_operation: "wp (\<lambda>_. no_operation) (\<lambda>_ _. True) h (reconcileAPI L nom)"
  unfolding reconcileAPI_def Let_def
  by (auto split: option.splits intro!: wp_any service_no_operation deleted_serving_no_operation suspend_no_operation)

lemma ui_no_operation: "wp (\<lambda>_. no_operation) (\<lambda>_ _. True) h (reconcileUI L nom)"
  unfolding reconcileUI_def Let_def
  by (auto split: option.splits bool.splits intro!: wp_any service_no_operation deleted_serving_no_operation)

lemma workloads_no_operation: "wp (\<lambda>_. no_operation) (\<lambda>_ _. True) h (reconcileWorkloads L nom)"
  unfolding reconcileWorkloads_def
  by (auto split: option.splits intro!: wp_any pvc_no_operation api_no_operation ui_no_operation)

lemma sequence_no_operation: "wp (\<lambda>_. no_operation) (\<lambda>_ _. True) h (reconcileSequenceObservation L nom ops)"
  unfolding reconcileSequenceObservation_def ensureSequenceProbes_def ensureSequenceProbeRBAC_def ensure_probe_account_def
    ensure_probe_role_def ensure_probe_binding_def ensureSequenceReportConfigMap_def ensureSequenceProbeJob_def markSequenceObserved_def
    applySequenceReportConfigMap_def applySequenceReportMap_def Let_def
  by (auto split: option.splits sum.splits intro!: wp_any any_create_once)

text \<open>A database status that was written, and accepted.\<close>

definition saw_written :: "database_status \<Rightarrow> trace \<Rightarrow> bool" where
  "saw_written d h = (\<exists>n v. (UpdateStatus (OInstance n), RVersion v) \<in> set h \<and> in_database n = d)"

definition after_database :: "trace \<Rightarrow> request \<Rightarrow> bool" where
  "after_database h q =
     (\<forall>op. q = Create (OOperation op) \<longrightarrow> (\<exists>d. saw_written d h \<and> (op_type_of op \<noteq> Update \<longrightarrow> ds_secret d \<noteq> '''')))"

lemma written_grows: "prefix h h' \<Longrightarrow> saw_written d h \<Longrightarrow> saw_written d h'"
  using set_mono_prefix unfolding saw_written_def by blast

lemma after_weak: "wp (\<lambda>_. no_operation) Q h p \<Longrightarrow> wp after_database Q h p"
  by (erule wp_mono) (simp_all add: after_database_def no_operation_def)

lemma wp_persist:
  "wp (\<lambda>_. no_operation) (\<lambda>h r. case r of Inl e \<Rightarrow> True | Inr nom' \<Rightarrow> saw_written (in_database nom') h) h (persistDatabase L req nom)"
  unfolding persistDatabase_def
  by (rule wp_retry [where I = "\<lambda>_. True"])
     (auto simp: wp_simps saw_written_def adopt_status_def split: sum.splits response.splits)

lemma wp_observe_database:
  "wp (\<lambda>_. no_operation) (\<lambda>_ r. case r of Inl e \<Rightarrow> True | Inr nom' \<Rightarrow> in_database nom' = in_database nom) h
    (observeRegionsFromSucceededOps nom ops)"
proof -
  have boot: "wp (\<lambda>_. no_operation) (\<lambda>_ r. case r of Inl e \<Rightarrow> True | Inr nom' \<Rightarrow> in_database nom' = in_database nom) h
      (syncRegionsFromBootstrapLoop nom ps)" for ps h
    by (induction ps arbitrary: h)
       (auto simp: wp_simps sealObservedNominatimConfig_def sealObservedNominatimConfigForce_def Let_def split: sum.splits option.splits)
  have drift: "wp (\<lambda>_. no_operation) (\<lambda>_ r. case r of Inl e \<Rightarrow> True | Inr nom' \<Rightarrow> in_database nom' = in_database n) h
      (syncRegionsFromDriftOp op n)" for op n h
    unfolding syncRegionsFromDriftOp_def mergeRegionsIntoStatus_def replaceRegionsStatus_def
    by (auto simp: wp_simps sealObservedNominatimConfigForce_def Let_def split: op_type.splits sum.splits option.splits)
  show ?thesis
    unfolding observeRegionsFromSucceededOps_def
  proof (rule wp_seq [where S = "\<lambda>_ n. in_database n = in_database nom"])
    show "wp (\<lambda>_. no_operation) (\<lambda>h r. case r of Inl e \<Rightarrow> True | Inr n \<Rightarrow> in_database n = in_database nom) h (syncRegionsFromBootstrap nom ops)"
      using boot by (simp add: syncRegionsFromBootstrap_def)
    show "wp (\<lambda>_. no_operation) (\<lambda>_ r. case r of Inl e \<Rightarrow> True | Inr nom' \<Rightarrow> in_database nom' = in_database nom) h' (syncRegionsFromDriftOps n ops)"
      if "in_database n = in_database nom" for h' n
      unfolding syncRegionsFromDriftOps_def
      by (rule wp_fold_prog [where I = "\<lambda>_ n. in_database n = in_database nom"])
         (use that in \<open>auto intro!: wp_mono [OF drift] split: sum.splits\<close>)
  qed simp
qed

lemma delete_no_operation: "wp (\<lambda>_. no_operation) (\<lambda>_ _. True) h (reconcileDelete L nom)"
  unfolding reconcileDelete_def markInstanceDeleting_def drainChildOperations_def listOperationsForParent_def
    deleteOwnedCNPGResources_def deleteOwnedUnstructuredIfController_def
  by (auto split: sum.splits intro!: wp_any any_update_status)

lemma wp_reconcileAttached:
  assumes "lib_owners L" and w: "saw_written (in_database nom) h"
  shows "wp after_database (\<lambda>_ _. True) h (reconcileAttached L nom)"
proof -
  have secret: "after_database h' (Create (OOperation op))"
    if "saw_written (in_database n) h'" "ds_secret (in_database n) \<noteq> ''''" for h' n op
    using that by (auto simp: after_database_def)
  have boot: "wp after_database (\<lambda>_ _. True) h' (ensureBootstrapOperation L n ops)" if "saw_written (in_database n) h'" for h' n ops
    unfolding ensureBootstrapOperation_def createOwnedOperation_def
    by (auto simp: wp_simps split: sum.splits intro: secret that)
  have drift: "wp after_database (\<lambda>_ _. True) h' (reconcileRegionDrift L n ops)" if "saw_written (in_database n) h'" for h' n ops
    using wp_prefix [OF wp_region_drift]
    by (rule wp_mono) (auto simp: drift_operation_def after_database_def intro: written_grows [OF _ that])
  have updates: "wp after_database (\<lambda>_ _. True) h' (reconcileUpdates L n ops)" if "saw_written d h'" for h' n ops d
    using wp_prefix [OF wp_reconcileUpdates [OF assms(1)]]
    by (rule wp_mono) (auto simp: scheduled_update_def after_database_def intro: written_grows [OF _ that])
  have status: "wp after_database (\<lambda>_ _. True) h' (syncStatus L n)" for h' n
    by (rule after_weak) (auto simp: syncStatus_def Let_def intro!: any_bind any_parts)
  show ?thesis
    unfolding reconcileAttached_def
  proof (rule wp_seq_any, rule after_weak)
    show "wp (\<lambda>_. no_operation) (\<lambda>_ _. True) h (listOperationsForParent nom)"
      unfolding listOperationsForParent_def by (intro wp_any) simp
    fix h1 ops
    assume "prefix h h1"
    then have w1: "saw_written (in_database nom) h1" using w by (rule written_grows)
    show "wp after_database (\<lambda>_ _. True) h1
       (bind (observeRegionsFromSucceededOps nom ops) (\<lambda>nom.
        bind (ensureBootstrapOperation L nom ops) (\<lambda>_.
        bind (reconcileWorkloads L nom) (\<lambda>_.
        bind (reconcileRegionDrift L nom ops) (\<lambda>_.
        bind (reconcileSequenceObservation L nom ops) (\<lambda>nom.
        bind (reconcileUpdates L nom ops) (\<lambda>(nom, delay).
        bind (syncStatus L nom) (\<lambda>_.
        Ret delay))))))))"
    proof (rule wp_seq [OF after_weak [OF wp_observe_database]], simp)
      fix h2 n
      assume "prefix h1 h2" and d: "in_database n = in_database nom"
      then have w2: "saw_written (in_database n) h2" using written_grows w1 by simp
      note grow = written_grows [OF _ w2] prefix_order.trans
      show "wp after_database (\<lambda>_ _. True) h2
       (bind (ensureBootstrapOperation L n ops) (\<lambda>_.
        bind (reconcileWorkloads L n) (\<lambda>_.
        bind (reconcileRegionDrift L n ops) (\<lambda>_.
        bind (reconcileSequenceObservation L n ops) (\<lambda>nom.
        bind (reconcileUpdates L nom ops) (\<lambda>(nom, delay).
        bind (syncStatus L nom) (\<lambda>_.
        Ret delay)))))))"
        by (intro wp_seq_any after_weak [OF workloads_no_operation] after_weak [OF sequence_no_operation] boot drift)
           (auto intro!: w2 wp_seq_any updates status intro: grow)
    qed
  qed simp
qed

text \<open>C10. A pass of the instance controller creates an Operation only after a status write with the database of the
  instance was accepted; for every Operation but an Update, which needs an imported instance, that database has
  its connection secret. So no Operation is seen before the connection that its Job needs.\<close>

theorem operations_after_database:
  assumes "lib_owners L" and "play (reconcileInstance L req) xs = (t1 @ (Create (OOperation op), x) # t2, out)"
  shows "\<exists>n v. (UpdateStatus (OInstance n), RVersion v) \<in> set t1 \<and> (op_type_of op \<noteq> Update \<longrightarrow> ds_secret (in_database n) \<noteq> '''')"
proof -
  have live: "wp after_database (\<lambda>_ _. True) h (bind (reconcileDatabase L nom) (\<lambda>nom. bind (persistDatabase L req nom) (\<lambda>nom. reconcileAttached L nom)))"
    for h nom
    by (rule wp_seq_any [OF after_weak [OF database_no_operation]], simp,
        rule wp_seq [OF after_weak [OF wp_persist]], simp, rule wp_reconcileAttached [OF assms(1)])
  have "wp after_database (\<lambda>_ _. True) [] (reconcileInstance L req)"
    unfolding reconcileInstance_def
    by (rule wp_seq_any, rule after_weak)
       (auto split: sum.splits intro!: wp_any any_update_status live after_weak [OF delete_no_operation] simp: after_database_def wp_attempt wp_call)
  from wp_play_guard [OF this assms(2)] show ?thesis by (auto simp: after_database_def saw_written_def)
qed

text \<open>Instances with the finalizer, to delete and to reconcile.\<close>

definition kept_instance :: nominatim_instance where
  "kept_instance = sample_instance\<lparr>in_meta := (new_meta ''inst'' ''ns'')\<lparr>om_finalizers := [NominatimInstanceFinalizer]\<rparr>\<rparr>"

lemma kept_facts [simp]:
  "in_name kept_instance = ''inst''" "in_namespace kept_instance = ''ns''" "om_deletion (in_meta kept_instance) = None"
  "contains_fin (in_meta kept_instance) NominatimInstanceFinalizer" "in_conditions kept_instance = []"
  "in_regions kept_instance = []" "sp_regions (in_spec kept_instance) = [''europe/monaco'', ''europe/malta'']"
  "db_secret_ref (sp_database (in_spec kept_instance)) = Some ''secret''"
  by (simp_all add: kept_instance_def contains_fin_def sample_simps)

lemmas teardown_defs = reconcileDelete_def markInstanceDeleting_def drainChildOperations_def listOperationsForParent_def
  deleteOwnedCNPGResources_def deleteOwnedUnstructuredIfController_def update_instance_status_def update_instance_def adopt_status_def

theorem teardown_deletes_owned_witness:
  "\<exists>t1 x t2 out. play (reconcileDelete sample_lib kept_instance)
       [RObject (OInstance kept_instance), RTime 1, RVersion ''2'', ROperations [sample_operation ''op'' Bootstrap PhaseUnset [''a'']], ROk] =
     (t1 @ (Delete KOperation (''ns'', ''op''), x) # t2, out) \<and> saw_child kept_instance (''ns'', ''op'') t1"
proof -
  let ?p = "play (reconcileDelete sample_lib kept_instance)
       [RObject (OInstance kept_instance), RTime 1, RVersion ''2'', ROperations [sample_operation ''op'' Bootstrap PhaseUnset [''a'']], ROk]"
  have "\<exists>e1 e2 e3 e4 out. ?p = ([e1, e2, e3, e4] @ (Delete KOperation (''ns'', ''op''), ROk) # [], out)"
    by (simp add: teardown_defs play_simps eval_nat_numeral condition_present_and_equal_def condition_status_def condition_of_def)
  then obtain e1 e2 e3 e4 out where run: "?p = ([e1, e2, e3, e4] @ (Delete KOperation (''ns'', ''op''), ROk) # [], out)" by (elim exE)
  from teardown_deletes_owned [OF run] have "saw_child kept_instance (''ns'', ''op'') [e1, e2, e3, e4]" by simp
  with run show ?thesis by blast
qed


text \<open>A pass over it that creates the Bootstrap, which another pass created before.\<close>

abbreviation kept_pass :: "trace \<times> int outcome" where
  "kept_pass \<equiv> play (reconcileInstance sample_lib (''ns'', ''inst''))
     [RObject (OInstance kept_instance), RObject (OSecret (new_meta ''secret'' ''ns'')), RObject (OInstance kept_instance), RVersion ''2'',
      ROperations [], RError ErrAlreadyExists]"

lemma kept_run:
  "\<exists>e2 e3 e4 e5 op out. kept_pass = ((Get KInstance (''ns'', ''inst''), RObject (OInstance kept_instance)) # [e2, e3, e4, e5] @
     (Create (OOperation op), RError ErrAlreadyExists) # [], out) \<and> op_type_of op = Bootstrap"
  by (simp add: reconcileInstance_def reconcileDatabase_def reconcileDatabaseConnectionSecret_def persistDatabase_def
      reconcileAttached_def listOperationsForParent_def observeRegionsFromSucceededOps_def syncRegionsFromBootstrap_def
      syncRegionsFromDriftOps_def ensureBootstrapOperation_def createOwnedOperation_def set_controller_def controller_of_def
      wrap_error_def play_simps eval_nat_numeral update_instance_status_def adopt_status_def Let_def)

theorem operations_after_database_witness:
  "\<exists>t1 op x t2 out. kept_pass = (t1 @ (Create (OOperation op), x) # t2, out) \<and> op_type_of op = Bootstrap \<and>
     (\<exists>n v. (UpdateStatus (OInstance n), RVersion v) \<in> set t1 \<and> ds_secret (in_database n) \<noteq> '''')"
proof -
  let ?e = "(Get KInstance (''ns'', ''inst''), RObject (OInstance kept_instance))"
  from kept_run obtain e2 e3 e4 e5 op out
    where run: "kept_pass = ((?e # [e2, e3, e4, e5]) @ (Create (OOperation op), RError ErrAlreadyExists) # [], out)"
      and boot: "op_type_of op = Bootstrap" by auto
  from operations_after_database [OF sample_lib_ok(4) run] boot
  have "\<exists>n v. (UpdateStatus (OInstance n), RVersion v) \<in> set (?e # [e2, e3, e4, e5]) \<and> ds_secret (in_database n) \<noteq> ''''" by simp
  with run boot show ?thesis by blast
qed

end
