(* ===== verification/Ownership.thy ===== *)
theory Ownership
  imports InstanceSafety OperationSafety
begin

text \<open>
  Who owns what the controllers make: every object that a pass creates, or creates or updates, is in the namespace of
  the instance (or of the Operation) and is controlled by it, so that Kubernetes collects it with its owner.
\<close>

section \<open>Owned requests\<close>

definition owned_request :: "lib \<Rightarrow> object_meta list \<Rightarrow> request \<Rightarrow> bool" where
  "owned_request L owners q =
     (case q of
        Create x \<Rightarrow> (\<exists>w \<in> set owners. om_namespace (obj_meta x) = om_namespace w \<and> is_controlled_by L (obj_meta x) w)
      | CreateOrUpdate x f \<Rightarrow> (\<exists>w \<in> set owners. om_namespace (obj_meta x) = om_namespace w \<and>
          (\<forall>y z. f y = Inr z \<longrightarrow> is_controlled_by L (obj_meta z) w))
      | _ \<Rightarrow> True)"

lemma owned_request_simps [simp]:
  "owned_request L ws (Get kd k)" "owned_request L ws (ListOperations ns)" "owned_request L ws (UpdateStatus x)"
  "owned_request L ws (UpdateObj x)" "owned_request L ws Now" "owned_request L ws (Delete kd k)" "owned_request L ws (PatchObj x)"
  by (simp_all add: owned_request_def)

text \<open>An owner that was read again, or written: the identity and the namespace stay.\<close>

definition same_owner :: "object_meta \<Rightarrow> object_meta \<Rightarrow> bool" where
  "same_owner m m' = (om_uid m' = om_uid m \<and> om_namespace m' = om_namespace m)"

lemma same_owner_refl [simp]: "same_owner m m" "same_owner m (m\<lparr>om_version := v\<rparr>)"
  by (simp_all add: same_owner_def)

lemma owned_request_same:
  assumes "lib_owners L" and "same_owner m m'"
  shows "owned_request L [m'] q = owned_request L [m] q"
proof -
  have "is_controlled_by L x m' = is_controlled_by L x m" for x
    using controller_references.controlled_cong [OF assms(1)] assms(2) unfolding same_owner_def by metis
  with assms(2) show ?thesis by (simp add: owned_request_def same_owner_def split: request.splits)
qed

lemma own_meta_owned:
  assumes "lib_owners L" and "own_meta L nom m = Inr m'"
  shows "om_namespace m' = om_namespace m" and "om_name m' = om_name m"
    and "om_owners m'' = om_owners m' \<Longrightarrow> is_controlled_by L m'' (in_meta nom)"
proof -
  note set = assms(2) [unfolded own_meta_def]
  show "om_namespace m' = om_namespace m" "om_name m' = om_name m"
    using controller_references.set_ref_name [OF assms(1) set] by simp_all
  show "is_controlled_by L m'' (in_meta nom)" if "om_owners m'' = om_owners m'"
    using controller_references.set_ref_controlled [OF assms(1) set] controller_references.controlled_cong [OF assms(1) that refl] by simp
qed

section \<open>What the instance owns\<close>

abbreviation instance_owns :: "lib \<Rightarrow> nominatim_instance \<Rightarrow> trace \<Rightarrow> request \<Rightarrow> bool" where
  "instance_owns L nom \<equiv> \<lambda>_. owned_request L [in_meta nom]"

lemma own_unstructured_meta:
  "own_unstructured L nom u = Inr u' \<Longrightarrow> own_meta L nom (un_meta u) = Inr (un_meta u')"
  by (auto simp: own_unstructured_def own_meta_def)

lemma set_storage_meta: "set_storage L kvs u = Inr u' \<Longrightarrow> un_meta u' = un_meta u"
  by (induction kvs arbitrary: u) (auto dest!: set_field_meta)

lemma tune_meta: "applyOwnedCNPGClusterTune L c u = Inr u' \<Longrightarrow> un_meta u' = un_meta u"
  by (auto simp: applyOwnedCNPGClusterTune_def when_some_def dest!: set_field_meta
      split: if_splits option.splits raw_extension.splits json.splits)

lemma web_role_meta: "ensureCNPGManagedWebRole L u = Inr u' \<Longrightarrow> un_meta u' = un_meta u"
  by (auto simp: ensureCNPGManagedWebRole_def Let_def dest!: set_field_meta split: if_splits)

lemma database_spec_meta: "applyOwnedCNPGDatabaseSpec L n u = Inr u' \<Longrightarrow> un_meta u' = un_meta u"
  by (auto simp: applyOwnedCNPGDatabaseSpec_def dest!: set_field_meta)

lemma cluster_meta: "mutateOwnedCluster L nom tune u = Inr u' \<Longrightarrow> own_meta L nom (un_meta u) = Inr (un_meta u')"
  by (auto simp: mutateOwnedCluster_def when_some_def split: option.splits if_splits
      dest!: own_unstructured_meta set_field_meta set_storage_meta tune_meta web_role_meta)

lemma route_meta:
  assumes "mutateHTTPRoute L nom sn r c u = Inr u'"
  shows "\<exists>m. own_meta L nom (un_meta u) = Inr m \<and> om_owners (un_meta u') = om_owners m"
proof -
  let ?hosts = "set_field L [''spec'', ''hostnames''] (JArray (map JString (rt_hostnames r)))"
  from assms obtain u0 u1 v w where own: "own_unstructured L nom u = Inr u0"
    and parents: "set_field L [''spec'', ''parentRefs''] (JArray (map parent_ref_json (rt_parents r)))
         (u0\<lparr>un_meta := (un_meta u0)\<lparr>om_labels := commonLabels nom c\<rparr>\<rparr>) = Inr u1"
    and v: "v = (if rt_hostnames r \<noteq> [] then (case ?hosts u1 of Inl _ \<Rightarrow> u1 | Inr u' \<Rightarrow> u')
        else u1\<lparr>un_object := remove_nested L (un_object u1) [''spec'', ''hostnames'']\<rparr>)"
    and rules: "set_field L [''spec'', ''rules''] w v = Inr u'"
    by (auto simp: mutateHTTPRoute_def Let_def)
  have "un_meta v = un_meta u1" by (auto simp: v split: sum.splits dest: set_field_meta)
  with own_unstructured_meta [OF own] set_field_meta [OF parents] set_field_meta [OF rules] show ?thesis by auto
qed

lemma on_unstructured_Inr: "on_unstructured f x = Inr z \<longleftrightarrow> (\<exists>k u u'. x = OUnstructured k u \<and> f u = Inr u' \<and> z = OUnstructured k u')"
  by (cases x) auto

lemma owned_mutate:
  assumes "lib_owners L" and "om_namespace (obj_meta x) = in_namespace nom"
    and "\<And>y z. f y = Inr z \<Longrightarrow> \<exists>m. own_meta L nom (obj_meta y) = Inr m \<and> om_owners (obj_meta z) = om_owners m"
  shows "owned_request L [in_meta nom] (CreateOrUpdate x f)"
  using assms(2) own_meta_owned(3) [OF assms(1)] assms(3) by (fastforce simp: owned_request_def)

lemma database_owned:
  assumes "lib_owners L"
  shows "wp (instance_owns L nom) (\<lambda>_ _. True) h (ensureOwnedCNPGCluster L nom n)"
    and "wp (instance_owns L nom) (\<lambda>_ _. True) h (ensureOwnedCNPGDatabase L nom n)"
  unfolding ensureOwnedCNPGCluster_def ensureOwnedCNPGDatabase_def Let_def
  by (auto split: option.splits intro!: wp_any owned_mutate [OF assms] simp: on_unstructured_Inr mutateOwnedDatabase_def new_unstructured_def
      dest!: cluster_meta own_unstructured_meta database_spec_meta)

lemma serving_owned:
  assumes "lib_owners L"
  shows "wp (instance_owns L nom) (\<lambda>_ _. True) h (reconcileService L nom n sel c)"
    and "wp (instance_owns L nom) (\<lambda>_ _. True) h (reconcileHTTPRoute L nom n sn r c)"
    and "wp (instance_owns L nom) (\<lambda>_ _. True) h (create_or_update (ODeployment (empty_deployment n (in_namespace nom)))
      (mutateDeployment L nom labels replicas merged))"
  unfolding reconcileService_def reconcileHTTPRoute_def
  by (auto intro!: wp_any owned_mutate [OF assms] simp: on_unstructured_Inr mutateService_def mutateDeployment_def empty_deployment_def new_unstructured_def
      split: obj.splits dest!: route_meta)

lemma pvc_owned:
  assumes "lib_owners L"
  shows "wp (instance_owns L nom) (\<lambda>_ _. True) h (reconcilePVC L nom vs n c)"
  unfolding reconcilePVC_def Let_def
  by (auto split: option.splits sum.splits intro!: wp_any any_wrapped_lift
      simp: owned_request_def own_meta_owned [OF assms])

section \<open>A pass of the instance controller\<close>

text \<open>The stages hand the instance on with its metadata.\<close>

abbreviation keeps_meta :: "nominatim_instance \<Rightarrow> trace \<Rightarrow> error + nominatim_instance \<Rightarrow> bool" where
  "keeps_meta nom \<equiv> \<lambda>_ r. case r of Inl e \<Rightarrow> True | Inr n \<Rightarrow> in_meta n = in_meta nom"

lemma deleted_serving_owned: "wp (instance_owns L nom) (\<lambda>_ _. True) h (deleteServingComponent nom n c)"
  by (rule wp_mono [OF wp_delete_serving]) auto

lemma suspend_owned: "wp (\<lambda>_. owned_request L ws) (\<lambda>_ _. True) h (shouldSuspendAPI nom imp)"
proof -
  have "wp (\<lambda>_. owned_request L ws) (\<lambda>_ _. True) h (shouldSuspendLoop nom imp refs)" for imp refs
    by (induction refs arbitrary: h) (auto split: sum.splits intro!: wp_any)
  then show ?thesis unfolding shouldSuspendAPI_def .
qed

lemma workloads_owned:
  assumes "lib_owners L"
  shows "wp (instance_owns L nom) (\<lambda>_ _. True) h (reconcileWorkloads L nom)"
proof -
  have "wp (instance_owns L nom) (\<lambda>_ _. True) h (reconcileAPI L nom)" for h
    unfolding reconcileAPI_def Let_def
    by (auto split: option.splits intro!: any_bind any_parts(2,6,7) serving_owned [OF assms] deleted_serving_owned suspend_owned)
  moreover have "wp (instance_owns L nom) (\<lambda>_ _. True) h (reconcileUI L nom)" for h
    unfolding reconcileUI_def Let_def
    by (auto split: option.splits bool.splits intro!: any_bind any_parts(2,6,7) serving_owned [OF assms] deleted_serving_owned)
  ultimately show ?thesis
    unfolding reconcileWorkloads_def
    by (auto split: option.splits intro!: wp_any pvc_owned [OF assms])
qed

lemma create_owned:
  assumes "lib_owners L" and "own_meta L nom m = Inr m'" and "om_namespace m = in_namespace nom" and "obj_meta x = m'"
  shows "owned_request L [in_meta nom] (Create x)"
  using own_meta_owned(1,3) [OF assms(1,2)] assms(3,4) by (simp add: owned_request_def)

lemma probes_owned:
  assumes "lib_owners L"
  shows "wp (instance_owns L nom) (\<lambda>_ _. True) h (ensureSequenceProbes L nom ops)"
proof -
  have "wp (instance_owns L nom) (\<lambda>_ _. True) h (ensureSequenceProbeRBAC L nom)" for h
    unfolding ensureSequenceProbeRBAC_def ensure_probe_account_def ensure_probe_role_def ensure_probe_binding_def
    by (auto split: sum.splits intro!: wp_any any_create_once any_wrapped_lift create_owned [OF assms])
  moreover have "wp (instance_owns L nom) (\<lambda>_ _. True) h (ensureSequenceReportConfigMap L nom)" for h
    unfolding ensureSequenceReportConfigMap_def
    by (auto intro!: wp_any owned_mutate [OF assms] simp: mutateReport_def split: obj.splits)
  moreover have "owned_request L [in_meta nom] (Create (OJob j))" if "buildSequenceProbeJob L nom op = Inr j" for op j
    using that by (auto simp: buildSequenceProbeJob_def Let_def split: sum.splits elim!: create_owned [OF assms])
  then have "wp (instance_owns L nom) (\<lambda>_ _. True) h (ensureSequenceProbeJob L nom op)" for h op
    unfolding ensureSequenceProbeJob_def markSequenceObserved_def
    by (auto split: sum.splits intro!: wp_any any_create_once any_lift)
  ultimately show ?thesis
    unfolding ensureSequenceProbes_def by (auto intro!: wp_any)
qed

lemma sequence_owned:
  assumes "lib_owners L"
  shows "wp (instance_owns L nom) (keeps_meta nom) h (reconcileSequenceObservation L nom ops)"
  unfolding reconcileSequenceObservation_def applySequenceReportConfigMap_def applySequenceReportMap_def applyAuxDataReport_def Let_def
  by (auto intro!: probes_owned [OF assms] simp: wp_simps split: sum.splits option.splits)

lemma operations_owned:
  assumes "lib_owners L"
  shows "wp (instance_owns L nom) (\<lambda>_ _. True) h (ensureBootstrapOperation L nom ops)"
    and "wp (instance_owns L nom) (\<lambda>_ _. True) h (reconcileRegionDrift L nom ops)"
    and "wp (instance_owns L nom) (\<lambda>_ _. True) h (reconcileUpdates L nom ops)"
proof -
  have create: "wp (instance_owns L nom) (\<lambda>_ _. True) h (createOwnedOperation L what nom op)"
    if "om_namespace (op_meta op) = in_namespace nom" for h what op
    unfolding createOwnedOperation_def own_meta_def [symmetric]
    using that by (auto intro!: wp_any any_wrapped_lift create_owned [OF assms])
  show "wp (instance_owns L nom) (\<lambda>_ _. True) h (ensureBootstrapOperation L nom ops)"
    unfolding ensureBootstrapOperation_def by (auto intro!: wp_any create)
  show "wp (instance_owns L nom) (\<lambda>_ _. True) h (reconcileRegionDrift L nom ops)"
    unfolding reconcileRegionDrift_def ensureRebuildOperation_def ensureAddRegionsOperation_def Let_def
    by (auto split: list.splits region_change_policy.splits intro!: wp_any create)
  show "wp (instance_owns L nom) (\<lambda>_ _. True) h (reconcileUpdates L nom ops)"
    unfolding reconcileUpdates_def scheduleCursor_def own_meta_def [symmetric] Let_def
    by (auto split: option.splits intro!: wp_any any_wrapped_lift create_owned [OF assms])
qed

lemma reconcileDatabase_owned:
  assumes "lib_owners L"
  shows "wp (instance_owns L nom) (keeps_meta nom) h (reconcileDatabase L nom)"
proof -
  have "wp (instance_owns L nom) (keeps_meta nom) h (reconcileDatabaseClusterCreate L nom)"
    unfolding reconcileDatabaseClusterCreate_def reconcileOwnedCNPGDatabase_def hasPendingRebuildDatabaseReset_def Let_def
    by (rule wp_seq_any [OF database_owned(1) [OF assms]], simp, rule wp_seq_any)
       (auto intro!: wp_any database_owned [OF assms])
  then show ?thesis
    unfolding reconcileDatabase_def reconcileDatabaseClusterRef_def reconcileDatabaseConnectionSecret_def getCNPGCluster_def Let_def
    by (auto split: option.splits sum.splits simp: wp_simps)
qed

lemma observe_owned: "wp (\<lambda>_. owned_request L ws) (keeps_meta nom) h (observeRegionsFromSucceededOps nom ops)"
proof -
  have boot: "wp (\<lambda>_. owned_request L ws) (keeps_meta nom) h (syncRegionsFromBootstrapLoop nom ps)" for ps h
    by (induction ps arbitrary: h)
       (auto simp: wp_simps sealObservedNominatimConfig_def sealObservedNominatimConfigForce_def Let_def split: sum.splits option.splits)
  have drift: "wp (\<lambda>_. owned_request L ws) (keeps_meta n) h (syncRegionsFromDriftOp op n)" for op n h
    unfolding syncRegionsFromDriftOp_def mergeRegionsIntoStatus_def replaceRegionsStatus_def
    by (auto simp: wp_simps sealObservedNominatimConfigForce_def Let_def split: op_type.splits sum.splits option.splits)
  show ?thesis
    unfolding observeRegionsFromSucceededOps_def
  proof (rule wp_seq [where S = "\<lambda>_ n. in_meta n = in_meta nom"])
    show "wp (\<lambda>_. owned_request L ws) (keeps_meta nom) h (syncRegionsFromBootstrap nom ops)"
      using boot by (simp add: syncRegionsFromBootstrap_def)
    show "wp (\<lambda>_. owned_request L ws) (keeps_meta nom) h' (syncRegionsFromDriftOps n ops)" if "in_meta n = in_meta nom" for h' n
      unfolding syncRegionsFromDriftOps_def
      by (rule wp_fold_prog [where I = "\<lambda>_ n. in_meta n = in_meta nom"])
         (use that in \<open>auto intro!: wp_mono [OF drift] split: sum.splits\<close>)
  qed simp
qed

lemma attached_owned:
  assumes "lib_owners L"
  shows "wp (instance_owns L nom) (\<lambda>_ _. True) h (reconcileAttached L nom)"
proof -
  have after: "wp (instance_owns L nom) (\<lambda>_ _. True) h
     (bind (ensureBootstrapOperation L n ops) (\<lambda>_.
      bind (reconcileWorkloads L n) (\<lambda>_.
      bind (reconcileRegionDrift L n ops) (\<lambda>_.
      bind (reconcileSequenceObservation L n ops) (\<lambda>n.
      bind (reconcileUpdates L n ops) (\<lambda>(n, delay).
      bind (syncStatus L n) (\<lambda>_. Ret delay)))))))" if "in_meta n = in_meta nom" for h n ops
    unfolding that [symmetric]
  proof (rule any_bind [OF operations_owned(1) [OF assms]], rule any_bind [OF workloads_owned [OF assms]],
      rule any_bind [OF operations_owned(2) [OF assms]], rule wp_seq [OF sequence_owned [OF assms]], simp)
    fix h' and n' :: nominatim_instance
    assume m: "in_meta n' = in_meta n"
    have "wp (\<lambda>_. owned_request L [in_meta n]) (\<lambda>_ _. True) h'' (syncStatus L k)" for h'' k
      by (auto simp: syncStatus_def Let_def intro!: any_bind any_parts)
    then show "wp (\<lambda>_. owned_request L [in_meta n]) (\<lambda>_ _. True) h'
       (bind (reconcileUpdates L n' ops) (\<lambda>(n, delay). bind (syncStatus L n) (\<lambda>_. Ret delay)))"
      using operations_owned(3) [OF assms, of n'] m by (auto intro!: wp_any)
  qed
  show ?thesis
    unfolding reconcileAttached_def listOperationsForParent_def
    by (intro any_bind any_parts(4) wp_seq [OF observe_owned] after) simp_all
qed

text \<open>C11. What a pass of the instance controller creates, or creates or updates, is in the namespace of the instance it
  read first and is controlled by it, whatever the state of the cluster: workloads, volume claims, CNPG objects,
  Operations, the account, the report and the Jobs of the probe. Nothing it makes outlives its instance.\<close>

theorem instance_children_owned:
  assumes "lib_owners L"
    and "play (reconcileInstance L req) xs = ((Get KInstance req, RObject (OInstance nom)) # t1 @ (q, x) # t2, out)"
  shows "(\<forall>y. q = Create y \<longrightarrow> om_namespace (obj_meta y) = in_namespace nom \<and> is_controlled_by L (obj_meta y) (in_meta nom)) \<and>
    (\<forall>y f z z'. q = CreateOrUpdate y f \<longrightarrow> om_namespace (obj_meta y) = in_namespace nom \<and>
        (f z = Inr z' \<longrightarrow> is_controlled_by L (obj_meta z') (in_meta nom)))"
proof -
  let ?rest = "if om_deletion (in_meta nom) \<noteq> None then reconcileDelete L nom
     else if \<not> contains_finalizer L (in_meta nom) NominatimInstanceFinalizer then
       bind (update_instance (nom\<lparr>in_meta := add_finalizer L (in_meta nom) NominatimInstanceFinalizer\<rparr>)) (\<lambda>_. Ret 0)
     else bind (reconcileDatabase L nom) (\<lambda>nom. bind (persistDatabase L req nom) (\<lambda>nom. reconcileAttached L nom))"
  obtain ys where ys: "xs = RObject (OInstance nom) # ys" "play ?rest ys = (t1 @ (q, x) # t2, out)"
    using assms(2) by (cases xs) (auto simp: reconcileInstance_def call_def lift_def split: prod.splits sum.splits)
  have deletion: "wp (instance_owns L nom) (\<lambda>_ _. True) h (reconcileDelete L nom)" for h
    unfolding reconcileDelete_def markInstanceDeleting_def drainChildOperations_def listOperationsForParent_def
      deleteOwnedCNPGResources_def deleteOwnedUnstructuredIfController_def
    by (auto split: sum.splits intro!: wp_any any_update_status)
  have persist: "wp (\<lambda>_. owned_request L ws) (\<lambda>_ r. case r of Inl e \<Rightarrow> True | Inr n' \<Rightarrow> same_owner (in_meta n) (in_meta n')) h
      (persistDatabase L req n)" for ws h n
    unfolding persistDatabase_def
    by (rule wp_retry [where I = "\<lambda>_. True"]) (auto simp: wp_simps adopt_status_def split: sum.splits response.splits)
  have attached: "wp (instance_owns L nom) (\<lambda>_ _. True) h (reconcileAttached L n)" if "same_owner (in_meta nom) (in_meta n)" for h n
    by (rule wp_mono [OF attached_owned [OF assms(1), of n]]) (simp_all add: owned_request_same [OF assms(1) that])
  have "wp (instance_owns L nom) (\<lambda>_ _. True) [] ?rest"
    by (auto intro!: deletion wp_any wp_seq [OF reconcileDatabase_owned [OF assms(1)]] wp_seq [OF persist] attached
        simp: update_instance_def)
  from wp_play_guard [OF this ys(2)] show ?thesis by (auto simp: owned_request_def)
qed

theorem instance_children_owned_witness:
  "\<exists>t1 op x t2 out. kept_pass = (t1 @ (Create (OOperation op), x) # t2, out) \<and>
     om_namespace (op_meta op) = ''ns'' \<and> controlled_by (op_meta op) (in_meta kept_instance)"
proof -
  from kept_run obtain e2 e3 e4 e5 op out
    where run: "kept_pass = ((Get KInstance (''ns'', ''inst''), RObject (OInstance kept_instance)) # [e2, e3, e4, e5] @
      (Create (OOperation op), RError ErrAlreadyExists) # [], out)" by auto
  from instance_children_owned [OF sample_lib_ok(4) run]
  have "om_namespace (op_meta op) = ''ns''" "controlled_by (op_meta op) (in_meta kept_instance)" by simp_all
  with run show ?thesis by (metis append_Cons)
qed

section \<open>A pass of the Operation controller\<close>

text \<open>Its owners are the Operation and the instance; most of a pass makes nothing.\<close>

abbreviation keeps_owner :: "nominatim_instance \<Rightarrow> trace \<Rightarrow> error + nominatim_instance \<Rightarrow> bool" where
  "keeps_owner nom \<equiv> \<lambda>_ r. case r of Inl e \<Rightarrow> True | Inr n \<Rightarrow> same_owner (in_meta nom) (in_meta n)"

abbreviation operation_owns :: "lib \<Rightarrow> nominatim_operation \<Rightarrow> nominatim_instance \<Rightarrow> trace \<Rightarrow> request \<Rightarrow> bool" where
  "operation_owns L op parent \<equiv> \<lambda>_. owned_request L [op_meta op, in_meta parent]"

lemma owned_request_mono:
  assumes "lib_owners L" and "owned_request L ws q" and "\<And>w. w \<in> set ws \<Longrightarrow> \<exists>w' \<in> set ws'. same_owner w' w"
  shows "owned_request L ws' q"
proof -
  have kept: "\<exists>w' \<in> set ws'. om_namespace w' = om_namespace w \<and> (\<forall>x. is_controlled_by L x w' = is_controlled_by L x w)" if "w \<in> set ws" for w
    using assms(3) [OF that] controller_references.controlled_cong [OF assms(1) refl] unfolding same_owner_def by metis
  show ?thesis
  proof (cases q)
    case (Create x)
    with assms(2) show ?thesis unfolding owned_request_def by (simp, metis kept)
  next
    case (CreateOrUpdate x f)
    with assms(2) show ?thesis unfolding owned_request_def by (simp, metis kept)
  qed (simp_all add: owned_request_def)
qed

lemma effects_owned:
  "wp (\<lambda>_. owned_request L ws) (\<lambda>_ _. True) h (setBackupPaused (defaultCNPGEffects L) parent b)"
  "wp (\<lambda>_. owned_request L ws) (\<lambda>_ _. True) h (applyPostgresProfile (defaultCNPGEffects L) parent p)"
  unfolding setBackupPaused_def applyPostgresProfile_def defaultCNPGEffects_def setBackupPausedAnnotation_def ApplyParameters_def
    getCNPGCluster_def Let_def
  by (auto split: sum.splits option.splits profile.splits intro!: wp_any)

lemma side_effects_owned: "wp (\<lambda>_. owned_request L ws) (\<lambda>_ _. True) h (syncParentSideEffects L (defaultCNPGEffects L) op)"
proof -
  have "wp (\<lambda>_. owned_request L ws) (\<lambda>_ _. True) h (applyTerminalCNPGEffects (defaultCNPGEffects L) op parent)" for h parent
    unfolding applyTerminalCNPGEffects_def hasOtherActiveMatchingImpactOps_def by (auto intro!: wp_any effects_owned)
  then show ?thesis
    unfolding syncParentSideEffects_def syncParentActiveOperationRef_def
    by (auto split: sum.splits intro!: wp_any any_update_status)
qed

lemma fail_owned: "wp (\<lambda>_. owned_request L ws) (\<lambda>_ _. True) h (failOperation L (defaultCNPGEffects L) op reason m)"
  unfolding failOperation_def by (intro wp_any any_update_status side_effects_owned) simp_all

lemma patch_owned: "wp (\<lambda>_. owned_request L ws) (keeps_owner parent) h (patchParentRebuildStatus L parent)"
  unfolding patchParentRebuildStatus_def Let_def
  by (rule wp_retry [where I = "\<lambda>_. True"]) (auto simp: wp_simps same_owner_def split: sum.splits response.splits)

lemma swap_owned: "wp (\<lambda>_. owned_request L ws) (\<lambda>_ _. True) h (reconcileBlueGreenAfterImport L (defaultCNPGEffects L) op parent)"
proof -
  have actions: "wp (\<lambda>_. owned_request L ws) (\<lambda>_ _. True) h (applyBlueGreenActions parent act retired out)" for h parent act retired out
    unfolding applyBlueGreenActions_def Let_def deleteOwnedClusterBundle_def by (auto intro!: wp_any)
  have status: "wp (\<lambda>_. owned_request L ws) (\<lambda>_ _. True) h (syncBlueGreenOperationStatus L (defaultCNPGEffects L) op rb out)" for h rb out
    unfolding syncBlueGreenOperationStatus_def Let_def
    by (auto split: rebuild_phase.splits intro!: wp_any any_update_status fail_owned)
  show ?thesis
    unfolding reconcileBlueGreenAfterImport_def Let_def clusterGone_def
    by (auto split: prod.splits option.splits sum.splits intro!: wp_any actions status patch_owned [THEN any_weaken])
qed

lemma claim_owned: "wp (\<lambda>_. owned_request L ws) (\<lambda>_ _. True) h (claimWritePlane L (defaultCNPGEffects L) op)"
  unfolding claimWritePlane_def claimAttempt_def listPeersForNominatim_def Let_def
  by (auto split: sum.splits option.splits write_plane_decision.splits claim_outcome.splits
      intro!: wp_any any_update_status fail_owned)

lemma operation_create_owned:
  assumes "lib_owners L" and "operation_owned L op m = Inr m'" and "om_namespace m = op_namespace op" and "obj_meta x = m'"
  shows "owned_request L (op_meta op # ws) (Create x)"
proof -
  note set = assms(2) [unfolded operation_owned_def]
  show ?thesis
    using controller_references.set_ref_name [OF assms(1) set] controller_references.set_ref_controlled [OF assms(1) set] assms(3,4)
    by (simp add: owned_request_def)
qed

lemma job_owned:
  assumes "lib_owners L"
  shows "wp (operation_owns L op parent) (\<lambda>_ _. True) h (ensureStagingPVC L op staging)"
    and "wp (operation_owns L op parent) (\<lambda>_ _. True) h (ensureJob L op parent)"
proof -
  have "owned_request L (op_meta op # ws) (Create (OClaim (desired\<lparr>pv_meta := m\<rparr>)))"
    if "buildStagingPVC L op staging = Inr desired" and "operation_owned L op (pv_meta desired) = Inr m" for desired m ws
    using that(1) by (intro operation_create_owned [OF assms that(2)]) (auto simp: buildStagingPVC_def split: option.splits)
  then show "wp (operation_owns L op parent) (\<lambda>_ _. True) h (ensureStagingPVC L op staging)"
    unfolding ensureStagingPVC_def by (auto split: sum.splits intro!: wp_any any_lift)
  have "owned_request L (op_meta op # ws) (Create (OJob (desired\<lparr>jo_meta := m\<rparr>)))"
    if "buildOperationJob L op parent s i p = Inr desired" and "operation_owned L op (jo_meta desired) = Inr m" for desired m ws s i p
    using that(1) by (intro operation_create_owned [OF assms that(2)]) (auto elim!: buildOperationJob_Inr)
  then show "wp (operation_owns L op parent) (\<lambda>_ _. True) h (ensureJob L op parent)"
    unfolding ensureJob_def by (auto split: sum.splits intro!: any_wrapped_lift any_lift any_bind any_parts)
qed

lemma sync_job_owned:
  "wp (\<lambda>_. owned_request L ws) (\<lambda>_ r. case r of Inl e \<Rightarrow> True | Inr op' \<Rightarrow> same_owner (op_meta op) (op_meta op')) h (syncStatusFromJob op)"
  unfolding syncStatusFromJob_def write_job_status_def Let_def
  by (auto simp: wp_simps job_status_def update_operation_status_def split: sum.splits option.splits response.splits)

text \<open>What comes before the Job: both owners are handed on.\<close>

lemma applied_owned: "wp (\<lambda>_. owned_request L ws) (\<lambda>_ _. True) h (cnpgOwnedDatabaseApplied L ns n)"
  unfolding cnpgOwnedDatabaseApplied_def by (auto split: sum.splits option.splits intro!: wp_any)

lemma pending_owned:
  assumes "lib_owners L"
  shows "wp (instance_owns L parent) (\<lambda>_ r. case r of Inl e \<Rightarrow> True | Inr (b, p) \<Rightarrow> same_owner (in_meta parent) (in_meta p)) h
    (ensureBlueGreenPending L op parent)"
proof -
  let ?same = "\<lambda>_ p. same_owner (in_meta parent) (in_meta p)"
  have patch: "wp (instance_owns L parent) (\<lambda>_ r. case r of Inl e \<Rightarrow> True | Inr p' \<Rightarrow> same_owner (in_meta parent) (in_meta p')) h
      (patchParentRebuildStatus L p)" if "same_owner (in_meta parent) (in_meta p)" for h p
    by (rule wp_mono [OF patch_owned]) (use that in \<open>auto simp: same_owner_def split: sum.splits\<close>)
  have ready: "wp (instance_owns L parent) (\<lambda>_ _. True) h (blueGreenPendingReady L ns n)" for h ns n
    unfolding blueGreenPendingReady_def by (auto split: option.splits sum.splits intro!: wp_any applied_owned)
  have made: "wp (instance_owns L parent) (\<lambda>_ _. True) h q" if "wp (instance_owns L p) (\<lambda>_ _. True) h q"
    and "same_owner (in_meta parent) (in_meta p)" for h p and q :: "'b prog"
    by (rule wp_mono [OF that(1)]) (simp_all add: owned_request_same [OF assms that(2)])
  note make = made [OF database_owned(1) [OF assms]] made [OF database_owned(2) [OF assms]] made [OF pvc_owned [OF assms]]
  show ?thesis
    unfolding ensureBlueGreenPending_def Let_def
    by (rule wp_seq [where S = ?same], (auto split: option.splits intro!: patch)[1], simp,
        rule wp_seq [where S = ?same], (auto split: option.splits intro!: patch)[1], simp)
       (auto split: option.splits intro!: wp_seq_any make ready any_parts)
qed

lemma reset_owned:
  assumes "lib_owners L"
  shows "wp (instance_owns L parent) (\<lambda>_ r. case r of Inl e \<Rightarrow> True | Inr (b, op') \<Rightarrow> same_owner (op_meta op) (op_meta op')) h
     (ensureRebuildDatabaseReset L op parent)"
proof -
  let ?same = "\<lambda>_ r. case r of Inl e \<Rightarrow> True | Inr op' \<Rightarrow> same_owner (op_meta op) (op_meta op')"
  let ?same' = "\<lambda>_ r. case r of Inl e \<Rightarrow> True | Inr (b, op') \<Rightarrow> same_owner (op_meta op) (op_meta op')"
  have annotations: "wp (instance_owns L parent) ?same h (patchRebuildResetAnnotations L op a b)" for h a b
    unfolding patchRebuildResetAnnotations_def Let_def
    by (rule wp_retry [where I = "\<lambda>_. True"]) (auto simp: wp_simps same_owner_def split: sum.splits response.splits)
  have reclaim: "wp (instance_owns L parent) (\<lambda>_ _. True) h (ensureDatabaseReclaimDelete L db)" for h db
    unfolding ensureDatabaseReclaimDelete_def by (auto intro!: wp_any)
  have drop: "wp (instance_owns L parent) ?same h (dropDatabase L op parent db)" for h db
    unfolding dropDatabase_def Let_def
    by (intro wp_seq_any reclaim) (auto split: sum.splits intro!: wp_seq_any any_parts annotations)
  have handed: "wp (instance_owns L parent) ?same' h (bind p (\<lambda>op. Ret (c, op)))" if "wp (instance_owns L parent) ?same h p" for h p c
    by (rule wp_seq [OF that]) auto
  have "wp (instance_owns L parent) ?same' h (resetDatabase L op parent)" for h
    unfolding resetDatabase_def Let_def
    by (rule wp_seq_any)
       (auto split: sum.splits option.splits bool.splits
         intro!: any_parts handed annotations drop wp_seq_any database_owned [OF assms])
  moreover have "wp (instance_owns L parent) (\<lambda>_ _. True) h (apiQuiescedForRebuild L parent)" for h
    unfolding apiQuiescedForRebuild_def Let_def by (auto split: sum.splits intro!: wp_any)
  ultimately show ?thesis
    unfolding ensureRebuildDatabaseReset_def by (auto intro!: wp_seq_any)
qed

lemma wait_owned:
  assumes "lib_owners L"
  shows "wp (operation_owns L op parent) (\<lambda>_ r. case r of Inl e \<Rightarrow> True | Inr (w, op', p) \<Rightarrow>
      same_owner (op_meta op) (op_meta op') \<and> same_owner (in_meta parent) (in_meta p)) h (waitForJobPrerequisites L op parent)"
proof -
  let ?same = "\<lambda>_ p. same_owner (in_meta parent) (in_meta p)"
  have weak: "wp (operation_owns L op parent) Q h q" if "wp (instance_owns L p) Q h q" and "same_owner (in_meta parent) (in_meta p)"
    for Q h p and q :: "'b prog"
    by (rule wp_mono [OF that(1)], erule owned_request_mono [OF assms]) (simp_all add: that(2))
  have importing: "wp (operation_owns L op parent) (\<lambda>_ r. \<forall>p'. r = Inr p' \<longrightarrow> same_owner (in_meta parent) (in_meta p')) h
      (bind (attempt (patchParentRebuildStatus L p)) (case_sum (\<lambda>_. Ret p) Ret))"
    if "same_owner (in_meta parent) (in_meta p)" for h p
    unfolding wp_bind wp_attempt
    by (rule wp_mono [OF patch_owned]) (use that in \<open>auto simp: same_owner_def split: sum.splits\<close>)
  have ready: "wp (operation_owns L op parent) (\<lambda>_ _. True) h (cnpgClusterReadyForJobs L p)" for h p
    unfolding cnpgClusterReadyForJobs_def getCNPGCluster_def Let_def
    by (auto split: sum.splits option.splits intro!: wp_any applied_owned)
  have rest: "wp (operation_owns L op parent) (\<lambda>_ r. case r of Inl e \<Rightarrow> True | Inr (w, op', p) \<Rightarrow>
      same_owner (op_meta op) (op_meta op') \<and> same_owner (in_meta parent) (in_meta p)) h
     (bind (attempt (get_present KSecret k)) (\<lambda>r.
        case r of
          Inl e \<Rightarrow> if is_not_found e then Ret (Some (5 * second), op, p) else Fail e
        | Inr _ \<Rightarrow>
            bind (ensureRebuildDatabaseReset L op p) (\<lambda>(reset, op).
            if \<not> reset then Ret (Some (5 * second), op, p)
            else if on_sibling op p then Ret (None, op, p)
            else bind (cnpgClusterReadyForJobs L p) (\<lambda>ready.
              if \<not> ready then Ret (Some (10 * second), op, p) else Ret (None, op, p)))))"
    if s: "same_owner (in_meta parent) (in_meta p)" for h p k
    by (rule wp_seq_any)
       (auto split: sum.splits simp: s intro!: any_parts wp_seq [OF weak [OF reset_owned [OF assms] s]] wp_seq_any [OF ready])
  show ?thesis
    unfolding waitForJobPrerequisites_def Let_def
    by (auto split: option.splits sum.splits simp: wp_attempt
        intro!: wp_seq [OF weak [OF pending_owned [OF assms]]] wp_seq [where S = ?same] rest importing)
qed

lemma active_owned:
  assumes "lib_owners L"
  shows "wp (operation_owns L op parent) (\<lambda>_ _. True) h (reconcileActive L (defaultCNPGEffects L) op parent)"
proof -
  have job: "wp (operation_owns L op parent) (\<lambda>_ _. True) h (reconcileJob L (defaultCNPGEffects L) op' p)"
    if "same_owner (op_meta op) (op_meta op')" "same_owner (in_meta parent) (in_meta p)" for h op' p
    unfolding reconcileJob_def
  proof (rule any_bind)
    show "wp (operation_owns L op parent) (\<lambda>_ _. True) h (ensureJob L op' p)"
      by (rule wp_mono [OF job_owned(2) [OF assms]], erule owned_request_mono [OF assms]) (auto simp: that)
  qed (auto intro!: any_bind sync_job_owned [THEN any_weaken] swap_owned side_effects_owned any_parts)
  have gates: "wp (operation_owns L op parent) (\<lambda>_ _. True) h (enforceRegionGates L (defaultCNPGEffects L) op parent peers)" for h peers
    unfolding enforceRegionGates_def by (auto intro!: wp_any fail_owned)
  have prejob: "wp (operation_owns L op parent) (\<lambda>_ _. True) h (applyPreJobCNPGEffects (defaultCNPGEffects L) op parent)" for h
    unfolding applyPreJobCNPGEffects_def by (auto intro!: wp_any effects_owned)
  have "wp (operation_owns L op parent) (\<lambda>_ _. True) h (reconcileClaimed L (defaultCNPGEffects L) op parent peers)" for h peers
    unfolding reconcileClaimed_def reconcilePrepared_def
    by (auto split: option.splits intro!: any_bind gates prejob job_owned(1) [OF assms] any_parts wp_seq [OF wait_owned [OF assms]] job)
  then show ?thesis
    unfolding reconcileActive_def by (auto split: option.splits intro!: any_bind claim_owned any_parts)
qed



end
