(* ===== verification/Stages.thy ===== *)
theory Stages
  imports OperationReconcile
begin

text \<open>
  The stages of a pass of the Operation controller that write no Operation. Every guard on requests that does not
  object to such a request holds of them: the locale proves this once, for any guard, and an interpretation of it
  gives a theory the stage lemmas for its own.
\<close>

text \<open>A request that does not touch the Operations of the API server.\<close>

definition no_op_write :: "request \<Rightarrow> bool" where
  "no_op_write q = ((\<forall>p. q \<noteq> UpdateStatus (OOperation p) \<and> q \<noteq> UpdateObj (OOperation p) \<and> q \<noteq> PatchObj (OOperation p) \<and>
      q \<noteq> Create (OOperation p) \<and> (\<forall>f. q \<noteq> CreateOrUpdate (OOperation p) f)) \<and> (\<forall>k. q \<noteq> Delete KOperation k))"

lemma no_op_write_simps [simp]:
  "no_op_write (Get kd k)" "no_op_write (ListOperations ns)" "no_op_write (ListInstances ns)" "no_op_write Now"
  "no_op_write (UpdateStatus (OInstance n))" "no_op_write (UpdateObj (OInstance n))" "no_op_write (UpdateObj (OUnstructured kd u))"
  "no_op_write (UpdateObj (ODeployment d))" "no_op_write (Create (OJob j))" "no_op_write (Create (OClaim c))"
  "no_op_write (Delete KJob k)" "no_op_write (Delete KDatabase k)" "no_op_write (Delete KCluster k)"
  "no_op_write (CreateOrUpdate (OUnstructured kd u) f)" "no_op_write (CreateOrUpdate (OClaim c) f)"
  by (simp_all add: no_op_write_def)

locale operation_guard =
  fixes G :: "trace \<Rightarrow> request \<Rightarrow> bool"
  assumes plain: "no_op_write q \<Longrightarrow> G h q"
begin

lemmas plain_simps [simp] = no_op_write_simps [THEN plain]

lemma plain_wp: "wp (\<lambda>_. no_op_write) Q h p \<Longrightarrow> wp G Q h p"
  by (erule wp_mono) (simp_all add: plain)

lemma effects:
  "wp G (\<lambda>_ _. True) h (setBackupPaused (defaultCNPGEffects L) parent b)"
  "wp G (\<lambda>_ _. True) h (applyPostgresProfile (defaultCNPGEffects L) parent p)"
  unfolding setBackupPaused_def applyPostgresProfile_def defaultCNPGEffects_def setBackupPausedAnnotation_def ApplyParameters_def
    getCNPGCluster_def Let_def
  by (auto split: sum.splits option.splits profile.splits intro!: wp_any)

lemma terminal_effects: "wp G (\<lambda>_ _. True) h (applyTerminalCNPGEffects (defaultCNPGEffects L) op parent)"
  unfolding applyTerminalCNPGEffects_def hasOtherActiveMatchingImpactOps_def by (auto intro!: wp_any effects)

lemma prejob_effects: "wp G (\<lambda>_ _. True) h (applyPreJobCNPGEffects (defaultCNPGEffects L) op parent)"
  unfolding applyPreJobCNPGEffects_def by (auto intro!: wp_any effects)

lemma parent_ref: "wp G (\<lambda>_ _. True) h (syncParentActiveOperationRef L op b)"
  unfolding syncParentActiveOperationRef_def by (auto split: sum.splits intro!: wp_any any_update_status)

lemma side_effects: "wp G (\<lambda>_ _. True) h (syncParentSideEffects L (defaultCNPGEffects L) op)"
  unfolding syncParentSideEffects_def by (auto split: sum.splits intro!: wp_any parent_ref terminal_effects)

lemma parent_patch: "wp G (\<lambda>_ _. True) h (patchParentRebuildStatus L parent)"
  unfolding patchParentRebuildStatus_def Let_def by (intro wp_any any_update_status) simp_all

lemma staging: "wp G (\<lambda>_ _. True) h (ensureStagingPVC L op s)"
  unfolding ensureStagingPVC_def by (auto split: sum.splits intro!: wp_any)

lemma owned_database: "wp G (\<lambda>_ _. True) h (ensureOwnedCNPGDatabase L parent n)"
  unfolding ensureOwnedCNPGDatabase_def Let_def by (auto intro!: wp_any)

lemma owned_cluster: "wp G (\<lambda>_ _. True) h (ensureOwnedCNPGCluster L parent n)"
  unfolding ensureOwnedCNPGCluster_def Let_def by (auto split: option.splits intro!: wp_any)

lemma applied: "wp G (\<lambda>_ _. True) h (cnpgOwnedDatabaseApplied L ns n)"
  unfolding cnpgOwnedDatabaseApplied_def by (auto split: sum.splits option.splits intro!: wp_any)

lemma pending: "wp G (\<lambda>_ _. True) h (ensureBlueGreenPending L op parent)"
proof -
  have "wp G (\<lambda>_ _. True) h (reconcilePVC L parent vs n c)" for h vs n c parent
    unfolding reconcilePVC_def Let_def by (auto split: option.splits sum.splits intro!: wp_any)
  moreover have "wp G (\<lambda>_ _. True) h (blueGreenPendingReady L ns n)" for h ns n
    unfolding blueGreenPendingReady_def by (auto split: option.splits sum.splits intro!: wp_any applied)
  ultimately show ?thesis
    unfolding ensureBlueGreenPending_def Let_def
    by (auto split: option.splits intro!: wp_any parent_patch owned_database owned_cluster)
qed

lemma quiesced: "wp G (\<lambda>_ _. True) h (apiQuiescedForRebuild L parent)"
  unfolding apiQuiescedForRebuild_def Let_def by (auto split: sum.splits intro!: wp_any)

lemma reclaim: "wp G (\<lambda>_ _. True) h (ensureDatabaseReclaimDelete L db)"
  unfolding ensureDatabaseReclaimDelete_def by (auto intro!: wp_any)

lemma cluster_ready: "wp G (\<lambda>_ _. True) h (cnpgClusterReadyForJobs L parent)"
  unfolding cnpgClusterReadyForJobs_def getCNPGCluster_def Let_def
  by (auto split: sum.splits option.splits intro!: wp_any applied)

lemma job: "wp G (\<lambda>_ _. True) h (ensureJob L op parent)"
  unfolding ensureJob_def by (auto split: sum.splits intro!: wp_any)

lemma actions: "wp G (\<lambda>_ _. True) h (applyBlueGreenActions parent act retired out)"
  unfolding applyBlueGreenActions_def Let_def deleteOwnedClusterBundle_def by (auto intro!: wp_any)

lemma gone: "wp G (\<lambda>_ _. True) h (clusterGone ns n)"
  unfolding clusterGone_def by (auto split: sum.splits intro!: wp_any)

text \<open>What writes one Operation is left to the guard.\<close>

lemma failing:
  "(\<And>h t. G h (UpdateStatus (OOperation (failed_operation op reason m t)))) \<Longrightarrow>
     wp G (\<lambda>_ _. True) h (failOperation L (defaultCNPGEffects L) op reason m)"
  unfolding failOperation_def by (intro wp_any any_update_status side_effects) simp_all

lemma shown:
  assumes "\<And>h p. op_key p = op_key op \<Longrightarrow> op_spec p = op_spec op \<Longrightarrow> G h (UpdateStatus (OOperation p))"
  shows "wp G (\<lambda>_ _. True) h (syncBlueGreenOperationStatus L (defaultCNPGEffects L) op rb out)"
  unfolding syncBlueGreenOperationStatus_def Let_def
  by (auto split: rebuild_phase.splits intro!: wp_any any_update_status failing assms
      simp: running_status_def failed_operation_def)

lemma after_import:
  assumes "\<And>h p. op_key p = op_key op \<Longrightarrow> op_spec p = op_spec op \<Longrightarrow> G h (UpdateStatus (OOperation p))"
  shows "wp G (\<lambda>_ _. True) h (reconcileBlueGreenAfterImport L (defaultCNPGEffects L) op parent)"
  unfolding reconcileBlueGreenAfterImport_def Let_def
  by (auto split: prod.splits option.splits intro!: wp_any gone actions parent_patch shown [OF assms])

end

interpretation plain_requests: operation_guard "\<lambda>_. no_op_write"
  by unfold_locales

end
