(* ===== verification/PassWrites.thy ===== *)
theory PassWrites
  imports Stages
begin

text \<open>
  What a pass of the Operation controller writes on Operations: only the one it reconciles, never its spec; and it
  makes that one a holder of the write plane only after a granted claim, or when it copies the Job of a finished
  Operation into its status once more.
\<close>

definition same_operation :: "nominatim_operation \<Rightarrow> nominatim_operation \<Rightarrow> bool" where
  "same_operation p q = (op_key q = op_key p \<and> op_spec q = op_spec p)"

lemma same_operation_refl [simp]: "same_operation p p" "same_operation p (p\<lparr>op_status := s\<rparr>)"
  by (simp_all add: same_operation_def)

lemma same_operation_sym: "same_operation p q = same_operation q p"
  by (auto simp: same_operation_def)

lemma same_operation_trans: "same_operation p q \<Longrightarrow> same_operation p r = same_operation q r"
  by (auto simp: same_operation_def)

section \<open>Only its own Operation\<close>

text \<open>Metadata go with the Operation as it is held, or as it was read again.\<close>

definition own_write :: "nominatim_operation \<Rightarrow> trace \<Rightarrow> request \<Rightarrow> bool" where
  "own_write op h q =
     ((\<forall>p. q = UpdateStatus (OOperation p) \<longrightarrow> same_operation op p) \<and>
      (\<forall>p. q = UpdateObj (OOperation p) \<longrightarrow> same_operation op p \<or>
         (\<exists>p0. (Get KOperation (op_key op), RObject (OOperation p0)) \<in> set h \<and> same_operation p0 p)) \<and>
      (\<forall>p. q \<noteq> PatchObj (OOperation p) \<and> q \<noteq> Create (OOperation p) \<and> (\<forall>f. q \<noteq> CreateOrUpdate (OOperation p) f)) \<and>
      (\<forall>k. q \<noteq> Delete KOperation k))"

lemma own_write_simps [simp]:
  "own_write op h (UpdateStatus (OOperation p)) = same_operation op p"
  "same_operation op p \<Longrightarrow> own_write op h (UpdateObj (OOperation p))"
  by (simp_all add: own_write_def)

lemma own_write_cong: "same_operation op op' \<Longrightarrow> own_write op' h q = own_write op h q"
  unfolding own_write_def using same_operation_trans [of op op'] by (simp add: same_operation_def)

interpretation own: operation_guard "own_write op" for op
  by unfold_locales (auto simp: own_write_def no_op_write_def)

abbreviation keeps_operation :: "nominatim_operation \<Rightarrow> trace \<Rightarrow> error + nominatim_operation \<Rightarrow> bool" where
  "keeps_operation op \<equiv> \<lambda>_ r. case r of Inl e \<Rightarrow> True | Inr op' \<Rightarrow> same_operation op op'"

lemma fail_own: "wp (own_write op) (\<lambda>_ _. True) h (failOperation L (defaultCNPGEffects L) op reason m)"
  by (rule own.failing) (simp add: failed_operation_def)

lemma claim_own: "wp (own_write op) (\<lambda>_ _. True) h (claimWritePlane L (defaultCNPGEffects L) op)"
  unfolding claimWritePlane_def claimAttempt_def listPeersForNominatim_def Let_def
  by (auto split: sum.splits option.splits write_plane_decision.splits claim_outcome.splits
      intro!: wp_any any_update_status fail_own)

lemma gates_own: "wp (own_write op) (\<lambda>_ _. True) h (enforceRegionGates L (defaultCNPGEffects L) op parent peers)"
  unfolding enforceRegionGates_def by (auto intro!: wp_any fail_own)

lemma sync_own: "wp (own_write op) (keeps_operation op) h (syncStatusFromJob op)"
  unfolding syncStatusFromJob_def write_job_status_def Let_def
  by (auto simp: wp_simps job_status_def same_operation_def split: sum.splits option.splits response.splits)

lemma annotations_own: "wp (own_write op) (keeps_operation op) h (patchRebuildResetAnnotations L op a b)"
  unfolding patchRebuildResetAnnotations_def Let_def
  by (rule wp_retry [where I = "\<lambda>_. True"])
     (auto simp: wp_simps own_write_def same_operation_def split: sum.splits response.splits)

lemma reset_own:
  "wp (own_write op) (\<lambda>_ r. case r of Inl e \<Rightarrow> True | Inr (b, op') \<Rightarrow> same_operation op op') h (ensureRebuildDatabaseReset L op parent)"
proof -
  let ?kept = "\<lambda>_ r. case r of Inl e \<Rightarrow> True | Inr (b, op') \<Rightarrow> same_operation op op'"
  have drop: "wp (own_write op) (keeps_operation op) h (dropDatabase L op parent db)" for h db
    unfolding dropDatabase_def Let_def
    by (intro wp_seq_any own.reclaim) (auto split: sum.splits intro!: wp_seq_any any_parts annotations_own)
  have handed: "wp (own_write op) ?kept h (bind p (\<lambda>op. Ret (c, op)))" if "wp (own_write op) (keeps_operation op) h p" for h p c
    by (rule wp_seq [OF that]) auto
  have "wp (own_write op) ?kept h (resetDatabase L op parent)" for h
    unfolding resetDatabase_def Let_def
    by (rule wp_seq_any)
       (auto split: sum.splits option.splits bool.splits
         intro!: any_parts handed annotations_own drop wp_seq_any own.owned_database)
  then show ?thesis
    unfolding ensureRebuildDatabaseReset_def by (auto intro!: wp_seq_any own.quiesced)
qed

lemma wait_own:
  "wp (own_write op) (\<lambda>_ r. case r of Inl e \<Rightarrow> True | Inr (w, op', p) \<Rightarrow> same_operation op op') h (waitForJobPrerequisites L op parent)"
  unfolding waitForJobPrerequisites_def Let_def
  by (auto split: option.splits sum.splits
      intro!: wp_seq_any [OF own.pending] wp_seq_any [OF own.parent_patch [THEN any_parts(1)]] wp_seq_any [OF own.cluster_ready]
        wp_seq [OF reset_own] wp_seq_any any_parts any_bind own.pending own.parent_patch)

lemma job_own: "wp (own_write op) (\<lambda>_ _. True) h (reconcileJob L (defaultCNPGEffects L) op parent)"
  unfolding reconcileJob_def
proof (rule any_bind [OF own.job], rule wp_seq [OF sync_own])
  fix h op' assume s: "same_operation op op'"
  have "wp (own_write op) (\<lambda>_ _. True) h (reconcileBlueGreenAfterImport L (defaultCNPGEffects L) op' parent)"
    by (rule own.after_import) (use s in \<open>auto simp: same_operation_def\<close>)
  then show "wp (own_write op) (\<lambda>_ _. True) h
     (if on_sibling op' parent \<and> (op_phase_of op' = Succeeded \<or> op_phase_of op' = Failed)
      then reconcileBlueGreenAfterImport L (defaultCNPGEffects L) op' parent
      else bind (syncParentSideEffects L (defaultCNPGEffects L) op') (\<lambda>_. Ret 0))"
    by (auto intro!: any_bind own.side_effects any_parts)
qed simp

lemma prepared_own: "wp (own_write op) (\<lambda>_ _. True) h (reconcilePrepared L (defaultCNPGEffects L) op parent)"
  unfolding reconcilePrepared_def
proof (rule wp_seq [OF wait_own], simp)
  fix h and a :: "int option \<times> nominatim_operation \<times> nominatim_instance"
  assume s: "case a of (w, op', p) \<Rightarrow> same_operation op op'"
  obtain w op' p where a: "a = (w, op', p)" by (cases a)
  with s have "own_write op' = own_write op" by (simp add: own_write_cong fun_eq_iff)
  with job_own [of op' h L p] show "wp (own_write op) (\<lambda>_ _. True) h
     (case a of (wait, op, parent) \<Rightarrow> (case wait of Some delay \<Rightarrow> Ret delay | None \<Rightarrow> reconcileJob L (defaultCNPGEffects L) op parent))"
    by (simp add: a split: option.splits)
qed

lemma active_own: "wp (own_write op) (\<lambda>_ _. True) h (reconcileActive L (defaultCNPGEffects L) op parent)"
  unfolding reconcileActive_def reconcileClaimed_def
  by (auto split: option.splits
      intro!: any_bind any_parts claim_own gates_own own.staging own.prejob_effects prepared_own)

section \<open>A holder only after a granted claim\<close>

text \<open>The status of an Operation that does not hold the write plane.\<close>

definition unarmed_write :: "request \<Rightarrow> bool" where
  "unarmed_write q = (\<forall>p. q = UpdateStatus (OOperation p) \<longrightarrow> \<not> peerHoldsWritePlane p)"

interpretation unarmed: operation_guard "\<lambda>_. unarmed_write"
  by unfold_locales (auto simp: unarmed_write_def no_op_write_def)

lemma unarmed_write_simps [simp]:
  "unarmed_write (UpdateObj x)" "unarmed_write (UpdateStatus (OOperation p)) = (\<not> peerHoldsWritePlane p)"
  by (simp_all add: unarmed_write_def)

lemma fail_unarmed: "wp (\<lambda>_. unarmed_write) (\<lambda>_ _. True) h (failOperation L (defaultCNPGEffects L) op reason m)"
  by (rule unarmed.failing) (simp add: failed_operation_def peerHoldsWritePlane_def)

lemma claim_unarmed: "wp (\<lambda>_. unarmed_write) (\<lambda>_ _. True) h (claimWritePlane L (defaultCNPGEffects L) op)"
  unfolding claimWritePlane_def claimAttempt_def listPeersForNominatim_def Let_def
  by (auto split: sum.splits option.splits write_plane_decision.splits claim_outcome.splits
      intro!: wp_any any_update_status fail_unarmed)

definition status_written :: "trace \<Rightarrow> bool" where
  "status_written h = (\<exists>x r. (UpdateStatus x, r) \<in> set h)"

text \<open>When a pass may write a holding status: the claim was granted, or the Operation was finished when it was read.\<close>

definition plane_request :: "nominatim_operation \<Rightarrow> trace \<Rightarrow> request \<Rightarrow> bool" where
  "plane_request op h q =
     (own_write op h q \<and>
      (unarmed_write q \<or> saw_free_plane op h \<or> (isTerminalOperationPhase (op_phase_of op) \<and> \<not> status_written h)))"

lemma active_plane:
  assumes "op_instance op \<noteq> ''''"
  shows "wp (plane_request op) (\<lambda>_ _. True) h (reconcileActive L (defaultCNPGEffects L) op parent)"
proof -
  have after: "wp (\<lambda>h q. unarmed_write q \<or> saw_free_plane op h) (\<lambda>_ _. True) h p" if "saw_free_plane op h" for h and p :: "int prog"
    using wp_prefix [OF wp_triv [of "\<lambda>_ _. True" "\<lambda>_ _. True" h p]]
    by (rule wp_mono) (use that saw_grows(1) in auto)
  have "wp (\<lambda>h q. unarmed_write q \<or> saw_free_plane op h) (\<lambda>_ _. True) h (reconcileActive L (defaultCNPGEffects L) op parent)"
    unfolding reconcileActive_def
  proof (rule wp_seq_any)
    fix h' peers
    have "wp (\<lambda>_. unarmed_write) (\<lambda>h r. case r of Inl e \<Rightarrow> True | Inr c \<Rightarrow> c = None \<longrightarrow> saw_free_plane op h) h'
        (claimWritePlane L (defaultCNPGEffects L) op)"
      by (rule wp_mono [OF wp_conj [OF claim_unarmed claim_seen [OF assms]]]) simp_all
    then have claim: "wp (\<lambda>h q. unarmed_write q \<or> saw_free_plane op h) (\<lambda>h r. case r of Inl e \<Rightarrow> True | Inr c \<Rightarrow> c = None \<longrightarrow> saw_free_plane op h) h'
        (claimWritePlane L (defaultCNPGEffects L) op)"
      by (rule wp_mono) simp_all
    show "wp (\<lambda>h q. unarmed_write q \<or> saw_free_plane op h) (\<lambda>_ _. True) h'
        (bind (claimWritePlane L (defaultCNPGEffects L) op) (\<lambda>claimed. case claimed of Some delay \<Rightarrow> Ret delay
           | None \<Rightarrow> reconcileClaimed L (defaultCNPGEffects L) op parent peers))"
      by (rule wp_seq [OF claim]) (auto split: option.splits intro: after)
  qed (auto intro: any_parts)
  from wp_conj [OF active_own this] show ?thesis by (rule wp_mono) (auto simp: plane_request_def)
qed

lemma plane_unarmed:
  assumes "wp (own_write op) (\<lambda>_ _. True) h p" and "wp (\<lambda>_. unarmed_write) (\<lambda>_ _. True) h p"
  shows "wp (plane_request op) (\<lambda>_ _. True) h p"
  by (rule wp_mono [OF wp_conj [OF assms]]) (simp_all add: plane_request_def)

lemma plane_cong: "same_operation op op' \<Longrightarrow> op_status op' = op_status op \<Longrightarrow> plane_request op' h q = plane_request op h q"
proof -
  assume s: "same_operation op op'" "op_status op' = op_status op"
  then have "operationsMutexConflict op' = operationsMutexConflict op"
    by (auto simp: operationsMutexConflict_def same_operation_def fun_eq_iff)
  then have "claimGranted op' ps = claimGranted op ps" for ps
    using s by (simp add: claimGranted_def decision_OK_iff busy_def same_operation_def)
  then have "saw_free_plane op' h = saw_free_plane op h"
    using s by (simp add: saw_free_plane_def same_operation_def)
  with s show ?thesis by (simp add: plane_request_def own_write_cong)
qed

text \<open>A finished Operation: one status, right after its Job.\<close>

lemma terminal_plane:
  assumes "isTerminalOperationPhase (op_phase_of op)" and "\<not> status_written h"
  shows "wp (plane_request op) (\<lambda>_ _. True) h (reconcileTerminalOperation L (defaultCNPGEffects L) op)"
proof -
  have "wp (plane_request op) (\<lambda>_ _. True) h (if ot_job_ref (op_status op) \<noteq> None then syncStatusFromJob op else Ret op)"
    unfolding syncStatusFromJob_def write_job_status_def Let_def
    by (auto simp: wp_simps job_status_def plane_request_def same_operation_def own_write_def unarmed_write_def assms status_written_def
        split: sum.splits option.splits) (use assms in \<open>auto simp: status_written_def\<close>)
  moreover have "wp (plane_request op) (\<lambda>_ _. True) h' (syncParentSideEffects L (defaultCNPGEffects L) op')" for h' op'
    by (rule plane_unarmed [OF own.side_effects unarmed.side_effects])
  ultimately show ?thesis unfolding reconcileTerminalOperation_def by (intro any_bind) auto
qed

section \<open>The whole pass\<close>

abbreviation handed_on :: "nominatim_operation \<Rightarrow> trace \<Rightarrow> trace \<Rightarrow> error + nominatim_operation \<Rightarrow> bool" where
  "handed_on op h0 \<equiv> \<lambda>h r. case r of Inl e \<Rightarrow> True
     | Inr op' \<Rightarrow> same_operation op op' \<and> op_status op' = op_status op \<and> (status_written h \<longrightarrow> status_written h0)"

lemma fail_plane: "wp (plane_request op) (\<lambda>_ _. True) h (failOperation L (defaultCNPGEffects L) op reason m)"
  by (rule plane_unarmed [OF fail_own fail_unarmed])

lemma owner_plane:
  assumes "lib_owners L"
  shows "wp (plane_request op) (handed_on op h) h (ensureOperationOwnerRef L op parent)"
proof -
  have "same_operation op (op\<lparr>op_meta := m\<lparr>om_version := v\<rparr>\<rparr>)" "same_operation op (op\<lparr>op_meta := m\<rparr>)"
    if "own_meta L parent (op_meta op) = Inr m" for m v
    using controller_references.set_ref_name [OF assms that [unfolded own_meta_def]] by (simp_all add: same_operation_def)
  then show ?thesis
    unfolding ensureOperationOwnerRef_def
    by (auto simp: wp_bind wp_lift plane_request_def status_written_def split: sum.splits response.splits)
qed

lemma live_plane:
  assumes "lib_owners L" and "op_instance op \<noteq> ''''" and "\<not> status_written h"
  shows "wp (plane_request op) (\<lambda>_ _. True) h (reconcileLive L (defaultCNPGEffects L) op)"
proof -
  have read: "plane_request op h (Get kd k)" for h kd k by (simp add: plane_request_def own.plain)
  have active: "wp (plane_request op) (\<lambda>_ _. True) h (reconcileActive L (defaultCNPGEffects L) op' parent)"
    if "same_operation op op'" "op_status op' = op_status op" for op' parent h
  proof -
    have "op_instance op' \<noteq> ''''" using that assms(2) by (simp add: same_operation_def)
    from active_plane [OF this] show ?thesis by (rule wp_mono) (simp_all add: plane_cong [OF that])
  qed
  have fail: "wp (plane_request op) (\<lambda>_ _. True) h (failOperation L (defaultCNPGEffects L) op' reason m)"
    if "same_operation op op'" "op_status op' = op_status op" for op' reason m h
    by (rule wp_mono [OF fail_plane]) (simp_all add: plane_cong [OF that])
  show ?thesis
    unfolding reconcileLive_def
    by (auto split: sum.splits intro!: terminal_plane assms(3) fail_plane fail any_bind any_parts read wp_seq [OF owner_plane [OF assms(1)]] active)
qed

lemma delete_plane:
  assumes "lib_finalizers L"
  shows "wp (plane_request op) (\<lambda>_ _. True) h (reconcileOperationDelete L (defaultCNPGEffects L) op)"
proof -
  have "same_operation op (op\<lparr>op_meta := remove_finalizer L (op_meta op) f\<rparr>)" for f
    using arg_cong [OF finalizer_set.frame_remove [OF assms, of "op_meta op" f], of om_name]
      arg_cong [OF finalizer_set.frame_remove [OF assms, of "op_meta op" f], of om_namespace]
    by (simp add: same_operation_def)
  then show ?thesis
    unfolding reconcileOperationDelete_def
    by (intro plane_unarmed)
       (auto split: sum.splits intro!: wp_any any_update_status own.parent_ref own.terminal_effects
         unarmed.parent_ref unarmed.terminal_effects)
qed

text \<open>A request of the pass over \<open>req\<close>: relative to the Operation that its first answer held.\<close>

definition pass_request :: "key \<Rightarrow> trace \<Rightarrow> request \<Rightarrow> bool" where
  "pass_request req h q =
     (no_op_write q \<or>
      (\<exists>op t. h = (Get KOperation req, RObject (OOperation op)) # t \<and> (op_instance op \<noteq> '''' \<longrightarrow> plane_request op h q)))"

lemma pass_requests:
  assumes "lib_owners L" and "lib_finalizers L"
  shows "wp (pass_request req) (\<lambda>_ _. True) [] (reconcileOperation L (defaultCNPGEffects L) req)"
proof -
  have body: "wp (pass_request req) (\<lambda>_ _. True) [(Get KOperation req, RObject (OOperation op))] p"
    if "op_instance op \<noteq> '''' \<Longrightarrow> wp (plane_request op) (\<lambda>_ _. True) [(Get KOperation req, RObject (OOperation op))] p"
    for op and p :: "int prog"
  proof -
    have "wp (\<lambda>h q. op_instance op \<noteq> '''' \<longrightarrow> plane_request op h q) (\<lambda>_ _. True) [(Get KOperation req, RObject (OOperation op))] p"
      using that by (cases "op_instance op = ''''") (auto intro: wp_triv wp_mono)
    from wp_prefix [OF this] show ?thesis
      by (rule wp_mono) (auto simp: pass_request_def prefix_def)
  qed
  have named: "same_operation op (op\<lparr>op_meta := add_finalizer L (op_meta op) f\<rparr>)"
    "same_operation op (op\<lparr>op_meta := (add_finalizer L (op_meta op) f)\<lparr>om_version := v\<rparr>\<rparr>)" for op f v
    using finalizer_set.add_fields [OF assms(2)] by (simp_all add: same_operation_def)
  have first: "wp (plane_request op) (handed_on op h) h
     (if contains_finalizer L (op_meta op) f then Ret op else update_operation (op\<lparr>op_meta := add_finalizer L (op_meta op) f\<rparr>))" for op h f
    by (auto simp: plane_request_def named status_written_def split: response.splits)
  have live: "wp (plane_request op) (\<lambda>_ _. True) h
     (bind (if contains_finalizer L (op_meta op) f then Ret op else update_operation (op\<lparr>op_meta := add_finalizer L (op_meta op) f\<rparr>))
       (reconcileLive L (defaultCNPGEffects L)))" if "op_instance op \<noteq> ''''" "\<not> status_written h" for op h f
  proof (rule wp_seq [OF first], simp)
    fix h' op'
    assume s: "same_operation op op' \<and> op_status op' = op_status op \<and> (status_written h' \<longrightarrow> status_written h)"
    then have "op_instance op' \<noteq> ''''" "\<not> status_written h'" using that by (auto simp: same_operation_def)
    from live_plane [OF assms(1) this] show "wp (plane_request op) (\<lambda>_ _. True) h' (reconcileLive L (defaultCNPGEffects L) op')"
      by (rule wp_mono) (use s plane_cong in auto)
  qed
  have read: "pass_request req [] (Get KOperation req)" by (simp add: pass_request_def)
  have "\<not> status_written [(Get KOperation req, x)]" for x by (simp add: status_written_def)
  then have live_now: "wp (plane_request op) (\<lambda>_ _. True) [(Get KOperation req, x)]
     (bind (if contains_finalizer L (op_meta op) f then Ret op else update_operation (op\<lparr>op_meta := add_finalizer L (op_meta op) f\<rparr>))
       (reconcileLive L (defaultCNPGEffects L)))" if "op_instance op \<noteq> ''''" for op f x
    using live [OF that] by blast
  have handled: "wp (pass_request req) (\<lambda>_ _. True) [(Get KOperation req, RObject (OOperation op))]
     (if om_deletion (op_meta op) \<noteq> None then reconcileOperationDelete L (defaultCNPGEffects L) op
      else bind (if contains_finalizer L (op_meta op) NominatimOperationFinalizer then Ret op
                 else update_operation (op\<lparr>op_meta := add_finalizer L (op_meta op) NominatimOperationFinalizer\<rparr>))
             (reconcileLive L (defaultCNPGEffects L)))" for op
    by (rule body, split if_split) (intro conjI impI delete_plane [OF assms(2)] live_now)
  have absent: "wp G (\<lambda>_ _. True) h (if b then Ret 0 else Fail e)" for G h b and e :: error by simp
  show ?thesis
    unfolding reconcileOperation_def wp_bind [of _ _ _ "attempt _"] wp_attempt wp_call
    by (intro conjI allI read) (rename_tac x, case_tac "case x of RError e \<Rightarrow> Inl e | y \<Rightarrow> as_operation y",
      simp_all only: sum.case absent response_Inr as_operation_Inr append_Nil,
      simp only: response.case as_operation.simps sum.case handled)
qed

end
