(* ===== verification/InstanceRequests.thy ===== *)
theory InstanceRequests
  imports InstanceSafety
begin

text \<open>
  The requests that a pass of the instance controller is made of: which kinds of objects it creates, creates or updates,
  and writes.
\<close>

definition instance_request :: "request \<Rightarrow> bool" where
  "instance_request q =
     (case q of
        Create x \<Rightarrow> obj_kind x \<in> {KOperation, KClaim, KJob, KServiceAccount, KRole, KRoleBinding}
      | CreateOrUpdate x f \<Rightarrow> obj_kind x \<in> {KDeployment, KService, KConfigMap, KCluster, KDatabase, KHTTPRoute}
      | UpdateStatus x \<Rightarrow> obj_kind x = KInstance
      | UpdateObj x \<Rightarrow> obj_kind x \<in> {KInstance, KRole, KRoleBinding}
      | PatchObj x \<Rightarrow> obj_kind x = KOperation
      | _ \<Rightarrow> True)"

lemma instance_request_simps [simp]:
  "instance_request (Get kd k)" "instance_request (ListOperations ns)" "instance_request (ListInstances ns)" "instance_request Now"
  "instance_request (Delete kd k)"
  "instance_request (Create x) = (obj_kind x \<in> {KOperation, KClaim, KJob, KServiceAccount, KRole, KRoleBinding})"
  "instance_request (CreateOrUpdate x f) = (obj_kind x \<in> {KDeployment, KService, KConfigMap, KCluster, KDatabase, KHTTPRoute})"
  "instance_request (UpdateStatus x) = (obj_kind x = KInstance)" "instance_request (PatchObj x) = (obj_kind x = KOperation)"
  "instance_request (UpdateObj x) = (obj_kind x \<in> {KInstance, KRole, KRoleBinding})"
  by (simp_all add: instance_request_def)

lemma database_requests: "wp (\<lambda>_. instance_request) (\<lambda>_ _. True) h (reconcileDatabase L nom)"
  unfolding reconcileDatabase_def reconcileDatabaseClusterCreate_def reconcileDatabaseClusterRef_def reconcileDatabaseConnectionSecret_def
    ensureOwnedCNPGCluster_def reconcileOwnedCNPGDatabase_def ensureOwnedCNPGDatabase_def hasPendingRebuildDatabaseReset_def
    getCNPGCluster_def Let_def
  by (auto split: option.splits sum.splits intro!: wp_any)

lemma serving_requests:
  "wp (\<lambda>_. instance_request) (\<lambda>_ _. True) h (deleteServingComponent nom n c)"
  "wp (\<lambda>_. instance_request) (\<lambda>_ _. True) h (reconcileService L nom n sel c)"
  "wp (\<lambda>_. instance_request) (\<lambda>_ _. True) h (reconcileHTTPRoute L nom n sn r c)"
  "wp (\<lambda>_. instance_request) (\<lambda>_ _. True) h (reconcilePVC L nom vs n c)"
proof -
  show "wp (\<lambda>_. instance_request) (\<lambda>_ _. True) h (deleteServingComponent nom n c)"
    by (rule wp_mono [OF wp_delete_serving]) auto
  show "wp (\<lambda>_. instance_request) (\<lambda>_ _. True) h (reconcileService L nom n sel c)"
    "wp (\<lambda>_. instance_request) (\<lambda>_ _. True) h (reconcileHTTPRoute L nom n sn r c)"
    by (simp_all add: reconcileService_def reconcileHTTPRoute_def wp_call)
  show "wp (\<lambda>_. instance_request) (\<lambda>_ _. True) h (reconcilePVC L nom vs n c)"
    unfolding reconcilePVC_def Let_def by (auto split: option.splits sum.splits intro!: wp_any)
qed

lemma suspend_requests: "wp (\<lambda>_. instance_request) (\<lambda>_ _. True) h (shouldSuspendAPI nom imp)"
proof -
  have "wp (\<lambda>_. instance_request) (\<lambda>_ _. True) h (shouldSuspendLoop nom imp refs)" for imp refs
    by (induction refs arbitrary: h) (auto split: sum.splits intro!: wp_any)
  then show ?thesis unfolding shouldSuspendAPI_def .
qed

lemma workloads_requests: "wp (\<lambda>_. instance_request) (\<lambda>_ _. True) h (reconcileWorkloads L nom)"
proof -
  have api: "wp (\<lambda>_. instance_request) (\<lambda>_ _. True) h (reconcileAPI L nom)" for h
    unfolding reconcileAPI_def Let_def by (auto split: option.splits intro!: wp_any serving_requests suspend_requests)
  have ui: "wp (\<lambda>_. instance_request) (\<lambda>_ _. True) h (reconcileUI L nom)" for h
    unfolding reconcileUI_def Let_def by (auto split: option.splits bool.splits intro!: wp_any serving_requests)
  show ?thesis
    unfolding reconcileWorkloads_def by (auto split: option.splits intro!: wp_any serving_requests api ui)
qed

lemma probes_requests: "wp (\<lambda>_. instance_request) (\<lambda>_ _. True) h (ensureSequenceProbes L nom ops)"
proof -
  have account: "wp (\<lambda>_. instance_request) (\<lambda>_ _. True) h (ensureSequenceProbeRBAC L nom)" for h
    unfolding ensureSequenceProbeRBAC_def ensure_probe_account_def ensure_probe_role_def ensure_probe_binding_def
    by (intro any_bind) (auto split: sum.splits intro!: any_bind any_parts any_create_once)
  have mark: "wp (\<lambda>_. instance_request) (\<lambda>_ _. True) h (markSequenceObserved op)" for h op
    unfolding markSequenceObserved_def by (auto split: sum.splits intro!: any_bind any_parts)
  have job: "wp (\<lambda>_. instance_request) (\<lambda>_ _. True) h (ensureSequenceProbeJob L nom op)" for h op
    unfolding ensureSequenceProbeJob_def by (auto split: sum.splits intro!: any_bind any_parts any_create_once mark)
  show ?thesis
    unfolding ensureSequenceProbes_def ensureSequenceReportConfigMap_def
    by (intro any_bind account any_for_each) (auto intro!: any_parts job)
qed

lemma sequence_requests: "wp (\<lambda>_. instance_request) (\<lambda>_ _. True) h (reconcileSequenceObservation L nom ops)"
proof -
  have "wp (\<lambda>_. instance_request) (\<lambda>_ _. True) h (applySequenceReportMap nom report t)" for h nom report t
    unfolding applySequenceReportMap_def Let_def by (auto intro!: any_bind any_parts)
  then have "wp (\<lambda>_. instance_request) (\<lambda>_ _. True) h (applySequenceReportConfigMap L nom)" for h
    unfolding applySequenceReportConfigMap_def Let_def by (auto split: sum.splits intro!: any_bind any_parts)
  then show ?thesis
    unfolding reconcileSequenceObservation_def by (auto intro!: any_bind any_parts probes_requests)
qed

lemma regions_requests:
  "wp (\<lambda>_. instance_request) (\<lambda>_ _. True) h (observeRegionsFromSucceededOps nom ops)"
  "wp (\<lambda>_. instance_request) (\<lambda>_ _. True) h (ensureBootstrapOperation L nom ops)"
  "wp (\<lambda>_. instance_request) (\<lambda>_ _. True) h (reconcileRegionDrift L nom ops)"
  "wp (\<lambda>_. instance_request) (\<lambda>_ _. True) h (syncStatus L nom)"
proof -
  have boot: "wp (\<lambda>_. instance_request) (\<lambda>_ _. True) h (syncRegionsFromBootstrapLoop nom ps)" for nom ps h
    by (induction ps arbitrary: h)
       (auto simp: wp_simps sealObservedNominatimConfig_def sealObservedNominatimConfigForce_def Let_def split: sum.splits option.splits)
  have drift: "wp (\<lambda>_. instance_request) (\<lambda>_ _. True) h (syncRegionsFromDriftOp op n)" for op n h
    unfolding syncRegionsFromDriftOp_def mergeRegionsIntoStatus_def replaceRegionsStatus_def
    by (auto simp: wp_simps sealObservedNominatimConfigForce_def Let_def split: op_type.splits sum.splits option.splits)
  show "wp (\<lambda>_. instance_request) (\<lambda>_ _. True) h (observeRegionsFromSucceededOps nom ops)"
    unfolding observeRegionsFromSucceededOps_def syncRegionsFromBootstrap_def syncRegionsFromDriftOps_def
    by (auto intro!: any_bind any_fold any_parts boot drift)
  show "wp (\<lambda>_. instance_request) (\<lambda>_ _. True) h (ensureBootstrapOperation L nom ops)"
    unfolding ensureBootstrapOperation_def createOwnedOperation_def by (auto split: sum.splits intro!: wp_any)
  show "wp (\<lambda>_. instance_request) (\<lambda>_ _. True) h (reconcileRegionDrift L nom ops)"
    by (rule wp_mono [OF wp_region_drift]) (auto)
  show "wp (\<lambda>_. instance_request) (\<lambda>_ _. True) h (syncStatus L nom)"
    unfolding syncStatus_def Let_def by (auto intro!: wp_any any_update_status)
qed

lemma updates_requests: "wp (\<lambda>_. instance_request) (\<lambda>_ _. True) h (reconcileUpdates L nom ops)"
  unfolding reconcileUpdates_def scheduleCursor_def createOwnedOperation_def Let_def
  by (auto split: option.splits sum.splits intro!: wp_any any_update_status)

lemma instance_requests: "wp (\<lambda>_. instance_request) (\<lambda>_ _. True) h (reconcileInstance L req)"
proof -
  have deleted: "wp (\<lambda>_. instance_request) (\<lambda>_ _. True) h (reconcileDelete L nom)" for h nom
    unfolding reconcileDelete_def markInstanceDeleting_def drainChildOperations_def listOperationsForParent_def
      deleteOwnedCNPGResources_def deleteOwnedUnstructuredIfController_def
    by (auto split: sum.splits intro!: wp_any any_update_status)
  have attached: "wp (\<lambda>_. instance_request) (\<lambda>_ _. True) h (reconcileAttached L nom)" for h nom
    unfolding reconcileAttached_def listOperationsForParent_def
    by (auto split: prod.splits intro!: any_bind any_parts regions_requests workloads_requests sequence_requests updates_requests)
  have persisted: "wp (\<lambda>_. instance_request) (\<lambda>_ _. True) h (persistDatabase L req nom)" for h nom
    unfolding persistDatabase_def by (auto intro!: wp_any any_update_status)
  show ?thesis
    unfolding reconcileInstance_def
    by (auto split: sum.splits intro!: any_bind any_parts any_update_status deleted attached persisted database_requests)
qed

end
