(* ===== verification/System.thy ===== *)
theory System
  imports PassWrites InstanceRequests
begin

text \<open>
  The two controllers at work on one API server: a pass of each may be in flight, they take turns request by
  request, and between any two requests users create and delete Operations, metadata change and the operator
  crashes. The state keeps the Operations of the server and which Jobs exist; every other object is answered
  arbitrarily. The passes in flight are the programs \<open>reconcileOperation\<close> and \<open>reconcileInstance\<close> themselves.
\<close>

section \<open>The instance controller leaves the status of Operations alone\<close>

definition leaves_status :: "request \<Rightarrow> bool" where
  "leaves_status q = (\<forall>p. q \<noteq> UpdateStatus (OOperation p) \<and> q \<noteq> UpdateObj (OOperation p) \<and> (\<forall>f. q \<noteq> CreateOrUpdate (OOperation p) f))"

lemma instance_leaves: "wp (\<lambda>_. leaves_status) (\<lambda>_ _. True) h (reconcileInstance L req)"
  by (rule wp_mono [OF instance_requests]) (auto simp: leaves_status_def)

section \<open>The API server\<close>

text \<open>
  A status goes to the status subresource, an \<open>Update\<close> or \<open>Patch\<close> of the object leaves the status; a new object has
  no status. A \<open>Delete\<close> only marks the object: that it goes is a step of its own.
\<close>

definition no_status :: operation_status where
  "no_status = \<lparr>ot_phase = PhaseUnset, ot_job_ref = None, ot_observed_generation = 0, ot_message = '''', ot_start = None, ot_completion = None\<rparr>"

definition at_key :: "key \<Rightarrow> (nominatim_operation \<Rightarrow> nominatim_operation) \<Rightarrow> nominatim_operation list \<Rightarrow> nominatim_operation list" where
  "at_key k f ops = map (\<lambda>o'. if op_key o' = k then f o' else o') ops"

fun op_effect :: "request \<Rightarrow> nominatim_operation list \<Rightarrow> nominatim_operation list" where
  "op_effect (UpdateStatus (OOperation p)) ops = at_key (op_key p) (\<lambda>o'. o'\<lparr>op_status := op_status p\<rparr>) ops"
| "op_effect (UpdateObj (OOperation p)) ops = at_key (op_key p) (\<lambda>o'. o'\<lparr>op_meta := op_meta p, op_spec := op_spec p\<rparr>) ops"
| "op_effect (PatchObj (OOperation p)) ops = at_key (op_key p) (\<lambda>o'. o'\<lparr>op_meta := op_meta p\<rparr>) ops"
| "op_effect (Create (OOperation p)) ops =
     (if op_key p \<in> op_key ` set ops then ops else ops @ [p\<lparr>op_status := no_status\<rparr>])"
| "op_effect _ ops = ops"

fun job_effect :: "request \<Rightarrow> key list \<Rightarrow> key list" where
  "job_effect (Create (OJob j)) jobs = (om_namespace (jo_meta j), om_name (jo_meta j)) # jobs"
| "job_effect (Delete KJob k) jobs = filter (\<lambda>k'. k' \<noteq> k) jobs"
| "job_effect _ jobs = jobs"

text \<open>Reads of Operations are answered from the server, or fail; any other answer is arbitrary.\<close>

fun op_answer :: "nominatim_operation list \<Rightarrow> request \<Rightarrow> response \<Rightarrow> bool" where
  "op_answer ops (Get KOperation k) (RObject x) = (\<exists>p \<in> set ops. op_key p = k \<and> x = OOperation p)"
| "op_answer ops (ListOperations ns) (ROperations ps) = (ps = filter (\<lambda>p. op_namespace p = ns) ops)"
| "op_answer ops q x = True"

fun is_error :: "response \<Rightarrow> bool" where
  "is_error (RError e) = True" | "is_error _ = False"

record system =
  sy_ops :: "nominatim_operation list"
  sy_jobs :: "key list"
  sy_op_pass :: "(key \<times> trace \<times> int prog) option"
  sy_inst_pass :: "(trace \<times> int prog) option"

text \<open>A request takes effect and is answered, or fails without effect; one that took effect may still be answered by an error.\<close>

inductive served :: "request \<Rightarrow> response \<Rightarrow> system \<Rightarrow> system \<Rightarrow> bool" where
  answered: "op_answer (sy_ops s) q x \<Longrightarrow> served q x s (s\<lparr>sy_ops := op_effect q (sy_ops s), sy_jobs := job_effect q (sy_jobs s)\<rparr>)"
| refused: "is_error x \<Longrightarrow> served q x s s"

text \<open>A kind of status write: of an Operation that was finished, to one that holds the write plane.\<close>

definition revives :: "request \<Rightarrow> nominatim_operation list \<Rightarrow> bool" where
  "revives q ops = (\<exists>p. q = UpdateStatus (OOperation p) \<and> peerHoldsWritePlane p \<and>
     (\<exists>o' \<in> set ops. op_key o' = op_key p \<and> isTerminalOperationPhase (op_phase_of o')))"

definition in_flight :: "system \<Rightarrow> key \<Rightarrow> bool" where
  "in_flight s k = (\<exists>h p. sy_op_pass s = Some (k, h, p))"

text \<open>
  The steps, for the requests of the Operation controller that \<open>V\<close> admits. Users create and delete Operations and
  change metadata; a name is not given again while a pass over it is in flight, and the API server admits no
  Operation without the name of an instance.
\<close>

inductive system_step :: "lib \<Rightarrow> (request \<Rightarrow> nominatim_operation list \<Rightarrow> bool) \<Rightarrow> system \<Rightarrow> system \<Rightarrow> bool" for L V where
  op_start: "sy_op_pass s = None \<Longrightarrow>
     system_step L V s (s\<lparr>sy_op_pass := Some (req, [], reconcileOperation L (defaultCNPGEffects L) req)\<rparr>)"
| op_request: "sy_op_pass s = Some (req, h, Call q k) \<Longrightarrow> V q (sy_ops s) \<Longrightarrow> served q x s s' \<Longrightarrow>
     system_step L V s (s'\<lparr>sy_op_pass := Some (req, h @ [(q, x)], k x)\<rparr>)"
| op_end: "system_step L V s (s\<lparr>sy_op_pass := None\<rparr>)"
| inst_start: "sy_inst_pass s = None \<Longrightarrow> system_step L V s (s\<lparr>sy_inst_pass := Some ([], reconcileInstance L req)\<rparr>)"
| inst_request: "sy_inst_pass s = Some (h, Call q k) \<Longrightarrow> served q x s s' \<Longrightarrow>
     (\<And>p. q = Create (OOperation p) \<Longrightarrow> op_instance p \<noteq> '''' \<and> \<not> in_flight s (op_key p)) \<Longrightarrow>
     system_step L V s (s'\<lparr>sy_inst_pass := Some (h @ [(q, x)], k x)\<rparr>)"
| inst_end: "system_step L V s (s\<lparr>sy_inst_pass := None\<rparr>)"
| user_create: "op_instance p \<noteq> '''' \<Longrightarrow> \<not> in_flight s (op_key p) \<Longrightarrow>
     system_step L V s (s\<lparr>sy_ops := op_effect (Create (OOperation p)) (sy_ops s)\<rparr>)"
| op_gone: "system_step L V s (s\<lparr>sy_ops := filter (\<lambda>p. op_key p \<noteq> k) (sy_ops s)\<rparr>)"
| op_metadata: "(om_namespace m, om_name m) = k \<Longrightarrow>
     system_step L V s (s\<lparr>sy_ops := at_key k (\<lambda>p. p\<lparr>op_meta := m\<rparr>) (sy_ops s)\<rparr>)"
| job_gone: "system_step L V s (s\<lparr>sy_jobs := filter (\<lambda>k'. k' \<noteq> k) (sy_jobs s)\<rparr>)"

inductive reachable_system :: "lib \<Rightarrow> (request \<Rightarrow> nominatim_operation list \<Rightarrow> bool) \<Rightarrow> system \<Rightarrow> bool" for L V where
  start: "reachable_system L V \<lparr>sy_ops = [], sy_jobs = [], sy_op_pass = None, sy_inst_pass = None\<rparr>"
| step: "reachable_system L V s \<Longrightarrow> system_step L V s s' \<Longrightarrow> reachable_system L V s'"

section \<open>How the Operations of the server change\<close>

text \<open>Each one comes from one of before, its spec and but for \<open>K\<close> its status kept, or is new.\<close>

definition evolves :: "(key \<Rightarrow> bool) \<Rightarrow> nominatim_operation list \<Rightarrow> nominatim_operation list \<Rightarrow> bool" where
  "evolves K ops ops' =
     (\<forall>o' \<in> set ops'. (\<exists>o0 \<in> set ops. same_operation o0 o' \<and> (K (op_key o') \<or> op_status o' = op_status o0)) \<or>
        (op_key o' \<notin> op_key ` set ops \<and> op_status o' = no_status \<and> \<not> K (op_key o')))"

definition ops_ok :: "nominatim_operation list \<Rightarrow> bool" where
  "ops_ok ops = (distinct (map op_key ops) \<and> (\<forall>p \<in> set ops. op_instance p \<noteq> ''''))"

lemma evolves_refl: "evolves K ops ops"
  by (auto simp: evolves_def intro: same_operation_refl)

lemma evolves_filter: "evolves K ops (filter P ops)"
  by (auto simp: evolves_def intro: same_operation_refl)

lemma evolves_create:
  assumes "op_key p \<notin> op_key ` set ops \<Longrightarrow> \<not> K (op_key p)"
  shows "evolves K ops (op_effect (Create (OOperation p)) ops)"
  using assms by (auto simp: evolves_def intro: same_operation_refl)

lemma evolves_at_key:
  assumes "\<And>p. p \<in> set ops \<Longrightarrow> op_key p = k \<Longrightarrow> same_operation p (f p) \<and> (K k \<or> op_status (f p) = op_status p)"
  shows "evolves K ops (at_key k f ops)"
  unfolding evolves_def
proof (intro ballI disjI1)
  fix o' assume "o' \<in> set (at_key k f ops)"
  then obtain p where p: "p \<in> set ops" "o' = (if op_key p = k then f p else p)" by (auto simp: at_key_def)
  show "\<exists>o0 \<in> set ops. same_operation o0 o' \<and> (K (op_key o') \<or> op_status o' = op_status o0)"
  proof (cases "op_key p = k")
    case True
    with assms [OF p(1)] p(2) have s: "same_operation p o'" "K k \<or> op_status o' = op_status p" by simp_all
    then have "op_key o' = k" using True by (simp add: same_operation_def)
    with s p(1) show ?thesis by blast
  next
    case False
    with p show ?thesis by (auto intro: same_operation_refl)
  qed
qed

lemma ops_ok_at_key:
  assumes "ops_ok ops" and "\<And>p. p \<in> set ops \<Longrightarrow> op_key p = k \<Longrightarrow> same_operation p (f p)"
  shows "ops_ok (at_key k f ops)"
proof -
  have same: "same_operation p (if op_key p = k then f p else p)" if "p \<in> set ops" for p using assms(2) [OF that] by simp
  have "map op_key (at_key k f ops) = map op_key ops"
    unfolding at_key_def map_map o_def using same by (intro map_cong refl) (simp only: same_operation_def)
  moreover have "op_instance p \<noteq> ''''" if p: "p \<in> set (at_key k f ops)" for p
  proof -
    from p obtain p0 where p0: "p0 \<in> set ops" "p = (if op_key p0 = k then f p0 else p0)" unfolding at_key_def by (auto simp only: set_map)
    with same [OF p0(1)] have "op_spec p = op_spec p0" by (simp only: same_operation_def)
    with p0(1) assms(1) show ?thesis by (simp add: ops_ok_def)
  qed
  ultimately show ?thesis using assms(1) by (simp only: ops_ok_def) blast
qed

lemma at_key_keys:
  assumes f: "\<And>p. op_key p = k \<Longrightarrow> op_key (f p) = k"
  shows "op_key ` set (at_key k f ops) = op_key ` set ops"
proof -
  have "op_key (if op_key p = k then f p else p) = op_key p" for p
  proof (cases "op_key p = k")
    case True
    then have "op_key (f p) = op_key p" unfolding f [OF True] True ..
    then show ?thesis unfolding if_P [OF True] .
  qed (simp only: if_False)
  then show ?thesis unfolding at_key_def set_map image_image by (simp only:)
qed

lemma ops_ok_create: "ops_ok ops \<Longrightarrow> op_instance p \<noteq> '''' \<Longrightarrow> ops_ok (op_effect (Create (OOperation p)) ops)"
  by (auto simp: ops_ok_def)

lemma ops_ok_filter: "ops_ok ops \<Longrightarrow> ops_ok (filter P ops)"
  by (auto simp: ops_ok_def distinct_map_filter)

lemma holds_no_status [simp]: "op_status p = no_status \<Longrightarrow> \<not> peerHoldsWritePlane p"
  by (simp add: peerHoldsWritePlane_def no_status_def)

lemma holds_cong: "op_status p = op_status q \<Longrightarrow> peerHoldsWritePlane p = peerHoldsWritePlane q"
  by (simp add: peerHoldsWritePlane_def)

lemma conflict_cong:
  assumes "same_operation p p'" and "same_operation q q'"
  shows "operationsMutexConflict p' q' = operationsMutexConflict p q"
  using assms by (simp add: operationsMutexConflict_def same_operation_def)

text \<open>When nobody's status changes, the holders stay exclusive.\<close>

lemma exclusive_evolves:
  assumes "plane.exclusive ops" and "evolves (\<lambda>_. False) ops ops'"
  shows "plane.exclusive ops'"
  unfolding plane.exclusive_def
proof (intro ballI impI notI)
  fix a b assume ab: "a \<in> set ops'" "b \<in> set ops'" "operationsMutexConflict a b" "peerHoldsWritePlane a \<and> peerHoldsWritePlane b"
  have "\<exists>a0 \<in> set ops. same_operation a0 a \<and> peerHoldsWritePlane a0" if "a \<in> set ops'" "peerHoldsWritePlane a" for a
    using assms(2) that holds_no_status holds_cong unfolding evolves_def by blast
  with ab obtain a0 b0 where "a0 \<in> set ops" "b0 \<in> set ops" "same_operation a0 a" "same_operation b0 b"
    "peerHoldsWritePlane a0" "peerHoldsWritePlane b0" by blast
  with assms(1) ab(3) conflict_cong show False unfolding plane.exclusive_def by blast
qed

section \<open>What a pass in flight has seen\<close>

definition seen_ok :: "key \<Rightarrow> trace \<Rightarrow> nominatim_operation list \<Rightarrow> bool" where
  "seen_ok req h ops =
     ((\<forall>p. (Get KOperation req, RObject (OOperation p)) \<in> set h \<longrightarrow>
         op_key p = req \<and> op_instance p \<noteq> '''' \<and> (\<forall>o' \<in> set ops. op_key o' = req \<longrightarrow> op_spec o' = op_spec p)) \<and>
      (\<forall>op t. h = (Get KOperation req, RObject (OOperation op)) # t \<longrightarrow>
         (saw_free_plane op h \<longrightarrow> (\<forall>o' \<in> set ops. operationsMutexConflict op o' \<longrightarrow> \<not> peerHoldsWritePlane o')) \<and>
         (isTerminalOperationPhase (op_phase_of op) \<longrightarrow> \<not> status_written h \<longrightarrow>
            (\<forall>o' \<in> set ops. op_key o' = req \<longrightarrow> isTerminalOperationPhase (op_phase_of o')))))"

lemma seen_nil [simp]: "seen_ok req [] ops"
  by (simp add: seen_ok_def)

lemma seen_evolves:
  assumes "seen_ok req h ops" and "evolves (\<lambda>k. k = req \<and> status_written h) ops ops'"
    and "\<And>o'. o' \<in> set ops' \<Longrightarrow> op_key o' = req \<Longrightarrow> req \<in> op_key ` set ops"
  shows "seen_ok req h ops'"
proof -
  have old: "\<exists>o0 \<in> set ops. same_operation o0 o' \<and> op_key o0 = req \<and> (status_written h \<or> op_status o' = op_status o0)"
    if new: "o' \<in> set ops'" and k: "op_key o' = req" for o'
  proof -
    from assms(3) [OF new k] k have "op_key o' \<in> op_key ` set ops" by simp
    with assms(2) new obtain o0 where "o0 \<in> set ops" "same_operation o0 o'" "status_written h \<or> op_status o' = op_status o0"
      unfolding evolves_def by blast
    then show ?thesis using k by (intro bexI [of _ o0]) (simp_all add: same_operation_def)
  qed
  have spec: "op_spec o' = s" if "o' \<in> set ops'" "op_key o' = req" "\<forall>o' \<in> set ops. op_key o' = req \<longrightarrow> op_spec o' = s" for o' s
  proof -
    from old [OF that(1,2)] obtain o0 where "o0 \<in> set ops" "same_operation o0 o'" "op_key o0 = req" by blast
    with that(3) show ?thesis by (simp add: same_operation_def)
  qed
  have free: "\<not> peerHoldsWritePlane o'" if "o' \<in> set ops'" "operationsMutexConflict op o'" "op_key op = req"
    "\<forall>o' \<in> set ops. operationsMutexConflict op o' \<longrightarrow> \<not> peerHoldsWritePlane o'" for o' op
  proof -
    have "op_key o' \<noteq> req" using that(2,3) by (auto simp: operationsMutexConflict_def split: if_splits)
    with assms(2) that(1) have "(\<exists>o0 \<in> set ops. same_operation o0 o' \<and> op_status o' = op_status o0) \<or> op_status o' = no_status"
      unfolding evolves_def by blast
    then show ?thesis
    proof
      assume "\<exists>o0 \<in> set ops. same_operation o0 o' \<and> op_status o' = op_status o0"
      then obtain o0 where o0: "o0 \<in> set ops" "same_operation o0 o'" "op_status o' = op_status o0" by blast
      with that(2) conflict_cong [OF same_operation_refl(1) o0(2), of op] have "operationsMutexConflict op o0" by simp
      with that(4) o0 holds_cong [OF o0(3)] show ?thesis by blast
    qed simp
  qed
  have terminal: "isTerminalOperationPhase (op_phase_of o')" if "o' \<in> set ops'" "op_key o' = req" "\<not> status_written h"
    "\<forall>o' \<in> set ops. op_key o' = req \<longrightarrow> isTerminalOperationPhase (op_phase_of o')" for o'
  proof -
    from old [OF that(1,2)] that(3) obtain o0 where "o0 \<in> set ops" "op_key o0 = req" "op_status o' = op_status o0" by blast
    with that(4) show ?thesis by simp
  qed
  show ?thesis
    unfolding seen_ok_def
  proof (intro conjI allI impI ballI)
    fix p assume r: "(Get KOperation req, RObject (OOperation p)) \<in> set h"
    then have p: "op_key p = req \<and> op_instance p \<noteq> '''' \<and> (\<forall>o' \<in> set ops. op_key o' = req \<longrightarrow> op_spec o' = op_spec p)"
      using assms(1) unfolding seen_ok_def by blast
    then show "op_key p = req" "op_instance p \<noteq> ''''" by simp_all
    show "op_spec o' = op_spec p" if "o' \<in> set ops'" "op_key o' = req" for o' using spec that p by blast
  next
    fix op t o' assume h: "h = (Get KOperation req, RObject (OOperation op)) # t" and o': "o' \<in> set ops'"
    then have k: "op_key op = req" using assms(1) unfolding seen_ok_def by (metis list.set_intros(1))
    show "\<not> peerHoldsWritePlane o'" if "saw_free_plane op h" "operationsMutexConflict op o'"
      by (rule free [OF o' that(2) k]) (use assms(1) that(1) h in \<open>auto simp: seen_ok_def\<close>)
    show "isTerminalOperationPhase (op_phase_of o')"
      if "isTerminalOperationPhase (op_phase_of op)" "\<not> status_written h" "op_key o' = req"
      by (rule terminal [OF o' that(3,2)]) (use assms(1) that h in \<open>auto simp: seen_ok_def\<close>)
  qed
qed

lemma ops_unique: "ops_ok ops \<Longrightarrow> p \<in> set ops \<Longrightarrow> q \<in> set ops \<Longrightarrow> op_key p = op_key q \<Longrightarrow> p = q"
  by (simp only: ops_ok_def distinct_map inj_on_def)

text \<open>One more event, answered from the Operations as they are.\<close>

lemma seen_event:
  assumes "seen_ok req h ops" and "op_answer ops q x" and "ops_ok ops"
  shows "seen_ok req (h @ [(q, x)]) ops"
  unfolding seen_ok_def
proof (intro conjI allI impI ballI)
  have read: "p \<in> set ops \<and> op_key p = req" if "(q, x) = (Get KOperation req, RObject (OOperation p))" for p
    using assms(2) that by auto
  fix p assume "(Get KOperation req, RObject (OOperation p)) \<in> set (h @ [(q, x)])"
  then consider "(Get KOperation req, RObject (OOperation p)) \<in> set h" | "(q, x) = (Get KOperation req, RObject (OOperation p))" by auto
  then have "op_key p = req \<and> op_instance p \<noteq> '''' \<and> (\<forall>o' \<in> set ops. op_key o' = req \<longrightarrow> op_spec o' = op_spec p)"
  proof cases
    case 1
    with assms(1) show ?thesis unfolding seen_ok_def by blast
  next
    case 2
    from read [OF this] have p: "p \<in> set ops" "op_key p = req" by simp_all
    then have "op_instance p \<noteq> ''''" using assms(3) by (simp add: ops_ok_def)
    with p ops_unique [OF assms(3) _ p(1)] show ?thesis by metis
  qed
  then show "op_key p = req" "op_instance p \<noteq> ''''" "\<And>o'. o' \<in> set ops \<Longrightarrow> op_key o' = req \<Longrightarrow> op_spec o' = op_spec p" by blast+
next
  fix op t o'
  assume h: "h @ [(q, x)] = (Get KOperation req, RObject (OOperation op)) # t" and o': "o' \<in> set ops"
  show "\<not> peerHoldsWritePlane o'" if f: "saw_free_plane op (h @ [(q, x)])" and c: "operationsMutexConflict op o'"
  proof -
    from f obtain items where i: "(ListOperations (op_namespace op), ROperations items) \<in> set (h @ [(q, x)])"
      "claimGranted op (filter (\<lambda>p. op_instance p = op_instance op) items)" unfolding saw_free_plane_def by blast
    show ?thesis
    proof (cases "(ListOperations (op_namespace op), ROperations items) \<in> set h")
      case True
      then have "saw_free_plane op h" using i(2) unfolding saw_free_plane_def by blast
      moreover from True h obtain t' where "h = (Get KOperation req, RObject (OOperation op)) # t'" by (cases h) auto
      ultimately show ?thesis using assms(1) o' c unfolding seen_ok_def by blast
    next
      case False
      with i(1) have "(q, x) = (ListOperations (op_namespace op), ROperations items)" by auto
      with assms(2) have "items = filter (\<lambda>p. op_namespace p = op_namespace op) ops" by simp
      moreover from c have "op_namespace o' = op_namespace op" "op_instance o' = op_instance op"
        by (auto simp: operationsMutexConflict_def split: if_splits)
      ultimately have "o' \<in> set (filter (\<lambda>p. op_instance p = op_instance op) items)" using o' by simp
      from plane.granted_free [OF i(2) this c] show ?thesis .
    qed
  qed
  show "isTerminalOperationPhase (op_phase_of o')"
    if t: "isTerminalOperationPhase (op_phase_of op)" and w: "\<not> status_written (h @ [(q, x)])" and k: "op_key o' = req"
  proof (cases h)
    case Nil
    with h assms(2) have "op \<in> set ops" "op_key op = req" by auto
    with ops_unique [OF assms(3) o' this(1)] k have "o' = op" by simp
    with t show ?thesis by simp
  next
    case (Cons e h')
    with h w have "h = (Get KOperation req, RObject (OOperation op)) # h'" "\<not> status_written h" by (auto simp: status_written_def)
    with assms(1) t k o' show ?thesis unfolding seen_ok_def by blast
  qed
qed

section \<open>The invariant\<close>

definition system_ok :: "system \<Rightarrow> bool" where
  "system_ok s =
     (ops_ok (sy_ops s) \<and> plane.exclusive (sy_ops s) \<and>
      (\<forall>req h p. sy_op_pass s = Some (req, h, p) \<longrightarrow> seen_ok req h (sy_ops s) \<and> wp (pass_request req) (\<lambda>_ _. True) h p) \<and>
      (\<forall>h p. sy_inst_pass s = Some (h, p) \<longrightarrow> wp (\<lambda>_. leaves_status) (\<lambda>_ _. True) h p))"

text \<open>Steps that change no status, and give no name in flight to a new Operation.\<close>

lemma quiet_step:
  assumes "system_ok s" and "evolves (\<lambda>_. False) (sy_ops s) ops'" and "ops_ok ops'"
    and new: "\<And>o'. o' \<in> set ops' \<Longrightarrow> in_flight s (op_key o') \<Longrightarrow> op_key o' \<in> op_key ` set (sy_ops s)"
  shows "system_ok (s\<lparr>sy_ops := ops', sy_jobs := J\<rparr>)"
proof -
  have "seen_ok req h ops'" if p: "sy_op_pass s = Some (req, h, p)" for req h p
  proof (rule seen_evolves)
    show "seen_ok req h (sy_ops s)" using assms(1) p by (simp add: system_ok_def)
    have fresh: "req \<in> op_key ` set (sy_ops s)" if "o' \<in> set ops'" "op_key o' = req" for o'
      using new [OF that(1)] that(2) p by (auto simp: in_flight_def)
    then show "req \<in> op_key ` set (sy_ops s)" if "o' \<in> set ops'" "op_key o' = req" for o' using that by blast
    show "evolves (\<lambda>k. k = req \<and> status_written h) (sy_ops s) ops'"
      unfolding evolves_def using assms(2) [unfolded evolves_def] fresh by blast
  qed
  moreover have "plane.exclusive ops'"
    by (rule exclusive_evolves [OF _ assms(2)]) (use assms(1) in \<open>simp only: system_ok_def\<close>)
  ultimately show ?thesis using assms(1,3) by (simp add: system_ok_def)
qed

lemma plain_effect: "no_op_write q \<Longrightarrow> op_effect q ops = ops"
  by (cases "(q, ops)" rule: op_effect.cases) (auto simp: no_op_write_def)

text \<open>A status write over a free plane.\<close>

lemma exclusive_status:
  assumes "plane.exclusive ops" and "op_key op = k" and "\<And>o'. o' \<in> set ops \<Longrightarrow> op_key o' = k \<Longrightarrow> op_spec o' = op_spec op"
    and free: "\<And>o' o''. peerHoldsWritePlane (op\<lparr>op_status := st\<rparr>) \<Longrightarrow> o' \<in> set ops \<Longrightarrow> op_key o' = k \<Longrightarrow> o'' \<in> set ops \<Longrightarrow>
      operationsMutexConflict op o'' \<Longrightarrow> \<not> peerHoldsWritePlane o''"
  shows "plane.exclusive (at_key k (\<lambda>p. p\<lparr>op_status := st\<rparr>) ops)"
proof -
  let ?f = "\<lambda>p. if op_key p = k then p\<lparr>op_status := st\<rparr> else p"
  have same: "same_operation p (?f p)" for p by (simp add: same_operation_def)
  have one: False if a: "a \<in> set ops" "op_key a = k" and b: "b \<in> set ops" "op_key b \<noteq> k" and c: "operationsMutexConflict a b"
    and hold: "peerHoldsWritePlane (a\<lparr>op_status := st\<rparr>)" "peerHoldsWritePlane b" for a b
  proof -
    have "same_operation op a" using a assms(2,3) by (simp add: same_operation_def)
    from c conflict_cong [OF this same_operation_refl(1), of b] have "operationsMutexConflict op b" by simp
    moreover have "peerHoldsWritePlane (op\<lparr>op_status := st\<rparr>)"
      using hold(1) holds_cong [of "op\<lparr>op_status := st\<rparr>" "a\<lparr>op_status := st\<rparr>"] by simp
    ultimately show False using free a b(1) hold(2) by blast
  qed
  show ?thesis
    unfolding plane.exclusive_def
  proof (intro ballI impI notI)
    fix a' b' assume "a' \<in> set (at_key k (\<lambda>p. p\<lparr>op_status := st\<rparr>) ops)" "b' \<in> set (at_key k (\<lambda>p. p\<lparr>op_status := st\<rparr>) ops)"
    then obtain a b where ab: "a \<in> set ops" "a' = ?f a" "b \<in> set ops" "b' = ?f b" unfolding at_key_def set_map by blast
    assume "operationsMutexConflict a' b'" and h: "peerHoldsWritePlane a' \<and> peerHoldsWritePlane b'"
    then have c: "operationsMutexConflict a b" using conflict_cong [OF same same, of a b] ab by simp
    then have "op_key a \<noteq> op_key b" by (auto simp: operationsMutexConflict_def split: if_splits)
    moreover have "\<not> (peerHoldsWritePlane a \<and> peerHoldsWritePlane b)" using assms(1) ab c unfolding plane.exclusive_def by blast
    ultimately show False
      using one [of a b] one [of b a] ab c conflict_sym h by (auto split: if_splits simp del: prod.inject)
  qed
qed

lemma key_at:
  assumes "o' \<in> set (at_key req f ops)" and "\<And>p. op_key p = req \<Longrightarrow> op_key (f p) = req" and "op_key o' = req"
  shows "req \<in> op_key ` set ops"
proof -
  from assms(1) have "op_key o' \<in> op_key ` set (at_key req f ops)" by (rule imageI)
  then have "req \<in> op_key ` set (at_key req f ops)" unfolding assms(3) .
  moreover have "op_key ` set (at_key req f ops) = op_key ` set ops" by (rule at_key_keys) (rule assms(2))
  ultimately show ?thesis by blast
qed

text \<open>A status write of the Operation in flight.\<close>

lemma status_write_ok:
  assumes "ops_ok ops" and "plane.exclusive ops" and seen: "seen_ok req h ops" and h: "h = (Get KOperation req, RObject (OOperation op)) # t"
    and q: "q = UpdateStatus (OOperation p)" and "same_operation op p" and "\<not> revives q ops"
    and armed: "unarmed_write q \<or> saw_free_plane op h \<or> (isTerminalOperationPhase (op_phase_of op) \<and> \<not> status_written h)"
    and event: "seen_ok req (h @ [(q, x)]) ops"
  shows "ops_ok (op_effect q ops) \<and> plane.exclusive (op_effect q ops) \<and> seen_ok req (h @ [(q, x)]) (op_effect q ops)"
proof -
  let ?f = "\<lambda>p'. p'\<lparr>op_status := op_status p\<rparr>"
  from h have "(Get KOperation req, RObject (OOperation op)) \<in> set h" by simp
  with seen have op: "op_key op = req" "\<And>o'. o' \<in> set ops \<Longrightarrow> op_key o' = req \<Longrightarrow> op_spec o' = op_spec op" unfolding seen_ok_def by blast+
  then have k: "op_key p = req" using assms(6) by (simp add: same_operation_def)
  have eff: "op_effect q ops = at_key req ?f ops" using k q by simp
  have "plane.exclusive (at_key req ?f ops)"
  proof (rule exclusive_status [OF assms(2) op])
    fix o' o''
    assume hold: "peerHoldsWritePlane (op\<lparr>op_status := op_status p\<rparr>)" and o': "o' \<in> set ops" "op_key o' = req"
      and o'': "o'' \<in> set ops" "operationsMutexConflict op o''"
    have hp: "peerHoldsWritePlane p" using hold holds_cong [of "op\<lparr>op_status := op_status p\<rparr>" p] by simp
    then have "\<not> unarmed_write q" using q by simp
    moreover have "\<not> (isTerminalOperationPhase (op_phase_of op) \<and> \<not> status_written h)"
    proof
      assume "isTerminalOperationPhase (op_phase_of op) \<and> \<not> status_written h"
      with seen h o' have "isTerminalOperationPhase (op_phase_of o')" unfolding seen_ok_def by blast
      moreover have "op_key o' = op_key p" unfolding o'(2) k ..
      ultimately have "revives q ops" unfolding revives_def q using hp o'(1) by blast
      with assms(7) show False ..
    qed
    ultimately have "saw_free_plane op h" using armed by blast
    with seen h o'' show "\<not> peerHoldsWritePlane o''" unfolding seen_ok_def by blast
  qed
  moreover have "ops_ok (at_key req ?f ops)" by (rule ops_ok_at_key [OF assms(1)]) (rule same_operation_refl)
  moreover have "seen_ok req (h @ [(q, x)]) (at_key req ?f ops)"
  proof (rule seen_evolves [OF event])
    show "evolves (\<lambda>k. k = req \<and> status_written (h @ [(q, x)])) ops (at_key req ?f ops)"
      by (rule evolves_at_key) (use q in \<open>auto simp: status_written_def\<close>)
  qed (erule key_at [where f = ?f], simp_all)
  ultimately show ?thesis unfolding eff by blast
qed

text \<open>A write of its metadata.\<close>

lemma metadata_write_ok:
  assumes "ops_ok ops" and "plane.exclusive ops" and "seen_ok req h ops" and h: "h = (Get KOperation req, RObject (OOperation op)) # t"
    and q: "q = UpdateObj (OOperation p)" and own: "own_write op h q" and event: "seen_ok req (h @ [(q, x)]) ops"
  shows "ops_ok (op_effect q ops) \<and> plane.exclusive (op_effect q ops) \<and> seen_ok req (h @ [(q, x)]) (op_effect q ops)"
proof -
  let ?f = "\<lambda>o'. o'\<lparr>op_meta := op_meta p, op_spec := op_spec p\<rparr>"
  from h have "(Get KOperation req, RObject (OOperation op)) \<in> set h" by simp
  with assms(3) have op: "op_key op = req" unfolding seen_ok_def by blast
  from own q h op obtain p0 where "(Get KOperation req, RObject (OOperation p0)) \<in> set h" "same_operation p0 p"
    unfolding own_write_def by (metis list.set_intros(1))
  with assms(3) have k: "op_key p = req" and spec: "\<And>o'. o' \<in> set ops \<Longrightarrow> op_key o' = req \<Longrightarrow> op_spec o' = op_spec p"
    unfolding seen_ok_def same_operation_def by metis+
  have eff: "op_effect q ops = at_key req ?f ops" using k q by simp
  have same: "same_operation o' (?f o')" if "o' \<in> set ops" "op_key o' = req" for o'
    using k spec that by (simp add: same_operation_def)
  have ev: "evolves K ops (at_key req ?f ops)" for K by (rule evolves_at_key) (simp add: same)
  have "ops_ok (at_key req ?f ops)" by (rule ops_ok_at_key [OF assms(1)]) (rule same)
  moreover have "seen_ok req (h @ [(q, x)]) (at_key req ?f ops)"
    by (rule seen_evolves [OF event ev], erule key_at [where f = ?f]) (use k in simp_all)
  ultimately show ?thesis using exclusive_evolves [OF assms(2) ev] unfolding eff by blast
qed

text \<open>A request of the Operation controller: another event, and perhaps a write of the Operation in flight.\<close>

lemma op_request_ok:
  assumes "ops_ok ops" and "plane.exclusive ops" and "seen_ok req h ops" and "pass_request req h q"
    and "op_answer ops q x" and "\<not> revives q ops"
  shows "ops_ok (op_effect q ops) \<and> plane.exclusive (op_effect q ops) \<and> seen_ok req (h @ [(q, x)]) (op_effect q ops)"
proof (cases "no_op_write q")
  case True
  with assms seen_event [OF assms(3,5,1)] show ?thesis by (simp only: plain_effect)
next
  case False
  with assms(4) obtain op t where h: "h = (Get KOperation req, RObject (OOperation op)) # t"
    and w: "op_instance op \<noteq> '''' \<longrightarrow> plane_request op h q" unfolding pass_request_def by blast
  from h have "(Get KOperation req, RObject (OOperation op)) \<in> set h" by simp
  with assms(3) w have plane: "plane_request op h q" unfolding seen_ok_def by blast
  then have own: "own_write op h q" by (simp add: plane_request_def)
  from False own consider p where "q = UpdateStatus (OOperation p)" | p where "q = UpdateObj (OOperation p)"
    unfolding no_op_write_def own_write_def by blast
  then show ?thesis
  proof cases
    case (1 p)
    then have "same_operation op p" using own by simp
    with 1 plane show ?thesis
      by (intro status_write_ok [OF assms(1-3) h 1 _ assms(6) _ seen_event [OF assms(3,5,1)]]) (auto simp: plane_request_def)
  next
    case (2 p)
    show ?thesis by (rule metadata_write_ok [OF assms(1-3) h 2 own seen_event [OF assms(3,5,1)]])
  qed
qed

lemma error_answer: "is_error x \<Longrightarrow> op_answer ops q x"
  by (cases "(ops, q, x)" rule: op_answer.cases) auto

lemma quiet_step_ops:
  assumes "system_ok s" and "evolves (\<lambda>_. False) (sy_ops s) ops'" and "ops_ok ops'"
    and "\<And>o'. o' \<in> set ops' \<Longrightarrow> in_flight s (op_key o') \<Longrightarrow> op_key o' \<in> op_key ` set (sy_ops s)"
  shows "system_ok (s\<lparr>sy_ops := ops'\<rparr>)"
  using quiet_step [OF assms, of "sy_jobs s"] by simp

lemma create_ok:
  assumes "system_ok s" and "op_instance p \<noteq> ''''" and "\<not> in_flight s (op_key p)"
  shows "system_ok (s\<lparr>sy_ops := op_effect (Create (OOperation p)) (sy_ops s), sy_jobs := J\<rparr>)"
proof (rule quiet_step [OF assms(1)])
  show "evolves (\<lambda>_. False) (sy_ops s) (op_effect (Create (OOperation p)) (sy_ops s))" by (rule evolves_create) simp
  show "ops_ok (op_effect (Create (OOperation p)) (sy_ops s))"
    by (rule ops_ok_create [OF _ assms(2)]) (use assms(1) in \<open>simp only: system_ok_def\<close>)
  show "op_key o' \<in> op_key ` set (sy_ops s)"
    if "o' \<in> set (op_effect (Create (OOperation p)) (sy_ops s))" "in_flight s (op_key o')" for o'
    using that assms(3) by (auto split: if_splits)
qed

lemma metadata_ok:
  assumes "system_ok s" and "(om_namespace m, om_name m) = k"
  shows "system_ok (s\<lparr>sy_ops := at_key k (\<lambda>p. p\<lparr>op_meta := m\<rparr>) (sy_ops s), sy_jobs := J\<rparr>)"
proof -
  have same: "same_operation p (p\<lparr>op_meta := m\<rparr>)" if "op_key p = k" for p using assms(2) that by (simp add: same_operation_def)
  have keys: "op_key ` set (at_key k (\<lambda>p. p\<lparr>op_meta := m\<rparr>) (sy_ops s)) = op_key ` set (sy_ops s)"
    by (rule at_key_keys) (use assms(2) in simp)
  show ?thesis
  proof (rule quiet_step [OF assms(1)])
    show "evolves (\<lambda>_. False) (sy_ops s) (at_key k (\<lambda>p. p\<lparr>op_meta := m\<rparr>) (sy_ops s))"
      by (rule evolves_at_key) (simp add: same)
    show "ops_ok (at_key k (\<lambda>p. p\<lparr>op_meta := m\<rparr>) (sy_ops s))"
      by (rule ops_ok_at_key) (use assms(1) same in \<open>simp_all add: system_ok_def\<close>)
  qed (use keys in blast)
qed

lemma filter_ok:
  assumes "system_ok s"
  shows "system_ok (s\<lparr>sy_ops := filter P (sy_ops s)\<rparr>)"
  by (rule quiet_step_ops [OF assms evolves_filter ops_ok_filter]) (use assms in \<open>auto simp: system_ok_def\<close>)

lemma inst_request_ok:
  assumes "system_ok s" and "leaves_status q"
    and "\<And>p. q = Create (OOperation p) \<Longrightarrow> op_instance p \<noteq> '''' \<and> \<not> in_flight s (op_key p)"
  shows "system_ok (s\<lparr>sy_ops := op_effect q (sy_ops s), sy_jobs := J\<rparr>)"
proof -
  consider p where "q = Create (OOperation p)" | p where "q = PatchObj (OOperation p)" | "op_effect q (sy_ops s) = sy_ops s"
    using assms(2) by (cases "(q, sy_ops s)" rule: op_effect.cases) (auto simp: leaves_status_def)
  then show ?thesis
  proof cases
    case 1
    with create_ok [OF assms(1)] assms(3) show ?thesis by simp
  next
    case (2 p)
    with metadata_ok [OF assms(1), of "op_meta p"] show ?thesis by simp
  next
    case 3
    with assms(1) show ?thesis by (simp add: system_ok_def)
  qed
qed

lemma system_step_ok:
  assumes "lib_owners L" and "lib_finalizers L"
    and "system_step L (\<lambda>q ops. \<not> revives q ops) s s'" and "system_ok s"
  shows "system_ok s'"
  using assms(3,4)
proof (induction rule: system_step.induct)
  case (op_start s req)
  then show ?case using pass_requests [OF assms(1,2)] by (simp add: system_ok_def)
next
  case (op_request s req h q k x s')
  note ok = op_request.prems [unfolded system_ok_def]
  from ok op_request.hyps(1) have seen: "seen_ok req h (sy_ops s)" and w: "wp (pass_request req) (\<lambda>_ _. True) h (Call q k)" by blast+
  then have q: "pass_request req h q" and rest: "wp (pass_request req) (\<lambda>_ _. True) (h @ [(q, x)]) (k x)" by simp_all
  from op_request.hyps(3) show ?case
  proof cases
    case answered
    from op_request_ok [OF _ _ seen q answered(2) op_request.hyps(2)] ok
    show ?thesis using rest answered(1) by (simp add: system_ok_def)
  next
    case refused
    with seen_event [OF seen error_answer [OF refused(2)]] ok rest show ?thesis by (simp add: system_ok_def)
  qed
next
  case (inst_start s req)
  then show ?case using instance_leaves by (simp add: system_ok_def)
next
  case (inst_request s h q k x s')
  from inst_request.prems inst_request.hyps(1) have w: "wp (\<lambda>_. leaves_status) (\<lambda>_ _. True) h (Call q k)"
    unfolding system_ok_def by blast
  from inst_request.hyps(2) have "system_ok s'"
  proof cases
    case answered
    have "system_ok (s\<lparr>sy_ops := op_effect q (sy_ops s), sy_jobs := job_effect q (sy_jobs s)\<rparr>)"
      by (rule inst_request_ok [OF inst_request.prems]) (use w inst_request.hyps(3) in auto)
    with answered show ?thesis by simp
  next
    case refused
    with inst_request.prems show ?thesis by simp
  qed
  with w show ?case by (simp add: system_ok_def)
next
  case (user_create p s)
  from create_ok [OF user_create.prems user_create.hyps, of "sy_jobs s"] show ?case by simp
next
  case (op_gone s k)
  then show ?case by (rule filter_ok)
next
  case (op_metadata m k s)
  from metadata_ok [OF op_metadata.prems op_metadata.hyps, of "sy_jobs s"] show ?case by simp
qed (simp_all add: system_ok_def)

lemma reachable_system_ok:
  assumes "lib_owners L" and "lib_finalizers L" and "reachable_system L (\<lambda>q ops. \<not> revives q ops) s"
  shows "system_ok s"
  using assms(3)
proof (induction rule: reachable_system.induct)
  case start
  show ?case by (simp add: system_ok_def ops_ok_def plane.exclusive_def)
next
  case (step s s')
  then show ?case using system_step_ok [OF assms(1,2)] by blast
qed

end
