(* ===== verification/SystemSafety.thy ===== *)
theory SystemSafety
  imports System OperationSafety
begin

text \<open>
  What the two controllers guarantee together (\<open>System\<close>): Operations that exclude each other never both hold the
  write plane, as long as no pass revives a finished Operation; and the two ways in which Jobs do overlap.
\<close>

section \<open>Runs\<close>

text \<open>A pass replayed on the server: its requests take effect unless they were answered by an error.\<close>

fun replay :: "(request \<Rightarrow> nominatim_operation list \<Rightarrow> bool) \<Rightarrow> trace \<Rightarrow> nominatim_operation list \<Rightarrow> key list \<Rightarrow>
    (nominatim_operation list \<times> key list) option" where
  "replay V [] ops jobs = Some (ops, jobs)"
| "replay V ((q, x) # t) ops jobs =
     (if \<not> V q ops then None
      else if is_error x then replay V t ops jobs
      else if op_answer ops q x then replay V t (op_effect q ops) (job_effect q jobs) else None)"

lemma replay_reaches:
  assumes "reachable_system L V s" and "sy_op_pass s = Some (req, h, p)" and "play p xs = (t, Done r)"
    and "replay V t (sy_ops s) (sy_jobs s) = Some (ops', jobs')"
  shows "reachable_system L V (s\<lparr>sy_ops := ops', sy_jobs := jobs', sy_op_pass := None\<rparr>)"
  using assms
proof (induction p arbitrary: s h xs t)
  case (Ret a)
  then have "s\<lparr>sy_ops := ops', sy_jobs := jobs', sy_op_pass := None\<rparr> = s\<lparr>sy_op_pass := None\<rparr>" by (cases s) auto
  with reachable_system.step [OF Ret.prems(1) system_step.op_end] show ?case by simp
next
  case (Fail e)
  then have "s\<lparr>sy_ops := ops', sy_jobs := jobs', sy_op_pass := None\<rparr> = s\<lparr>sy_op_pass := None\<rparr>" by (cases s) auto
  with reachable_system.step [OF Fail.prems(1) system_step.op_end] show ?case by simp
next
  case (Call q k)
  from Call.prems(3) obtain x ys t' where run: "xs = x # ys" "t = (q, x) # t'" "play (k x) ys = (t', Done r)"
    by (auto split: list.splits prod.splits)
  let ?after = "\<lambda>s'. s'\<lparr>sy_op_pass := Some (req, h @ [(q, x)], k x)\<rparr>"
  from Call.prems(4) run(2) have v: "V q (sy_ops s)" by (simp split: if_splits)
  show ?case
  proof (cases "is_error x")
    case True
    then have "served q x s s" by (rule served.refused)
    from reachable_system.step [OF Call.prems(1) system_step.op_request [where V = V and s = s and req = req and h = h and q = q and k = k and x = x, OF Call.prems(2) v this]]
    have "reachable_system L V (?after s)" .
    from Call.IH [OF rangeI this _ run(3)] Call.prems(4) run(2) v True show ?thesis by simp
  next
    case False
    let ?s = "s\<lparr>sy_ops := op_effect q (sy_ops s), sy_jobs := job_effect q (sy_jobs s)\<rparr>"
    from False Call.prems(4) run(2) v have a: "op_answer (sy_ops s) q x"
      and rest: "replay V t' (op_effect q (sy_ops s)) (job_effect q (sy_jobs s)) = Some (ops', jobs')" by (simp_all split: if_splits)
    have "served q x s ?s" by (rule served.answered [OF a])
    from reachable_system.step [OF Call.prems(1) system_step.op_request [where V = V and s = s and req = req and h = h and q = q and k = k and x = x, OF Call.prems(2) v this]]
    have "reachable_system L V (?after ?s)" .
    from Call.IH [OF rangeI this _ run(3)] rest show ?thesis by simp
  qed
qed

text \<open>The states of the examples: no pass in flight.\<close>

abbreviation idle :: "nominatim_operation list \<Rightarrow> key list \<Rightarrow> system" where
  "idle ops jobs \<equiv> \<lparr>sy_ops = ops, sy_jobs = jobs, sy_op_pass = None, sy_inst_pass = None\<rparr>"

lemma pass_reaches:
  assumes "reachable_system L V (idle ops jobs)" and "play (reconcileOperation L (defaultCNPGEffects L) req) xs = (t, Done r)"
    and "replay V t ops jobs = Some (ops', jobs')"
  shows "reachable_system L V (idle ops' jobs')"
proof -
  have "sy_op_pass (idle ops jobs) = None" by simp
  from reachable_system.step [OF assms(1) system_step.op_start [OF this]]
  have "reachable_system L V ((idle ops jobs)\<lparr>sy_op_pass := Some (req, [], reconcileOperation L (defaultCNPGEffects L) req)\<rparr>)" .
  from replay_reaches [OF this _ assms(2)] assms(3) show ?thesis by simp
qed

lemma create_reaches:
  assumes "reachable_system L V (idle ops jobs)" and "op_instance p \<noteq> ''''" and "op_status p = no_status" and "op_key p \<notin> op_key ` set ops"
  shows "reachable_system L V (idle (ops @ [p]) jobs)"
proof -
  have "\<not> in_flight (idle ops jobs) (op_key p)" by (simp add: in_flight_def)
  moreover have "p\<lparr>op_status := no_status\<rparr> = p" using assms(3) by (cases p) simp
  ultimately show ?thesis
    using reachable_system.step [OF assms(1) system_step.user_create [OF assms(2)]] assms(4) by fastforce
qed

section \<open>An Operation that starts its Job\<close>

definition racing_op :: "string \<Rightarrow> op_type \<Rightarrow> nominatim_operation" where
  "racing_op n t = (new_operation n ''ns'' t ''inst'' [''x''])\<lparr>op_meta := (new_meta n ''ns'')\<lparr>
     om_finalizers := [NominatimOperationFinalizer], om_owners := [controller_reference ''NominatimInstance'' (in_meta sample_instance)]\<rparr>\<rparr>"

definition unrestricted :: nominatim_instance where
  "unrestricted = sample_instance\<lparr>in_spec := sample_spec\<lparr>sp_regions := []\<rparr>\<rparr>"

definition active_job :: "string \<Rightarrow> job" where
  "active_job n = \<lparr>jo_meta = new_meta n ''ns'', jo_backoff = None, jo_ttl = None, jo_template_labels = [], jo_pod = empty_pod,
     jo_succeeded = 0, jo_failed = 0, jo_active = 1, jo_start = None, jo_completion = None\<rparr>"

definition running_op :: "string \<Rightarrow> op_type \<Rightarrow> nominatim_operation" where
  "running_op n t = (racing_op n t)\<lparr>op_status := no_status\<lparr>ot_phase := Running, ot_job_ref := Some n, ot_message := ''Job running''\<rparr>\<rparr>"

lemma no_status_simps [simp]:
  "ot_phase no_status = PhaseUnset" "ot_job_ref no_status = None" "ot_start no_status = None" "ot_completion no_status = None"
  "ot_observed_generation no_status = 0" "ot_message no_status = ''''"
  by (simp_all add: no_status_def)

lemma racing_simps [simp]:
  "op_name (racing_op n t) = n" "op_namespace (racing_op n t) = ''ns''" "op_type_of (racing_op n t) = t" "op_instance (racing_op n t) = ''inst''"
  "os_regions (op_spec (racing_op n t)) = [''x'']" "os_staging (op_spec (racing_op n t)) = None"
  "op_status (racing_op n t) = no_status" "om_finalizers (op_meta (racing_op n t)) = [NominatimOperationFinalizer]"
  "om_deletion (op_meta (racing_op n t)) = None" "om_generation (op_meta (racing_op n t)) = 0"
  by (simp_all add: racing_op_def new_operation_def no_status_def new_meta_def)

lemma running_simps [simp]:
  "op_meta (running_op n t) = op_meta (racing_op n t)" "op_spec (running_op n t) = op_spec (racing_op n t)"
  "op_phase_of (running_op n t) = Running" "ot_job_ref (op_status (running_op n t)) = Some n"
  by (simp_all add: running_op_def)

lemma unrestricted_simps [simp]:
  "in_meta unrestricted = new_meta ''inst'' ''ns''" "in_status unrestricted = sample_status" "sp_regions (in_spec unrestricted) = []"
  "sp_staging (in_spec unrestricted) = None" "in_impact unrestricted = ImpactUnset"
  "db_cluster (sp_database (in_spec unrestricted)) = None" "db_cluster_ref (sp_database (in_spec unrestricted)) = None"
  "\<not> on_sibling (racing_op n t) unrestricted"
  by (simp_all add: unrestricted_def sample_simps in_impact_def usesBlueGreenRebuild_def EffectiveRebuildStrategy_def)

lemma sample_status_simps [simp]:
  "ds_secret (st_database sample_status) = ''secret''" "ds_mode (st_database sample_status) = ConnectionSecret"
  "ds_degraded (st_database sample_status) = False" "st_regions sample_status = []"
  by (simp_all add: sample_status_def)

lemma racing_owner: "ensureOperationOwnerRef sample_lib (racing_op n t) unrestricted = Ret (racing_op n t)"
  by (simp add: ensureOperationOwnerRef_def own_meta_def set_controller_def controller_reference_def racing_op_def new_operation_def
      sample_instance_def lift_def)

lemma active_job_simps [simp]:
  "jo_meta (active_job n) = new_meta n ''ns''" "jo_succeeded (active_job n) = 0" "jo_failed (active_job n) = 0"
  "jo_active (active_job n) = 1" "jo_start (active_job n) = None"
  by (simp_all add: active_job_def)

lemma built_job:
  "\<exists>j. buildOperationJob sample_lib op unrestricted s i p = Inr j \<and>
     om_name (jo_meta j) = op_name op \<and> om_namespace (jo_meta j) = op_namespace op \<and> om_owners (jo_meta j) = []"
  by (simp add: buildOperationJob_def Let_def mergePodSpecOverlay_def decodePodSpecOverlay_def sample_simps unrestricted_def)

lemma running_status: "op_status (running_op n t) = no_status\<lparr>ot_phase := Running, ot_job_ref := Some n,
    ot_observed_generation := 0, ot_start := None, ot_completion := None, ot_message := ''Job running''\<rparr>"
  by (simp add: running_op_def no_status_def)

lemmas run_defs = reconcileOperation_def reconcileLive_def reconcileActive_def claimWritePlane_def claimAttempt_def
  listPeersForNominatim_def reconcileClaimed_def enforceRegionGates_def ensureStagingPVC_def buildStagingPVC_def
  operation_owned_def set_controller_def controller_of_def applyPreJobCNPGEffects_def reconcilePrepared_def
  waitForJobPrerequisites_def ensureRebuildDatabaseReset_def cnpgClusterReadyForJobs_def reconcileJob_def ensureJob_def
  syncStatusFromJob_def play_simps eval_nat_numeral Let_def racing_owner
  contains_fin_def isTerminalOperationPhase_def wrap_error_def effectiveRegions_def resolveStagingSpec_def
  write_job_status_def job_status_def phaseFromJob_def update_operation_status_def
  syncParentSideEffects_def syncParentActiveOperationRef_def

lemma start_run:
  assumes "isOperationTypeImplemented t" and "t \<noteq> Rebuild" and "racing_op n t \<in> set ops" and "\<forall>p \<in> set ops. op_namespace p = ''ns''"
    and "claimGranted (racing_op n t) (filter (\<lambda>p. op_instance p = ''inst'') ops)"
    and "\<forall>p \<in> set ops. op_key p = (''ns'', n) \<longrightarrow> \<not> isTerminalOperationPhase (op_phase_of p)"
  shows "\<exists>tr. play (reconcileOperation sample_lib (defaultCNPGEffects sample_lib) (''ns'', n))
      [RObject (OOperation (racing_op n t)), RObject (OInstance unrestricted), ROperations ops, ROperations ops,
       RError ErrNotFound, RObject (OSecret (new_meta ''s'' ''ns'')), RObject (OSecret (new_meta ''s'' ''ns'')),
       RError ErrNotFound, ROk, RObject (OJob (active_job n)), RVersion ''2'', RError ErrNotFound] = (tr, Done (Inr 0)) \<and>
     replay (\<lambda>q ops. \<not> revives q ops) tr ops jobs =
       Some (at_key (''ns'', n) (\<lambda>p. p\<lparr>op_status := op_status (running_op n t)\<rparr>) ops, (''ns'', n) # jobs)"
proof -
  let ?op = "racing_op n t"
  obtain j where j: "buildOperationJob sample_lib ?op unrestricted (stagingPVCName ?op) (workerImageForOperation ?op unrestricted)
      (workerPullPolicyForOperation ?op unrestricted) = Inr j"
    "om_name (jo_meta j) = n" "om_namespace (jo_meta j) = ''ns''" "om_owners (jo_meta j) = []"
    using built_job by fastforce
  have listed: "filter (\<lambda>p. op_namespace p = ''ns'') ops = ops" using assms(4) by simp
  note ok = assms(5) [unfolded claimGranted_def]
  show ?thesis
    using assms(1-3,6) by (simp add: run_defs j listed ok revives_def running_status)
qed


text \<open>The regions of the instance are restricted while the Job of an Operation runs: the gate fails the Operation.\<close>

lemma owner_running:
  "ensureOperationOwnerRef sample_lib (running_op n t) sample_instance = Ret (running_op n t)"
  by (simp add: ensureOperationOwnerRef_def own_meta_def set_controller_def controller_reference_def racing_op_def new_operation_def
      sample_instance_def lift_def)

lemma restricted_simps:
  "in_meta sample_instance = new_meta ''inst'' ''ns''" "in_status sample_instance = sample_status" "sp_regions (in_spec sample_instance) \<noteq> []"
  by (simp_all add: sample_simps)

lemma fail_run:
  "\<exists>tr p. play (reconcileOperation sample_lib (defaultCNPGEffects sample_lib) (''ns'', n))
      [RObject (OOperation (running_op n AddRegions)), RObject (OInstance sample_instance), ROperations [running_op n AddRegions],
       ROperations [running_op n AddRegions], RError ErrNotFound, RTime 5, RVersion ''3'', RError ErrNotFound, RError ErrNotFound] =
        (tr, Done (Inr 0)) \<and>
     replay (\<lambda>q ops. \<not> revives q ops) tr [running_op n AddRegions] jobs = Some ([p], jobs) \<and>
     op_meta p = op_meta (racing_op n AddRegions) \<and> op_spec p = op_spec (racing_op n AddRegions) \<and>
     op_phase_of p = Failed \<and> ot_job_ref (op_status p) = Some n"
  by (simp add: run_defs revives_def restricted_simps owner_running claimGranted_def evaluateWritePlane_def evaluate_peer_def
      operationsMutexConflict_def bootstrapComplete_def failOperation_def failed_operation_def at_key_def peerHoldsWritePlane_def)


text \<open>Its next pass copies the Job, still running, into the status.\<close>

lemma revive_run:
  assumes "op_meta p = op_meta (racing_op n t)" and "op_spec p = op_spec (racing_op n t)" and "op_phase_of p = Failed"
    and "ot_job_ref (op_status p) = Some n" and "p \<in> set ops"
  shows "\<exists>tr st. play (reconcileOperation sample_lib (defaultCNPGEffects sample_lib) (''ns'', n))
      [RObject (OOperation p), RObject (OJob (active_job n)), RVersion ''4'', RError ErrNotFound] = (tr, Done (Inr 0)) \<and>
     replay (\<lambda>_ _. True) tr ops jobs = Some (at_key (''ns'', n) (\<lambda>o'. o'\<lparr>op_status := st\<rparr>) ops, jobs) \<and>
     ot_phase st = Running"
  using assms by (simp add: run_defs reconcileTerminalOperation_def) (rule exI, rule conjI, rule refl, simp)

section \<open>Exclusion\<close>


text \<open>The Operation ''a'' is created, starts its Job, and ''b'' is created.\<close>

abbreviation started_op :: "string \<Rightarrow> op_type \<Rightarrow> nominatim_operation" where
  "started_op n t \<equiv> (racing_op n t)\<lparr>op_status := op_status (running_op n t)\<rparr>"

lemma started_op [simp]: "started_op n t = running_op n t"
  by (simp add: running_op_def racing_op_def new_operation_def)

lemma started_reached:
  assumes "isOperationTypeImplemented t" and "t \<noteq> Rebuild"
  shows "reachable_system sample_lib (\<lambda>q ops. \<not> revives q ops) (idle [running_op n t] [(''ns'', n)])"
proof -
  have created: "reachable_system sample_lib (\<lambda>q ops. \<not> revives q ops) (idle [racing_op n t] [])"
    using create_reaches [OF reachable_system.start, of "racing_op n t"] by simp
  have "claimGranted (racing_op n t) (filter (\<lambda>p. op_instance p = ''inst'') [racing_op n t])"
    by (simp add: claimGranted_def evaluateWritePlane_def evaluate_peer_def operationsMutexConflict_def)
  from start_run [OF assms _ _ this, of "[]"] obtain tr where
    "play (reconcileOperation sample_lib (defaultCNPGEffects sample_lib) (''ns'', n))
      [RObject (OOperation (racing_op n t)), RObject (OInstance unrestricted), ROperations [racing_op n t], ROperations [racing_op n t],
       RError ErrNotFound, RObject (OSecret (new_meta ''s'' ''ns'')), RObject (OSecret (new_meta ''s'' ''ns'')),
       RError ErrNotFound, ROk, RObject (OJob (active_job n)), RVersion ''2'', RError ErrNotFound] = (tr, Done (Inr 0))"
    "replay (\<lambda>q ops. \<not> revives q ops) tr [racing_op n t] [] =
       Some (at_key (''ns'', n) (\<lambda>p. p\<lparr>op_status := op_status (running_op n t)\<rparr>) [racing_op n t], [(''ns'', n)])"
    by (auto simp: isTerminalOperationPhase_def)
  from pass_reaches [OF created this] show ?thesis by (simp add: at_key_def)
qed

lemma rivals_reached:
  "reachable_system sample_lib (\<lambda>q ops. \<not> revives q ops) (idle [running_op ''a'' AddRegions, racing_op ''b'' Bootstrap] [(''ns'', ''a'')])"
  using create_reaches [OF started_reached, of AddRegions "racing_op ''b'' Bootstrap" "''a''"] by simp



section \<open>How Jobs overlap\<close>

text \<open>A status write of a finished Operation that makes it hold the plane copies a Job that has neither succeeded nor
  failed; an Operation that was failed before it had a Job is never revived.\<close>

lemma terminal_writes:
  "wp (\<lambda>h q. \<forall>p. q = UpdateStatus (OOperation p) \<and> peerHoldsWritePlane p \<longrightarrow> ot_job_ref (op_status op) \<noteq> None \<and>
      (\<exists>j. (Get KJob (op_key op), RObject (OJob j)) \<in> set h \<and> jo_succeeded j \<le> 0 \<and> jo_failed j \<le> 0)) (\<lambda>_ _. True) []
    (reconcileTerminalOperation L (defaultCNPGEffects L) op)" (is "wp ?G _ _ _")
proof -
  have weak: "wp ?G (\<lambda>_ _. True) h p" if "wp (\<lambda>_. unarmed_write) (\<lambda>_ _. True) h p" for h and p :: "'b prog"
    by (rule wp_mono [OF that]) (auto simp: unarmed_write_def)
  have "wp ?G (\<lambda>_ _. True) [] (if ot_job_ref (op_status op) \<noteq> None then syncStatusFromJob op else Ret op)"
    unfolding syncStatusFromJob_def write_job_status_def Let_def
    by (auto simp: wp_simps job_status_def phaseFromJob_def peerHoldsWritePlane_def
        split: sum.splits option.splits)
  moreover have "wp ?G (\<lambda>_ _. True) h (bind (syncParentSideEffects L (defaultCNPGEffects L) op') (\<lambda>_. Ret 0))" for h op'
    by (rule weak) (auto intro: any_bind unarmed.side_effects)
  ultimately show ?thesis unfolding reconcileTerminalOperation_def by (rule any_bind)
qed

theorem revived_from_live_job:
  assumes "play (reconcileTerminalOperation L (defaultCNPGEffects L) op) xs = (h @ (UpdateStatus (OOperation p), x) # t, out)"
    and "peerHoldsWritePlane p"
  shows "ot_job_ref (op_status op) \<noteq> None \<and>
    (\<exists>j. (Get KJob (op_key op), RObject (OJob j)) \<in> set h \<and> jo_succeeded j \<le> 0 \<and> jo_failed j \<le> 0)"
  using wp_play_guard [OF terminal_writes assms(1)] assms(2) by blast

theorem revived_from_live_job_witness:
  "\<exists>j. (Get KJob (''ns'', ''op''), RObject (OJob j)) \<in> {(Get KJob (''ns'', ''op''), RObject (OJob (active_job ''op'')))} \<and> jo_failed j \<le> 0"
proof -
  have "\<exists>p. play (reconcileTerminalOperation sample_lib (defaultCNPGEffects sample_lib)
        ((running_op ''op'' Bootstrap)\<lparr>op_status := (op_status (running_op ''op'' Bootstrap))\<lparr>ot_phase := Failed\<rparr>\<rparr>))
      [RObject (OJob (active_job ''op'')), RVersion ''2'', RError ErrNotFound] =
        ([(Get KJob (''ns'', ''op''), RObject (OJob (active_job ''op'')))] @ (UpdateStatus (OOperation p), RVersion ''2'') #
         [(Get KInstance (''ns'', ''inst''), RError ErrNotFound)], Done (Inr 0)) \<and> peerHoldsWritePlane p"
    by (simp add: run_defs reconcileTerminalOperation_def peerHoldsWritePlane_def)
  then obtain p where run: "play (reconcileTerminalOperation sample_lib (defaultCNPGEffects sample_lib)
        ((running_op ''op'' Bootstrap)\<lparr>op_status := (op_status (running_op ''op'' Bootstrap))\<lparr>ot_phase := Failed\<rparr>\<rparr>))
      [RObject (OJob (active_job ''op'')), RVersion ''2'', RError ErrNotFound] =
        ([(Get KJob (''ns'', ''op''), RObject (OJob (active_job ''op'')))] @ (UpdateStatus (OOperation p), RVersion ''2'') #
         [(Get KInstance (''ns'', ''inst''), RError ErrNotFound)], Done (Inr 0))" and p: "peerHoldsWritePlane p" by blast
  from revived_from_live_job [OF run p] show ?thesis by auto
qed

text \<open>Fewer steps admitted, fewer states reached.\<close>

lemma reachable_weaken:
  assumes "reachable_system L V s"
  shows "reachable_system L (\<lambda>_ _. True) s"
  using assms
proof (induction rule: reachable_system.induct)
  case (step s s')
  from step.hyps(2) have "system_step L (\<lambda>_ _. True) s s'" by cases (blast intro: system_step.intros)+
  with step.IH show ?case by (rule reachable_system.step)
qed (rule reachable_system.start)



text \<open>The write plane is lost when a running Operation is failed at a gate and revived from its Job: the regions of the
  instance are restricted while the Job of \<open>a\<close> runs, the next pass fails \<open>a\<close>, the Bootstrap \<open>b\<close> claims the plane and
  starts its Job, and a pass over \<open>a\<close> takes Running from the Job again. Both are write-heavy, on one instance.\<close>

theorem exclusion_lost:
  "\<exists>s a b. reachable_system sample_lib (\<lambda>_ _. True) s \<and> a \<in> set (sy_ops s) \<and> b \<in> set (sy_ops s) \<and>
     operationsMutexConflict a b \<and> peerHoldsWritePlane a \<and> peerHoldsWritePlane b \<and> sy_jobs s = [op_key b, op_key a]"
proof -
  let ?a = "running_op ''a'' AddRegions" and ?b = "racing_op ''b'' Bootstrap"
  obtain tr p where fail: "play (reconcileOperation sample_lib (defaultCNPGEffects sample_lib) (''ns'', ''a''))
      [RObject (OOperation ?a), RObject (OInstance sample_instance), ROperations [?a],
       ROperations [?a], RError ErrNotFound, RTime 5, RVersion ''3'', RError ErrNotFound, RError ErrNotFound] =
        (tr, Done (Inr 0))"
    "replay (\<lambda>q ops. \<not> revives q ops) tr [?a] [(''ns'', ''a'')] = Some ([p], [(''ns'', ''a'')])"
    and p: "op_meta p = op_meta (racing_op ''a'' AddRegions)" "op_spec p = op_spec (racing_op ''a'' AddRegions)"
      "op_phase_of p = Failed" "ot_job_ref (op_status p) = Some ''a''"
    using fail_run by blast
  have "reachable_system sample_lib (\<lambda>q ops. \<not> revives q ops) (idle [?a] [(''ns'', ''a'')])"
    by (rule started_reached) simp_all
  from create_reaches [OF pass_reaches [OF this fail], of ?b] p
  have claimed: "reachable_system sample_lib (\<lambda>q ops. \<not> revives q ops) (idle [p, ?b] [(''ns'', ''a'')])" by simp
  have "claimGranted ?b (filter (\<lambda>p. op_instance p = ''inst'') [p, ?b])"
    using p by (simp add: claimGranted_def evaluateWritePlane_def evaluate_peer_def operationsMutexConflict_def)
  from start_run [OF _ _ _ _ this, of "[(''ns'', ''a'')]"] p obtain tr' where
    start: "play (reconcileOperation sample_lib (defaultCNPGEffects sample_lib) (''ns'', ''b''))
      [RObject (OOperation ?b), RObject (OInstance unrestricted), ROperations [p, ?b], ROperations [p, ?b],
       RError ErrNotFound, RObject (OSecret (new_meta ''s'' ''ns'')), RObject (OSecret (new_meta ''s'' ''ns'')),
       RError ErrNotFound, ROk, RObject (OJob (active_job ''b'')), RVersion ''2'', RError ErrNotFound] = (tr', Done (Inr 0))"
    "replay (\<lambda>q ops. \<not> revives q ops) tr' [p, ?b] [(''ns'', ''a'')] =
       Some (at_key (''ns'', ''b'') (\<lambda>p. p\<lparr>op_status := op_status (running_op ''b'' Bootstrap)\<rparr>) [p, ?b], [(''ns'', ''b''), (''ns'', ''a'')])"
    by (auto simp: isTerminalOperationPhase_def)
  from reachable_weaken [OF pass_reaches [OF claimed start]] p
  have both: "reachable_system sample_lib (\<lambda>_ _. True) (idle [p, running_op ''b'' Bootstrap] [(''ns'', ''b''), (''ns'', ''a'')])"
    by (simp add: at_key_def)
  obtain tr'' st where revive: "play (reconcileOperation sample_lib (defaultCNPGEffects sample_lib) (''ns'', ''a''))
      [RObject (OOperation p), RObject (OJob (active_job ''a'')), RVersion ''4'', RError ErrNotFound] = (tr'', Done (Inr 0))"
    "replay (\<lambda>_ _. True) tr'' [p, running_op ''b'' Bootstrap] [(''ns'', ''b''), (''ns'', ''a'')] =
       Some (at_key (''ns'', ''a'') (\<lambda>o'. o'\<lparr>op_status := st\<rparr>) [p, running_op ''b'' Bootstrap], [(''ns'', ''b''), (''ns'', ''a'')])"
    and st: "ot_phase st = Running"
    using revive_run [OF p, of "[p, running_op ''b'' Bootstrap]"] by fastforce
  have "reachable_system sample_lib (\<lambda>_ _. True) (idle [p\<lparr>op_status := st\<rparr>, running_op ''b'' Bootstrap] [(''ns'', ''b''), (''ns'', ''a'')])"
    using pass_reaches [OF both revive] p by (simp add: at_key_def)
  moreover have "operationsMutexConflict (p\<lparr>op_status := st\<rparr>) (running_op ''b'' Bootstrap)"
    "peerHoldsWritePlane (p\<lparr>op_status := st\<rparr>)" "peerHoldsWritePlane (running_op ''b'' Bootstrap)"
    "op_key (running_op ''b'' Bootstrap) = (''ns'', ''b'')" "op_key (p\<lparr>op_status := st\<rparr>) = (''ns'', ''a'')"
    using p st by (simp_all add: operationsMutexConflict_def peerHoldsWritePlane_def)
  ultimately show ?thesis
    by (intro exI [of _ "idle [p\<lparr>op_status := st\<rparr>, running_op ''b'' Bootstrap] [(''ns'', ''b''), (''ns'', ''a'')]"]
        exI [of _ "p\<lparr>op_status := st\<rparr>"] exI [of _ "running_op ''b'' Bootstrap"]) simp
qed


text \<open>Two Jobs also run when the status write of a pass is late: \<open>b\<close> creates its Job, the cache does not have it yet, so
  the pass ends without a status; an Operation of a smaller name then wins the claim and creates its own.\<close>

lemma stale_run:
  assumes "isOperationTypeImplemented t" and "t \<noteq> Rebuild"
  shows "\<exists>tr. play (reconcileOperation sample_lib (defaultCNPGEffects sample_lib) (''ns'', n))
      [RObject (OOperation (racing_op n t)), RObject (OInstance unrestricted), ROperations [racing_op n t], ROperations [racing_op n t],
       RError ErrNotFound, RObject (OSecret (new_meta ''s'' ''ns'')), RObject (OSecret (new_meta ''s'' ''ns'')),
       RError ErrNotFound, ROk, RError ErrNotFound, RError ErrNotFound] = (tr, Done (Inr 0)) \<and>
     replay (\<lambda>q ops. \<not> revives q ops) tr [racing_op n t] [] = Some ([racing_op n t], [(''ns'', n)])"
proof -
  let ?op = "racing_op n t"
  obtain j where j: "buildOperationJob sample_lib ?op unrestricted (stagingPVCName ?op) (workerImageForOperation ?op unrestricted)
      (workerPullPolicyForOperation ?op unrestricted) = Inr j"
    "om_name (jo_meta j) = n" "om_namespace (jo_meta j) = ''ns''" "om_owners (jo_meta j) = []"
    using built_job by fastforce
  show ?thesis
    using assms by (simp add: run_defs j revives_def evaluateWritePlane_def evaluate_peer_def operationsMutexConflict_def)
qed

theorem two_jobs_at_once:
  "\<exists>s a b. reachable_system sample_lib (\<lambda>q ops. \<not> revives q ops) s \<and> sy_ops s = [b, a] \<and>
     operationsMutexConflict a b \<and> peerHoldsWritePlane a \<and> isActiveOperationPhase (op_phase_of b) \<and> sy_jobs s = [op_key a, op_key b]"
proof -
  let ?a = "racing_op ''a'' AddRegions" and ?b = "racing_op ''b'' Bootstrap"
  have "reachable_system sample_lib (\<lambda>q ops. \<not> revives q ops) (idle [?b] [])"
    using create_reaches [OF reachable_system.start, of ?b] by simp
  with stale_run [of Bootstrap "''b''"] pass_reaches
  have "reachable_system sample_lib (\<lambda>q ops. \<not> revives q ops) (idle [?b] [(''ns'', ''b'')])" by fastforce
  from create_reaches [OF this, of ?a]
  have created: "reachable_system sample_lib (\<lambda>q ops. \<not> revives q ops) (idle [?b, ?a] [(''ns'', ''b'')])" by simp
  have "claimGranted ?a (filter (\<lambda>p. op_instance p = ''inst'') [?b, ?a])"
    by (simp add: claimGranted_def evaluateWritePlane_def evaluate_peer_def operationsMutexConflict_def less_char_def peerHoldsWritePlane_def)
  from start_run [OF _ _ _ _ this, of "[(''ns'', ''b'')]"] obtain tr where
    start: "play (reconcileOperation sample_lib (defaultCNPGEffects sample_lib) (''ns'', ''a''))
      [RObject (OOperation ?a), RObject (OInstance unrestricted), ROperations [?b, ?a], ROperations [?b, ?a],
       RError ErrNotFound, RObject (OSecret (new_meta ''s'' ''ns'')), RObject (OSecret (new_meta ''s'' ''ns'')),
       RError ErrNotFound, ROk, RObject (OJob (active_job ''a'')), RVersion ''2'', RError ErrNotFound] = (tr, Done (Inr 0))"
    "replay (\<lambda>q ops. \<not> revives q ops) tr [?b, ?a] [(''ns'', ''b'')] =
       Some (at_key (''ns'', ''a'') (\<lambda>p. p\<lparr>op_status := op_status (running_op ''a'' AddRegions)\<rparr>) [?b, ?a], [(''ns'', ''a''), (''ns'', ''b'')])"
    by (auto simp: isTerminalOperationPhase_def)
  from pass_reaches [OF created start]
  have "reachable_system sample_lib (\<lambda>q ops. \<not> revives q ops) (idle [?b, running_op ''a'' AddRegions] [(''ns'', ''a''), (''ns'', ''b'')])"
    by (simp add: at_key_def)
  moreover have "operationsMutexConflict (running_op ''a'' AddRegions) ?b" "peerHoldsWritePlane (running_op ''a'' AddRegions)"
    by (simp_all add: operationsMutexConflict_def peerHoldsWritePlane_def)
  ultimately show ?thesis
    by (intro exI [of _ "idle [?b, running_op ''a'' AddRegions] [(''ns'', ''a''), (''ns'', ''b'')]"] exI [of _ "running_op ''a'' AddRegions"] exI [of _ "?b"]) simp
qed

end
