(* ===== verification/GoStd.thy ===== *)
theory GoStd
  imports Prelude
begin

text \<open>
  What the two programs of the repository (\<open>cmd/main.go\<close> and \<open>hack/sync-chart-manager-rbac.go\<close>) use of Go's standard
  library: the command line (\<open>flag\<close>), paths (\<open>path/filepath\<close>), \<open>append\<close> on slices that share an array, and
  \<open>bytes.TrimSpace\<close>.
\<close>

section \<open>Paths\<close>

text \<open>Unix paths, cleaned lexically: the elements that are kept, the last one first.\<close>

fun split_path :: "string \<Rightarrow> string list" where
  "split_path [] = [[]]"
| "split_path (c # s) =
     (case split_path s of
        p # ps \<Rightarrow> if c = CHR ''/'' then [] # p # ps else (c # p) # ps
      | [] \<Rightarrow> [])"

fun clean_elements :: "bool \<Rightarrow> string list \<Rightarrow> string list \<Rightarrow> string list" where
  "clean_elements rooted kept [] = kept"
| "clean_elements rooted kept (p # ps) =
     (if p = [] \<or> p = ''.'' then clean_elements rooted kept ps
      else if p = ''..'' then
        (case kept of
           k # ks \<Rightarrow> if k = ''..'' then clean_elements rooted (p # kept) ps else clean_elements rooted ks ps
         | [] \<Rightarrow> if rooted then clean_elements rooted [] ps else clean_elements rooted [p] ps)
      else clean_elements rooted (p # kept) ps)"

definition path_clean :: "string \<Rightarrow> string" where
  "path_clean s =
     (if s = [] then ''.''
      else
        let rooted = (hd s = CHR ''/''); elements = rev (clean_elements rooted [] (split_path s)) in
        if rooted then ''/'' @ join ''/'' elements
        else if elements = [] then ''.'' else join ''/'' elements)"

definition path_join :: "string list \<Rightarrow> string" where
  "path_join es = (case dropWhile (\<lambda>e. e = []) es of [] \<Rightarrow> [] | es \<Rightarrow> path_clean (join ''/'' es))"

definition path_dir :: "string \<Rightarrow> string" where
  "path_dir s = path_clean (rev (dropWhile (\<lambda>c. c \<noteq> CHR ''/'') (rev s)))"

lemma split_path_nonempty [simp]: "split_path s \<noteq> []"
  by (induction s) (auto split: list.splits)

text \<open>What the elements weigh: each its length and a separator.\<close>

primrec weight :: "string list \<Rightarrow> nat" where
  "weight [] = 0"
| "weight (p # ps) = length p + 1 + weight ps"

lemma weight_append [simp]: "weight (ps @ qs) = weight ps + weight qs"
  by (induction ps) simp_all

lemma weight_rev [simp]: "weight (rev ps) = weight ps"
  by (induction ps) simp_all

lemma weight_split: "weight (split_path s) = length s + 1"
proof (induction s)
  case (Cons c s)
  then show ?case by (cases "split_path s") auto
qed simp

lemma length_join: "ps \<noteq> [] \<Longrightarrow> length (join [c] ps) + 1 = weight ps"
proof (induction ps)
  case (Cons p ps)
  then show ?case by (cases ps) auto
qed simp

lemma weight_clean: "weight (clean_elements rooted kept ps) \<le> weight kept + weight ps"
  by (induction rooted kept ps rule: clean_elements.induct) (auto split: list.splits)

text \<open>Cleaning never makes a path longer, and a path that ends in a slash shorter.\<close>

lemma split_path_snoc: "split_path (s @ [CHR ''/'']) = split_path s @ [[]]"
  by (induction s) (auto split: list.splits)

lemma clean_elements_snoc_empty: "clean_elements rooted kept (ps @ [[]]) = clean_elements rooted kept ps"
  by (induction rooted kept ps rule: clean_elements.induct) (auto split: list.splits)

lemma length_clean:
  assumes "s \<noteq> []"
  shows "length (path_clean s) \<le> length s"
proof -
  define rooted where "rooted = (hd s = CHR ''/'')"
  let ?ps = "clean_elements rooted [] (split_path s)"
  have w: "weight (rev ?ps) \<le> length s + (if rooted then 0 else 1)"
  proof (cases rooted)
    case True
    with assms obtain r where "s = CHR ''/'' # r" by (cases s) (auto simp: rooted_def)
    then have "clean_elements rooted [] (split_path s) = clean_elements rooted [] (split_path r)" and len: "length s = length r + 1"
      using split_path_nonempty [of r] by (auto split: list.splits)
    with weight_clean [of rooted "[]" "split_path r"] weight_split [of r] True show ?thesis by simp
  next
    case False
    with weight_clean [of rooted "[]" "split_path s"] weight_split [of s] show ?thesis by simp
  qed
  have j: "length (join ''/'' (rev ?ps)) \<le> length s - (if rooted then 1 else 0)"
    using length_join [of "rev ?ps" "CHR ''/''"] w assms by (cases "rev ?ps = []") (auto split: if_splits)
  have "Suc 0 \<le> length s" using assms by (cases s) simp_all
  with j assms show ?thesis
    unfolding path_clean_def rooted_def [symmetric] Let_def by (cases rooted) simp_all
qed

lemma length_clean_slash:
  assumes "s \<noteq> []"
  shows "length (path_clean (s @ [CHR ''/''])) \<le> length s"
proof -
  have "path_clean (s @ [CHR ''/'']) = path_clean s"
    using assms by (simp add: path_clean_def split_path_snoc clean_elements_snoc_empty)
  with length_clean [OF assms] show ?thesis by simp
qed

lemma path_clean_nonempty [simp]: "path_clean s \<noteq> []"
proof -
  have kept: "[] \<notin> set (clean_elements rooted kept ps)" if "[] \<notin> set kept" for rooted kept ps
    using that by (induction rooted kept ps rule: clean_elements.induct) (auto split: list.splits)
  have "join ''/'' ps \<noteq> []" if "ps \<noteq> []" "[] \<notin> set ps" for ps
    using that by (cases ps rule: remdups_adj.cases) auto
  then show ?thesis using kept [of "[]"] by (auto simp: path_clean_def Let_def)
qed

text \<open>A last element that is a name stays the last element.\<close>

lemma split_path_last: "CHR ''/'' \<notin> set c \<Longrightarrow> split_path (s @ CHR ''/'' # c) = split_path s @ [c]"
proof (induction s)
  case Nil
  then have "split_path c = [c]" by (induction c) auto
  then show ?case by simp
qed (auto split: list.splits)

lemma clean_elements_last:
  "c \<notin> {[], ''.'', ''..''} \<Longrightarrow> clean_elements rooted kept (ps @ [c]) = c # clean_elements rooted kept ps"
  by (induction rooted kept ps rule: clean_elements.induct) (auto split: list.splits)

lemma suffix_join: "suffix c (join sep (ps @ [c]))"
proof (induction ps)
  case (Cons p ps)
  then show ?case by (cases "ps @ [c]") (auto intro: suffix_appendI)
qed simp

lemma clean_suffix:
  assumes "CHR ''/'' \<notin> set c" and "c \<notin> {[], ''.'', ''..''}"
  shows "suffix c (path_clean (s @ CHR ''/'' # c))"
  using suffix_join [of c "''/''"] clean_elements_last [OF assms(2)]
  by (auto simp: path_clean_def Let_def split_path_last [OF assms(1)] intro: suffix_appendI suffix_ConsI)

lemma join_suffix:
  assumes "CHR ''/'' \<notin> set c" and "c \<notin> {[], ''.'', ''..''}"
  shows "d \<noteq> [] \<Longrightarrow> suffix c (path_join [d, c])" and "suffix c (path_join [d, s @ CHR ''/'' # c])"
  using clean_suffix [OF assms, of d] clean_suffix [OF assms, of s] clean_suffix [OF assms, of "d @ CHR ''/'' # s"]
  by (auto simp: path_join_def)

text \<open>The directory of a path is shorter, up to the root and up to the dot.\<close>

lemma path_dir_shorter:
  "path_dir s = s \<or> path_dir s = ''.'' \<or> (length (path_dir s) < length s \<and> path_dir s \<noteq> [])"
proof (cases "CHR ''/'' \<in> set s")
  case False
  then have "dropWhile (\<lambda>c. c \<noteq> CHR ''/'') (rev s) = []" by (auto simp: dropWhile_eq_Nil_conv)
  then show ?thesis by (simp add: path_dir_def path_clean_def)
next
  case True
  then obtain u v where s: "s = u @ CHR ''/'' # v" "CHR ''/'' \<notin> set v" by (metis split_list_last)
  then have d: "rev (dropWhile (\<lambda>c. c \<noteq> CHR ''/'') (rev s)) = u @ [CHR ''/'']" by (simp add: dropWhile_append)
  show ?thesis
  proof (cases "u = []")
    case True
    have "path_clean ''/'' = ''/''" by (simp add: path_clean_def)
    with d s True show ?thesis by (cases v) (auto simp: path_dir_def)
  next
    case False
    from length_clean_slash [OF this] d s show ?thesis by (simp add: path_dir_def)
  qed
qed

section \<open>The command line\<close>

text \<open>
  A flag of a boolean variable needs no value; a flag of another needs one, and its \<open>Set\<close> may refuse it. The
  variables that the flags set are the state.
\<close>

datatype 's flag = BoolFlag "bool \<Rightarrow> 's \<Rightarrow> 's" | ValueFlag "string \<Rightarrow> 's \<Rightarrow> 's option"

definition parse_bool :: "string \<Rightarrow> bool option" where
  "parse_bool v =
     (if v \<in> {''1'', ''t'', ''T'', ''TRUE'', ''true'', ''True''} then Some True
      else if v \<in> {''0'', ''f'', ''F'', ''FALSE'', ''false'', ''False''} then Some False
      else None)"

fun set_flag :: "'s flag \<Rightarrow> string \<Rightarrow> 's \<Rightarrow> 's option" where
  "set_flag (BoolFlag f) v s = map_option (\<lambda>b. f b s) (parse_bool v)"
| "set_flag (ValueFlag f) v s = f v s"

text \<open>What an argument is: the end of the flags, a mistake, or a flag with or without a value.\<close>

datatype argument = NoFlag | BadFlag | Given string "string option"

definition read_argument :: "string \<Rightarrow> argument" where
  "read_argument s =
     (if length s < 2 \<or> hd s \<noteq> CHR ''-'' \<or> s = ''--'' then NoFlag
      else
        let name = drop (if s ! 1 = CHR ''-'' then 2 else 1) s in
        if name = [] \<or> hd name = CHR ''-'' \<or> hd name = CHR ''='' then BadFlag
        else case dropWhile (\<lambda>c. c \<noteq> CHR ''='') name of
               [] \<Rightarrow> Given name None
             | e # v \<Rightarrow> Given (takeWhile (\<lambda>c. c \<noteq> CHR ''='') name) (Some v))"

text \<open>\<open>flag.Parse\<close> on \<open>flag.CommandLine\<close>: the variables, or the status that the process exits with.\<close>

fun parse_flags :: "(string \<Rightarrow> 's flag option) \<Rightarrow> string list \<Rightarrow> 's \<Rightarrow> int + 's" where
  "parse_flags F [] s = Inr s"
| "parse_flags F (arg # args) s =
     (case read_argument arg of
        NoFlag \<Rightarrow> Inr s
      | BadFlag \<Rightarrow> Inl 2
      | Given name value \<Rightarrow>
          (case F name of
             None \<Rightarrow> Inl (if name = ''help'' \<or> name = ''h'' then 0 else 2)
           | Some (BoolFlag f) \<Rightarrow>
               (case set_flag (BoolFlag f) (case value of None \<Rightarrow> ''true'' | Some v \<Rightarrow> v) s of
                  None \<Rightarrow> Inl 2
                | Some s \<Rightarrow> parse_flags F args s)
           | Some (ValueFlag f) \<Rightarrow>
               (case value of
                  Some v \<Rightarrow> (case f v s of None \<Rightarrow> Inl 2 | Some s \<Rightarrow> parse_flags F args s)
                | None \<Rightarrow>
                    (case args of
                       [] \<Rightarrow> Inl 2
                     | v # args \<Rightarrow> (case f v s of None \<Rightarrow> Inl 2 | Some s \<Rightarrow> parse_flags F args s)))))"

lemma read_written:
  assumes "name \<noteq> []" and "CHR ''='' \<notin> set name" and "hd name \<noteq> CHR ''-''"
  shows "read_argument (''--'' @ name @ ''='' @ v) = Given name (Some v)"
proof -
  have "hd (name @ t) \<noteq> CHR ''-''" "hd (name @ t) \<noteq> CHR ''=''" for t using assms by (cases name; auto)+
  moreover have "dropWhile (\<lambda>c. c \<noteq> CHR ''='') (name @ CHR ''='' # v) = CHR ''='' # v"
    "takeWhile (\<lambda>c. c \<noteq> CHR ''='') (name @ CHR ''='' # v) = name"
    using assms(2) by (auto simp: dropWhile_append takeWhile_append dest: dropWhile_eq_Nil_conv [THEN iffD1])
  ultimately show ?thesis using assms(1) by (simp add: read_argument_def)
qed

section \<open>Slices that share an array\<close>

text \<open>
  The arrays of the program, each a list as long as its capacity; a slice is an array and a length, \<open>None\<close> is nil.
  How much \<open>append\<close> allocates when the capacity does not suffice is left to the runtime: the old capacity and the
  length needed go in.
\<close>

type_synonym 'a arrays = "'a option list list"
type_synonym slice = "(nat \<times> nat) option"

definition elements :: "'a arrays \<Rightarrow> slice \<Rightarrow> 'a list" where
  "elements A s = (case s of None \<Rightarrow> [] | Some (a, n) \<Rightarrow> List.map_filter id (take n (A ! a)))"

definition append_one :: "(nat \<Rightarrow> nat \<Rightarrow> nat) \<Rightarrow> slice \<Rightarrow> 'a \<Rightarrow> 'a arrays \<Rightarrow> slice \<times> 'a arrays" where
  "append_one grow s x A =
     (case s of
        None \<Rightarrow> (Some (length A, 1), A @ [Some x # replicate (grow 0 1 - 1) None])
      | Some (a, n) \<Rightarrow>
          let old = A ! a in
          if n < length old then (Some (a, n + 1), A[a := old[n := Some x]])
          else (Some (length A, n + 1), A @ [take n old @ Some x # replicate (grow (length old) (n + 1) - (n + 1)) None]))"

section \<open>White space\<close>

text \<open>\<open>bytes.TrimSpace\<close>: the UTF-8 codes of the code points that \<open>unicode.IsSpace\<close> accepts, from both ends.\<close>

definition space_codes :: "string list" where
  "space_codes =
     map (\<lambda>n. [char_of (n::nat)]) [9, 10, 11, 12, 13, 32] @
     [[CHR 0xC2, CHR 0x85], [CHR 0xC2, CHR 0xA0], [CHR 0xE1, CHR 0x9A, CHR 0x80]] @
     map (\<lambda>n. [CHR 0xE2, CHR 0x80, char_of (n::nat)]) [128, 129, 130, 131, 132, 133, 134, 135, 136, 137, 138, 168, 169, 175] @
     [[CHR 0xE2, CHR 0x81, CHR 0x9F], [CHR 0xE3, CHR 0x80, CHR 0x80]]"

function trim_codes :: "string list \<Rightarrow> string \<Rightarrow> string" where
  "trim_codes codes s =
     (case find (\<lambda>c. c \<noteq> [] \<and> prefix c s) codes of None \<Rightarrow> s | Some c \<Rightarrow> trim_codes codes (drop (length c) s))"
  by pat_completeness auto

termination
proof (relation "measure (\<lambda>(codes, s). length s)")
  fix codes s c assume "find (\<lambda>c. c \<noteq> [] \<and> prefix c s) codes = Some (c :: string)"
  then have "c \<noteq> []" "prefix c s" using find_SomeD by fast+
  then show "((codes, drop (length c) s), (codes, s)) \<in> measure (\<lambda>(codes, s). length s)" by (auto simp: prefix_def)
qed simp

definition TrimSpace :: "string \<Rightarrow> string" where
  "TrimSpace s = rev (trim_codes (map rev space_codes) (rev (trim_codes space_codes s)))"

end
