(* ===== verification/Manager.thy ===== *)
theory Manager
  imports InstanceRequests GoStd
begin

text \<open>
  \<open>cmd/main.go\<close>, the process that runs the two controllers, and their \<open>SetupWithManager\<close>: the flags, the TLS options of
  the two servers with the slices they are built in, what is watched, and the order of the startup. What controller-runtime
  and the operating system answer, and the flags that other packages add, are parameters.
\<close>

section \<open>The flags\<close>

record settings =
  metricsAddr :: string
  probeAddr :: string
  enableLeaderElection :: bool
  secureMetrics :: bool
  webhookCertPath :: string
  webhookCertName :: string
  webhookCertKey :: string
  metricsCertPath :: string
  metricsCertName :: string
  metricsCertKey :: string
  enableHTTP2 :: bool

definition default_settings :: settings where
  "default_settings = \<lparr>metricsAddr = ''0'', probeAddr = '':8081'', enableLeaderElection = False, secureMetrics = True,
     webhookCertPath = '''', webhookCertName = ''tls.crt'', webhookCertKey = ''tls.key'',
     metricsCertPath = '''', metricsCertName = ''tls.crt'', metricsCertKey = ''tls.key'', enableHTTP2 = False\<rparr>"

text \<open>The variables of \<open>main\<close>, and those of the flags of other packages (zap, the kubeconfig).\<close>

type_synonym variables = "settings \<times> strmap"

definition string_var :: "(string \<Rightarrow> settings \<Rightarrow> settings) \<Rightarrow> variables flag" where
  "string_var f = ValueFlag (\<lambda>v (s, o'). Some (f v s, o'))"

definition bool_var :: "(bool \<Rightarrow> settings \<Rightarrow> settings) \<Rightarrow> variables flag" where
  "bool_var f = BoolFlag (\<lambda>b (s, o'). (f b s, o'))"

definition main_flags :: "(string \<times> variables flag) list" where
  "main_flags =
     [(''metrics-bind-address'', string_var (\<lambda>v s. s\<lparr>metricsAddr := v\<rparr>)),
      (''health-probe-bind-address'', string_var (\<lambda>v s. s\<lparr>probeAddr := v\<rparr>)),
      (''leader-elect'', bool_var (\<lambda>b s. s\<lparr>enableLeaderElection := b\<rparr>)),
      (''metrics-secure'', bool_var (\<lambda>b s. s\<lparr>secureMetrics := b\<rparr>)),
      (''webhook-cert-path'', string_var (\<lambda>v s. s\<lparr>webhookCertPath := v\<rparr>)),
      (''webhook-cert-name'', string_var (\<lambda>v s. s\<lparr>webhookCertName := v\<rparr>)),
      (''webhook-cert-key'', string_var (\<lambda>v s. s\<lparr>webhookCertKey := v\<rparr>)),
      (''metrics-cert-path'', string_var (\<lambda>v s. s\<lparr>metricsCertPath := v\<rparr>)),
      (''metrics-cert-name'', string_var (\<lambda>v s. s\<lparr>metricsCertName := v\<rparr>)),
      (''metrics-cert-key'', string_var (\<lambda>v s. s\<lparr>metricsCertKey := v\<rparr>)),
      (''enable-http2'', bool_var (\<lambda>b s. s\<lparr>enableHTTP2 := b\<rparr>))]"

text \<open>Flags of other packages: boolean or not, and which values \<open>Set\<close> takes.\<close>

type_synonym other_flags = "(string \<times> bool \<times> (string \<Rightarrow> bool)) list"

definition lookup_flag :: "other_flags \<Rightarrow> string \<Rightarrow> variables flag option" where
  "lookup_flag X n =
     (case map_of main_flags n of
        Some f \<Rightarrow> Some f
      | None \<Rightarrow>
          (case map_of X n of
             Some (True, _) \<Rightarrow> Some (BoolFlag (\<lambda>b (s, o'). (s, map_set n (if b then ''true'' else ''false'') o')))
           | Some (False, ok) \<Rightarrow> Some (ValueFlag (\<lambda>v (s, o'). if ok v then Some (s, map_set n v o') else None))
           | None \<Rightarrow> None))"

definition parse_command_line :: "other_flags \<Rightarrow> string list \<Rightarrow> int + variables" where
  "parse_command_line X args = parse_flags (lookup_flag X) args (default_settings, [])"

text \<open>The arguments that the deployments pass for given settings.\<close>

definition argument_of :: "string \<Rightarrow> string \<Rightarrow> string" where
  "argument_of n v = ''--'' @ n @ ''='' @ v"

definition show_bool :: "bool \<Rightarrow> string" where
  "show_bool b = (if b then ''true'' else ''false'')"

definition arguments_of :: "settings \<Rightarrow> string list" where
  "arguments_of s =
     [argument_of ''metrics-bind-address'' (metricsAddr s), argument_of ''health-probe-bind-address'' (probeAddr s),
      argument_of ''leader-elect'' (show_bool (enableLeaderElection s)), argument_of ''metrics-secure'' (show_bool (secureMetrics s)),
      argument_of ''webhook-cert-path'' (webhookCertPath s), argument_of ''webhook-cert-name'' (webhookCertName s),
      argument_of ''webhook-cert-key'' (webhookCertKey s), argument_of ''metrics-cert-path'' (metricsCertPath s),
      argument_of ''metrics-cert-name'' (metricsCertName s), argument_of ''metrics-cert-key'' (metricsCertKey s),
      argument_of ''enable-http2'' (show_bool (enableHTTP2 s))]"

lemma parse_string_var:
  assumes "lookup_flag X n = Some (string_var f)" and "n \<noteq> []" and "CHR ''='' \<notin> set n" and "hd n \<noteq> CHR ''-''"
  shows "parse_flags (lookup_flag X) (argument_of n v # args) (s, o') = parse_flags (lookup_flag X) args (f v s, o')"
  using assms read_written [OF assms(2-4)] by (simp add: argument_of_def string_var_def)

lemma parse_bool_var:
  assumes "lookup_flag X n = Some (bool_var f)" and "n \<noteq> []" and "CHR ''='' \<notin> set n" and "hd n \<noteq> CHR ''-''"
  shows "parse_flags (lookup_flag X) (argument_of n (show_bool b) # args) (s, o') = parse_flags (lookup_flag X) args (f b s, o')"
  using assms read_written [OF assms(2-4)] by (simp add: argument_of_def bool_var_def show_bool_def parse_bool_def)

lemma parse_arguments:
  "parse_command_line X (arguments_of s) = Inr (s, [])"
proof -
  have "default_settings\<lparr>metricsAddr := metricsAddr s, probeAddr := probeAddr s, enableLeaderElection := enableLeaderElection s,
     secureMetrics := secureMetrics s, webhookCertPath := webhookCertPath s, webhookCertName := webhookCertName s,
     webhookCertKey := webhookCertKey s, metricsCertPath := metricsCertPath s, metricsCertName := metricsCertName s,
     metricsCertKey := metricsCertKey s, enableHTTP2 := enableHTTP2 s\<rparr> = s"
    by (simp add: default_settings_def)
  then show ?thesis
    by (simp add: parse_command_line_def arguments_of_def parse_string_var parse_bool_var lookup_flag_def main_flags_def
        del: parse_flags.simps(2))
qed

text \<open>Whatever flags other packages add, the arguments written for some settings are parsed back to exactly these
  settings, whatever the values contain: dashes, equals signs, nothing at all.\<close>

theorem settings_roundtrip: "parse_command_line X (arguments_of s) = Inr (s, [])"
  by (rule parse_arguments)

section \<open>What the controllers watch\<close>

text \<open>The builder: the kind reconciled, the owned kinds, the kinds watched through a map function.\<close>

record controller_spec =
  cs_name :: string
  cs_for :: kind
  cs_owns :: "kind list"
  cs_watches :: "kind list"

text \<open>The optional kinds are asked of the REST mapper, in this order.\<close>

definition with_kind :: "(kind \<Rightarrow> error + unit) \<Rightarrow> kind \<Rightarrow> (controller_spec \<Rightarrow> controller_spec) \<Rightarrow> controller_spec \<Rightarrow> error + controller_spec" where
  "with_kind mapper k f b =
     (case gvkAvailableFromMapper (mapper k) of Inl e \<Rightarrow> Inl e | Inr True \<Rightarrow> Inr (f b) | Inr False \<Rightarrow> Inr b)"

definition setupWithManager :: "string \<Rightarrow> (kind \<Rightarrow> error + unit) \<Rightarrow> error + controller_spec" where
  "setupWithManager controllerName mapper =
     and_then (and_then
       (with_kind mapper KHTTPRoute (\<lambda>b. b\<lparr>cs_owns := cs_owns b @ [KHTTPRoute]\<rparr>)
         \<lparr>cs_name = (if controllerName = '''' then ''nominatiminstance'' else controllerName), cs_for = KInstance,
           cs_owns = [KDeployment, KService, KClaim, KJob, KConfigMap], cs_watches = [KOperation]\<rparr>)
       (with_kind mapper KCluster (\<lambda>b. b\<lparr>cs_watches := cs_watches b @ [KCluster]\<rparr>)))
       (with_kind mapper KDatabase (\<lambda>b. b\<lparr>cs_owns := cs_owns b @ [KDatabase]\<rparr>))"

definition operation_controller :: controller_spec where
  "operation_controller = \<lparr>cs_name = ''nominatimoperation'', cs_for = KOperation, cs_owns = [KJob, KClaim], cs_watches = []\<rparr>"

lemma with_kind_Inr:
  "with_kind mapper k f b = Inr b' \<longleftrightarrow>
     (mapper k = Inr () \<and> b' = f b) \<or> (\<exists>e. mapper k = Inl e \<and> is_no_match e \<and> b' = b)"
  by (cases "mapper k") (auto simp: with_kind_def gvkAvailableFromMapper_def)

lemma with_kind_Inl: "with_kind mapper k f b = Inl e \<longleftrightarrow> mapper k = Inl e \<and> \<not> is_no_match e"
  by (cases "mapper k") (auto simp: with_kind_def gvkAvailableFromMapper_def)

lemma and_then_Inl: "and_then r f = Inl e \<longleftrightarrow> r = Inl e \<or> (\<exists>a. r = Inr a \<and> f a = Inl e)"
  by (cases r) auto

text \<open>The Instance controller can be set up on a cluster without the optional CRDs: setting it up fails only with an
  error of the mapper that is not a missing match, and otherwise it watches exactly the optional kinds the mapper knows.\<close>

theorem optional_kinds_watched:
  "(case setupWithManager n mapper of
      Inl e \<Rightarrow> \<not> is_no_match e \<and> (\<exists>k \<in> {KHTTPRoute, KCluster, KDatabase}. mapper k = Inl e)
    | Inr c \<Rightarrow>
        set (cs_owns c) = {KDeployment, KService, KClaim, KJob, KConfigMap} \<union> {k \<in> {KHTTPRoute, KDatabase}. mapper k = Inr ()} \<and>
        set (cs_watches c) = {KOperation} \<union> {k \<in> {KCluster}. mapper k = Inr ()})"
proof (cases "setupWithManager n mapper")
  case (Inl e)
  then have "\<exists>k \<in> {KHTTPRoute, KCluster, KDatabase}. mapper k = Inl e \<and> \<not> is_no_match e"
    by (auto simp: setupWithManager_def and_then_Inl with_kind_Inl)
  with Inl show ?thesis by auto
next
  case (Inr c)
  then have "set (cs_owns c) = {KDeployment, KService, KClaim, KJob, KConfigMap} \<union> {k \<in> {KHTTPRoute, KDatabase}. mapper k = Inr ()} \<and>
      set (cs_watches c) = {KOperation} \<union> {k \<in> {KCluster}. mapper k = Inr ()}"
    by (auto simp: setupWithManager_def with_kind_Inr)
  with Inr show ?thesis by simp
qed


section \<open>TLS options\<close>

datatype tls_option = DisableHTTP2 | GetCertificate string string

record tls_config =
  tc_protos :: "string list"
  tc_certificate :: "(string \<times> string) option"

fun apply_option :: "tls_option \<Rightarrow> tls_config \<Rightarrow> tls_config" where
  "apply_option DisableHTTP2 c = c\<lparr>tc_protos := [''http/1.1'']\<rparr>"
| "apply_option (GetCertificate crt key) c = c\<lparr>tc_certificate := Some (crt, key)\<rparr>"

text \<open>The configuration of a server: the options applied in turn to the one it starts from.\<close>

definition configured :: "tls_config \<Rightarrow> tls_option list \<Rightarrow> tls_config" where
  "configured base opts = fold apply_option opts base"

section \<open>The startup\<close>

record manager_options =
  mo_metrics_addr :: string
  mo_secure :: bool
  mo_authenticated :: bool        \<comment> \<open>\<open>FilterProvider: filters.WithAuthenticationAndAuthorization\<close>\<close>
  mo_metrics_tls :: slice
  mo_webhook_tls :: slice
  mo_probe_addr :: string
  mo_leader_election :: bool
  mo_election_id :: string

text \<open>The calls of \<open>main\<close> that may fail, in their order; \<open>Start\<close> with the TLS options the two servers then find.\<close>

datatype setup_call =
    NewCertWatcher string string
  | GetConfig
  | NewManager manager_options
  | BuildController controller_spec
  | AddWatcher string string
  | AddHealthzCheck
  | AddReadyzCheck
  | Start "tls_option list" "tls_option list"

record world =
  wo_schemes :: "error option \<times> error option"      \<comment> \<open>of client-go and of the API group\<close>
  wo_flags :: other_flags
  wo_grow :: "nat \<Rightarrow> nat \<Rightarrow> nat"
  wo_call :: "setup_call \<Rightarrow> error option"
  wo_mapper :: "kind \<Rightarrow> error + unit"

datatype ending = Exit int | Panicked error

text \<open>The calls made so far, and how the process ended or what it goes on with.\<close>

type_synonym 'a startup = "setup_call list \<times> (ending + 'a)"

definition go_on :: "'a startup \<Rightarrow> ('a \<Rightarrow> 'b startup) \<Rightarrow> 'b startup" where
  "go_on p f = (case p of (cs, Inl e) \<Rightarrow> (cs, Inl e) | (cs, Inr a) \<Rightarrow> (case f a of (cs', r) \<Rightarrow> (cs @ cs', r)))"

definition finish :: "ending \<Rightarrow> 'a startup" where "finish e = ([], Inl e)"

definition proceed :: "'a \<Rightarrow> 'a startup" where "proceed a = ([], Inr a)"

definition do_call :: "world \<Rightarrow> setup_call \<Rightarrow> unit startup" where
  "do_call W c = ([c], case wo_call W c of None \<Rightarrow> Inr () | Some e \<Rightarrow> Inl (Exit 1))"

definition init_scheme :: "world \<Rightarrow> unit startup" where
  "init_scheme W =
     (case wo_schemes W of
        (Some e, _) \<Rightarrow> finish (Panicked e)
      | (None, Some e) \<Rightarrow> finish (Panicked e)
      | (None, None) \<Rightarrow> proceed ())"

text \<open>The certificate of a server, if it has a path: its watcher, and the option appended to the slice.\<close>

definition cert_files :: "string \<Rightarrow> string \<Rightarrow> string \<Rightarrow> (string \<times> string) option" where
  "cert_files path name key = (if path = '''' then None else Some (path_join [path, name], path_join [path, key]))"

definition watch_certificate ::
  "world \<Rightarrow> (string \<times> string) option \<Rightarrow> slice \<Rightarrow> tls_option arrays \<Rightarrow> (slice \<times> tls_option arrays) startup" where
  "watch_certificate W files s A =
     (case files of
        None \<Rightarrow> proceed (s, A)
      | Some (crt, key) \<Rightarrow>
          go_on (do_call W (NewCertWatcher crt key)) (\<lambda>_. proceed (append_one (wo_grow W) s (GetCertificate crt key) A)))"

definition webhook_files :: "settings \<Rightarrow> (string \<times> string) option" where
  "webhook_files s = cert_files (webhookCertPath s) (webhookCertName s) (webhookCertKey s)"

definition metrics_files :: "settings \<Rightarrow> (string \<times> string) option" where
  "metrics_files s = cert_files (metricsCertPath s) (metricsCertName s) (metricsCertKey s)"

definition server_options :: "world \<Rightarrow> settings \<Rightarrow> (manager_options \<times> tls_option arrays) startup" where
  "server_options W s =
     (let (tlsOpts, A) = (if enableHTTP2 s then (None, []) else append_one (wo_grow W) None DisableHTTP2 []) in
      go_on (watch_certificate W (webhook_files s) tlsOpts A) (\<lambda>(webhookTLSOpts, A).
      go_on (watch_certificate W (metrics_files s) tlsOpts A) (\<lambda>(metricsTLSOpts, A).
        proceed (\<lparr>mo_metrics_addr = metricsAddr s, mo_secure = secureMetrics s, mo_authenticated = secureMetrics s,
          mo_metrics_tls = metricsTLSOpts, mo_webhook_tls = webhookTLSOpts, mo_probe_addr = probeAddr s,
          mo_leader_election = enableLeaderElection s, mo_election_id = ''8da8ecbf.zebernst.dev''\<rparr>, A))))"

definition add_watcher :: "world \<Rightarrow> (string \<times> string) option \<Rightarrow> unit startup" where
  "add_watcher W files = (case files of None \<Rightarrow> proceed () | Some (crt, key) \<Rightarrow> do_call W (AddWatcher crt key))"

definition main :: "world \<Rightarrow> string list \<Rightarrow> unit startup" where
  "main W args =
     go_on (init_scheme W) (\<lambda>_.
     case parse_command_line (wo_flags W) args of
       Inl status \<Rightarrow> finish (Exit status)
     | Inr (s, _) \<Rightarrow>
         go_on (server_options W s) (\<lambda>(opts, A).
         go_on (do_call W GetConfig) (\<lambda>_.
         go_on (do_call W (NewManager opts)) (\<lambda>_.
         case setupWithManager '''' (wo_mapper W) of
           Inl e \<Rightarrow> finish (Exit 1)
         | Inr instance_controller \<Rightarrow>
             go_on (do_call W (BuildController instance_controller)) (\<lambda>_.
             go_on (do_call W (BuildController operation_controller)) (\<lambda>_.
             go_on (add_watcher W (metrics_files s)) (\<lambda>_.
             go_on (add_watcher W (webhook_files s)) (\<lambda>_.
             go_on (do_call W AddHealthzCheck) (\<lambda>_.
             go_on (do_call W AddReadyzCheck) (\<lambda>_.
             go_on (do_call W (Start (elements A (mo_metrics_tls opts)) (elements A (mo_webhook_tls opts)))) (\<lambda>_.
             proceed ())))))))))))"


section \<open>What a run does\<close>

text \<open>The calls up to the first that fails; nothing after it.\<close>

definition runs_well :: "world \<Rightarrow> 'a startup \<Rightarrow> bool" where
  "runs_well W p =
     (case p of (cs, r) \<Rightarrow>
        (\<forall>c \<in> set (butlast cs). wo_call W c = None) \<and>
        (\<forall>c \<in> set cs. wo_call W c \<noteq> None \<longrightarrow> r = Inl (Exit 1)))"

lemma runs_proceed [simp]: "runs_well W (proceed a)" "runs_well W (finish e)"
  by (simp_all add: runs_well_def proceed_def finish_def)

lemma runs_call [simp]: "runs_well W (do_call W c)"
  by (simp add: runs_well_def do_call_def split: option.splits)

lemma runs_go_on:
  assumes "runs_well W p" and "\<And>a. runs_well W (f a)"
  shows "runs_well W (go_on p f)"
proof -
  obtain cs r where p: "p = (cs, r)" by force
  show ?thesis
  proof (cases r)
    case (Inl e)
    with assms(1) p show ?thesis by (simp add: go_on_def runs_well_def)
  next
    case (Inr a)
    obtain cs' r' where f: "f a = (cs', r')" by force
    from assms(1) p Inr have all: "\<forall>c \<in> set cs. wo_call W c = None" by (auto simp: runs_well_def)
    have "set (butlast (cs @ cs')) \<subseteq> set cs \<union> set (butlast cs')"
      by (auto simp: butlast_append split: if_splits dest: in_set_butlastD)
    with all assms(2) [of a] p f Inr show ?thesis
      by (auto simp: go_on_def runs_well_def split: sum.splits)
  qed
qed

text \<open>After a call that fails nothing else is called, and the process exits with status 1.\<close>

theorem startup_stops:
  assumes "main W args = (cs, r)"
  shows "(\<forall>c \<in> set (butlast cs). wo_call W c = None) \<and> (\<forall>c \<in> set cs. wo_call W c \<noteq> None \<longrightarrow> r = Inl (Exit 1))"
proof -
  have watch: "runs_well W (watch_certificate W files s A)" for files s A
    by (auto simp: watch_certificate_def intro!: runs_go_on split: option.splits)
  have "runs_well W (server_options W s)" for s
    unfolding server_options_def Let_def by (auto intro!: runs_go_on watch split: prod.splits)
  moreover have "runs_well W (add_watcher W files)" for files by (simp add: add_watcher_def split: option.splits)
  moreover have "runs_well W (init_scheme W)" by (simp add: init_scheme_def split: prod.splits option.splits)
  ultimately have "runs_well W (main W args)"
    unfolding main_def by (auto intro!: runs_go_on split: sum.splits prod.splits)
  with assms show ?thesis by (simp add: runs_well_def)
qed

section \<open>What a started manager has\<close>

abbreviation calls :: "'a startup \<Rightarrow> setup_call set" where
  "calls p \<equiv> set (fst p)"

lemma calls_go_on: "c \<in> calls (go_on p f) \<longleftrightarrow> c \<in> calls p \<or> (\<exists>a. snd p = Inr a \<and> c \<in> calls (f a))"
  by (auto simp: go_on_def split: prod.splits sum.splits)

lemma calls_simps [simp]:
  "calls (proceed a) = {}" "calls (finish e) = {}" "calls (do_call W c) = {c}"
  "snd (do_call W c) = Inr () \<longleftrightarrow> wo_call W c = None"
  by (auto simp: proceed_def finish_def do_call_def split: option.splits)

lemma watch_calls: "calls (watch_certificate W files s A) = (case files of None \<Rightarrow> {} | Some (crt, key) \<Rightarrow> {NewCertWatcher crt key})"
  by (auto simp: watch_certificate_def calls_go_on split: option.splits)

lemma watch_result:
  "snd (watch_certificate W files s A) = Inr r \<Longrightarrow>
     r = (case files of None \<Rightarrow> (s, A) | Some (crt, key) \<Rightarrow> append_one (wo_grow W) s (GetCertificate crt key) A)"
  by (auto simp: watch_certificate_def go_on_def do_call_def proceed_def split: option.splits)

lemma server_calls:
  "c \<in> calls (server_options W s) \<Longrightarrow> \<exists>crt key. c = NewCertWatcher crt key \<and> Some (crt, key) \<in> {webhook_files s, metrics_files s}"
  unfolding server_options_def Let_def by (auto simp: calls_go_on watch_calls split: prod.splits option.splits)

lemma snd_go_on: "snd (go_on p f) = Inr b \<longleftrightarrow> (\<exists>a. snd p = Inr a \<and> snd (f a) = Inr b)"
  by (auto simp: go_on_def split: prod.splits sum.splits)

text \<open>With an array of one element, which is what Go's runtime allocates, the two servers share no option but the first.\<close>

lemma server_slices:
  assumes "snd (server_options W s) = Inr (opts, A)" and "wo_grow W 0 1 = 1"
  shows "elements A (mo_metrics_tls opts) = (if enableHTTP2 s then [] else [DisableHTTP2]) @
      (case metrics_files s of None \<Rightarrow> [] | Some (crt, key) \<Rightarrow> [GetCertificate crt key])"
    and "elements A (mo_webhook_tls opts) = (if enableHTTP2 s then [] else [DisableHTTP2]) @
      (case webhook_files s of None \<Rightarrow> [] | Some (crt, key) \<Rightarrow> [GetCertificate crt key])"
  using assms
  by (auto simp: server_options_def Let_def snd_go_on proceed_def append_one_def elements_def map_filter_simps nth_append
      dest!: watch_result split: option.splits prod.splits if_splits)

lemma start_calls:
  assumes "Start mt wt \<in> calls (main W args)"
  obtains s others opts A c where "parse_command_line (wo_flags W) args = Inr (s, others)"
    and "snd (server_options W s) = Inr (opts, A)" and "setupWithManager '''' (wo_mapper W) = Inr c"
    and "mt = elements A (mo_metrics_tls opts)" and "wt = elements A (mo_webhook_tls opts)"
    and "insert (NewManager opts) (insert (BuildController c) (insert (BuildController operation_controller)
          (insert AddHealthzCheck (insert AddReadyzCheck
            {AddWatcher crt key | crt key. Some (crt, key) \<in> {webhook_files s, metrics_files s}})))) \<subseteq> calls (main W args)"
proof -
  have no_start: "Start mt wt \<notin> calls (init_scheme W)" "Start mt wt \<notin> calls (server_options W s)" "Start mt wt \<notin> calls (add_watcher W files)"
    for s files
    using server_calls by (auto simp: init_scheme_def add_watcher_def split: prod.splits option.splits)
  have watcher: "AddWatcher crt key \<in> calls (add_watcher W files)" if "Some (crt, key) = files" for files crt key
    by (simp add: add_watcher_def that [symmetric])
  from assms obtain s others where parsed: "parse_command_line (wo_flags W) args = Inr (s, others)" "snd (init_scheme W) = Inr ()"
    unfolding main_def by (auto simp: calls_go_on no_start split: sum.splits)
  from assms obtain opts A where server: "snd (server_options W s) = Inr (opts, A)"
    unfolding main_def by (auto simp: calls_go_on no_start parsed)
  from assms obtain c where c: "setupWithManager '''' (wo_mapper W) = Inr c"
    unfolding main_def by (auto simp: calls_go_on no_start parsed server split: sum.splits)
  note run = main_def calls_go_on parsed server c
  from assms have steps: "wo_call W GetConfig = None" "wo_call W (NewManager opts) = None" "wo_call W (BuildController c) = None"
      "wo_call W (BuildController operation_controller) = None" "snd (add_watcher W (metrics_files s)) = Inr ()"
      "snd (add_watcher W (webhook_files s)) = Inr ()" "wo_call W AddHealthzCheck = None" "wo_call W AddReadyzCheck = None"
    and tls: "mt = elements A (mo_metrics_tls opts)" "wt = elements A (mo_webhook_tls opts)"
    unfolding run by (auto simp: calls_go_on no_start parsed server c)
  have "insert (NewManager opts) (insert (BuildController c) (insert (BuildController operation_controller)
          (insert AddHealthzCheck (insert AddReadyzCheck
            {AddWatcher crt key | crt key. Some (crt, key) \<in> {webhook_files s, metrics_files s}})))) \<subseteq> calls (main W args)"
    using steps watcher [of _ _ "metrics_files s"] watcher [of _ _ "webhook_files s"] by (auto simp: run)
  with parsed(1) server c tls show thesis by (rule that)
qed

text \<open>What a server should have.\<close>

definition tls_of :: "settings \<Rightarrow> (string \<times> string) option \<Rightarrow> tls_config \<Rightarrow> tls_config" where
  "tls_of s files base =
     \<lparr>tc_protos = (if enableHTTP2 s then tc_protos base else [''http/1.1'']),
      tc_certificate = (case files of None \<Rightarrow> tc_certificate base | Some f \<Rightarrow> Some f)\<rparr>"


text \<open>The manager starts only after both controllers, both health checks and every certificate watcher were added to
  it, and a secure metrics endpoint has its authentication filter.\<close>

theorem started_complete:
  assumes "main W args = (cs, r)" and "Start mt wt \<in> set cs"
  shows "BuildController operation_controller \<in> set cs \<and> (\<exists>c. setupWithManager '''' (wo_mapper W) = Inr c \<and> BuildController c \<in> set cs) \<and>
    {AddHealthzCheck, AddReadyzCheck} \<subseteq> set cs \<and> (\<forall>crt key. NewCertWatcher crt key \<in> set cs \<longrightarrow> AddWatcher crt key \<in> set cs) \<and>
    (\<exists>opts. NewManager opts \<in> set cs \<and> mo_authenticated opts = mo_secure opts)"
proof -
  from assms have "Start mt wt \<in> calls (main W args)" by simp
  then obtain s others opts A c where run: "parse_command_line (wo_flags W) args = Inr (s, others)"
    "snd (server_options W s) = Inr (opts, A)" "setupWithManager '''' (wo_mapper W) = Inr c"
    and made: "insert (NewManager opts) (insert (BuildController c) (insert (BuildController operation_controller)
          (insert AddHealthzCheck (insert AddReadyzCheck
            {AddWatcher crt key | crt key. Some (crt, key) \<in> {webhook_files s, metrics_files s}})))) \<subseteq> calls (main W args)"
    by (rule start_calls)
  have watchers: "AddWatcher crt key \<in> set cs" if "NewCertWatcher crt key \<in> set cs" for crt key
  proof -
    from that assms(1) have "NewCertWatcher crt key \<in> calls (main W args)" by simp
    then have "NewCertWatcher crt key \<in> calls (server_options W s)"
      unfolding main_def by (auto simp: calls_go_on run init_scheme_def add_watcher_def split: sum.splits prod.splits option.splits)
    from server_calls [OF this] made assms(1) show ?thesis by auto
  qed
  have "mo_authenticated opts = mo_secure opts"
    using run(2) by (auto simp: server_options_def Let_def snd_go_on proceed_def split: prod.splits if_splits)
  with made watchers run(3) assms(1) show ?thesis by auto
qed

section \<open>Witnesses\<close>

text \<open>Everything succeeds; the arrays that \<open>append\<close> allocates have room for \<open>g\<close> elements.\<close>

definition sample_world :: "nat \<Rightarrow> world" where
  "sample_world g = \<lparr>wo_schemes = (None, None), wo_flags = [], wo_grow = (\<lambda>_ _. g), wo_call = (\<lambda>_. None), wo_mapper = (\<lambda>_. Inr ())\<rparr>"

definition two_certificates :: settings where
  "two_certificates = default_settings\<lparr>webhookCertPath := ''/w'', metricsCertPath := ''/m''\<rparr>"

lemma two_certificates_files:
  "webhook_files two_certificates = Some (''/w/tls.crt'', ''/w/tls.key'')" "metrics_files two_certificates = Some (''/m/tls.crt'', ''/m/tls.key'')"
  by (simp_all add: webhook_files_def metrics_files_def two_certificates_def default_settings_def cert_files_def path_join_def path_clean_def)

lemma sample_runs:
  "\<exists>cs opts c. main (sample_world 1) (arguments_of two_certificates) =
     ([NewCertWatcher ''/w/tls.crt'' ''/w/tls.key'', NewCertWatcher ''/m/tls.crt'' ''/m/tls.key'', GetConfig, NewManager opts, BuildController c,
       BuildController operation_controller, AddWatcher ''/m/tls.crt'' ''/m/tls.key'', AddWatcher ''/w/tls.crt'' ''/w/tls.key'',
       AddHealthzCheck, AddReadyzCheck,
       Start [DisableHTTP2, GetCertificate ''/m/tls.crt'' ''/m/tls.key''] [DisableHTTP2, GetCertificate ''/w/tls.crt'' ''/w/tls.key'']], Inr ())"
  by (simp add: main_def parse_arguments server_options_def watch_certificate_def add_watcher_def two_certificates_files go_on_def do_call_def
      proceed_def init_scheme_def sample_world_def append_one_def elements_def map_filter_simps setupWithManager_def with_kind_def
      gvkAvailableFromMapper_def) (simp add: two_certificates_def default_settings_def)

text \<open>
  With room for a second option the two servers share the array: the metrics certificate is appended over the
  webhook's, and the webhook server serves it. The language leaves the capacity to the runtime.
\<close>

lemma shared_options:
  "\<exists>cs tls. main (sample_world 2) (arguments_of two_certificates) = (cs, Inr ()) \<and> Start tls tls \<in> set cs \<and>
     tc_certificate (configured base tls) = metrics_files two_certificates"
proof -
  have "\<exists>cs. main (sample_world 2) (arguments_of two_certificates) = (cs, Inr ()) \<and>
      Start [DisableHTTP2, GetCertificate ''/m/tls.crt'' ''/m/tls.key''] [DisableHTTP2, GetCertificate ''/m/tls.crt'' ''/m/tls.key''] \<in> set cs"
    by (simp add: main_def parse_arguments server_options_def watch_certificate_def add_watcher_def two_certificates_files go_on_def do_call_def
        proceed_def init_scheme_def sample_world_def append_one_def elements_def map_filter_simps setupWithManager_def with_kind_def
        gvkAvailableFromMapper_def eval_nat_numeral) (simp add: two_certificates_def default_settings_def)
  moreover have "tc_certificate (configured base [DisableHTTP2, GetCertificate ''/m/tls.crt'' ''/m/tls.key'']) = metrics_files two_certificates"
    by (simp add: configured_def two_certificates_files)
  ultimately show ?thesis by blast
qed


theorem started_complete_witness:
  "\<exists>cs mt wt. main (sample_world 1) (arguments_of two_certificates) = (cs, Inr ()) \<and> Start mt wt \<in> set cs \<and>
     AddWatcher ''/w/tls.crt'' ''/w/tls.key'' \<in> set cs"
proof -
  from sample_runs obtain cs mt wt where run: "main (sample_world 1) (arguments_of two_certificates) = (cs, Inr ())" "Start mt wt \<in> set cs"
    and cert: "NewCertWatcher ''/w/tls.crt'' ''/w/tls.key'' \<in> set cs" by fastforce
  from started_complete [OF run] run cert show ?thesis by blast
qed

theorem startup_stops_witness:
  "\<exists>cs r. main ((sample_world 1)\<lparr>wo_call := (\<lambda>c. if c = GetConfig then Some (Errorf ''no kubeconfig'') else None)\<rparr>) [] = (cs, r) \<and>
     last cs = GetConfig \<and> r = Inl (Exit 1)"
proof -
  let ?W = "(sample_world 1)\<lparr>wo_call := (\<lambda>c. if c = GetConfig then Some (Errorf ''no kubeconfig'') else None)\<rparr>"
  have run: "main ?W [] = ([GetConfig], Inl (Exit 1))"
    by (simp add: main_def parse_command_line_def default_settings_def server_options_def watch_certificate_def go_on_def do_call_def
        proceed_def init_scheme_def sample_world_def append_one_def webhook_files_def metrics_files_def cert_files_def)
  from startup_stops [OF run] run show ?thesis by simp
qed


end
