(* ===== verification/ChartSync.thy ===== *)
theory ChartSync
  imports GoStd
begin

text \<open>
  \<open>hack/sync-chart-manager-rbac.go\<close>, which copies the rules of \<open>config/rbac/role.yaml\<close> into the Helm chart, or checks
  that they are in sync. Files are a map from paths to contents; what else the operating system may answer, and the YAML
  package, are parameters.
\<close>

section \<open>The tool\<close>

definition rolePath :: string where "rolePath = ''config/rbac/role.yaml''"

definition chartPath :: string where "chartPath = ''charts/nominatim-operator/templates/_manager-role-rules.tpl''"

definition newline :: string where "newline = [CHR 0x0A]"

definition header :: string where
  "header = ''{{/*'' @ newline @ ''Generated from config/rbac/role.yaml '' @ [CHR 0xE2, CHR 0x80, CHR 0x94] @ '' do not edit by hand.'' @ newline @
     ''Regenerate: make manifests'' @ newline @ ''*/}}'' @ newline @
     ''{{- define '' @ quote ''nominatim-operator.managerRoleRules'' @ '' -}}'' @ newline"

definition footer :: string where "footer = ''{{- end -}}'' @ newline"

type_synonym files = "string \<Rightarrow> string option"

text \<open>
  The working directory; paths besides files that exist; the errors of reading, making directories and writing that
  have other causes than a missing file, a failed write with what it leaves in the file; and the YAML package on the
  rules, whatever they are.
\<close>

record 'r machine =
  ma_wd :: "error + string"
  ma_other :: "string \<Rightarrow> bool"
  ma_read_error :: "string \<Rightarrow> error option"
  ma_mkdir_error :: "string \<Rightarrow> error option"
  ma_write_error :: "string \<Rightarrow> (error \<times> string option) option"
  ma_unmarshal :: "string \<Rightarrow> error + 'r list"
  ma_marshal :: "'r list \<Rightarrow> error + string"

definition read_file :: "'r machine \<Rightarrow> files \<Rightarrow> string \<Rightarrow> error + string" where
  "read_file M fs path =
     (case ma_read_error M path of
        Some e \<Rightarrow> Inl e
      | None \<Rightarrow> (case fs path of None \<Rightarrow> Inl (Errorf (''open '' @ path @ '': no such file or directory'')) | Some b \<Rightarrow> Inr b))"

definition path_exists :: "'r machine \<Rightarrow> files \<Rightarrow> string \<Rightarrow> bool" where
  "path_exists M fs path = (fs path \<noteq> None \<or> ma_other M path)"

definition write_file :: "'r machine \<Rightarrow> files \<Rightarrow> string \<Rightarrow> string \<Rightarrow> (error + unit) \<times> files" where
  "write_file M fs path b =
     (case ma_write_error M path of
        None \<Rightarrow> (Inr (), fs(path \<mapsto> b))
      | Some (e, left) \<Rightarrow> (Inl e, fs(path := left)))"

text \<open>The search for \<open>go.mod\<close> upwards ends: a directory is shorter than the path, up to the root or the dot.\<close>

definition climb :: "string \<Rightarrow> nat" where
  "climb d = (if d = [] then 3 else if d = ''.'' then 2 else 2 * length d + 1)"

lemma climb_dir: "path_dir d \<noteq> d \<Longrightarrow> climb (path_dir d) < climb d"
  using path_dir_shorter [of d] by (cases d) (auto simp: climb_def)

function find_root :: "(string \<Rightarrow> bool) \<Rightarrow> string \<Rightarrow> string option" where
  "find_root has dir =
     (if has (path_join [dir, ''go.mod'']) then Some dir
      else if path_dir dir = dir then None
      else find_root has (path_dir dir))"
  by pat_completeness auto

termination
  by (relation "measure (\<lambda>(has, d). climb d)") (simp_all add: climb_dir)

declare find_root.simps [simp del]

definition repoRoot :: "'r machine \<Rightarrow> files \<Rightarrow> error + string" where
  "repoRoot M fs =
     and_then (ma_wd M) (\<lambda>wd.
       case find_root (path_exists M fs) wd of
         None \<Rightarrow> Inl (Errorf (''go.mod not found from '' @ wd))
       | Some dir \<Rightarrow> Inr dir)"

definition rulesYAML :: "'r machine \<Rightarrow> files \<Rightarrow> string \<Rightarrow> error + string" where
  "rulesYAML M fs path =
     and_then (read_file M fs path) (\<lambda>raw.
     and_then (wrap_result (''parse '' @ path) (ma_unmarshal M raw)) (\<lambda>rules.
       if rules = [] then Inl (Errorf (path @ '': no rules'')) else ma_marshal M rules))"

text \<open>The flags: the status to exit with when they cannot be parsed, or whether to check only.\<close>

definition tool_flags :: "string \<Rightarrow> bool flag option" where
  "tool_flags n = (if n = ''check'' then Some (BoolFlag (\<lambda>b _. b)) else None)"

text \<open>How the tool ends: the status of \<open>flag.Parse\<close>, the error it prints before it exits with 1, or its output.\<close>

datatype run_end = FlagExit int | Failed_with error | Printed string

definition rendered :: "string \<Rightarrow> string" where
  "rendered rules = header @ rules @ footer"

definition check_chart :: "'r machine \<Rightarrow> files \<Rightarrow> string \<Rightarrow> string \<Rightarrow> run_end" where
  "check_chart M fs dest out =
     (case read_file M fs dest of
        Inl e \<Rightarrow> Failed_with (Wrap (''read '' @ chartPath) e)
      | Inr got \<Rightarrow>
          if TrimSpace got \<noteq> TrimSpace out then
            Failed_with (Errorf (chartPath @ '' is out of sync with '' @ rolePath @ newline @ ''run: make manifests''))
          else Printed (''ok: '' @ chartPath @ '' matches '' @ rolePath @ newline))"

definition write_chart :: "'r machine \<Rightarrow> files \<Rightarrow> string \<Rightarrow> string \<Rightarrow> run_end \<times> files" where
  "write_chart M fs dest out =
     (case ma_mkdir_error M (path_dir dest) of
        Some e \<Rightarrow> (Failed_with e, fs)
      | None \<Rightarrow>
          (case write_file M fs dest out of
             (Inl e, fs) \<Rightarrow> (Failed_with e, fs)
           | (Inr _, fs) \<Rightarrow> (Printed (''wrote '' @ chartPath @ '' ('' @ show_nat (length out) @ '' bytes)'' @ newline), fs)))"

definition sync_tool :: "'r machine \<Rightarrow> string list \<Rightarrow> files \<Rightarrow> run_end \<times> files" where
  "sync_tool M args fs =
     (case parse_flags tool_flags args False of
        Inl status \<Rightarrow> (FlagExit status, fs)
      | Inr check \<Rightarrow>
          (case and_then (repoRoot M fs) (\<lambda>root.
                  and_then (rulesYAML M fs (path_join [root, rolePath])) (\<lambda>want. Inr (path_join [root, chartPath], rendered want))) of
             Inl e \<Rightarrow> (Failed_with e, fs)
           | Inr (dest, out) \<Rightarrow> if check then (check_chart M fs dest out, fs) else write_chart M fs dest out))"

section \<open>Where it works\<close>

text \<open>The root is the nearest directory above the working directory, itself included, that has a \<open>go.mod\<close>; the search
  always ends, and fails only when no directory up to the root of the file system has one.\<close>

theorem nearest_root:
  "(case find_root has dir of
      Some root \<Rightarrow> (\<exists>n. root = (path_dir ^^ n) dir \<and> has (path_join [root, ''go.mod'']) \<and>
        (\<forall>m < n. \<not> has (path_join [(path_dir ^^ m) dir, ''go.mod''])))
    | None \<Rightarrow> (\<forall>n. \<not> has (path_join [(path_dir ^^ n) dir, ''go.mod''])))"
proof (induction has dir rule: find_root.induct)
  case (1 has dir)
  consider "has (path_join [dir, ''go.mod''])" | "\<not> has (path_join [dir, ''go.mod''])" "path_dir dir = dir"
    | "\<not> has (path_join [dir, ''go.mod''])" "path_dir dir \<noteq> dir" by blast
  then show ?case
  proof cases
    case 1
    then show ?thesis by (auto simp: find_root.simps [of has dir] intro: exI [of _ 0])
  next
    case 2
    then have "(path_dir ^^ n) dir = dir" for n by (induction n) simp_all
    with 2 show ?thesis by (simp add: find_root.simps [of has dir])
  next
    case 3
    note IH = 1 [OF 3]
    have up: "(path_dir ^^ n) (path_dir dir) = (path_dir ^^ Suc n) dir" for n by (simp add: funpow_swap1)
    show ?thesis
    proof (cases "find_root has (path_dir dir)")
      case None
      with IH have above: "\<not> has (path_join [(path_dir ^^ Suc n) dir, ''go.mod''])" for n by (simp add: up del: funpow.simps)
      have "\<not> has (path_join [(path_dir ^^ n) dir, ''go.mod''])" for n using above 3(1) by (cases n) simp_all
      with None 3 show ?thesis by (simp add: find_root.simps [of has dir])
    next
      case (Some root)
      with IH obtain n where n: "root = (path_dir ^^ Suc n) dir" "has (path_join [root, ''go.mod''])"
        "\<forall>m < n. \<not> has (path_join [(path_dir ^^ Suc m) dir, ''go.mod''])" by (auto simp: up simp del: funpow.simps)
      have "\<forall>m < Suc n. \<not> has (path_join [(path_dir ^^ m) dir, ''go.mod''])"
      proof (intro allI impI)
        fix m assume "m < Suc n"
        with n(3) 3(1) show "\<not> has (path_join [(path_dir ^^ m) dir, ''go.mod''])" by (cases m) auto
      qed
      with n Some 3 show ?thesis by (auto simp: find_root.simps [of has dir] intro!: exI [of _ "Suc n"])
    qed
  qed
qed

text \<open>A check leaves every file as it is, and a sync changes none but the chart's file below the root.\<close>

theorem only_chart_written:
  assumes "sync_tool M args fs = (e, fs')" and "fs' path \<noteq> fs path"
  shows "parse_flags tool_flags args False = Inr False \<and> (\<exists>root. repoRoot M fs = Inr root \<and> path = path_join [root, chartPath])"
  using assms
  by (auto simp: sync_tool_def write_chart_def write_file_def split: sum.splits if_splits option.splits prod.splits)

section \<open>Sync, then check\<close>

lemma chart_apart:
  "path_join [root, chartPath] \<noteq> path_join [d, ''go.mod'']" "path_join [root, chartPath] \<noteq> path_join [root', rolePath]"
proof -
  have chart: "suffix ''_manager-role-rules.tpl'' (path_join [root, chartPath])"
    using join_suffix(2) [of "''_manager-role-rules.tpl''" root "''charts/nominatim-operator/templates''"] by (simp add: chartPath_def)
  have role: "suffix ''role.yaml'' (path_join [root', rolePath])"
    using join_suffix(2) [of "''role.yaml''" root' "''config/rbac''"] by (simp add: rolePath_def)
  have mod: "suffix ''go.mod'' (path_join [d, ''go.mod''])"
    using join_suffix(1) [of "''go.mod''" d] by (cases "d = []") (simp_all add: path_join_def path_clean_def)
  show "path_join [root, chartPath] \<noteq> path_join [root', rolePath]" using chart role by (auto simp: suffix_def)
  show "path_join [root, chartPath] \<noteq> path_join [d, ''go.mod'']" using chart mod by (auto simp: suffix_def)
qed

lemma find_root_cong:
  "(\<And>d. has (path_join [d, ''go.mod'']) = has' (path_join [d, ''go.mod''])) \<Longrightarrow> find_root has dir = find_root has' dir"
proof (induction has dir rule: find_root.induct)
  case (1 has dir)
  then show ?case by (simp add: find_root.simps [of has dir] find_root.simps [of has' dir])
qed

text \<open>C39. What a sync has written passes the check: where the chart can be read back, a check on the files that a
  successful sync left behind succeeds.\<close>

theorem synced_then_checked:
  assumes "sync_tool M [] fs = (Printed message, fs')" and "\<forall>root. ma_read_error M (path_join [root, chartPath]) = None"
  shows "\<exists>ok. sync_tool M [''--check''] fs' = (Printed ok, fs')"
proof -
  from assms(1) obtain root want where root: "repoRoot M fs = Inr root"
    and want: "rulesYAML M fs (path_join [root, rolePath]) = Inr want"
    and new: "fs' = fs(path_join [root, chartPath] \<mapsto> rendered want)"
    by (auto simp: sync_tool_def write_chart_def write_file_def split: sum.splits if_splits option.splits prod.splits)
  let ?dest = "path_join [root, chartPath]"
  have "path_exists M fs' (path_join [d, ''go.mod'']) = path_exists M fs (path_join [d, ''go.mod''])" for d
    using chart_apart(1) [of root d] by (simp add: new path_exists_def)
  then have root': "repoRoot M fs' = Inr root"
    using root find_root_cong [of "path_exists M fs'" "path_exists M fs"] by (cases "ma_wd M") (simp_all add: repoRoot_def)
  have "read_file M fs' (path_join [root, rolePath]) = read_file M fs (path_join [root, rolePath])"
    using chart_apart(2) [of root root, THEN not_sym] by (simp add: read_file_def new split: option.split)
  with want have want': "rulesYAML M fs' (path_join [root, rolePath]) = Inr want" by (simp only: rulesYAML_def)
  have "read_file M fs' ?dest = Inr (rendered want)" using assms(2) by (simp add: read_file_def new)
  moreover have "parse_flags tool_flags [''--check''] False = Inr True"
    by (simp add: read_argument_def tool_flags_def parse_bool_def)
  ultimately show ?thesis
    by (simp add: sync_tool_def root' want' check_chart_def del: parse_flags.simps)
qed

section \<open>Witnesses\<close>

text \<open>A repository in \<open>/r\<close>, the tool run in \<open>/r/hack\<close>; the YAML is one rule per file.\<close>

definition sample_machine :: "string machine" where
  "sample_machine = \<lparr>ma_wd = Inr ''/r/hack'', ma_other = (\<lambda>_. False), ma_read_error = (\<lambda>_. None), ma_mkdir_error = (\<lambda>_. None),
     ma_write_error = (\<lambda>_. None), ma_unmarshal = (\<lambda>b. Inr [b]), ma_marshal = (\<lambda>rules. Inr (concat rules))\<rparr>"

definition sample_files :: files where
  "sample_files = [''/r/go.mod'' \<mapsto> ''module'', ''/r/config/rbac/role.yaml'' \<mapsto> ''rules'']"

lemma sample_paths:
  "path_join [''/r/hack'', ''go.mod''] = ''/r/hack/go.mod''" "path_dir ''/r/hack'' = ''/r''" "path_join [''/r'', ''go.mod''] = ''/r/go.mod''"
  "path_join [''/r'', rolePath] = ''/r/config/rbac/role.yaml''"
  by (simp_all add: path_join_def path_clean_def path_dir_def rolePath_def)

lemma sample_root: "repoRoot sample_machine sample_files = Inr ''/r''"
  by (simp add: repoRoot_def sample_machine_def find_root.simps [of _ "''/r/hack''"] find_root.simps [of _ "''/r''"] sample_paths
      path_exists_def sample_files_def)

lemma sample_sync:
  "\<exists>m. sync_tool sample_machine [] sample_files = (Printed m, sample_files(path_join [''/r'', chartPath] \<mapsto> rendered ''rules''))"
proof -
  have "rulesYAML sample_machine sample_files ''/r/config/rbac/role.yaml'' = Inr ''rules''"
    by (simp add: rulesYAML_def read_file_def sample_machine_def sample_files_def)
  moreover have "\<exists>m. write_chart sample_machine fs dest out = (Printed m, fs(dest \<mapsto> out))" for fs dest out
    by (simp add: write_chart_def write_file_def sample_machine_def)
  ultimately show ?thesis by (simp add: sync_tool_def sample_root sample_paths)
qed

theorem synced_then_checked_witness:
  "\<exists>ok. sync_tool sample_machine [''--check''] (sample_files(path_join [''/r'', chartPath] \<mapsto> rendered ''rules'')) =
     (Printed ok, sample_files(path_join [''/r'', chartPath] \<mapsto> rendered ''rules''))"
proof -
  from sample_sync obtain m where run: "sync_tool sample_machine [] sample_files =
      (Printed m, sample_files(path_join [''/r'', chartPath] \<mapsto> rendered ''rules''))" ..
  show ?thesis by (rule synced_then_checked [OF run]) (simp add: sample_machine_def)
qed

theorem only_chart_written_witness:
  "\<exists>root. repoRoot sample_machine sample_files = Inr root \<and> path_join [''/r'', chartPath] = path_join [root, chartPath]"
proof -
  from sample_sync obtain m where run: "sync_tool sample_machine [] sample_files =
      (Printed m, sample_files(path_join [''/r'', chartPath] \<mapsto> rendered ''rules''))" ..
  have "sample_files (path_join [''/r'', chartPath]) = None"
    using chart_apart(2) [of "''/r''" "''/r''"] chart_apart(1) [of "''/r''" "''/r''"] by (simp add: sample_files_def sample_paths)
  with only_chart_written [OF run, of "path_join [''/r'', chartPath]"] show ?thesis by simp
qed

end
