(* ===== verification/GoHeap.thy ===== *)
theory GoHeap
  imports Prelude
begin

text \<open>
  Go values that refer to memory, for the generated deep copies: a heap of cells, values with pointers, slices and maps
  into it, the types they have, and the statements that the generated code is made of. A value of a type denotes a
  tree; its footprint is the set of the addresses it reaches.
\<close>

section \<open>Values and the heap\<close>

type_synonym addr = nat

text \<open>A slice is an array, the offset of its first element and its length; \<open>None\<close> is nil.\<close>

datatype gval =
    Atom string
  | Struct "(string \<times> gval) list"
  | Ptr "addr option"
  | Slice "(addr \<times> nat \<times> nat) option"
  | GoMap "addr option"

datatype cell = Cell gval | Array "gval list" | Table "(string \<times> string) list"

type_synonym heap = "cell list"

definition read :: "heap \<Rightarrow> addr \<Rightarrow> cell option" where
  "read h a = (if a < length h then Some (h ! a) else None)"

text \<open>The value of memory that \<open>new\<close> and \<open>make\<close> return; everything here writes it before it is read.\<close>

definition zero_value :: gval where "zero_value = Atom ''''"

section \<open>The statements of the generated code\<close>

text \<open>A copier takes \<open>*in\<close> and gives what is stored in \<open>*out\<close>; the plain assignment shares whatever the value refers to.\<close>

type_synonym copier = "gval \<Rightarrow> heap \<Rightarrow> gval \<times> heap"

definition assign :: copier where
  "assign v h = (v, h)"

text \<open>\<open>if in != nil \<lbrace> *out = new(T); (*in).DeepCopyInto(*out) \<rbrace>\<close>\<close>

definition new_of :: "copier \<Rightarrow> copier" where
  "new_of c p h =
     (case p of
        Ptr (Some a) \<Rightarrow>
          (case read h a of
             Some (Cell v) \<Rightarrow>
               let n = length h; (v', h') = c v (h @ [Cell zero_value]) in (Ptr (Some n), h'[n := Cell v'])
           | _ \<Rightarrow> (p, h))
      | _ \<Rightarrow> (p, h))"

text \<open>\<open>*out = make([]T, len(*in)); for i := range *in \<lbrace> (*in)[i].DeepCopyInto(&(*out)[i]) \<rbrace>\<close>, and \<open>copy(*out, *in)\<close>\<close>

fun copy_each :: "copier \<Rightarrow> gval list \<Rightarrow> heap \<Rightarrow> gval list \<times> heap" where
  "copy_each c [] h = ([], h)"
| "copy_each c (v # vs) h = (let (v', h) = c v h; (vs', h) = copy_each c vs h in (v' # vs', h))"

definition make_of :: "copier \<Rightarrow> copier" where
  "make_of c s h =
     (case s of
        Slice (Some (a, i, n)) \<Rightarrow>
          (case read h a of
             Some (Array vs) \<Rightarrow>
               let m = length h; (vs', h') = copy_each c (take n (drop i vs)) (h @ [Array (replicate n zero_value)])
               in (Slice (Some (m, 0, n)), h'[m := Array vs'])
           | _ \<Rightarrow> (s, h))
      | _ \<Rightarrow> (s, h))"

text \<open>\<open>*out = make(map[string]string, len(*in)); for key, val := range *in \<lbrace> (*out)[key] = val \<rbrace>\<close>\<close>

definition make_map :: copier where
  "make_map s h =
     (case s of
        GoMap (Some a) \<Rightarrow>
          (case read h a of
             Some (Table kvs) \<Rightarrow> (GoMap (Some (length h)), h @ [Table (fold (\<lambda>(key, val) out. AList.update key val out) kvs [])])
           | _ \<Rightarrow> (s, h))
      | _ \<Rightarrow> (s, h))"

text \<open>\<open>*out = *in\<close>, then statements on fields of \<open>in\<close> and \<open>out\<close> of the same name.\<close>

fun copy_fields :: "(string \<times> copier) list \<Rightarrow> (string \<times> gval) list \<Rightarrow> (string \<times> gval) list \<Rightarrow> heap \<Rightarrow> (string \<times> gval) list \<times> heap" where
  "copy_fields [] ins outs h = (outs, h)"
| "copy_fields ((f, c) # acts) ins outs h =
     (case map_of ins f of
        Some v \<Rightarrow> let (v', h) = c v h in copy_fields acts ins (AList.update f v' outs) h
      | None \<Rightarrow> copy_fields acts ins outs h)"

definition into :: "(string \<times> copier) list \<Rightarrow> copier" where
  "into acts v h = (case v of Struct fs \<Rightarrow> let (outs, h) = copy_fields acts fs fs h in (Struct outs, h) | _ \<Rightarrow> (v, h))"

text \<open>\<open>DeepCopyObject\<close>: no interface value for a nil pointer.\<close>

definition as_object :: "gval \<times> heap \<Rightarrow> gval option \<times> heap" where
  "as_object r = (case r of (Ptr None, h) \<Rightarrow> (None, h) | (c, h) \<Rightarrow> (Some c, h))"

section \<open>Types and what values denote\<close>

datatype gtype = Basic | StructOf "(string \<times> gtype) list" | PtrTo gtype | SliceOf gtype | StringMap

datatype tree =
    TAtom string | TStruct "(string \<times> tree) list" | TNil | TPtr tree | TSlice "tree list" | TMap "(string \<times> string) list"

text \<open>In the heap \<open>h\<close> the value has the type, denotes the tree and reaches exactly the addresses.\<close>

inductive denotes :: "heap \<Rightarrow> gtype \<Rightarrow> gval \<Rightarrow> tree \<Rightarrow> addr set \<Rightarrow> bool"
  and denote_each :: "heap \<Rightarrow> gtype \<Rightarrow> gval list \<Rightarrow> tree list \<Rightarrow> addr set \<Rightarrow> bool"
  and denote_fields :: "heap \<Rightarrow> (string \<times> gtype) list \<Rightarrow> (string \<times> gval) list \<Rightarrow> (string \<times> tree) list \<Rightarrow> addr set \<Rightarrow> bool"
  for h where
  basic: "denotes h Basic (Atom s) (TAtom s) {}"
| nil_ptr: "denotes h (PtrTo ty) (Ptr None) TNil {}"
| ptr: "read h a = Some (Cell v) \<Longrightarrow> denotes h ty v t A \<Longrightarrow> denotes h (PtrTo ty) (Ptr (Some a)) (TPtr t) (insert a A)"
| nil_slice: "denotes h (SliceOf ty) (Slice None) TNil {}"
| slice: "read h a = Some (Array vs) \<Longrightarrow> i + n \<le> length vs \<Longrightarrow> denote_each h ty (take n (drop i vs)) ts A \<Longrightarrow>
    denotes h (SliceOf ty) (Slice (Some (a, i, n))) (TSlice ts) (insert a A)"
| nil_map: "denotes h StringMap (GoMap None) TNil {}"
| table: "read h a = Some (Table kvs) \<Longrightarrow> distinct (map fst kvs) \<Longrightarrow> denotes h StringMap (GoMap (Some a)) (TMap kvs) {a}"
| fields: "denote_fields h tys fs ts A \<Longrightarrow> denotes h (StructOf tys) (Struct fs) (TStruct ts) A"
| each_nil: "denote_each h ty [] [] {}"
| each_cons: "denotes h ty v t A \<Longrightarrow> denote_each h ty vs ts B \<Longrightarrow> denote_each h ty (v # vs) (t # ts) (A \<union> B)"
| fields_nil: "denote_fields h [] [] [] {}"
| fields_cons: "denotes h ty v t A \<Longrightarrow> denote_fields h tys fs ts B \<Longrightarrow>
    denote_fields h ((f, ty) # tys) ((f, v) # fs) ((f, t) # ts) (A \<union> B)"

inductive_cases denotes_ptrE: "denotes h (PtrTo ty) v t A"
inductive_cases denotes_sliceE: "denotes h (SliceOf ty) v t A"
inductive_cases denotes_mapE: "denotes h StringMap v t A"
inductive_cases denotes_structE: "denotes h (StructOf tys) v t A"
inductive_cases denotes_basicE: "denotes h Basic v t A"
inductive_cases each_consE: "denote_each h ty (v # vs) ts A"
inductive_cases each_nilE: "denote_each h ty [] ts A"
inductive_cases fields_consE: "denote_fields h (x # tys) fs ts A"
inductive_cases fields_nilE: "denote_fields h [] fs ts A"

text \<open>A value stays what it is in every heap that agrees on its footprint.\<close>

definition agree :: "addr set \<Rightarrow> heap \<Rightarrow> heap \<Rightarrow> bool" where
  "agree A h h' = (\<forall>a \<in> A. read h' a = read h a)"

lemma agree_simps [simp]:
  "agree {} h h'" "agree (insert a A) h h' = (read h' a = read h a \<and> agree A h h')"
  "agree (A \<union> B) h h' = (agree A h h' \<and> agree B h h')"
  by (auto simp: agree_def)

lemma denotes_agree:
  "denotes h ty v t A \<Longrightarrow> agree A h h' \<Longrightarrow> denotes h' ty v t A"
  "denote_each h ty vs ts A \<Longrightarrow> agree A h h' \<Longrightarrow> denote_each h' ty vs ts A"
  "denote_fields h tys fs trs A \<Longrightarrow> agree A h h' \<Longrightarrow> denote_fields h' tys fs trs A"
proof (induction rule: denotes_denote_each_denote_fields.inducts)
  case (ptr a v ty t A)
  then show ?case by (intro denotes_denote_each_denote_fields.ptr) simp_all
next
  case (slice a vs i n ty ts A)
  then show ?case by (intro denotes_denote_each_denote_fields.slice) simp_all
qed (simp_all add: basic nil_ptr nil_slice nil_map table fields each_nil each_cons fields_nil fields_cons)

lemma read_bound: "read h a = Some c \<Longrightarrow> a < length h"
  by (simp add: read_def split: if_splits)

lemma footprint_bound:
  "denotes h ty v t A \<Longrightarrow> A \<subseteq> {..< length h}"
  "denote_each h ty vs ts A \<Longrightarrow> A \<subseteq> {..< length h}"
  "denote_fields h tys fs trs A \<Longrightarrow> A \<subseteq> {..< length h}"
  by (induction rule: denotes_denote_each_denote_fields.inducts) (auto dest: read_bound)

lemma agree_prefix: "A \<subseteq> {..< length h} \<Longrightarrow> prefix h h' \<Longrightarrow> agree A h h'"
  by (auto simp: agree_def read_def prefix_def nth_append)

lemma denotes_prefix:
  "denotes h ty v t A \<Longrightarrow> prefix h h' \<Longrightarrow> denotes h' ty v t A"
  "denote_each h ty vs ts A \<Longrightarrow> prefix h h' \<Longrightarrow> denote_each h' ty vs ts A"
  "denote_fields h tys fs trs A \<Longrightarrow> prefix h h' \<Longrightarrow> denote_fields h' tys fs trs A"
  using denotes_agree(1) agree_prefix [OF footprint_bound(1)] apply metis
  using denotes_agree(2) agree_prefix [OF footprint_bound(2)] apply metis
  using denotes_agree(3) agree_prefix [OF footprint_bound(3)] apply metis
  done

section \<open>Types without references\<close>

fun flat :: "gtype \<Rightarrow> bool" where
  "flat Basic = True"
| "flat (StructOf tys) = (\<forall>x \<in> set tys. flat (snd x))"
| "flat _ = False"

lemma flat_footprint:
  "denotes h ty v t A \<Longrightarrow> flat ty \<Longrightarrow> A = {}"
  "denote_each h ty vs ts A \<Longrightarrow> flat ty \<Longrightarrow> A = {}"
  "denote_fields h tys fs trs A \<Longrightarrow> flat (StructOf tys) \<Longrightarrow> A = {}"
  by (induction rule: denotes_denote_each_denote_fields.inducts) simp_all

section \<open>Deep copiers\<close>

text \<open>The copy denotes the same tree over new memory only, and the memory of before is as it was.\<close>

definition fresh :: "heap \<Rightarrow> heap \<Rightarrow> addr set" where
  "fresh h h' = {length h ..< length h'}"

definition deep :: "gtype \<Rightarrow> copier \<Rightarrow> bool" where
  "deep ty c =
     (\<forall>h v t A. denotes h ty v t A \<longrightarrow>
        (case c v h of (v', h') \<Rightarrow> prefix h h' \<and> (\<exists>B \<subseteq> fresh h h'. denotes h' ty v' t B)))"

lemma deepD:
  assumes "deep ty c" and "denotes h ty v t A" and "c v h = (v', h')"
  shows "prefix h h'" and "\<exists>B \<subseteq> fresh h h'. denotes h' ty v' t B"
  using assms(1) [unfolded deep_def, rule_format, OF assms(2)] assms(3) by simp_all

lemma fresh_trans: "prefix h h1 \<Longrightarrow> prefix h1 h2 \<Longrightarrow> A \<subseteq> fresh h h1 \<Longrightarrow> B \<subseteq> fresh h1 h2 \<Longrightarrow> A \<union> B \<subseteq> fresh h h2"
  using prefix_length_le [of h h1] prefix_length_le [of h1 h2] unfolding fresh_def by (intro Un_least; (elim subset_trans)?; simp)

lemma deep_assign [intro]: "flat ty \<Longrightarrow> deep ty assign"
  by (auto simp: deep_def assign_def dest: flat_footprint(1))

text \<open>What is allocated first is filled last.\<close>

lemma fill:
  assumes "prefix (h @ [z]) h'" and "B \<subseteq> fresh (h @ [z]) h'"
  shows "prefix h (h'[length h := c])" and "agree B h' (h'[length h := c])" and "read (h'[length h := c]) (length h) = Some c"
    and "insert (length h) B \<subseteq> fresh h (h'[length h := c])"
proof -
  from assms(1) obtain zs where h': "h' = h @ z # zs" by (auto simp: prefix_def)
  then have new: "h'[length h := c] = h @ c # zs" by simp
  show "prefix h (h'[length h := c])" "read (h'[length h := c]) (length h) = Some c" by (simp_all add: new read_def)
  show "agree B h' (h'[length h := c])"
    using assms(2) by (auto simp: agree_def read_def fresh_def nth_list_update subset_iff)
  show "insert (length h) B \<subseteq> fresh h (h'[length h := c])"
    using assms(2) by (auto simp: fresh_def h' subset_iff)
qed

lemma deep_new [intro]:
  assumes "deep ty c"
  shows "deep (PtrTo ty) (new_of c)"
  unfolding deep_def
proof (intro allI impI)
  fix h p t A assume "denotes h (PtrTo ty) p t A"
  then show "case new_of c p h of (p', h') \<Rightarrow> prefix h h' \<and> (\<exists>B \<subseteq> fresh h h'. denotes h' (PtrTo ty) p' t B)"
  proof (cases rule: denotes_ptrE [consumes 1])
    case 1
    then show ?thesis by (auto simp: new_of_def intro!: exI [of _ "{}"] nil_ptr)
  next
    case (2 a v t' A')
    obtain v' h' where run: "c v (h @ [Cell zero_value]) = (v', h')" by force
    have "denotes (h @ [Cell zero_value]) ty v t' A'" using 2(5) by (rule denotes_prefix) simp
    from deepD [OF assms this run] obtain B where B: "prefix (h @ [Cell zero_value]) h'" "B \<subseteq> fresh (h @ [Cell zero_value]) h'"
      "denotes h' ty v' t' B" by blast
    note filled = fill [OF B(1,2), of "Cell v'"]
    have "denotes (h'[length h := Cell v']) (PtrTo ty) (Ptr (Some (length h))) (TPtr t') (insert (length h) B)"
      using filled(3) denotes_agree(1) [OF B(3) filled(2)] by (rule ptr)
    with filled(1,4) 2(1,2,4) run show ?thesis by (auto simp: new_of_def Let_def intro!: exI [of _ "insert (length h) B"])
  qed
qed

lemma deep_each:
  assumes "deep ty c"
  shows "denote_each h ty vs ts A \<Longrightarrow> copy_each c vs h = (vs', h') \<Longrightarrow>
    prefix h h' \<and> length vs' = length vs \<and> (\<exists>B \<subseteq> fresh h h'. denote_each h' ty vs' ts B)"
proof (induction vs arbitrary: h ts A vs' h')
  case Nil
  then show ?case by (auto elim: each_nilE intro: each_nil)
next
  case (Cons v vs)
  from Cons.prems(1) obtain t ts' A1 A2 where t: "ts = t # ts'" "denotes h ty v t A1" "denote_each h ty vs ts' A2"
    by (elim each_consE)
  from Cons.prems(2) obtain v' h1 vs1 where run: "c v h = (v', h1)" "copy_each c vs h1 = (vs1, h')" "vs' = v' # vs1"
    by (auto simp: Let_def split: prod.splits)
  from deepD [OF assms t(2) run(1)] obtain B1 where B1: "prefix h h1" "B1 \<subseteq> fresh h h1" "denotes h1 ty v' t B1" by blast
  from Cons.IH [OF denotes_prefix(2) [OF t(3) B1(1)] run(2)] obtain B2 where
    B2: "prefix h1 h'" "length vs1 = length vs" "B2 \<subseteq> fresh h1 h'" "denote_each h' ty vs1 ts' B2" by blast
  have "denote_each h' ty vs' ts (B1 \<union> B2)"
    unfolding run(3) t(1) by (rule each_cons [OF denotes_prefix(1) [OF B1(3) B2(1)] B2(4)])
  with fresh_trans [OF B1(1) B2(1) B1(2) B2(3)] prefix_order.trans [OF B1(1) B2(1)] B2(2) run(3)
  show ?case by (intro conjI exI [of _ "B1 \<union> B2"]) simp_all
qed

lemma deep_make [intro]:
  assumes "deep ty c"
  shows "deep (SliceOf ty) (make_of c)"
  unfolding deep_def
proof (intro allI impI)
  fix h s t A assume "denotes h (SliceOf ty) s t A"
  then show "case make_of c s h of (s', h') \<Rightarrow> prefix h h' \<and> (\<exists>B \<subseteq> fresh h h'. denotes h' (SliceOf ty) s' t B)"
  proof (cases rule: denotes_sliceE [consumes 1])
    case 1
    then show ?thesis by (auto simp: make_of_def intro!: exI [of _ "{}"] nil_slice)
  next
    case (2 a vs i n ts A')
    let ?h = "h @ [Array (replicate n zero_value)]"
    obtain vs' h' where run: "copy_each c (take n (drop i vs)) ?h = (vs', h')" by force
    have "denote_each ?h ty (take n (drop i vs)) ts A'" using 2(6) by (rule denotes_prefix) simp
    from deep_each [OF assms this run] obtain B where B: "prefix ?h h'" "B \<subseteq> fresh ?h h'"
      "denote_each h' ty vs' ts B" and len: "length vs' = n" using 2(5) by auto
    note filled = fill [OF B(1,2), of "Array vs'"]
    have "denotes (h'[length h := Array vs']) (SliceOf ty) (Slice (Some (length h, 0, n))) (TSlice ts) (insert (length h) B)"
      by (rule slice [OF filled(3)]) (use len denotes_agree(2) [OF B(3) filled(2)] in simp_all)
    with filled(1,4) 2(1,2,4) run show ?thesis by (auto simp: make_of_def Let_def intro!: exI [of _ "insert (length h) B"])
  qed
qed

lemma update_all:
  "distinct (map fst (out @ kvs)) \<Longrightarrow> fold (\<lambda>(key, val) out. AList.update key val out) kvs out = out @ kvs"
proof (induction kvs arbitrary: out)
  case (Cons x kvs)
  have "AList.update (fst x) (snd x) out = out @ [x]" if "fst x \<notin> fst ` set out" using that by (induction out) auto
  with Cons.prems have "AList.update (fst x) (snd x) out = out @ [x]" by auto
  with Cons.IH [of "out @ [x]"] Cons.prems show ?case by (simp add: case_prod_beta)
qed simp

lemma deep_map [intro]: "deep StringMap make_map"
  unfolding deep_def
proof (intro allI impI)
  fix h s t A assume "denotes h StringMap s t A"
  then show "case make_map s h of (s', h') \<Rightarrow> prefix h h' \<and> (\<exists>B \<subseteq> fresh h h'. denotes h' StringMap s' t B)"
  proof (cases rule: denotes_mapE [consumes 1])
    case 1
    then show ?thesis by (auto simp: make_map_def intro!: exI [of _ "{}"] nil_map)
  next
    case (2 a kvs)
    have "denotes (h @ [Table kvs]) StringMap (GoMap (Some (length h))) (TMap kvs) {length h}"
      by (rule table) (use 2 in \<open>simp_all add: read_def\<close>)
    with 2 update_all [of "[]" kvs] show ?thesis by (auto simp: make_map_def fresh_def)
  qed
qed


section \<open>Structs\<close>

text \<open>
  The statements of a struct, in the order of its fields: each is a deep copier of its field's type, and the fields
  without one have no references, so that the assignment of the whole struct copies them.
\<close>

fun deep_fields :: "(string \<times> gtype) list \<Rightarrow> (string \<times> copier) list \<Rightarrow> bool" where
  "deep_fields [] acts = (acts = [])"
| "deep_fields ((f, ty) # tys) [] = (flat ty \<and> deep_fields tys [])"
| "deep_fields ((f, ty) # tys) ((g, c) # acts) =
     (if f = g then deep ty c \<and> f \<notin> fst ` set acts \<and> deep_fields tys acts
      else flat ty \<and> f \<notin> fst ` set ((g, c) # acts) \<and> deep_fields tys ((g, c) # acts))"

lemma copy_fields_skip:
  "f \<notin> fst ` set acts \<Longrightarrow> copy_fields acts ((f, v) # ins) ((f, w) # outs) h =
     (case copy_fields acts ins outs h of (outs', h') \<Rightarrow> ((f, w) # outs', h'))"
proof (induction acts ins outs h rule: copy_fields.induct)
  case (2 g c acts ins outs h)
  then show ?case by (auto split: option.splits prod.splits)
qed simp

lemma copy_fields_act:
  "f \<notin> fst ` set acts \<Longrightarrow> c v h = (v', h1) \<Longrightarrow> copy_fields ((f, c) # acts) ((f, v) # ins) ((f, v) # outs) h =
     (case copy_fields acts ins outs h1 of (outs', h') \<Rightarrow> ((f, v') # outs', h'))"
  by (simp add: copy_fields_skip)

lemma flat_rest: "deep_fields tys [] \<Longrightarrow> flat (StructOf tys)"
  by (induction tys) force+

lemma deep_copy_fields:
  "deep_fields tys acts \<Longrightarrow> denote_fields h tys fs ts A \<Longrightarrow> copy_fields acts fs fs h = (outs, h') \<Longrightarrow>
    prefix h h' \<and> (\<exists>B \<subseteq> fresh h h'. denote_fields h' tys outs ts B)"
proof (induction tys acts arbitrary: h fs ts A outs h' rule: deep_fields.induct)
  case (1 acts)
  then have "outs = []" "h' = h" "fs = []" "ts = []" by (auto elim: fields_nilE)
  then show ?case by (auto intro: fields_nil)
next
  case (2 f ty tys)
  then have "outs = fs" "h' = h" "flat (StructOf ((f, ty) # tys))" using flat_rest [OF 2(2)] by auto
  with 2(3) flat_footprint(3) [OF 2(3)] show ?case by auto
next
  case (3 f ty tys g c acts)
  from 3(4) obtain v fs' t ts' A1 A2 where fs: "fs = (f, v) # fs'" "ts = (f, t) # ts'"
    and v: "denotes h ty v t A1" and rest: "denote_fields h tys fs' ts' A2" by (elim fields_consE) auto
  show ?case
  proof (cases "f = g")
    case True
    with 3(3) have d: "deep ty c" and new: "f \<notin> fst ` set acts" and tail: "deep_fields tys acts" by simp_all
    obtain v' h1 where run1: "c v h = (v', h1)" by force
    obtain outs' where run2: "copy_fields acts fs' fs' h1 = (outs', h')" "outs = (f, v') # outs'"
      using 3(5) unfolding fs True [symmetric] copy_fields_act [where c = c and v = v and h = h, OF new run1] by (auto split: prod.splits)
    from deepD [OF d v run1] obtain B1 where B1: "prefix h h1" "B1 \<subseteq> fresh h h1" "denotes h1 ty v' t B1" by blast
    from 3(1) [OF True tail denotes_prefix(3) [OF rest B1(1)] run2(1)] obtain B2 where
      B2: "prefix h1 h'" "B2 \<subseteq> fresh h1 h'" "denote_fields h' tys outs' ts' B2" by blast
    have "denote_fields h' ((f, ty) # tys) outs ts (B1 \<union> B2)"
      unfolding run2(2) fs(2) by (rule fields_cons [OF denotes_prefix(1) [OF B1(3) B2(1)] B2(3)])
    with fresh_trans [OF B1(1) B2(1) B1(2) B2(2)] prefix_order.trans [OF B1(1) B2(1)] show ?thesis
      by (intro conjI exI [of _ "B1 \<union> B2"]) simp_all
  next
    case False
    with 3(3) have flat: "flat ty" and new: "f \<notin> fst ` set ((g, c) # acts)" and tail: "deep_fields tys ((g, c) # acts)" by simp_all
    obtain outs' where run: "copy_fields ((g, c) # acts) fs' fs' h = (outs', h')" "outs = (f, v) # outs'"
      using 3(5) unfolding fs copy_fields_skip [OF new] by (auto split: prod.splits)
    from 3(2) [OF False tail rest run(1)] obtain B where
      B: "prefix h h'" "B \<subseteq> fresh h h'" "denote_fields h' tys outs' ts' B" by blast
    have "denote_fields h' ((f, ty) # tys) outs ts (A1 \<union> B)"
      unfolding run(2) fs(2) by (rule fields_cons [OF denotes_prefix(1) [OF v B(1)] B(3)])
    with B flat_footprint(1) [OF v flat] show ?thesis by auto
  qed
qed

lemma deep_into [intro]:
  assumes "deep_fields tys acts"
  shows "deep (StructOf tys) (into acts)"
  unfolding deep_def
proof (intro allI impI)
  fix h v t A assume "denotes h (StructOf tys) v t A"
  then show "case into acts v h of (v', h') \<Rightarrow> prefix h h' \<and> (\<exists>B \<subseteq> fresh h h'. denotes h' (StructOf tys) v' t B)"
  proof (cases rule: denotes_structE [consumes 1])
    case (1 fs ts)
    obtain outs h' where run: "copy_fields acts fs fs h = (outs, h')" by force
    from deep_copy_fields [OF assms 1(3) run] 1 run show ?thesis by (auto simp: into_def intro: fields)
  qed
qed

section \<open>Isolation\<close>

text \<open>Whatever is written through the copy or to new memory, the original stays what it was.\<close>

lemma copy_isolated:
  assumes "deep ty c" and "denotes h ty v t A" and "c v h = (v', h')"
  obtains B where "denotes h' ty v' t B" and "A \<inter> B = {}"
    and "\<And>h''. agree (- B) h' h'' \<Longrightarrow> denotes h'' ty v t A"
proof -
  from deepD [OF assms] obtain B where B: "prefix h h'" "B \<subseteq> fresh h h'" "denotes h' ty v' t B" by blast
  have old: "denotes h' ty v t A" by (rule denotes_prefix(1) [OF assms(2) B(1)])
  have apart: "A \<inter> B = {}" using footprint_bound(1) [OF assms(2)] B(2) by (fastforce simp: fresh_def)
  have "denotes h'' ty v t A" if "agree (- B) h' h''" for h''
    by (rule denotes_agree(1) [OF old]) (use that apart in \<open>auto simp: agree_def\<close>)
  with that B(3) apart show ?thesis by blast
qed

text \<open>The copy of an object through its pointer.\<close>

lemma object_isolated:
  assumes "deep ty c" and "denotes h (PtrTo ty) p t A" and "p \<noteq> Ptr None" and "as_object (new_of c p h) = (copy, h')"
  shows "\<exists>q B. copy = Some q \<and> denotes h' (PtrTo ty) q t B \<and> A \<inter> B = {} \<and>
    (\<forall>h''. agree (- B) h' h'' \<longrightarrow> denotes h'' (PtrTo ty) p t A)"
proof -
  obtain q h1 where run: "new_of c p h = (q, h1)" by force
  from copy_isolated [OF deep_new [OF assms(1)] assms(2) run] obtain B where B: "denotes h1 (PtrTo ty) q t B" "A \<inter> B = {}"
    "\<And>h''. agree (- B) h1 h'' \<Longrightarrow> denotes h'' (PtrTo ty) p t A" by blast
  from assms(2,3) have "t \<noteq> TNil" by (auto elim: denotes_ptrE)
  with B(1) obtain a where "q = Ptr (Some a)" by (auto elim: denotes_ptrE)
  with assms(4) run have "copy = Some q" "h' = h1" by (auto simp: as_object_def)
  with B show ?thesis by blast
qed

end
