(* ===== verification/DeepCopy.thy ===== *)
theory DeepCopy
  imports GoHeap
begin

text \<open>
  \<open>api/v1alpha1/zz_generated.deepcopy.go\<close>: for every struct of the API its layout as the type files declare it, and the
  copy that the generated code makes of it, statement by statement. The structs of Kubernetes and their own copies are
  parameters. That a copier is deep says that the generated code fits the types: every field that refers to memory has
  its statement.
\<close>

section \<open>Structs of other packages\<close>

text \<open>Their layout, \<open>DeepCopyInto\<close> and \<open>DeepCopy\<close>, by the name of the type.\<close>

record foreign =
  fo_type :: "string \<Rightarrow> gtype"
  fo_into :: "string \<Rightarrow> copier"
  fo_copy :: "string \<Rightarrow> copier"

text \<open>Their copies are deep, and the two that are assigned (\<open>TypeMeta\<close>, \<open>ObjectReference\<close>) hold strings only.\<close>

definition foreign_ok :: "foreign \<Rightarrow> bool" where
  "foreign_ok F =
     ((\<forall>n. deep (fo_type F n) (fo_into F n) \<and> deep (PtrTo (fo_type F n)) (fo_copy F n)) \<and>
      flat (fo_type F ''TypeMeta'') \<and> flat (fo_type F ''ObjectReference''))"

lemma foreign_simps [simp]:
  assumes "foreign_ok F"
  shows "deep (fo_type F n) (fo_into F n)" "deep (PtrTo (fo_type F n)) (fo_copy F n)"
    "flat (fo_type F ''TypeMeta'')" "flat (fo_type F ''ObjectReference'')"
  using assms by (simp_all add: foreign_ok_def)

lemmas deep_rules [simp] = deep_assign deep_new deep_make deep_map

section \<open>The structs of the API\<close>

definition ImageSpec_type :: "foreign \<Rightarrow> gtype" where
  "ImageSpec_type F = StructOf
    [(''Repository'', Basic), (''Tag'', Basic), (''PullPolicy'', Basic)]"

definition ImageSpec_DeepCopyInto :: "foreign \<Rightarrow> copier" where
  "ImageSpec_DeepCopyInto F = into
    []"

definition ImageSpec_DeepCopy :: "foreign \<Rightarrow> copier" where
  "ImageSpec_DeepCopy F = new_of (ImageSpec_DeepCopyInto F)"

lemma ImageSpec_flat [simp]: "flat (ImageSpec_type F)"
  by (simp add: ImageSpec_type_def)

lemma ImageSpec_deep [simp]: "foreign_ok F \<Longrightarrow> deep (ImageSpec_type F) (ImageSpec_DeepCopyInto F)"
  unfolding ImageSpec_type_def ImageSpec_DeepCopyInto_def by (rule deep_into) simp

definition ParentReference_type :: "foreign \<Rightarrow> gtype" where
  "ParentReference_type F = StructOf
    [(''Group'', PtrTo Basic), (''Kind'', PtrTo Basic), (''Namespace'', PtrTo Basic), (''Name'', Basic),
     (''SectionName'', PtrTo Basic)]"

definition ParentReference_DeepCopyInto :: "foreign \<Rightarrow> copier" where
  "ParentReference_DeepCopyInto F = into
    [(''Group'', new_of assign), (''Kind'', new_of assign), (''Namespace'', new_of assign), (''SectionName'', new_of assign)]"

definition ParentReference_DeepCopy :: "foreign \<Rightarrow> copier" where
  "ParentReference_DeepCopy F = new_of (ParentReference_DeepCopyInto F)"

lemma ParentReference_deep [simp]: "foreign_ok F \<Longrightarrow> deep (ParentReference_type F) (ParentReference_DeepCopyInto F)"
  unfolding ParentReference_type_def ParentReference_DeepCopyInto_def by (rule deep_into) simp

definition RouteSpec_type :: "foreign \<Rightarrow> gtype" where
  "RouteSpec_type F = StructOf
    [(''ParentRefs'', SliceOf (ParentReference_type F)), (''Hostnames'', SliceOf Basic)]"

definition RouteSpec_DeepCopyInto :: "foreign \<Rightarrow> copier" where
  "RouteSpec_DeepCopyInto F = into
    [(''ParentRefs'', make_of (ParentReference_DeepCopyInto F)), (''Hostnames'', make_of assign)]"

definition RouteSpec_DeepCopy :: "foreign \<Rightarrow> copier" where
  "RouteSpec_DeepCopy F = new_of (RouteSpec_DeepCopyInto F)"

lemma RouteSpec_deep [simp]: "foreign_ok F \<Longrightarrow> deep (RouteSpec_type F) (RouteSpec_DeepCopyInto F)"
  unfolding RouteSpec_type_def RouteSpec_DeepCopyInto_def by (rule deep_into) simp

definition APISpec_type :: "foreign \<Rightarrow> gtype" where
  "APISpec_type F = StructOf
    [(''Replicas'', PtrTo Basic), (''Image'', PtrTo (ImageSpec_type F)), (''GunicornWorkers'', PtrTo Basic),
     (''PodSpec'', PtrTo (fo_type F ''RawExtension'')), (''Route'', PtrTo (RouteSpec_type F)),
     (''SuspendDuringOperations'', Basic)]"

definition APISpec_DeepCopyInto :: "foreign \<Rightarrow> copier" where
  "APISpec_DeepCopyInto F = into
    [(''Replicas'', new_of assign), (''Image'', new_of assign), (''GunicornWorkers'', new_of assign),
     (''PodSpec'', new_of (fo_into F ''RawExtension'')), (''Route'', new_of (RouteSpec_DeepCopyInto F))]"

definition APISpec_DeepCopy :: "foreign \<Rightarrow> copier" where
  "APISpec_DeepCopy F = new_of (APISpec_DeepCopyInto F)"

lemma APISpec_deep [simp]: "foreign_ok F \<Longrightarrow> deep (APISpec_type F) (APISpec_DeepCopyInto F)"
  unfolding APISpec_type_def APISpec_DeepCopyInto_def by (rule deep_into) simp

definition AuxDataSpec_type :: "foreign \<Rightarrow> gtype" where
  "AuxDataSpec_type F = StructOf
    [(''WikimediaImportance'', PtrTo Basic), (''SecondaryImportance'', PtrTo Basic), (''USPostcodes'', PtrTo Basic)]"

definition AuxDataSpec_DeepCopyInto :: "foreign \<Rightarrow> copier" where
  "AuxDataSpec_DeepCopyInto F = into
    [(''WikimediaImportance'', new_of assign), (''SecondaryImportance'', new_of assign), (''USPostcodes'', new_of assign)]"

definition AuxDataSpec_DeepCopy :: "foreign \<Rightarrow> copier" where
  "AuxDataSpec_DeepCopy F = new_of (AuxDataSpec_DeepCopyInto F)"

lemma AuxDataSpec_deep [simp]: "foreign_ok F \<Longrightarrow> deep (AuxDataSpec_type F) (AuxDataSpec_DeepCopyInto F)"
  unfolding AuxDataSpec_type_def AuxDataSpec_DeepCopyInto_def by (rule deep_into) simp

definition AuxDataStatus_type :: "foreign \<Rightarrow> gtype" where
  "AuxDataStatus_type F = StructOf
    [(''WikimediaImportance'', Basic), (''SecondaryImportance'', Basic), (''USPostcodes'', Basic)]"

definition AuxDataStatus_DeepCopyInto :: "foreign \<Rightarrow> copier" where
  "AuxDataStatus_DeepCopyInto F = into
    []"

definition AuxDataStatus_DeepCopy :: "foreign \<Rightarrow> copier" where
  "AuxDataStatus_DeepCopy F = new_of (AuxDataStatus_DeepCopyInto F)"

lemma AuxDataStatus_flat [simp]: "flat (AuxDataStatus_type F)"
  by (simp add: AuxDataStatus_type_def)

lemma AuxDataStatus_deep [simp]: "foreign_ok F \<Longrightarrow> deep (AuxDataStatus_type F) (AuxDataStatus_DeepCopyInto F)"
  unfolding AuxDataStatus_type_def AuxDataStatus_DeepCopyInto_def by (rule deep_into) simp

definition EmbeddedObjectMeta_type :: "foreign \<Rightarrow> gtype" where
  "EmbeddedObjectMeta_type F = StructOf
    [(''Name'', Basic), (''Labels'', StringMap), (''Annotations'', StringMap)]"

definition EmbeddedObjectMeta_DeepCopyInto :: "foreign \<Rightarrow> copier" where
  "EmbeddedObjectMeta_DeepCopyInto F = into
    [(''Labels'', make_map), (''Annotations'', make_map)]"

definition EmbeddedObjectMeta_DeepCopy :: "foreign \<Rightarrow> copier" where
  "EmbeddedObjectMeta_DeepCopy F = new_of (EmbeddedObjectMeta_DeepCopyInto F)"

lemma EmbeddedObjectMeta_deep [simp]: "foreign_ok F \<Longrightarrow> deep (EmbeddedObjectMeta_type F) (EmbeddedObjectMeta_DeepCopyInto F)"
  unfolding EmbeddedObjectMeta_type_def EmbeddedObjectMeta_DeepCopyInto_def by (rule deep_into) simp

definition VolumeClaimTemplate_type :: "foreign \<Rightarrow> gtype" where
  "VolumeClaimTemplate_type F = StructOf
    [(''Metadata'', EmbeddedObjectMeta_type F), (''Spec'', fo_type F ''PersistentVolumeClaimSpec'')]"

definition VolumeClaimTemplate_DeepCopyInto :: "foreign \<Rightarrow> copier" where
  "VolumeClaimTemplate_DeepCopyInto F = into
    [(''Metadata'', EmbeddedObjectMeta_DeepCopyInto F), (''Spec'', fo_into F ''PersistentVolumeClaimSpec'')]"

definition VolumeClaimTemplate_DeepCopy :: "foreign \<Rightarrow> copier" where
  "VolumeClaimTemplate_DeepCopy F = new_of (VolumeClaimTemplate_DeepCopyInto F)"

lemma VolumeClaimTemplate_deep [simp]: "foreign_ok F \<Longrightarrow> deep (VolumeClaimTemplate_type F) (VolumeClaimTemplate_DeepCopyInto F)"
  unfolding VolumeClaimTemplate_type_def VolumeClaimTemplate_DeepCopyInto_def by (rule deep_into) simp

definition DatabaseClusterCreate_type :: "foreign \<Rightarrow> gtype" where
  "DatabaseClusterCreate_type F = StructOf
    [(''Storage'', PtrTo (VolumeClaimTemplate_type F)), (''Instances'', PtrTo Basic),
     (''Resources'', PtrTo (fo_type F ''ResourceRequirements'')), (''Affinity'', PtrTo (fo_type F ''RawExtension'')),
     (''TopologySpreadConstraints'', SliceOf (fo_type F ''TopologySpreadConstraint''))]"

definition DatabaseClusterCreate_DeepCopyInto :: "foreign \<Rightarrow> copier" where
  "DatabaseClusterCreate_DeepCopyInto F = into
    [(''Storage'', new_of (VolumeClaimTemplate_DeepCopyInto F)), (''Instances'', new_of assign),
     (''Resources'', new_of (fo_into F ''ResourceRequirements'')), (''Affinity'', new_of (fo_into F ''RawExtension'')),
     (''TopologySpreadConstraints'', make_of (fo_into F ''TopologySpreadConstraint''))]"

definition DatabaseClusterCreate_DeepCopy :: "foreign \<Rightarrow> copier" where
  "DatabaseClusterCreate_DeepCopy F = new_of (DatabaseClusterCreate_DeepCopyInto F)"

lemma DatabaseClusterCreate_deep [simp]: "foreign_ok F \<Longrightarrow> deep (DatabaseClusterCreate_type F) (DatabaseClusterCreate_DeepCopyInto F)"
  unfolding DatabaseClusterCreate_type_def DatabaseClusterCreate_DeepCopyInto_def by (rule deep_into) simp

definition LocalObjectReference_type :: "foreign \<Rightarrow> gtype" where
  "LocalObjectReference_type F = StructOf
    [(''Name'', Basic)]"

definition LocalObjectReference_DeepCopyInto :: "foreign \<Rightarrow> copier" where
  "LocalObjectReference_DeepCopyInto F = into
    []"

definition LocalObjectReference_DeepCopy :: "foreign \<Rightarrow> copier" where
  "LocalObjectReference_DeepCopy F = new_of (LocalObjectReference_DeepCopyInto F)"

lemma LocalObjectReference_flat [simp]: "flat (LocalObjectReference_type F)"
  by (simp add: LocalObjectReference_type_def)

lemma LocalObjectReference_deep [simp]: "foreign_ok F \<Longrightarrow> deep (LocalObjectReference_type F) (LocalObjectReference_DeepCopyInto F)"
  unfolding LocalObjectReference_type_def LocalObjectReference_DeepCopyInto_def by (rule deep_into) simp

definition DatabaseClusterRef_type :: "foreign \<Rightarrow> gtype" where
  "DatabaseClusterRef_type F = StructOf
    [(''Name'', Basic), (''ConnectionSecretRef'', PtrTo (LocalObjectReference_type F))]"

definition DatabaseClusterRef_DeepCopyInto :: "foreign \<Rightarrow> copier" where
  "DatabaseClusterRef_DeepCopyInto F = into
    [(''ConnectionSecretRef'', new_of assign)]"

definition DatabaseClusterRef_DeepCopy :: "foreign \<Rightarrow> copier" where
  "DatabaseClusterRef_DeepCopy F = new_of (DatabaseClusterRef_DeepCopyInto F)"

lemma DatabaseClusterRef_deep [simp]: "foreign_ok F \<Longrightarrow> deep (DatabaseClusterRef_type F) (DatabaseClusterRef_DeepCopyInto F)"
  unfolding DatabaseClusterRef_type_def DatabaseClusterRef_DeepCopyInto_def by (rule deep_into) simp

definition PostgresProfiles_type :: "foreign \<Rightarrow> gtype" where
  "PostgresProfiles_type F = StructOf
    [(''Import'', StringMap), (''Runtime'', StringMap)]"

definition PostgresProfiles_DeepCopyInto :: "foreign \<Rightarrow> copier" where
  "PostgresProfiles_DeepCopyInto F = into
    [(''Import'', make_map), (''Runtime'', make_map)]"

definition PostgresProfiles_DeepCopy :: "foreign \<Rightarrow> copier" where
  "PostgresProfiles_DeepCopy F = new_of (PostgresProfiles_DeepCopyInto F)"

lemma PostgresProfiles_deep [simp]: "foreign_ok F \<Longrightarrow> deep (PostgresProfiles_type F) (PostgresProfiles_DeepCopyInto F)"
  unfolding PostgresProfiles_type_def PostgresProfiles_DeepCopyInto_def by (rule deep_into) simp

definition DatabaseSpec_type :: "foreign \<Rightarrow> gtype" where
  "DatabaseSpec_type F = StructOf
    [(''Cluster'', PtrTo (DatabaseClusterCreate_type F)), (''ClusterRef'', PtrTo (DatabaseClusterRef_type F)),
     (''ConnectionSecretRef'', PtrTo (LocalObjectReference_type F)), (''PostgresProfiles'', PtrTo (PostgresProfiles_type F)),
     (''PauseBackupsDuringOperations'', Basic), (''RebuildStrategy'', Basic)]"

definition DatabaseSpec_DeepCopyInto :: "foreign \<Rightarrow> copier" where
  "DatabaseSpec_DeepCopyInto F = into
    [(''Cluster'', new_of (DatabaseClusterCreate_DeepCopyInto F)),
     (''ClusterRef'', new_of (DatabaseClusterRef_DeepCopyInto F)), (''ConnectionSecretRef'', new_of assign),
     (''PostgresProfiles'', new_of (PostgresProfiles_DeepCopyInto F))]"

definition DatabaseSpec_DeepCopy :: "foreign \<Rightarrow> copier" where
  "DatabaseSpec_DeepCopy F = new_of (DatabaseSpec_DeepCopyInto F)"

lemma DatabaseSpec_deep [simp]: "foreign_ok F \<Longrightarrow> deep (DatabaseSpec_type F) (DatabaseSpec_DeepCopyInto F)"
  unfolding DatabaseSpec_type_def DatabaseSpec_DeepCopyInto_def by (rule deep_into) simp

definition DatabaseStatus_type :: "foreign \<Rightarrow> gtype" where
  "DatabaseStatus_type F = StructOf
    [(''Mode'', Basic), (''ConnectionSecretName'', Basic), (''ClusterName'', Basic), (''Degraded'', Basic)]"

definition DatabaseStatus_DeepCopyInto :: "foreign \<Rightarrow> copier" where
  "DatabaseStatus_DeepCopyInto F = into
    []"

definition DatabaseStatus_DeepCopy :: "foreign \<Rightarrow> copier" where
  "DatabaseStatus_DeepCopy F = new_of (DatabaseStatus_DeepCopyInto F)"

lemma DatabaseStatus_flat [simp]: "flat (DatabaseStatus_type F)"
  by (simp add: DatabaseStatus_type_def)

lemma DatabaseStatus_deep [simp]: "foreign_ok F \<Longrightarrow> deep (DatabaseStatus_type F) (DatabaseStatus_DeepCopyInto F)"
  unfolding DatabaseStatus_type_def DatabaseStatus_DeepCopyInto_def by (rule deep_into) simp

definition VolumeSource_type :: "foreign \<Rightarrow> gtype" where
  "VolumeSource_type F = StructOf
    [(''ClaimName'', Basic), (''VolumeClaimTemplate'', PtrTo (VolumeClaimTemplate_type F))]"

definition VolumeSource_DeepCopyInto :: "foreign \<Rightarrow> copier" where
  "VolumeSource_DeepCopyInto F = into
    [(''VolumeClaimTemplate'', new_of (VolumeClaimTemplate_DeepCopyInto F))]"

definition VolumeSource_DeepCopy :: "foreign \<Rightarrow> copier" where
  "VolumeSource_DeepCopy F = new_of (VolumeSource_DeepCopyInto F)"

lemma VolumeSource_deep [simp]: "foreign_ok F \<Longrightarrow> deep (VolumeSource_type F) (VolumeSource_DeepCopyInto F)"
  unfolding VolumeSource_type_def VolumeSource_DeepCopyInto_def by (rule deep_into) simp

definition FlatnodeSpec_type :: "foreign \<Rightarrow> gtype" where
  "FlatnodeSpec_type F = StructOf
    [(''Volume'', VolumeSource_type F)]"

definition FlatnodeSpec_DeepCopyInto :: "foreign \<Rightarrow> copier" where
  "FlatnodeSpec_DeepCopyInto F = into
    [(''Volume'', VolumeSource_DeepCopyInto F)]"

definition FlatnodeSpec_DeepCopy :: "foreign \<Rightarrow> copier" where
  "FlatnodeSpec_DeepCopy F = new_of (FlatnodeSpec_DeepCopyInto F)"

lemma FlatnodeSpec_deep [simp]: "foreign_ok F \<Longrightarrow> deep (FlatnodeSpec_type F) (FlatnodeSpec_DeepCopyInto F)"
  unfolding FlatnodeSpec_type_def FlatnodeSpec_DeepCopyInto_def by (rule deep_into) simp

definition NominatimAPIConfigSpec_type :: "foreign \<Rightarrow> gtype" where
  "NominatimAPIConfigSpec_type F = StructOf
    [(''PoolSize'', PtrTo Basic), (''QueryTimeoutSeconds'', PtrTo Basic), (''RequestTimeoutSeconds'', PtrTo Basic),
     (''DefaultLanguage'', Basic), (''CorsNoAccessControl'', PtrTo Basic)]"

definition NominatimAPIConfigSpec_DeepCopyInto :: "foreign \<Rightarrow> copier" where
  "NominatimAPIConfigSpec_DeepCopyInto F = into
    [(''PoolSize'', new_of assign), (''QueryTimeoutSeconds'', new_of assign), (''RequestTimeoutSeconds'', new_of assign),
     (''CorsNoAccessControl'', new_of assign)]"

definition NominatimAPIConfigSpec_DeepCopy :: "foreign \<Rightarrow> copier" where
  "NominatimAPIConfigSpec_DeepCopy F = new_of (NominatimAPIConfigSpec_DeepCopyInto F)"

lemma NominatimAPIConfigSpec_deep [simp]: "foreign_ok F \<Longrightarrow> deep (NominatimAPIConfigSpec_type F) (NominatimAPIConfigSpec_DeepCopyInto F)"
  unfolding NominatimAPIConfigSpec_type_def NominatimAPIConfigSpec_DeepCopyInto_def by (rule deep_into) simp

definition NominatimReplicationSpec_type :: "foreign \<Rightarrow> gtype" where
  "NominatimReplicationSpec_type F = StructOf
    [(''URL'', Basic), (''MaxDiff'', PtrTo Basic), (''UpdateIntervalSeconds'', PtrTo Basic),
     (''RecheckIntervalSeconds'', PtrTo Basic)]"

definition NominatimReplicationSpec_DeepCopyInto :: "foreign \<Rightarrow> copier" where
  "NominatimReplicationSpec_DeepCopyInto F = into
    [(''MaxDiff'', new_of assign), (''UpdateIntervalSeconds'', new_of assign), (''RecheckIntervalSeconds'', new_of assign)]"

definition NominatimReplicationSpec_DeepCopy :: "foreign \<Rightarrow> copier" where
  "NominatimReplicationSpec_DeepCopy F = new_of (NominatimReplicationSpec_DeepCopyInto F)"

lemma NominatimReplicationSpec_deep [simp]: "foreign_ok F \<Longrightarrow> deep (NominatimReplicationSpec_type F) (NominatimReplicationSpec_DeepCopyInto F)"
  unfolding NominatimReplicationSpec_type_def NominatimReplicationSpec_DeepCopyInto_def by (rule deep_into) simp

definition NominatimConfigSpec_type :: "foreign \<Rightarrow> gtype" where
  "NominatimConfigSpec_type F = StructOf
    [(''ImportStyle'', Basic), (''Tokenizer'', Basic), (''Languages'', SliceOf Basic),
     (''Replication'', PtrTo (NominatimReplicationSpec_type F)), (''API'', PtrTo (NominatimAPIConfigSpec_type F))]"

definition NominatimConfigSpec_DeepCopyInto :: "foreign \<Rightarrow> copier" where
  "NominatimConfigSpec_DeepCopyInto F = into
    [(''Languages'', make_of assign), (''Replication'', new_of (NominatimReplicationSpec_DeepCopyInto F)),
     (''API'', new_of (NominatimAPIConfigSpec_DeepCopyInto F))]"

definition NominatimConfigSpec_DeepCopy :: "foreign \<Rightarrow> copier" where
  "NominatimConfigSpec_DeepCopy F = new_of (NominatimConfigSpec_DeepCopyInto F)"

lemma NominatimConfigSpec_deep [simp]: "foreign_ok F \<Longrightarrow> deep (NominatimConfigSpec_type F) (NominatimConfigSpec_DeepCopyInto F)"
  unfolding NominatimConfigSpec_type_def NominatimConfigSpec_DeepCopyInto_def by (rule deep_into) simp

definition ProjectSpec_type :: "foreign \<Rightarrow> gtype" where
  "ProjectSpec_type F = StructOf
    [(''Volume'', VolumeSource_type F)]"

definition ProjectSpec_DeepCopyInto :: "foreign \<Rightarrow> copier" where
  "ProjectSpec_DeepCopyInto F = into
    [(''Volume'', VolumeSource_DeepCopyInto F)]"

definition ProjectSpec_DeepCopy :: "foreign \<Rightarrow> copier" where
  "ProjectSpec_DeepCopy F = new_of (ProjectSpec_DeepCopyInto F)"

lemma ProjectSpec_deep [simp]: "foreign_ok F \<Longrightarrow> deep (ProjectSpec_type F) (ProjectSpec_DeepCopyInto F)"
  unfolding ProjectSpec_type_def ProjectSpec_DeepCopyInto_def by (rule deep_into) simp

definition StagingSpec_type :: "foreign \<Rightarrow> gtype" where
  "StagingSpec_type F = StructOf
    [(''StorageClassName'', PtrTo Basic), (''Size'', Basic)]"

definition StagingSpec_DeepCopyInto :: "foreign \<Rightarrow> copier" where
  "StagingSpec_DeepCopyInto F = into
    [(''StorageClassName'', new_of assign)]"

definition StagingSpec_DeepCopy :: "foreign \<Rightarrow> copier" where
  "StagingSpec_DeepCopy F = new_of (StagingSpec_DeepCopyInto F)"

lemma StagingSpec_deep [simp]: "foreign_ok F \<Longrightarrow> deep (StagingSpec_type F) (StagingSpec_DeepCopyInto F)"
  unfolding StagingSpec_type_def StagingSpec_DeepCopyInto_def by (rule deep_into) simp

definition UpdatesSpec_type :: "foreign \<Rightarrow> gtype" where
  "UpdatesSpec_type F = StructOf
    [(''Enabled'', Basic), (''Schedule'', Basic)]"

definition UpdatesSpec_DeepCopyInto :: "foreign \<Rightarrow> copier" where
  "UpdatesSpec_DeepCopyInto F = into
    []"

definition UpdatesSpec_DeepCopy :: "foreign \<Rightarrow> copier" where
  "UpdatesSpec_DeepCopy F = new_of (UpdatesSpec_DeepCopyInto F)"

lemma UpdatesSpec_flat [simp]: "flat (UpdatesSpec_type F)"
  by (simp add: UpdatesSpec_type_def)

lemma UpdatesSpec_deep [simp]: "foreign_ok F \<Longrightarrow> deep (UpdatesSpec_type F) (UpdatesSpec_DeepCopyInto F)"
  unfolding UpdatesSpec_type_def UpdatesSpec_DeepCopyInto_def by (rule deep_into) simp

definition UISpec_type :: "foreign \<Rightarrow> gtype" where
  "UISpec_type F = StructOf
    [(''Enabled'', PtrTo Basic), (''Replicas'', PtrTo Basic), (''Image'', PtrTo (ImageSpec_type F)),
     (''PodSpec'', PtrTo (fo_type F ''RawExtension'')), (''Route'', PtrTo (RouteSpec_type F))]"

definition UISpec_DeepCopyInto :: "foreign \<Rightarrow> copier" where
  "UISpec_DeepCopyInto F = into
    [(''Enabled'', new_of assign), (''Replicas'', new_of assign), (''Image'', new_of assign),
     (''PodSpec'', new_of (fo_into F ''RawExtension'')), (''Route'', new_of (RouteSpec_DeepCopyInto F))]"

definition UISpec_DeepCopy :: "foreign \<Rightarrow> copier" where
  "UISpec_DeepCopy F = new_of (UISpec_DeepCopyInto F)"

lemma UISpec_deep [simp]: "foreign_ok F \<Longrightarrow> deep (UISpec_type F) (UISpec_DeepCopyInto F)"
  unfolding UISpec_type_def UISpec_DeepCopyInto_def by (rule deep_into) simp

definition WorkerSpec_type :: "foreign \<Rightarrow> gtype" where
  "WorkerSpec_type F = StructOf
    [(''Image'', PtrTo (ImageSpec_type F)), (''PodSpec'', PtrTo (fo_type F ''RawExtension''))]"

definition WorkerSpec_DeepCopyInto :: "foreign \<Rightarrow> copier" where
  "WorkerSpec_DeepCopyInto F = into
    [(''Image'', new_of assign), (''PodSpec'', new_of (fo_into F ''RawExtension''))]"

definition WorkerSpec_DeepCopy :: "foreign \<Rightarrow> copier" where
  "WorkerSpec_DeepCopy F = new_of (WorkerSpec_DeepCopyInto F)"

lemma WorkerSpec_deep [simp]: "foreign_ok F \<Longrightarrow> deep (WorkerSpec_type F) (WorkerSpec_DeepCopyInto F)"
  unfolding WorkerSpec_type_def WorkerSpec_DeepCopyInto_def by (rule deep_into) simp

definition NominatimInstanceSpec_type :: "foreign \<Rightarrow> gtype" where
  "NominatimInstanceSpec_type F = StructOf
    [(''Project'', ProjectSpec_type F), (''Flatnode'', PtrTo (FlatnodeSpec_type F)),
     (''Staging'', PtrTo (StagingSpec_type F)), (''AuxData'', PtrTo (AuxDataSpec_type F)), (''Regions'', SliceOf Basic),
     (''RegionChangePolicy'', Basic), (''Nominatim'', PtrTo (NominatimConfigSpec_type F)),
     (''Database'', DatabaseSpec_type F), (''Updates'', PtrTo (UpdatesSpec_type F)), (''API'', PtrTo (APISpec_type F)),
     (''UI'', PtrTo (UISpec_type F)), (''Worker'', PtrTo (WorkerSpec_type F))]"

definition NominatimInstanceSpec_DeepCopyInto :: "foreign \<Rightarrow> copier" where
  "NominatimInstanceSpec_DeepCopyInto F = into
    [(''Project'', ProjectSpec_DeepCopyInto F), (''Flatnode'', new_of (FlatnodeSpec_DeepCopyInto F)),
     (''Staging'', new_of (StagingSpec_DeepCopyInto F)), (''AuxData'', new_of (AuxDataSpec_DeepCopyInto F)),
     (''Regions'', make_of assign), (''Nominatim'', new_of (NominatimConfigSpec_DeepCopyInto F)),
     (''Database'', DatabaseSpec_DeepCopyInto F), (''Updates'', new_of assign), (''API'', new_of (APISpec_DeepCopyInto F)),
     (''UI'', new_of (UISpec_DeepCopyInto F)), (''Worker'', new_of (WorkerSpec_DeepCopyInto F))]"

definition NominatimInstanceSpec_DeepCopy :: "foreign \<Rightarrow> copier" where
  "NominatimInstanceSpec_DeepCopy F = new_of (NominatimInstanceSpec_DeepCopyInto F)"

lemma NominatimInstanceSpec_deep [simp]: "foreign_ok F \<Longrightarrow> deep (NominatimInstanceSpec_type F) (NominatimInstanceSpec_DeepCopyInto F)"
  unfolding NominatimInstanceSpec_type_def NominatimInstanceSpec_DeepCopyInto_def by (rule deep_into) simp

definition RegionStatus_type :: "foreign \<Rightarrow> gtype" where
  "RegionStatus_type F = StructOf
    [(''Name'', Basic), (''SequenceState'', Basic), (''LastUpdatedTime'', PtrTo (fo_type F ''Time''))]"

definition RegionStatus_DeepCopyInto :: "foreign \<Rightarrow> copier" where
  "RegionStatus_DeepCopyInto F = into
    [(''LastUpdatedTime'', fo_copy F ''Time'')]"

definition RegionStatus_DeepCopy :: "foreign \<Rightarrow> copier" where
  "RegionStatus_DeepCopy F = new_of (RegionStatus_DeepCopyInto F)"

lemma RegionStatus_deep [simp]: "foreign_ok F \<Longrightarrow> deep (RegionStatus_type F) (RegionStatus_DeepCopyInto F)"
  unfolding RegionStatus_type_def RegionStatus_DeepCopyInto_def by (rule deep_into) simp

definition RebuildStatus_type :: "foreign \<Rightarrow> gtype" where
  "RebuildStatus_type F = StructOf
    [(''Phase'', Basic), (''OperationName'', Basic), (''ActiveClusterName'', Basic), (''PendingClusterName'', Basic),
     (''ActiveConnectionSecretName'', Basic), (''PendingConnectionSecretName'', Basic), (''PendingProjectPVCName'', Basic),
     (''PendingFlatnodePVCName'', Basic), (''RollbackUntil'', PtrTo (fo_type F ''Time'')), (''Message'', Basic)]"

definition RebuildStatus_DeepCopyInto :: "foreign \<Rightarrow> copier" where
  "RebuildStatus_DeepCopyInto F = into
    [(''RollbackUntil'', fo_copy F ''Time'')]"

definition RebuildStatus_DeepCopy :: "foreign \<Rightarrow> copier" where
  "RebuildStatus_DeepCopy F = new_of (RebuildStatus_DeepCopyInto F)"

lemma RebuildStatus_deep [simp]: "foreign_ok F \<Longrightarrow> deep (RebuildStatus_type F) (RebuildStatus_DeepCopyInto F)"
  unfolding RebuildStatus_type_def RebuildStatus_DeepCopyInto_def by (rule deep_into) simp

definition ObservedNominatimConfig_type :: "foreign \<Rightarrow> gtype" where
  "ObservedNominatimConfig_type F = StructOf
    [(''ImportStyle'', Basic), (''Tokenizer'', Basic)]"

definition ObservedNominatimConfig_DeepCopyInto :: "foreign \<Rightarrow> copier" where
  "ObservedNominatimConfig_DeepCopyInto F = into
    []"

definition ObservedNominatimConfig_DeepCopy :: "foreign \<Rightarrow> copier" where
  "ObservedNominatimConfig_DeepCopy F = new_of (ObservedNominatimConfig_DeepCopyInto F)"

lemma ObservedNominatimConfig_flat [simp]: "flat (ObservedNominatimConfig_type F)"
  by (simp add: ObservedNominatimConfig_type_def)

lemma ObservedNominatimConfig_deep [simp]: "foreign_ok F \<Longrightarrow> deep (ObservedNominatimConfig_type F) (ObservedNominatimConfig_DeepCopyInto F)"
  unfolding ObservedNominatimConfig_type_def ObservedNominatimConfig_DeepCopyInto_def by (rule deep_into) simp

definition NominatimInstanceStatus_type :: "foreign \<Rightarrow> gtype" where
  "NominatimInstanceStatus_type F = StructOf
    [(''Conditions'', SliceOf (fo_type F ''Condition'')), (''Regions'', SliceOf (RegionStatus_type F)),
     (''Database'', DatabaseStatus_type F), (''Rebuild'', PtrTo (RebuildStatus_type F)), (''ObservedGeneration'', Basic),
     (''ActiveOperationRefs'', SliceOf (fo_type F ''ObjectReference'')),
     (''LastUpdateScheduleTime'', PtrTo (fo_type F ''Time'')),
     (''ObservedNominatim'', PtrTo (ObservedNominatimConfig_type F)), (''AuxData'', PtrTo (AuxDataStatus_type F))]"

definition NominatimInstanceStatus_DeepCopyInto :: "foreign \<Rightarrow> copier" where
  "NominatimInstanceStatus_DeepCopyInto F = into
    [(''Conditions'', make_of (fo_into F ''Condition'')), (''Regions'', make_of (RegionStatus_DeepCopyInto F)),
     (''Database'', assign), (''Rebuild'', new_of (RebuildStatus_DeepCopyInto F)), (''ActiveOperationRefs'', make_of assign),
     (''LastUpdateScheduleTime'', fo_copy F ''Time''), (''ObservedNominatim'', new_of assign), (''AuxData'', new_of assign)]"

definition NominatimInstanceStatus_DeepCopy :: "foreign \<Rightarrow> copier" where
  "NominatimInstanceStatus_DeepCopy F = new_of (NominatimInstanceStatus_DeepCopyInto F)"

lemma NominatimInstanceStatus_deep [simp]: "foreign_ok F \<Longrightarrow> deep (NominatimInstanceStatus_type F) (NominatimInstanceStatus_DeepCopyInto F)"
  unfolding NominatimInstanceStatus_type_def NominatimInstanceStatus_DeepCopyInto_def by (rule deep_into) simp

definition NominatimInstance_type :: "foreign \<Rightarrow> gtype" where
  "NominatimInstance_type F = StructOf
    [(''TypeMeta'', fo_type F ''TypeMeta''), (''ObjectMeta'', fo_type F ''ObjectMeta''),
     (''Spec'', NominatimInstanceSpec_type F), (''Status'', NominatimInstanceStatus_type F)]"

definition NominatimInstance_DeepCopyInto :: "foreign \<Rightarrow> copier" where
  "NominatimInstance_DeepCopyInto F = into
    [(''TypeMeta'', assign), (''ObjectMeta'', fo_into F ''ObjectMeta''), (''Spec'', NominatimInstanceSpec_DeepCopyInto F),
     (''Status'', NominatimInstanceStatus_DeepCopyInto F)]"

definition NominatimInstance_DeepCopy :: "foreign \<Rightarrow> copier" where
  "NominatimInstance_DeepCopy F = new_of (NominatimInstance_DeepCopyInto F)"

definition NominatimInstance_DeepCopyObject :: "foreign \<Rightarrow> gval \<Rightarrow> heap \<Rightarrow> gval option \<times> heap" where
  "NominatimInstance_DeepCopyObject F p h = as_object (NominatimInstance_DeepCopy F p h)"

lemma NominatimInstance_deep [simp]: "foreign_ok F \<Longrightarrow> deep (NominatimInstance_type F) (NominatimInstance_DeepCopyInto F)"
  unfolding NominatimInstance_type_def NominatimInstance_DeepCopyInto_def by (rule deep_into) simp

definition NominatimInstanceList_type :: "foreign \<Rightarrow> gtype" where
  "NominatimInstanceList_type F = StructOf
    [(''TypeMeta'', fo_type F ''TypeMeta''), (''ListMeta'', fo_type F ''ListMeta''),
     (''Items'', SliceOf (NominatimInstance_type F))]"

definition NominatimInstanceList_DeepCopyInto :: "foreign \<Rightarrow> copier" where
  "NominatimInstanceList_DeepCopyInto F = into
    [(''TypeMeta'', assign), (''ListMeta'', fo_into F ''ListMeta''), (''Items'', make_of (NominatimInstance_DeepCopyInto F))]"

definition NominatimInstanceList_DeepCopy :: "foreign \<Rightarrow> copier" where
  "NominatimInstanceList_DeepCopy F = new_of (NominatimInstanceList_DeepCopyInto F)"

definition NominatimInstanceList_DeepCopyObject :: "foreign \<Rightarrow> gval \<Rightarrow> heap \<Rightarrow> gval option \<times> heap" where
  "NominatimInstanceList_DeepCopyObject F p h = as_object (NominatimInstanceList_DeepCopy F p h)"

lemma NominatimInstanceList_deep [simp]: "foreign_ok F \<Longrightarrow> deep (NominatimInstanceList_type F) (NominatimInstanceList_DeepCopyInto F)"
  unfolding NominatimInstanceList_type_def NominatimInstanceList_DeepCopyInto_def by (rule deep_into) simp

definition NominatimOperationSpec_type :: "foreign \<Rightarrow> gtype" where
  "NominatimOperationSpec_type F = StructOf
    [(''Type'', Basic), (''NominatimInstanceRef'', LocalObjectReference_type F), (''Regions'', SliceOf Basic),
     (''Staging'', PtrTo (StagingSpec_type F)), (''Image'', PtrTo (ImageSpec_type F))]"

definition NominatimOperationSpec_DeepCopyInto :: "foreign \<Rightarrow> copier" where
  "NominatimOperationSpec_DeepCopyInto F = into
    [(''NominatimInstanceRef'', assign), (''Regions'', make_of assign), (''Staging'', new_of (StagingSpec_DeepCopyInto F)),
     (''Image'', new_of assign)]"

definition NominatimOperationSpec_DeepCopy :: "foreign \<Rightarrow> copier" where
  "NominatimOperationSpec_DeepCopy F = new_of (NominatimOperationSpec_DeepCopyInto F)"

lemma NominatimOperationSpec_deep [simp]: "foreign_ok F \<Longrightarrow> deep (NominatimOperationSpec_type F) (NominatimOperationSpec_DeepCopyInto F)"
  unfolding NominatimOperationSpec_type_def NominatimOperationSpec_DeepCopyInto_def by (rule deep_into) simp

definition NominatimOperationStatus_type :: "foreign \<Rightarrow> gtype" where
  "NominatimOperationStatus_type F = StructOf
    [(''Phase'', Basic), (''Conditions'', SliceOf (fo_type F ''Condition'')),
     (''JobRef'', PtrTo (LocalObjectReference_type F)), (''ObservedGeneration'', Basic), (''Message'', Basic),
     (''StartTime'', PtrTo (fo_type F ''Time'')), (''CompletionTime'', PtrTo (fo_type F ''Time''))]"

definition NominatimOperationStatus_DeepCopyInto :: "foreign \<Rightarrow> copier" where
  "NominatimOperationStatus_DeepCopyInto F = into
    [(''Conditions'', make_of (fo_into F ''Condition'')), (''JobRef'', new_of assign), (''StartTime'', fo_copy F ''Time''),
     (''CompletionTime'', fo_copy F ''Time'')]"

definition NominatimOperationStatus_DeepCopy :: "foreign \<Rightarrow> copier" where
  "NominatimOperationStatus_DeepCopy F = new_of (NominatimOperationStatus_DeepCopyInto F)"

lemma NominatimOperationStatus_deep [simp]: "foreign_ok F \<Longrightarrow> deep (NominatimOperationStatus_type F) (NominatimOperationStatus_DeepCopyInto F)"
  unfolding NominatimOperationStatus_type_def NominatimOperationStatus_DeepCopyInto_def by (rule deep_into) simp

definition NominatimOperation_type :: "foreign \<Rightarrow> gtype" where
  "NominatimOperation_type F = StructOf
    [(''TypeMeta'', fo_type F ''TypeMeta''), (''ObjectMeta'', fo_type F ''ObjectMeta''),
     (''Spec'', NominatimOperationSpec_type F), (''Status'', NominatimOperationStatus_type F)]"

definition NominatimOperation_DeepCopyInto :: "foreign \<Rightarrow> copier" where
  "NominatimOperation_DeepCopyInto F = into
    [(''TypeMeta'', assign), (''ObjectMeta'', fo_into F ''ObjectMeta''), (''Spec'', NominatimOperationSpec_DeepCopyInto F),
     (''Status'', NominatimOperationStatus_DeepCopyInto F)]"

definition NominatimOperation_DeepCopy :: "foreign \<Rightarrow> copier" where
  "NominatimOperation_DeepCopy F = new_of (NominatimOperation_DeepCopyInto F)"

definition NominatimOperation_DeepCopyObject :: "foreign \<Rightarrow> gval \<Rightarrow> heap \<Rightarrow> gval option \<times> heap" where
  "NominatimOperation_DeepCopyObject F p h = as_object (NominatimOperation_DeepCopy F p h)"

lemma NominatimOperation_deep [simp]: "foreign_ok F \<Longrightarrow> deep (NominatimOperation_type F) (NominatimOperation_DeepCopyInto F)"
  unfolding NominatimOperation_type_def NominatimOperation_DeepCopyInto_def by (rule deep_into) simp

definition NominatimOperationList_type :: "foreign \<Rightarrow> gtype" where
  "NominatimOperationList_type F = StructOf
    [(''TypeMeta'', fo_type F ''TypeMeta''), (''ListMeta'', fo_type F ''ListMeta''),
     (''Items'', SliceOf (NominatimOperation_type F))]"

definition NominatimOperationList_DeepCopyInto :: "foreign \<Rightarrow> copier" where
  "NominatimOperationList_DeepCopyInto F = into
    [(''TypeMeta'', assign), (''ListMeta'', fo_into F ''ListMeta''), (''Items'', make_of (NominatimOperation_DeepCopyInto F))]"

definition NominatimOperationList_DeepCopy :: "foreign \<Rightarrow> copier" where
  "NominatimOperationList_DeepCopy F = new_of (NominatimOperationList_DeepCopyInto F)"

definition NominatimOperationList_DeepCopyObject :: "foreign \<Rightarrow> gval \<Rightarrow> heap \<Rightarrow> gval option \<times> heap" where
  "NominatimOperationList_DeepCopyObject F p h = as_object (NominatimOperationList_DeepCopy F p h)"

lemma NominatimOperationList_deep [simp]: "foreign_ok F \<Longrightarrow> deep (NominatimOperationList_type F) (NominatimOperationList_DeepCopyInto F)"
  unfolding NominatimOperationList_type_def NominatimOperationList_DeepCopyInto_def by (rule deep_into) simp

section \<open>Copies of the objects\<close>

text \<open>C37. A deep copy of an instance, as the caches and clients take it through \<open>DeepCopyObject\<close>, denotes the same
  instance, down to every pointer, slice and map of the spec and the status, in memory disjoint from the original's;
  whatever is written through the copy, the original stays as it was.\<close>

theorem instance_copy_isolated:
  assumes "foreign_ok F" and "denotes h (PtrTo (NominatimInstance_type F)) p t A" and "p \<noteq> Ptr None"
    and "NominatimInstance_DeepCopyObject F p h = (copy, h')"
  shows "\<exists>q B. copy = Some q \<and> denotes h' (PtrTo (NominatimInstance_type F)) q t B \<and> A \<inter> B = {} \<and>
    (\<forall>h''. agree (- B) h' h'' \<longrightarrow> denotes h'' (PtrTo (NominatimInstance_type F)) p t A)"
  using object_isolated [OF _ assms(2,3) assms(4) [unfolded NominatimInstance_DeepCopyObject_def NominatimInstance_DeepCopy_def]] assms(1)
  by simp

text \<open>The same of an Operation.\<close>

theorem operation_copy_isolated:
  assumes "foreign_ok F" and "denotes h (PtrTo (NominatimOperation_type F)) p t A" and "p \<noteq> Ptr None"
    and "NominatimOperation_DeepCopyObject F p h = (copy, h')"
  shows "\<exists>q B. copy = Some q \<and> denotes h' (PtrTo (NominatimOperation_type F)) q t B \<and> A \<inter> B = {} \<and>
    (\<forall>h''. agree (- B) h' h'' \<longrightarrow> denotes h'' (PtrTo (NominatimOperation_type F)) p t A)"
  using object_isolated [OF _ assms(2,3) assms(4) [unfolded NominatimOperation_DeepCopyObject_def NominatimOperation_DeepCopy_def]] assms(1)
  by simp

text \<open>Lists, item by item.\<close>

lemma instance_list_copy_isolated:
  assumes "foreign_ok F" and "denotes h (PtrTo (NominatimInstanceList_type F)) p t A" and "p \<noteq> Ptr None"
    and "NominatimInstanceList_DeepCopyObject F p h = (copy, h')"
  shows "\<exists>q B. copy = Some q \<and> denotes h' (PtrTo (NominatimInstanceList_type F)) q t B \<and> A \<inter> B = {} \<and>
    (\<forall>h''. agree (- B) h' h'' \<longrightarrow> denotes h'' (PtrTo (NominatimInstanceList_type F)) p t A)"
  using object_isolated [OF _ assms(2,3) assms(4) [unfolded NominatimInstanceList_DeepCopyObject_def NominatimInstanceList_DeepCopy_def]] assms(1)
  by simp

lemma operation_list_copy_isolated:
  assumes "foreign_ok F" and "denotes h (PtrTo (NominatimOperationList_type F)) p t A" and "p \<noteq> Ptr None"
    and "NominatimOperationList_DeepCopyObject F p h = (copy, h')"
  shows "\<exists>q B. copy = Some q \<and> denotes h' (PtrTo (NominatimOperationList_type F)) q t B \<and> A \<inter> B = {} \<and>
    (\<forall>h''. agree (- B) h' h'' \<longrightarrow> denotes h'' (PtrTo (NominatimOperationList_type F)) p t A)"
  using object_isolated [OF _ assms(2,3) assms(4) [unfolded NominatimOperationList_DeepCopyObject_def NominatimOperationList_DeepCopy_def]] assms(1)
  by simp

section \<open>Witnesses\<close>

text \<open>Structs of other packages without references.\<close>

definition sample_foreign :: foreign where
  "sample_foreign = \<lparr>fo_type = (\<lambda>_. Basic), fo_into = (\<lambda>_. assign), fo_copy = (\<lambda>_. new_of assign)\<rparr>"

lemma sample_foreign_ok [simp]: "foreign_ok sample_foreign" "fo_type sample_foreign n = Basic"
  by (simp_all add: foreign_ok_def sample_foreign_def)

text \<open>A value of each type without memory of its own, and its tree.\<close>

fun blank :: "gtype \<Rightarrow> gval" where
  "blank Basic = Atom ''''"
| "blank (StructOf tys) = Struct (map (\<lambda>(f, ty). (f, blank ty)) tys)"
| "blank (PtrTo ty) = Ptr None"
| "blank (SliceOf ty) = Slice None"
| "blank StringMap = GoMap None"

fun blank_tree :: "gtype \<Rightarrow> tree" where
  "blank_tree Basic = TAtom ''''"
| "blank_tree (StructOf tys) = TStruct (map (\<lambda>(f, ty). (f, blank_tree ty)) tys)"
| "blank_tree _ = TNil"

lemma blank_denotes: "denotes h ty (blank ty) (blank_tree ty) {}"
proof (induction ty)
  case (StructOf tys)
  have each: "denotes h b (blank b) (blank_tree b) {}" if "(a, b) \<in> set tys" for a b
    by (rule StructOf [OF that]) simp
  then have "denote_fields h tys (map (\<lambda>(f, ty). (f, blank ty)) tys) (map (\<lambda>(f, ty). (f, blank_tree ty)) tys) {}"
  proof (induction tys)
    case (Cons x tys)
    obtain f ty where x: "x = (f, ty)" by force
    have "denote_fields h tys (map (\<lambda>(f, ty). (f, blank ty)) tys) (map (\<lambda>(f, ty). (f, blank_tree ty)) tys) {}"
      by (rule Cons.IH) (use Cons.prems in auto)
    from fields_cons [OF Cons.prems [of f ty] this, of f] x show ?case by simp
  qed (simp add: fields_nil)
  then show ?case by (auto intro: fields)
qed (auto intro: basic nil_ptr nil_slice nil_map)

text \<open>An Operation over one region, and an instance with one.\<close>

definition one_region :: gval where "one_region = Slice (Some (1, 0, 1))"

definition region_memory :: "gval \<Rightarrow> heap" where
  "region_memory v = [Cell v, Array [Atom ''europe/malta'']]"

definition with_field :: "string \<Rightarrow> gval \<Rightarrow> gval \<Rightarrow> gval" where
  "with_field f w v = (case v of Struct fs \<Rightarrow> Struct (AList.update f w fs) | _ \<Rightarrow> v)"

definition with_tree :: "string \<Rightarrow> tree \<Rightarrow> tree \<Rightarrow> tree" where
  "with_tree f w v = (case v of TStruct fs \<Rightarrow> TStruct (AList.update f w fs) | _ \<Rightarrow> v)"

lemma fields_update:
  "denote_fields h tys fs ts {} \<Longrightarrow> distinct (map fst tys) \<Longrightarrow> (f, ty) \<in> set tys \<Longrightarrow> denotes h ty w u B \<Longrightarrow>
    denote_fields h tys (AList.update f w fs) (AList.update f u ts) B"
proof (induction tys arbitrary: fs ts)
  case (Cons x tys)
  obtain g ty' where x: "x = (g, ty')" by force
  from Cons.prems(1) obtain v fs' t ts' where fs: "fs = (g, v) # fs'" "ts = (g, t) # ts'"
    "denotes h ty' v t {}" "denote_fields h tys fs' ts' {}" unfolding x by (elim fields_consE) auto
  show ?case
  proof (cases "f = g")
    case True
    with Cons.prems(2,3) x have "ty = ty'" by force
    with fields_cons [OF Cons.prems(4) [unfolded this] fs(4)] True fs x show ?thesis by simp
  next
    case False
    with Cons.prems(2,3) x have "denote_fields h tys (AList.update f w fs') (AList.update f u ts') B"
      by (intro Cons.IH [OF fs(4)]) (use Cons.prems(4) in auto)
    with fields_cons [OF fs(3) this] False fs x show ?thesis by simp
  qed
qed simp

lemma with_denotes:
  assumes "denotes h (StructOf tys) v t {}" and "distinct (map fst tys)" and "(f, ty) \<in> set tys" and "denotes h ty w u B"
  shows "denotes h (StructOf tys) (with_field f w v) (with_tree f u t) B"
  using assms(1)
proof (cases rule: denotes_structE [consumes 1])
  case (1 fs ts)
  from fields [OF fields_update [OF 1(3) assms(2-4)]] 1(1,2) show ?thesis by (simp add: with_field_def with_tree_def)
qed

lemma one_region_denotes: "denotes (region_memory v) (SliceOf Basic) one_region (TSlice [TAtom ''europe/malta'']) {1}"
proof -
  have "denote_each (region_memory v) Basic (take 1 (drop 0 [Atom ''europe/malta''])) [TAtom ''europe/malta''] ({} \<union> {})"
    by (simp only: take_Suc_Cons take_0 drop_0 One_nat_def) (intro each_cons basic each_nil)
  from slice [OF _ _ this, of 1] show ?thesis by (simp add: one_region_def region_memory_def read_def)
qed

lemma region_denotes:
  assumes "typ = StructOf tys" and "distinct (map fst tys)" and "(''Spec'', StructOf stys) \<in> set tys"
    and "distinct (map fst stys)" and "(''Regions'', SliceOf Basic) \<in> set stys"
  shows "\<exists>v t. denotes (region_memory v) (PtrTo typ) (Ptr (Some 0)) (TPtr t) {0, 1}"
proof -
  let ?spec = "with_field ''Regions'' one_region (blank (StructOf stys))"
  let ?v = "with_field ''Spec'' ?spec (blank typ)"
  have spec: "denotes (region_memory ?v) (StructOf stys) ?spec (with_tree ''Regions'' (TSlice [TAtom ''europe/malta'']) (blank_tree (StructOf stys))) {1}"
    by (rule with_denotes [OF blank_denotes assms(4,5) one_region_denotes])
  have "denotes (region_memory ?v) typ ?v (with_tree ''Spec'' (with_tree ''Regions'' (TSlice [TAtom ''europe/malta'']) (blank_tree (StructOf stys))) (blank_tree typ)) {1}"
    using with_denotes [OF blank_denotes assms(2,3) spec] unfolding assms(1) .
  from ptr [OF _ this, of 0] show ?thesis by (auto simp: region_memory_def read_def)
qed

theorem instance_copy_isolated_witness:
  "\<exists>v t q h'. NominatimInstance_DeepCopyObject sample_foreign (Ptr (Some 0)) (region_memory v) = (Some q, h') \<and>
     denotes h' (PtrTo (NominatimInstance_type sample_foreign)) (Ptr (Some 0)) t {0, 1} \<and>
     (\<exists>B. denotes h' (PtrTo (NominatimInstance_type sample_foreign)) q t B \<and> {0, 1} \<inter> B = {})"
proof -
  have "\<exists>v t. denotes (region_memory v) (PtrTo (NominatimInstance_type sample_foreign)) (Ptr (Some 0)) (TPtr t) {0, 1}"
    by (rule region_denotes [OF NominatimInstance_type_def _ _ _ _]) (auto simp: NominatimInstanceSpec_type_def)
  then obtain v t where d: "denotes (region_memory v) (PtrTo (NominatimInstance_type sample_foreign)) (Ptr (Some 0)) (TPtr t) {0, 1}"
    by blast
  obtain copy h' where run: "NominatimInstance_DeepCopyObject sample_foreign (Ptr (Some 0)) (region_memory v) = (copy, h')" by force
  from instance_copy_isolated [OF sample_foreign_ok(1) d _ run] obtain q B where
    "copy = Some q" "denotes h' (PtrTo (NominatimInstance_type sample_foreign)) q (TPtr t) B" "{0, 1} \<inter> B = {}"
    "\<forall>h''. agree (- B) h' h'' \<longrightarrow> denotes h'' (PtrTo (NominatimInstance_type sample_foreign)) (Ptr (Some 0)) (TPtr t) {0, 1}" by auto
  moreover from this(4) have "denotes h' (PtrTo (NominatimInstance_type sample_foreign)) (Ptr (Some 0)) (TPtr t) {0, 1}"
    by (simp add: agree_def)
  ultimately show ?thesis using run by blast
qed

theorem operation_copy_isolated_witness:
  "\<exists>v t q h'. NominatimOperation_DeepCopyObject sample_foreign (Ptr (Some 0)) (region_memory v) = (Some q, h') \<and>
     (\<exists>B. denotes h' (PtrTo (NominatimOperation_type sample_foreign)) q t B \<and> {0, 1} \<inter> B = {})"
proof -
  have "\<exists>v t. denotes (region_memory v) (PtrTo (NominatimOperation_type sample_foreign)) (Ptr (Some 0)) (TPtr t) {0, 1}"
    by (rule region_denotes [OF NominatimOperation_type_def _ _ _ _]) (auto simp: NominatimOperationSpec_type_def)
  then obtain v t where d: "denotes (region_memory v) (PtrTo (NominatimOperation_type sample_foreign)) (Ptr (Some 0)) (TPtr t) {0, 1}"
    by blast
  obtain copy h' where run: "NominatimOperation_DeepCopyObject sample_foreign (Ptr (Some 0)) (region_memory v) = (copy, h')" by force
  from operation_copy_isolated [OF sample_foreign_ok(1) d _ run] obtain q B where
    "copy = Some q" "denotes h' (PtrTo (NominatimOperation_type sample_foreign)) q (TPtr t) B" "{0, 1} \<inter> B = {}" by auto
  with run show ?thesis by blast
qed

end
